(* ===== verification/Prelude.thy ===== *)
theory Prelude
  imports Main "HOL-Library.Word" "HOL-Library.Multiset" "HOL-Library.Char_ord" "HOL-Library.List_Lexorder"
    "HOL-Library.Sublist"
begin

text \<open>
  What the components share.  A Rust \<open>String\<close> is the list of its UTF-8 bytes, which is
  HOL's \<open>string\<close> (a \<open>char\<close> is a byte).  A fallible operation returns a
  \<open>result\<close>: \<open>Ok\<close>, \<open>Err\<close>, or \<open>Panic\<close> for every \<open>unwrap\<close>, \<open>unimplemented!\<close>,
  \<open>todo!\<close>, index out of range and overflow the source can reach.  Hash maps are association
  lists with distinct keys: the list order stands for the map's iteration order, and the
  theorems are stated on the lookup function \<open>map_of\<close> where the order does not matter.
\<close>

named_theorems result_simps \<open>computation rules for the result monad\<close>
named_theorems kv_simps \<open>lookup rules for association lists\<close>
named_theorems wf_intros \<open>introduction rules for the invariants of the components\<close>

section \<open>Results\<close>

datatype ('e, 'a) result = Ok 'a | Err 'e | Panic

primrec res_bind :: "('e, 'a) result \<Rightarrow> ('a \<Rightarrow> ('e, 'b) result) \<Rightarrow> ('e, 'b) result" where
  "res_bind (Ok x) f = f x"
| "res_bind (Err e) f = Err e"
| "res_bind Panic f = Panic"

primrec map_err :: "('e \<Rightarrow> 'f) \<Rightarrow> ('e, 'a) result \<Rightarrow> ('f, 'a) result" where
  "map_err g (Ok x) = Ok x"
| "map_err g (Err e) = Err (g e)"
| "map_err g Panic = Panic"

primrec map_ok :: "('a \<Rightarrow> 'b) \<Rightarrow> ('e, 'a) result \<Rightarrow> ('e, 'b) result" where
  "map_ok g (Ok x) = Ok (g x)"
| "map_ok g (Err e) = Err e"
| "map_ok g Panic = Panic"

text \<open>\<open>unwrap\<close>, \<open>ok_or\<close>, and \<open>collect\<close> of an iterator of results.\<close>

primrec unwrap :: "('e, 'a) result \<Rightarrow> ('f, 'a) result" where
  "unwrap (Ok x) = Ok x"
| "unwrap (Err e) = Panic"
| "unwrap Panic = Panic"

primrec ok_or :: "'e \<Rightarrow> 'a option \<Rightarrow> ('e, 'a) result" where
  "ok_or e None = Err e"
| "ok_or e (Some x) = Ok x"

primrec expect :: "'a option \<Rightarrow> ('e, 'a) result" where
  "expect None = Panic"
| "expect (Some x) = Ok x"

fun res_map :: "('a \<Rightarrow> ('e, 'b) result) \<Rightarrow> 'a list \<Rightarrow> ('e, 'b list) result" where
  "res_map f [] = Ok []"
| "res_map f (x # xs) = res_bind (f x) (\<lambda>y. res_bind (res_map f xs) (\<lambda>ys. Ok (y # ys)))"

fun res_foldl :: "('s \<Rightarrow> 'a \<Rightarrow> ('e, 's) result) \<Rightarrow> 's \<Rightarrow> 'a list \<Rightarrow> ('e, 's) result" where
  "res_foldl f s [] = Ok s"
| "res_foldl f s (x # xs) = res_bind (f s x) (\<lambda>s'. res_foldl f s' xs)"

lemma res_bind_cong [fundef_cong]:
  "\<lbrakk> r = r'; \<And>x. r' = Ok x \<Longrightarrow> f x = g x \<rbrakk> \<Longrightarrow> res_bind r f = res_bind r' g"
  by (cases r') auto

lemma res_map_cong [fundef_cong]:
  "\<lbrakk> xs = ys; \<And>x. x \<in> set ys \<Longrightarrow> f x = g x \<rbrakk> \<Longrightarrow> res_map f xs = res_map g ys"
  by (induction ys arbitrary: xs) auto

lemma res_bind_Ok_iff [result_simps]:
  "res_bind r f = Ok y \<longleftrightarrow> (\<exists>x. r = Ok x \<and> f x = Ok y)"
  by (cases r) auto

lemma res_bind_Panic_iff [result_simps]:
  "res_bind r f = Panic \<longleftrightarrow> r = Panic \<or> (\<exists>x. r = Ok x \<and> f x = Panic)"
  by (cases r) auto

lemma map_err_Ok_iff [simp]: "map_err g r = Ok x \<longleftrightarrow> r = Ok x"
  by (cases r) auto

lemma map_err_Panic_iff [simp]: "map_err g r = Panic \<longleftrightarrow> r = Panic"
  by (cases r) auto

lemma map_ok_Ok_iff [simp]: "map_ok g r = Ok y \<longleftrightarrow> (\<exists>x. r = Ok x \<and> y = g x)"
  by (cases r) auto

lemma unwrap_Ok_iff [simp]: "unwrap r = Ok x \<longleftrightarrow> r = Ok x"
  by (cases r) auto

lemma ok_or_Ok_iff [simp]: "ok_or e v = Ok x \<longleftrightarrow> v = Some x"
  by (cases v) auto

lemma ok_or_not_Panic [simp]: "ok_or e v \<noteq> Panic"
  by (cases v) auto

lemma res_map_Ok_iff: "res_map f xs = Ok ys \<longleftrightarrow> list_all2 (\<lambda>x y. f x = Ok y) xs ys"
  by (induction xs arbitrary: ys) (auto simp: result_simps list_all2_Cons1)

lemma res_map_all_Ok: "(\<And>x. x \<in> set xs \<Longrightarrow> f x = Ok (g x)) \<Longrightarrow> res_map f xs = Ok (map g xs)"
  by (induction xs) auto

lemma res_map_Panic: "res_map f xs = Panic \<Longrightarrow> \<exists>x \<in> set xs. f x = Panic"
  by (induction xs) (auto simp: result_simps)

lemma res_foldl_append:
  "res_foldl f s (xs @ ys) = res_bind (res_foldl f s xs) (\<lambda>s'. res_foldl f s' ys)"
proof (induction xs arbitrary: s)
  case (Cons x xs)
  then show ?case by (cases "f s x") auto
qed simp

lemma res_foldl_invariant:
  assumes "P s" and "\<And>s x s'. \<lbrakk> P s; x \<in> set xs; f s x = Ok s' \<rbrakk> \<Longrightarrow> P s'"
    and "res_foldl f s xs = Ok t"
  shows "P t"
  using assms
proof (induction xs arbitrary: s)
  case (Cons x xs)
  from Cons.prems(3) obtain s' where s': "f s x = Ok s'" "res_foldl f s' xs = Ok t"
    by (auto simp: result_simps)
  show ?case
    by (rule Cons.IH [OF _ _ s'(2)]) (use Cons.prems s' in auto)
qed simp

section \<open>Text\<close>

text \<open>\<open>str::split\<close> with a one-byte separator, \<open>join\<close>, and \<open>contains\<close>/\<open>find\<close> of a substring.\<close>

fun split_on :: "char \<Rightarrow> string \<Rightarrow> string list" where
  "split_on c [] = [[]]"
| "split_on c (x # xs) =
    (if x = c then [] # split_on c xs
     else case split_on c xs of p # ps \<Rightarrow> (x # p) # ps | [] \<Rightarrow> [[x]])"

fun join_on :: "char \<Rightarrow> string list \<Rightarrow> string" where
  "join_on c [] = []"
| "join_on c [p] = p"
| "join_on c (p # q # ps) = p @ c # join_on c (q # ps)"

fun find_sub :: "string \<Rightarrow> string \<Rightarrow> nat option" where
  "find_sub pat [] = (if pat = [] then Some 0 else None)"
| "find_sub pat (x # xs) =
    (if prefix pat (x # xs) then Some 0 else map_option Suc (find_sub pat xs))"

definition str_contains :: "string \<Rightarrow> string \<Rightarrow> bool" where
  "str_contains pat s = (find_sub pat s \<noteq> None)"

lemma find_sub_Some:
  "find_sub pat s = Some i \<Longrightarrow> s = take i s @ pat @ drop (i + length pat) s"
proof (induction s arbitrary: i)
  case (Cons x s)
  show ?case
  proof (cases "prefix pat (x # s)")
    case True
    then obtain zs where zs: "x # s = pat @ zs" by (auto simp: prefix_def)
    moreover have "i = 0" using Cons.prems True by simp
    ultimately show ?thesis by simp
  next
    case False
    then obtain j where "find_sub pat s = Some j" "i = Suc j" using Cons.prems by auto
    then show ?thesis using Cons.IH [of j] by simp
  qed
qed (simp split: if_splits)

lemma find_sub_le: "find_sub pat s = Some i \<Longrightarrow> i + length pat \<le> length s"
  by (induction s arbitrary: i) (auto split: if_splits dest: prefix_length_le)

lemma split_on_not_Nil [simp]: "split_on c s \<noteq> []"
  by (induction s) (auto split: list.splits)

lemma split_on_parts: "p \<in> set (split_on c s) \<Longrightarrow> c \<notin> set p"
  by (induction s arbitrary: p) (auto split: list.splits if_splits)

lemma split_on_none: "c \<notin> set p \<Longrightarrow> split_on c p = [p]"
  by (induction p) auto

lemma split_on_first: "c \<notin> set p \<Longrightarrow> split_on c (p @ c # s) = p # split_on c s"
  by (induction p) auto

lemma split_join: "\<lbrakk> ps \<noteq> []; \<forall>p \<in> set ps. c \<notin> set p \<rbrakk> \<Longrightarrow> split_on c (join_on c ps) = ps"
  by (induction c ps rule: join_on.induct) (auto simp: split_on_none split_on_first)

lemma join_Cons: "ps \<noteq> [] \<Longrightarrow> join_on c (p # ps) = p @ c # join_on c ps"
  by (cases ps) auto

lemma join_split: "join_on c (split_on c s) = s"
proof (induction s)
  case (Cons x s)
  obtain p ps where s: "split_on c s = p # ps" by (cases "split_on c s") auto
  with Cons show ?case by (cases ps) auto
qed simp

lemma split_on_three: "\<lbrakk> c \<notin> set a; c \<notin> set b; c \<notin> set d \<rbrakk>
  \<Longrightarrow> split_on c (a @ c # b @ c # d) = [a, b, d]"
  by (simp add: split_on_first split_on_none)

lemma join_three: "split_on c s = [a, b, d] \<Longrightarrow> s = a @ c # b @ c # d"
  using join_split [of c s] by simp

text \<open>Decimal numerals, as \<open>Display\<close> of the integer types writes them.\<close>

definition digit_char :: "nat \<Rightarrow> char" where
  "digit_char d = char_of (48 + d)"

definition digit_val :: "char \<Rightarrow> nat option" where
  "digit_val c = (let v = (of_char c :: nat) in if 48 \<le> v \<and> v \<le> 57 then Some (v - 48) else None)"

function show_pos :: "int \<Rightarrow> string" where
  "show_pos i =
    (if i < 10 then [digit_char (nat i)]
     else show_pos (i div 10) @ [digit_char (nat (i mod 10))])"
  by pat_completeness auto
termination by (relation "measure nat") auto

declare show_pos.simps [simp del]

definition show_int :: "int \<Rightarrow> string" where
  "show_int i = (if i < 0 then CHR ''-'' # show_pos (- i) else show_pos i)"

definition show_nat :: "nat \<Rightarrow> string" where
  "show_nat n = show_pos (int n)"

lemma digit_val_char [simp]: "d < 10 \<Longrightarrow> digit_val (digit_char d) = Some d"
  by (simp add: digit_val_def digit_char_def)

lemma show_pos_not_Nil [simp]: "show_pos i \<noteq> []"
  by (subst show_pos.simps) simp

lemma show_pos_digits: "\<lbrakk> 0 \<le> i; c \<in> set (show_pos i) \<rbrakk> \<Longrightarrow> \<exists>d < 10. c = digit_char d"
proof (induction i rule: show_pos.induct)
  case (1 i)
  show ?case
  proof (cases "i < 10")
    case True
    with "1.prems" have "c = digit_char (nat i)" "nat i < 10"
      by (subst (asm) show_pos.simps, auto)
    then show ?thesis by blast
  next
    case False
    from "1.prems" False have "c \<in> set (show_pos (i div 10)) \<or> c = digit_char (nat (i mod 10))"
      by (subst (asm) show_pos.simps) auto
    moreover have "nat (i mod 10) < 10" by (simp add: nat_less_iff)
    ultimately show ?thesis using "1.IH" "1.prems" False by force
  qed
qed

text \<open>
  \<open>from_str_radix\<close> of the integer types: the accumulator is checked against the bounds digit
  by digit, so an overflow is reported before a bad digit that follows it.  The kinds are those
  of \<open>IntErrorKind\<close>.
\<close>

datatype int_error = IEmpty | IInvalidDigit | IPosOverflow | INegOverflow

fun parse_digits :: "int \<Rightarrow> int \<Rightarrow> bool \<Rightarrow> int \<Rightarrow> string \<Rightarrow> (int_error, int) result" where
  "parse_digits lo hi neg acc [] = Ok acc"
| "parse_digits lo hi neg acc (c # cs) =
    (case digit_val c of
       None \<Rightarrow> Err IInvalidDigit
     | Some d \<Rightarrow>
         let m = acc * 10; acc' = (if neg then m - int d else m + int d) in
         if m < lo \<or> hi < m \<or> acc' < lo \<or> hi < acc'
         then Err (if neg then INegOverflow else IPosOverflow)
         else parse_digits lo hi neg acc' cs)"

definition parse_int :: "int \<Rightarrow> int \<Rightarrow> string \<Rightarrow> (int_error, int) result" where
  "parse_int lo hi s =
    (case s of
       [] \<Rightarrow> Err IEmpty
     | [c] \<Rightarrow> if c = CHR ''+'' \<or> c = CHR ''-'' then Err IInvalidDigit
              else parse_digits lo hi False 0 s
     | c # cs \<Rightarrow> if c = CHR ''+'' then parse_digits lo hi False 0 cs
                else if c = CHR ''-'' \<and> lo < 0 then parse_digits lo hi True 0 cs
                else parse_digits lo hi False 0 s)"

lemma parse_digits_append:
  "parse_digits lo hi neg acc (s @ t)
     = res_bind (parse_digits lo hi neg acc s) (\<lambda>acc'. parse_digits lo hi neg acc' t)"
  by (induction s arbitrary: acc) (auto simp: Let_def split: option.splits)

lemma minus_int_parts: "- (i div 10 * 10) - i mod 10 = - (i :: int)"
  using div_mult_mod_eq [of i 10] by linarith

lemma parse_digits_show:
  "\<lbrakk> lo \<le> 0; 0 \<le> hi; 0 \<le> i; if neg then lo \<le> - i else i \<le> hi \<rbrakk>
    \<Longrightarrow> parse_digits lo hi neg 0 (show_pos i) = Ok (if neg then - i else i)"
proof (induction i rule: show_pos.induct)
  case (1 i)
  show ?case
  proof (cases "i < 10")
    case True
    with "1.prems" show ?thesis by (subst show_pos.simps) auto
  next
    case False
    have d: "int (nat (i mod 10)) = i mod 10" "nat (i mod 10) < 10" by (simp_all add: nat_less_iff)
    have m: "i = i div 10 * 10 + i mod 10" "0 \<le> i mod 10" by simp_all
    have "i div 10 * 10 \<le> i" using m by linarith
    with False "1.prems" have
      "parse_digits lo hi neg 0 (show_pos (i div 10)) = Ok (if neg then - (i div 10) else i div 10)"
      by (intro "1.IH") (auto split: if_splits)
    moreover have "neg \<longrightarrow> lo \<le> - (i div 10) * 10" "\<not> neg \<longrightarrow> i div 10 * 10 \<le> hi"
      using m "1.prems" by (auto split: if_splits)
    ultimately show ?thesis using False d m "1.prems"
      by (subst show_pos.simps) (auto simp: parse_digits_append Let_def minus_int_parts split: if_splits)
  qed
qed

lemma digit_char_not_sign [simp]:
  "d < 10 \<Longrightarrow> digit_char d \<noteq> CHR ''+''" "d < 10 \<Longrightarrow> digit_char d \<noteq> CHR ''-''"
  by (drule digit_val_char, force simp: digit_val_def)+

lemma show_pos_no_sign: "\<lbrakk> 0 \<le> i; c \<in> set (show_pos i) \<rbrakk> \<Longrightarrow> c \<noteq> CHR ''+'' \<and> c \<noteq> CHR ''-''"
  using show_pos_digits digit_char_not_sign by metis

lemma parse_show_nonneg: "\<lbrakk> lo \<le> 0; 0 \<le> i; i \<le> hi \<rbrakk> \<Longrightarrow> parse_int lo hi (show_int i) = Ok i"
proof -
  assume a: "lo \<le> 0" "0 \<le> i" "i \<le> hi"
  obtain c cs where s: "show_pos i = c # cs" by (cases "show_pos i") auto
  with a show_pos_no_sign [of i c] have "c \<noteq> CHR ''+''" "c \<noteq> CHR ''-''" by auto
  with s a parse_digits_show [of lo hi i False] show ?thesis
    by (simp add: show_int_def parse_int_def split: list.splits)
qed

lemma parse_show_int: "\<lbrakk> lo < 0; 0 \<le> hi; lo \<le> i; i \<le> hi \<rbrakk> \<Longrightarrow> parse_int lo hi (show_int i) = Ok i"
proof (cases "i < 0")
  case True
  assume a: "lo < 0" "0 \<le> hi" "lo \<le> i" "i \<le> hi"
  obtain c cs where s: "show_pos (- i) = c # cs" by (cases "show_pos (- i)") auto
  with parse_digits_show [of lo hi "- i" True] a True show ?thesis
    by (simp add: show_int_def parse_int_def)
next
  case False
  then show "\<lbrakk> lo < 0; i \<le> hi \<rbrakk> \<Longrightarrow> ?thesis" by (simp add: parse_show_nonneg)
qed

section \<open>UTF-8\<close>

text \<open>
  \<open>str::chars\<close>: a character is a lead byte with the continuation bytes that follow it.
\<close>

definition is_continuation :: "char \<Rightarrow> bool" where
  "is_continuation c = (let v = (of_char c :: nat) in 128 \<le> v \<and> v < 192)"

fun utf8_chars :: "string \<Rightarrow> string list" where
  "utf8_chars [] = []"
| "utf8_chars [c] = [[c]]"
| "utf8_chars (c # d # s) =
    (if is_continuation d
     then (case utf8_chars (d # s) of g # gs \<Rightarrow> (c # g) # gs | [] \<Rightarrow> [[c]])
     else [c] # utf8_chars (d # s))"

fun codepoint :: "string \<Rightarrow> int" where
  "codepoint [] = 0"
| "codepoint (c # cs) =
    (let v = (of_char c :: int);
         lead = (if v < 128 then v else if v < 224 then v mod 32 else if v < 240 then v mod 16 else v mod 8)
     in foldl (\<lambda>a x. a * 64 + (of_char x :: int) mod 64) lead cs)"

lemma utf8_chars_concat: "concat (utf8_chars s) = s"
  by (induction s rule: utf8_chars.induct) (auto split: list.splits)

lemma utf8_chars_ascii:
  "(\<And>c. c \<in> set s \<Longrightarrow> (of_char c :: nat) < 128) \<Longrightarrow> utf8_chars s = map (\<lambda>c. [c]) s"
  by (induction s rule: utf8_chars.induct) (auto simp: is_continuation_def Let_def not_le)

fun show_hex :: "nat \<Rightarrow> int \<Rightarrow> string" where
  "show_hex 0 i = []"
| "show_hex (Suc n) i =
    (if i < 16 then [''0123456789abcdef'' ! nat i]
     else show_hex n (i div 16) @ [''0123456789abcdef'' ! nat (i mod 16)])"

fun intercalate :: "string \<Rightarrow> string list \<Rightarrow> string" where
  "intercalate sep [] = []"
| "intercalate sep [p] = p"
| "intercalate sep (p # q # ps) = p @ sep @ intercalate sep (q # ps)"

section \<open>Text codecs\<close>

text \<open>The contract between a printer and a parser: what is printed parses back.\<close>

locale text_codec =
  fixes print :: "'a \<Rightarrow> string"
    and parse :: "string \<Rightarrow> ('e, 'a) result"
    and valid :: "'a \<Rightarrow> bool"
  assumes parse_print: "valid x \<Longrightarrow> parse (print x) = Ok x"
begin

lemma print_inject: "\<lbrakk> valid x; valid y \<rbrakk> \<Longrightarrow> print x = print y \<longleftrightarrow> x = y"
  by (metis parse_print result.inject(1))

lemma parse_print_list: "(\<forall>x \<in> set xs. valid x) \<Longrightarrow> res_map parse (map print xs) = Ok xs"
  by (induction xs) (auto simp: parse_print)

end

section \<open>Maps\<close>

text \<open>
  A hash map: \<open>insert\<close> replaces in place or appends, \<open>remove\<close> drops the key.  A
  \<open>BTreeMap\<close> is kept in ascending key order.
\<close>

type_synonym ('k, 'v) kv = "('k \<times> 'v) list"

fun kv_insert :: "'k \<Rightarrow> 'v \<Rightarrow> ('k, 'v) kv \<Rightarrow> ('k, 'v) kv" where
  "kv_insert k v [] = [(k, v)]"
| "kv_insert k v ((k', v') # m) = (if k = k' then (k, v) # m else (k', v') # kv_insert k v m)"

definition kv_remove :: "'k \<Rightarrow> ('k, 'v) kv \<Rightarrow> ('k, 'v) kv" where
  "kv_remove k m = filter (\<lambda>(k', _). k' \<noteq> k) m"

definition kv_wf :: "('k, 'v) kv \<Rightarrow> bool" where
  "kv_wf m = distinct (map fst m)"

fun btree_insert :: "'k :: linorder \<Rightarrow> 'v \<Rightarrow> ('k, 'v) kv \<Rightarrow> ('k, 'v) kv" where
  "btree_insert k v [] = [(k, v)]"
| "btree_insert k v ((k', v') # m) =
    (if k < k' then (k, v) # (k', v') # m
     else if k = k' then (k, v) # m
     else (k', v') # btree_insert k v m)"

definition btree_of :: "('k :: linorder, 'v) kv \<Rightarrow> ('k, 'v) kv" where
  "btree_of xs = foldl (\<lambda>m (k, v). btree_insert k v m) [] xs"

lemma map_of_kv_insert [kv_simps]: "map_of (kv_insert k v m) = (map_of m)(k \<mapsto> v)"
  by (induction k v m rule: kv_insert.induct) auto

lemma map_of_kv_remove [kv_simps]: "map_of (kv_remove k m) = (map_of m)(k := None)"
  by (induction m) (auto simp: kv_remove_def)

lemma map_of_filter_key [kv_simps]:
  "map_of (filter (\<lambda>(k, _). P k) m) = (\<lambda>k. if P k then map_of m k else None)"
  by (induction m) auto

lemma keys_kv_insert [kv_simps]: "set (map fst (kv_insert k v m)) = insert k (set (map fst m))"
  by (induction k v m rule: kv_insert.induct) auto

lemma keys_kv_remove [kv_simps]: "set (map fst (kv_remove k m)) = set (map fst m) - {k}"
  by (induction m) (auto simp: kv_remove_def)

lemma kv_wf_Nil [wf_intros, simp]: "kv_wf []"
  by (simp add: kv_wf_def)

lemma kv_wf_insert [wf_intros]: "kv_wf m \<Longrightarrow> kv_wf (kv_insert k v m)"
proof (induction k v m rule: kv_insert.induct)
  case (2 k v k' v' m)
  then show ?case using keys_kv_insert [of k v m] by (auto simp: kv_wf_def)
qed (simp add: kv_wf_def)

lemma kv_wf_filter [wf_intros]: "kv_wf m \<Longrightarrow> kv_wf (filter P m)"
  by (simp add: kv_wf_def distinct_map_filter)

lemma kv_wf_remove [wf_intros]: "kv_wf m \<Longrightarrow> kv_wf (kv_remove k m)"
  by (simp add: kv_remove_def kv_wf_filter)

lemma kv_wf_map_of: "\<lbrakk> kv_wf m; (k, v) \<in> set m \<rbrakk> \<Longrightarrow> map_of m k = Some v"
  by (simp add: kv_wf_def)

lemma kv_insert_fresh: "k \<notin> set (map fst m) \<Longrightarrow> kv_insert k v m = m @ [(k, v)]"
  by (induction k v m rule: kv_insert.induct) auto

lemma map_of_btree_insert [kv_simps]:
  "sorted_wrt (<) (map fst m) \<Longrightarrow> map_of (btree_insert k v m) = (map_of m)(k \<mapsto> v)"
  by (induction k v m rule: btree_insert.induct) auto

lemma keys_btree_insert [kv_simps]:
  "set (map fst (btree_insert k v m)) = insert k (set (map fst m))"
  by (induction k v m rule: btree_insert.induct) auto

lemma sorted_btree_insert [wf_intros]:
  "sorted_wrt (<) (map fst m) \<Longrightarrow> sorted_wrt (<) (map fst (btree_insert k v m))"
proof (induction k v m rule: btree_insert.induct)
  case (2 k v k' v' m)
  then show ?case using keys_btree_insert [of k v m] by auto
qed simp

lemma sorted_btree_of [wf_intros]: "sorted_wrt (<) (map fst (btree_of xs))"
proof -
  have "sorted_wrt (<) (map fst m) \<Longrightarrow>
    sorted_wrt (<) (map fst (foldl (\<lambda>m (k, v). btree_insert k v m) m xs))" for m
    by (induction xs arbitrary: m) (auto intro: wf_intros)
  then show ?thesis by (simp add: btree_of_def)
qed

section \<open>Key-value stores\<close>

text \<open>
  The contract of a store: what a lookup returns after a write or a deletion, and the invariant
  both keep.  The storage of an entity and the partition of a worker provide it.
\<close>

locale kv_store =
  fixes get :: "'s \<Rightarrow> 'k \<Rightarrow> 'v option"
    and put :: "'k \<Rightarrow> 'v \<Rightarrow> 's \<Rightarrow> 's"
    and del :: "'k \<Rightarrow> 's \<Rightarrow> 's"
    and inv :: "'s \<Rightarrow> bool"
  assumes get_put: "get (put k v s) k' = (if k' = k then Some v else get s k')"
    and get_del: "get (del k s) k' = (if k' = k then None else get s k')"
    and inv_put: "inv s \<Longrightarrow> inv (put k v s)"
    and inv_del: "inv s \<Longrightarrow> inv (del k s)"
begin

definition put_all :: "('k \<times> 'v) list \<Rightarrow> 's \<Rightarrow> 's" where
  "put_all kvs s = foldl (\<lambda>s (k, v). put k v s) s kvs"

definition del_all :: "'k list \<Rightarrow> 's \<Rightarrow> 's" where
  "del_all ks s = foldl (\<lambda>s k. del k s) s ks"

lemma get_put_all: "get (put_all kvs s) k = (case map_of (rev kvs) k of Some v \<Rightarrow> Some v | None \<Rightarrow> get s k)"
  unfolding put_all_def
  by (induction kvs arbitrary: s) (auto simp: get_put map_add_def split: option.splits)

lemma get_del_all: "get (del_all ks s) k = (if k \<in> set ks then None else get s k)"
  unfolding del_all_def by (induction ks arbitrary: s) (auto simp: get_del)

lemma inv_put_all: "inv s \<Longrightarrow> inv (put_all kvs s)"
  unfolding put_all_def by (induction kvs arbitrary: s) (auto simp: inv_put)

lemma inv_del_all: "inv s \<Longrightarrow> inv (del_all ks s)"
  unfolding del_all_def by (induction ks arbitrary: s) (auto simp: inv_del)

lemma put_commute: "k \<noteq> k' \<Longrightarrow> get (put k v (put k' v' s)) = get (put k' v' (put k v s))"
  by (rule ext) (simp add: get_put)

end

end
