(* ===== verification/F32.thy ===== *)
theory F32
  imports Prelude
begin

text \<open>
  The \<open>f32\<close> of the source (\<open>Float\<close> in src/bigworlds/src/lib.rs without the feature
  \<open>big_nums\<close>), as its 32 bits.  A finite value is an integer count of \<open>2 ^ -149\<close>, the
  least subnormal, so sums and comparisons are exact integer operations followed by one
  rounding to nearest, ties to even.  Conversions, decimal parsing and shortest display follow
  the standard library.
\<close>

type_synonym f32 = "32 word"

datatype fclass = FNan | FInf bool | FFin bool int

definition f32_classify :: "f32 \<Rightarrow> fclass" where
  "f32_classify x =
    (let b = uint x; s = (b div 2147483648 = 1); e = (b div 8388608) mod 256; m = b mod 8388608
     in if e = 255 then (if m = 0 then FInf s else FNan)
        else if e = 0 then FFin s m
        else FFin s ((m + 8388608) * 2 ^ nat (e - 1)))"

function bit_count :: "int \<Rightarrow> nat" where
  "bit_count n = (if n \<le> 0 then 0 else Suc (bit_count (n div 2)))"
  by pat_completeness auto
termination by (relation "measure nat") auto

declare bit_count.simps [simp del]

definition f32_sign_bit :: "bool \<Rightarrow> int" where
  "f32_sign_bit s = (if s then 2147483648 else 0)"

text \<open>
  The value \<open>n / d\<close> rounded to nearest, ties to even.  \<open>last_place\<close> is the exponent of the
  last place: the quotient scaled by it has 24 bits, fewer when the result is subnormal.
\<close>

definition scale_num :: "int \<Rightarrow> int \<Rightarrow> int" where
  "scale_num n e = (if 0 \<le> e then n else n * 2 ^ nat (- e))"

definition scale_den :: "int \<Rightarrow> int \<Rightarrow> int" where
  "scale_den d e = (if 0 \<le> e then d * 2 ^ nat e else d)"

definition last_place :: "int \<Rightarrow> int \<Rightarrow> int" where
  "last_place n d =
    (let e0 = int (bit_count n) - int (bit_count d) - 24 in
     max (if scale_num n e0 div scale_den d e0 < 16777216 then e0 else e0 + 1) (-149))"

definition round_even :: "int \<Rightarrow> int \<Rightarrow> int" where
  "round_even a b =
    (let q = a div b; r = a mod b in if 2 * r > b \<or> (2 * r = b \<and> odd q) then q + 1 else q)"

definition f32_round :: "bool \<Rightarrow> int \<Rightarrow> int \<Rightarrow> f32" where
  "f32_round s n d =
    (if n = 0 then word_of_int (f32_sign_bit s) else
     let e = last_place n d;
         b = (e + 149) * 8388608 + round_even (scale_num n e) (scale_den d e)
     in word_of_int (f32_sign_bit s + min b 2139095040))"

definition f32_unit :: int where
  "f32_unit = 2 ^ 149"

definition f32_nan :: f32 where
  "f32_nan = 0x7fc00000"

definition f32_of_key :: "bool \<Rightarrow> int \<Rightarrow> f32" where
  "f32_of_key s k = f32_round s k f32_unit"

definition f32_of_int :: "int \<Rightarrow> f32" where
  "f32_of_int i = f32_round (i < 0) \<bar>i\<bar> 1"

definition signed_key :: "bool \<Rightarrow> int \<Rightarrow> int" where
  "signed_key s k = (if s then - k else k)"

definition f32_add :: "f32 \<Rightarrow> f32 \<Rightarrow> f32" where
  "f32_add x y =
    (case f32_classify x of
       FNan \<Rightarrow> f32_nan
     | FInf s \<Rightarrow> (case f32_classify y of FNan \<Rightarrow> f32_nan
                  | FInf t \<Rightarrow> if s = t then x else f32_nan | FFin t j \<Rightarrow> x)
     | FFin s k \<Rightarrow> (case f32_classify y of FNan \<Rightarrow> f32_nan | FInf t \<Rightarrow> y
                  | FFin t j \<Rightarrow>
                      let z = signed_key s k + signed_key t j in
                      f32_of_key (if z = 0 then s \<and> t else z < 0) \<bar>z\<bar>))"

text \<open>IEEE comparison: NaN is unordered and differs from itself, the zeros are equal.\<close>

definition f32_cmp :: "(int \<Rightarrow> int \<Rightarrow> bool) \<Rightarrow> f32 \<Rightarrow> f32 \<Rightarrow> bool" where
  "f32_cmp R x y =
    (let key = (\<lambda>c. case c of FNan \<Rightarrow> None | FInf s \<Rightarrow> Some (signed_key s (2 ^ 400))
                     | FFin s k \<Rightarrow> Some (signed_key s k))
     in case (key (f32_classify x), key (f32_classify y)) of
          (Some a, Some b) \<Rightarrow> R a b | _ \<Rightarrow> False)"

definition f32_eq :: "f32 \<Rightarrow> f32 \<Rightarrow> bool" where
  "f32_eq x y = f32_cmp (=) x y"

definition f32_gt :: "f32 \<Rightarrow> f32 \<Rightarrow> bool" where
  "f32_gt x y = f32_cmp (>) x y"

text \<open>The saturating cast \<open>as i32\<close>: truncation towards zero, NaN to 0.\<close>

definition clamp_i32 :: "int \<Rightarrow> int" where
  "clamp_i32 i = max (-2147483648) (min 2147483647 i)"

definition f32_to_i32 :: "f32 \<Rightarrow> int" where
  "f32_to_i32 x =
    (case f32_classify x of FNan \<Rightarrow> 0
     | FInf s \<Rightarrow> if s then -2147483648 else 2147483647
     | FFin s k \<Rightarrow> clamp_i32 (signed_key s (k div f32_unit)))"

text \<open>Integers of fewer than 24 bits are represented exactly.\<close>

lemma bit_count_bounds: "0 < n \<Longrightarrow> 2 ^ (bit_count n - 1) \<le> n \<and> n < 2 ^ bit_count n \<and> 0 < bit_count n"
proof (induction n rule: bit_count.induct)
  case (1 n)
  show ?case
  proof (cases "n = 1")
    case True
    then show ?thesis by (simp add: bit_count.simps)
  next
    case False
    with "1.prems" have p: "0 < n div 2" by linarith
    with "1.IH" "1.prems" have ih: "2 ^ (bit_count (n div 2) - 1) \<le> n div 2" "n div 2 < 2 ^ bit_count (n div 2)"
      "0 < bit_count (n div 2)" by auto
    have bc: "bit_count n = Suc (bit_count (n div 2))" using "1.prems" by (subst bit_count.simps) simp
    obtain k where k: "bit_count (n div 2) = Suc k" using ih(3) by (cases "bit_count (n div 2)") auto
    from ih have "2 ^ Suc k \<le> n" "n < 2 * 2 ^ Suc k" by (simp_all add: k)
    then show ?thesis by (simp add: bc k)
  qed
qed

lemma bit_count_le: "\<lbrakk> 0 < n; n < 2 ^ m \<rbrakk> \<Longrightarrow> bit_count n \<le> m"
proof (rule ccontr)
  assume a: "0 < n" "n < 2 ^ m" "\<not> bit_count n \<le> m"
  then have "(2 :: int) ^ m \<le> 2 ^ (bit_count n - 1)" by (intro power_increasing) auto
  with bit_count_bounds [OF a(1)] a(2) show False by linarith
qed

lemma f32_round_int:
  assumes "0 < n" "n < 2 ^ 24"
  shows "f32_round s n 1 = word_of_int (f32_sign_bit s +
    ((int (bit_count n) + 125) * 8388608 + n * 2 ^ (24 - bit_count n)))" (is "?l = ?r")
proof -
  define L where "L = bit_count n"
  have L: "L \<le> 24" "0 < L" "n < 2 ^ L" "2 ^ (L - 1) \<le> n"
    using bit_count_bounds [OF assms(1)] bit_count_le [OF assms] by (auto simp: L_def)
  have one: "bit_count 1 = 1" by (simp add: bit_count.simps)
  have big: "16777216 \<le> n * 2 ^ nat (25 - int L)"
  proof -
    have "(16777216 :: int) = 2 ^ (L - 1) * 2 ^ (25 - L)"
      using L by (simp flip: power_add)
    also have "\<dots> \<le> n * 2 ^ (25 - L)" using L by (intro mult_right_mono) auto
    also have "25 - L = nat (25 - int L)" using L by simp
    finally show ?thesis by simp
  qed
  have e1: "nat (24 - int L) = 24 - L" using L by simp
  have small: "n * 2 ^ (24 - L) < 16777216"
  proof -
    have "n * 2 ^ (24 - L) < 2 ^ L * 2 ^ (24 - L)" using L by (intro mult_strict_right_mono) auto
    also have "\<dots> = 16777216" using L by (simp flip: power_add)
    finally show ?thesis .
  qed
  have lp: "last_place n 1 = int L - 24"
    using L big by (simp add: last_place_def one L_def [symmetric] scale_num_def scale_den_def)
  have sc: "scale_num n (int L - 24) = n * 2 ^ (24 - L)" "scale_den 1 (int L - 24) = 1"
    using L e1 by (auto simp: scale_num_def scale_den_def)
  have "round_even (n * 2 ^ (24 - L)) 1 = n * 2 ^ (24 - L)" by (simp add: round_even_def)
  moreover have "(int L + 125) * 8388608 + n * 2 ^ (24 - L) \<le> 2139095040"
  proof -
    have "int L \<le> 24" using L by simp
    with small show ?thesis by simp
  qed
  ultimately show ?thesis
    using assms(1) unfolding f32_round_def Let_def lp sc L_def [symmetric] by (simp add: min_absorb1)
qed

lemma f32_classify_of_int:
  assumes "0 < n" "n < 2 ^ 24"
  shows "f32_classify (f32_round s n 1) = FFin s (n * f32_unit)"
proof -
  define L where "L = bit_count n"
  define q where "q = n * 2 ^ (24 - L)"
  have L: "L \<le> 24" "0 < L" "n < 2 ^ L" "2 ^ (L - 1) \<le> n"
    using bit_count_bounds [OF assms(1)] bit_count_le [OF assms] by (auto simp: L_def)
  have q: "8388608 \<le> q" "q < 16777216"
  proof -
    have "q < 2 ^ L * 2 ^ (24 - L)" using L unfolding q_def by (intro mult_strict_right_mono) auto
    also have "\<dots> = 16777216" using L by (simp flip: power_add)
    finally show "q < 16777216" .
    have "(8388608 :: int) = 2 ^ (L - 1) * 2 ^ (24 - L)" using L by (simp flip: power_add)
    also have "\<dots> \<le> q" using L unfolding q_def by (intro mult_right_mono) auto
    finally show "8388608 \<le> q" .
  qed
  define b where "b = f32_sign_bit s + ((int L + 125) * 8388608 + q)"
  define c where "c = (if s then 256 else 0) + (int L + 126)"
  have bc: "b = c * 8388608 + (q - 8388608)" by (simp add: b_def c_def f32_sign_bit_def)
  have qm: "q mod 8388608 = q - 8388608"
    using q mod_pos_pos_trivial [of "q - 8388608" 8388608] by simp
  have "b div 8388608 = c" "b mod 8388608 = q - 8388608"
    using q unfolding bc by (simp_all add: qm div_add1_eq)
  moreover have "c mod 256 = int L + 126"
    using L mod_pos_pos_trivial [of "int L + 126" 256] mod_mult_self1 [of "int L + 126" 1 256]
    by (simp add: c_def)
  moreover have "0 \<le> b" "b < 2 ^ 32" "b div 2147483648 = (if s then 1 else 0)"
    using q L by (auto simp: b_def f32_sign_bit_def)
  ultimately have b: "0 \<le> b" "b < 2 ^ 32" "b div 2147483648 = (if s then 1 else 0)"
    "(b div 8388608) mod 256 = int L + 126" "b mod 8388608 = q - 8388608" by auto
  have u: "uint (word_of_int b :: f32) = b" using b by (simp add: uint_word_of_int take_bit_int_eq_self)
  have pw: "q * 2 ^ (L + 125) = n * f32_unit"
    using L by (simp add: q_def f32_unit_def flip: power_add)
  have "f32_round s n 1 = word_of_int b"
    using f32_round_int [OF assms] by (simp add: b_def q_def L_def)
  then show ?thesis using b u L pw
    by (simp add: f32_classify_def Let_def nat_add_distrib add.commute)
qed

lemma f32_to_i32_of_int: "\<bar>i\<bar> < 2 ^ 24 \<Longrightarrow> f32_to_i32 (f32_of_int i) = i"
proof (cases "i = 0")
  case True
  then show ?thesis by (simp add: f32_of_int_def f32_round_def f32_sign_bit_def f32_to_i32_def
    f32_classify_def signed_key_def clamp_i32_def)
next
  case False
  assume "\<bar>i\<bar> < 2 ^ 24"
  with False f32_classify_of_int [of "\<bar>i\<bar>" "i < 0"] show ?thesis
    by (auto simp: f32_to_i32_def f32_of_int_def f32_unit_def signed_key_def clamp_i32_def)
qed

subsection \<open>Parsing\<close>

fun span_digits :: "string \<Rightarrow> string \<times> string" where
  "span_digits [] = ([], [])"
| "span_digits (c # cs) =
    (if digit_val c = None then ([], c # cs)
     else case span_digits cs of (ds, r) \<Rightarrow> (c # ds, r))"

definition digits_value :: "string \<Rightarrow> int" where
  "digits_value s = foldl (\<lambda>a c. a * 10 + int (case digit_val c of Some d \<Rightarrow> d | None \<Rightarrow> 0)) 0 s"

definition ascii_lower :: "string \<Rightarrow> string" where
  "ascii_lower s = map (\<lambda>c. let v = (of_char c :: nat) in
     if 65 \<le> v \<and> v \<le> 90 then char_of (v + 32) else c) s"

definition parse_exponent :: "string \<Rightarrow> int option" where
  "parse_exponent s =
    (case s of [] \<Rightarrow> Some 0
     | c # cs \<Rightarrow>
         if c = CHR ''e'' \<or> c = CHR ''E'' then
           let neg = (case cs of x # _ \<Rightarrow> x = CHR ''-'' | [] \<Rightarrow> False);
               ds = (case cs of x # xs \<Rightarrow> if x = CHR ''-'' \<or> x = CHR ''+'' then xs else cs | [] \<Rightarrow> [])
           in if ds = [] \<or> snd (span_digits ds) \<noteq> [] then None
              else Some (if neg then - digits_value ds else digits_value ds)
         else None)"

definition parse_unsigned_f32 :: "bool \<Rightarrow> string \<Rightarrow> f32 option" where
  "parse_unsigned_f32 s t =
    (let l = ascii_lower t in
     if l = ''inf'' \<or> l = ''infinity'' then Some (word_of_int (f32_sign_bit s + 2139095040))
     else if l = ''nan'' then Some (word_of_int (f32_sign_bit s + uint f32_nan))
     else case span_digits t of (ip, r) \<Rightarrow>
       (case (case r of c # cs \<Rightarrow> if c = CHR ''.'' then span_digits cs else ([], r) | [] \<Rightarrow> ([], []))
        of (fp, r') \<Rightarrow>
          if ip = [] \<and> fp = [] then None
          else map_option (\<lambda>e.
            let e' = e - int (length fp); m = digits_value (ip @ fp) in
            if 0 \<le> e' then f32_round s (m * 10 ^ nat e') 1
            else f32_round s m (10 ^ nat (- e'))) (parse_exponent r')))"

datatype float_error = FEmpty | FInvalid

definition parse_f32 :: "string \<Rightarrow> (float_error, f32) result" where
  "parse_f32 t =
    (case t of
       [] \<Rightarrow> Err FEmpty
     | c # cs \<Rightarrow>
         ok_or FInvalid
          (if c = CHR ''-'' then parse_unsigned_f32 True cs
           else if c = CHR ''+'' then parse_unsigned_f32 False cs
           else parse_unsigned_f32 False t))"

subsection \<open>Display\<close>

text \<open>
  The shortest decimal that rounds to the value, closest to it (halves up): \<open>dec_point k\<close> is
  the \<open>p\<close> with \<open>10 ^ (p-1) \<le> v < 10 ^ p\<close>, and \<open>shortest k\<close> the least number of digits
  for which a multiple of the last place rounds back.
\<close>

definition pow10_scale :: "int \<Rightarrow> int \<Rightarrow> int \<times> int" where
  "pow10_scale k t = (if 0 \<le> t then (k * 10 ^ nat t, f32_unit) else (k, f32_unit * 10 ^ nat (- t)))"

definition dec_point :: "int \<Rightarrow> int" where
  "dec_point k =
    (if f32_unit \<le> k then int (length (show_pos (k div f32_unit)))
     else case find (\<lambda>j. f32_unit \<le> k * 10 ^ nat j) [1..50] of Some j \<Rightarrow> 1 - j | None \<Rightarrow> 0)"

definition round_trips :: "f32 \<Rightarrow> bool \<Rightarrow> int \<Rightarrow> int \<Rightarrow> bool" where
  "round_trips x s c t =
    ((if 0 \<le> t then f32_round s c (10 ^ nat t) else f32_round s (c * 10 ^ nat (- t)) 1) = x)"

definition digits_at :: "f32 \<Rightarrow> bool \<Rightarrow> int \<Rightarrow> int \<Rightarrow> int option" where
  "digits_at x s k t =
    (case pow10_scale k t of (a, b) \<Rightarrow>
       let lo = a div b; lo_ok = round_trips x s lo t; hi_ok = round_trips x s (lo + 1) t in
       if lo_ok \<and> hi_ok then Some (if 2 * (a mod b) \<ge> b then lo + 1 else lo)
       else if lo_ok then Some lo else if hi_ok then Some (lo + 1) else None)"

definition shortest :: "f32 \<Rightarrow> bool \<Rightarrow> int \<Rightarrow> int \<times> int" where
  "shortest x s k =
    (let p = dec_point k in
     case find (\<lambda>n. digits_at x s k (n - p) \<noteq> None) [1..9] of
       Some n \<Rightarrow> (the (digits_at x s k (n - p)), n - p)
     | None \<Rightarrow> (0, 0))"

definition strip_zeros :: "string \<Rightarrow> string" where
  "strip_zeros s = rev (dropWhile (\<lambda>c. c = CHR ''0'') (rev s))"

text \<open>\<open>c * 10 ^ -t\<close> in positional notation, with at least \<open>mn\<close> digits after the point.\<close>

definition show_decimal :: "nat \<Rightarrow> int \<Rightarrow> int \<Rightarrow> string" where
  "show_decimal mn c t =
    (let ds = show_pos c;
         padded = replicate (nat t + 1 - length ds) CHR ''0'' @ ds @ replicate (nat (- t)) CHR ''0'';
         ip = take (length padded - nat t) padded;
         fp = strip_zeros (drop (length padded - nat t) padded);
         fp' = fp @ replicate (mn - length fp) CHR ''0''
     in if fp' = [] then ip else ip @ CHR ''.'' # fp')"

text \<open>Scientific notation, \<open>{:e}\<close>: one digit, the others after a point, the exponent.\<close>

definition show_scientific :: "int \<Rightarrow> int \<Rightarrow> string" where
  "show_scientific c t =
    (let ds = show_pos c; fp = strip_zeros (tl ds) in
     [hd ds] @ (if fp = [] then [] else CHR ''.'' # fp) @ ''e'' @ show_int (int (length ds) - 1 - t))"

definition sign_prefix :: "bool \<Rightarrow> string" where
  "sign_prefix s = (if s then ''-'' else [])"

definition show_f32 :: "f32 \<Rightarrow> string" where
  "show_f32 x =
    (case f32_classify x of FNan \<Rightarrow> ''NaN''
     | FInf s \<Rightarrow> sign_prefix s @ ''inf''
     | FFin s k \<Rightarrow> if k = 0 then sign_prefix s @ ''0''
         else case shortest x s k of (c, t) \<Rightarrow> sign_prefix s @ show_decimal 0 c t)"

definition debug_f32 :: "f32 \<Rightarrow> string" where
  "debug_f32 x =
    (case f32_classify x of FNan \<Rightarrow> ''NaN''
     | FInf s \<Rightarrow> sign_prefix s @ ''inf''
     | FFin s k \<Rightarrow> if k = 0 then sign_prefix s @ ''0.0''
         else case shortest x s k of (c, t) \<Rightarrow> sign_prefix s @
           (if uint x mod 2147483648 < uint (f32_round False 1 10000)
               \<or> uint (f32_round False (10 ^ 16) 1) \<le> uint x mod 2147483648
            then show_scientific c t else show_decimal 1 c t))"

end
