(* ===== verification/Errors.thy ===== *)
theory Errors
  imports Prelude
begin

text \<open>
  The error values of src/bigworlds/src/error.rs and src/bigworlds/src/machine/error.rs with
  their \<open>Display\<close>, and the identifiers they carry (variable types, addresses, script
  locations).  \<open>snippet\<close> stands for the third-party rendering of an invalid command body,
  which reads the script file.
\<close>

subsection \<open>Variable types\<close>

datatype var_type =
    TString | TInt | TFloat | TBool | TByte | TVec2 | TVec3
  | TStringList | TIntList | TFloatList | TBoolList | TByteList | TVec2List | TVec3List | TList
  | TStringGrid | TIntGrid | TFloatGrid | TBoolGrid | TByteGrid | TVec2Grid | TVec3Grid | TGrid
  | TMap

fun var_type_to_str :: "var_type \<Rightarrow> string" where
  "var_type_to_str TString = ''string''"
| "var_type_to_str TInt = ''int''"
| "var_type_to_str TFloat = ''float''"
| "var_type_to_str TBool = ''bool''"
| "var_type_to_str TByte = ''byte''"
| "var_type_to_str TVec2 = ''vec2''"
| "var_type_to_str TVec3 = ''vec3''"
| "var_type_to_str TList = ''list''"
| "var_type_to_str TGrid = ''grid''"
| "var_type_to_str TMap = ''map''"
| "var_type_to_str TStringList = ''list_str''"
| "var_type_to_str TIntList = ''list_int''"
| "var_type_to_str TFloatList = ''list_float''"
| "var_type_to_str TBoolList = ''list_bool''"
| "var_type_to_str TByteList = ''list_byte''"
| "var_type_to_str TVec2List = ''list_vec2''"
| "var_type_to_str TVec3List = ''list_vec3''"
| "var_type_to_str TStringGrid = ''grid_str''"
| "var_type_to_str TIntGrid = ''grid_int''"
| "var_type_to_str TFloatGrid = ''grid_float''"
| "var_type_to_str TBoolGrid = ''grid_bool''"
| "var_type_to_str TByteGrid = ''grid_byte''"
| "var_type_to_str TVec2Grid = ''grid_vec2''"
| "var_type_to_str TVec3Grid = ''grid_vec3''"

text \<open>The derived order: the position of the constructor in the declaration.\<close>

definition var_types :: "var_type list" where
  "var_types =
    [TString, TInt, TFloat, TBool, TByte, TVec2, TVec3,
     TStringList, TIntList, TFloatList, TBoolList, TByteList, TVec2List, TVec3List, TList,
     TStringGrid, TIntGrid, TFloatGrid, TBoolGrid, TByteGrid, TVec2Grid, TVec3Grid, TGrid, TMap]"

fun index_of :: "'a list \<Rightarrow> 'a \<Rightarrow> nat" where
  "index_of [] y = 0"
| "index_of (x # xs) y = (if x = y then 0 else Suc (index_of xs y))"

definition discriminant :: "var_type \<Rightarrow> nat" where
  "discriminant t = index_of var_types t"

lemma var_types_all: "t \<in> set var_types"
  by (cases t) (simp_all add: var_types_def)

lemma index_of_nth: "x \<in> set xs \<Longrightarrow> xs ! index_of xs x = x"
  by (induction xs) auto

lemma discriminant_inject: "discriminant t = discriminant u \<longleftrightarrow> t = u"
  by (metis discriminant_def index_of_nth var_types_all)

instantiation var_type :: linorder
begin

definition less_eq_var_type :: "var_type \<Rightarrow> var_type \<Rightarrow> bool" where
  "less_eq_var_type t u \<longleftrightarrow> discriminant t \<le> discriminant u"

definition less_var_type :: "var_type \<Rightarrow> var_type \<Rightarrow> bool" where
  "less_var_type t u \<longleftrightarrow> discriminant t < discriminant u"

instance
  by standard (auto simp: less_eq_var_type_def less_var_type_def discriminant_inject)

end

lemma var_type_to_str_inject: "var_type_to_str t = var_type_to_str u \<longleftrightarrow> t = u"
  by (cases t; cases u) simp_all

subsection \<open>Addresses and locations\<close>

record address =
  a_entity :: string
  a_comp :: string
  a_type :: var_type
  a_var :: string

record short_local_address =
  s_comp :: "string option"
  s_type :: var_type
  s_var :: string

type_synonym storage_index = "string \<times> string"

record location_info =
  l_root :: "string option"
  l_source :: "string option"
  l_source_line :: "nat option"
  l_line :: "nat option"
  l_tag :: "string option"

definition empty_location :: location_info where
  "empty_location =
    \<lparr> l_root = None, l_source = None, l_source_line = None, l_line = None, l_tag = None \<rparr>"

definition with_source :: "location_info \<Rightarrow> string \<Rightarrow> string \<Rightarrow> location_info" where
  "with_source loc root src = loc\<lparr> l_root := Some root, l_source := Some src \<rparr>"

definition location_to_string :: "location_info \<Rightarrow> string" where
  "location_to_string loc =
    ''Source: '' @ (case l_source loc of Some s \<Rightarrow> s | None \<Rightarrow> ''unknown'') @
    '', Line: '' @ show_nat (case l_source_line loc of Some n \<Rightarrow> n | None \<Rightarrow> 0)"

text \<open>\<open>Display\<close> of an address: the four parts joined by dots.\<close>

definition address_to_string :: "address \<Rightarrow> string" where
  "address_to_string a =
    a_entity a @ ''.'' @ a_comp a @ ''.'' @ var_type_to_str (a_type a) @ ''.'' @ a_var a"

subsection \<open>Machine errors\<close>

datatype (plugins only: code size) error_kind =
    CoreError string | CommonError string | FromSignalError string | KParseError string
  | ErrorReadingFile string | Initialization string | ControlWithoutValidValue
  | InvalidControlLocation | MissingEndQuotes | MissingOutputVariableName
  | InvalidEqualsLocation | InvalidQuotesLocation | EmptyTag | CommandSearchFailed string
  | NoDirectivePresent | UnknownDirective | ErrorProcessingDirective string
  | NoCommandPresent | UnknownCommand string | InvalidCommandBody string
  | KInvalidAddress string | KPanic | StackEmpty | FailedGettingFromStorage string
  | FailedGettingComponent string | MissingLocationLine | KOther string

record machine_error =
  m_location :: location_info
  m_kind :: error_kind

definition machine_err :: "location_info \<Rightarrow> error_kind \<Rightarrow> machine_error" where
  "machine_err loc k = \<lparr> m_location = loc, m_kind = k \<rparr>"

text \<open>\<open>From<ErrorKind>\<close>: an empty location.\<close>

definition error_of_kind :: "error_kind \<Rightarrow> machine_error" where
  "error_of_kind k = machine_err empty_location k"

definition fmt_err_msg :: "location_info \<Rightarrow> string \<Rightarrow> string" where
  "fmt_err_msg loc msg =
    ''source: '' @ (case l_source loc of Some s \<Rightarrow> s | None \<Rightarrow> ''Unknown'') @
    '', line: '' @ (case l_source_line loc of Some n \<Rightarrow> show_nat n | None \<Rightarrow> ''Unknown'') @
    '' - '' @ msg"

definition machine_error_to_string :: "(string \<Rightarrow> location_info \<Rightarrow> string) \<Rightarrow> machine_error \<Rightarrow> string" where
  "machine_error_to_string snippet e =
    (let f = fmt_err_msg (m_location e) in
     case m_kind e of
       ErrorReadingFile file \<Rightarrow> ''error reading file: '' @ file @ [CHR 0x0A]
     | Initialization m \<Rightarrow> m
     | ControlWithoutValidValue \<Rightarrow> f ''control character found without a valid value''
     | InvalidControlLocation \<Rightarrow> f ''invalid control character location''
     | MissingEndQuotes \<Rightarrow> f ''missing end quotes''
     | MissingOutputVariableName \<Rightarrow> f ''missing variable name''
     | InvalidEqualsLocation \<Rightarrow> f ''invalid equals sign location''
     | InvalidQuotesLocation \<Rightarrow> f ''invalid quotes location''
     | EmptyTag \<Rightarrow> f ''empty tag''
     | NoDirectivePresent \<Rightarrow> f ''no directive present''
     | UnknownDirective \<Rightarrow> f ''unknow directive''
     | ErrorProcessingDirective m \<Rightarrow> f m
     | NoCommandPresent \<Rightarrow> f ''no command present''
     | UnknownCommand c \<Rightarrow> f (''unknown command: '' @ c)
     | InvalidCommandBody m \<Rightarrow> snippet m (m_location e)
     | FailedGettingFromStorage a \<Rightarrow> f (''failed getting variable from storage: '' @ a)
     | FailedGettingComponent a \<Rightarrow> f (''failed getting component: '' @ a)
     | CommandSearchFailed m \<Rightarrow> f (''command search failed: '' @ m)
     | KInvalidAddress m \<Rightarrow> f (''invalid address: '' @ m)
     | CoreError m \<Rightarrow> f (''core error: '' @ m)
     | KParseError m \<Rightarrow> f (''parse error: '' @ m)
     | KPanic \<Rightarrow> f ''panic''
     | StackEmpty \<Rightarrow> f ''stack empty''
     | CommonError m \<Rightarrow> f (''common error: '' @ m)
     | FromSignalError m \<Rightarrow> f (''from signal error: '' @ m)
     | MissingLocationLine \<Rightarrow> f ''missing line in locationinfo''
     | KOther m \<Rightarrow> f (''other error: '' @ m))"

subsection \<open>Core errors\<close>

text \<open>A \<open>Uuid\<close> is its 128-bit value, printed in hyphenated groups of hexadecimal digits.\<close>

type_synonym uuid = "128 word"

fun hex_digits :: "nat \<Rightarrow> int \<Rightarrow> string" where
  "hex_digits 0 i = []"
| "hex_digits (Suc n) i = hex_digits n (i div 16) @ [''0123456789abcdef'' ! nat (i mod 16)]"

definition uuid_to_string :: "uuid \<Rightarrow> string" where
  "uuid_to_string u =
    (let h = hex_digits 32 (uint u) in
     intercalate ''-'' [take 8 h, take 4 (drop 8 h), take 4 (drop 12 h), take 4 (drop 16 h), drop 20 h])"

datatype transport = Quic | WebSocket | SecureWebSocket | HttpServer | GrpcServer

fun transport_to_string :: "transport \<Rightarrow> string" where
  "transport_to_string Quic = ''quic''"
| "transport_to_string WebSocket = ''ws''"
| "transport_to_string SecureWebSocket = ''wss''"
| "transport_to_string HttpServer = ''http_server''"
| "transport_to_string GrpcServer = ''grpc_server''"

text \<open>Every variant; a socket address is carried as its text.\<close>

datatype (plugins only: code size) error =
    UnexpectedResponse string | InvalidData string | Forbidden string | FailedConversion string
  | BincodeError string | Other string | ErrorResponse string
  | IntParseError string | ParseFloatError string | ParseBoolError string
  | WorkerNotConnected string | NoAvailableWorkers
  | LeaderNotConnected string | LeaderNotSelected string
  | WorkerNotInitialized string | LeaderNotInitialized string | ServerNotConnected string
  | Unknown | InvalidVarType string | InvalidLocalAddress string
  | NoEntityPrefab string | NoComponentModel string | FailedGettingEntityByName string
  | FailedGettingVar address | FailedGettingVarFromEntityStorage storage_index
  | FailedCreatingAddress string | FailedCreatingVar string | FeatureNotAvailable string
  | MachinePanic machine_error | ArchiveDisabled | FjallError string
  | AlreadyProcessedSignal uuid
  | WouldBlock | FailedGettingClientById uuid | FailedGettingClientByAddr string
  | SerdeJsonError string | IoError string | AddrParseError string
  | TransportUnavailable transport | ServerKeepaliveLimitReached "32 word"
  | FailedConnectingServerToWorker string | LeaderUnreachable string | WorkerNotRegistered string
  | FailedRegisteringWorker string | FailedConnectingWorkerToLeader string
  | FailedConnectingLeaderToWorker string | NetworkError string | ConnectionClosed
  | QuinnNetworkError string | WsNetworkError string | VfsError string | YamlDeserError string
  | TomlDeserError string | SemverError string | ParsingError string | ParseIntError string
  | RequestIdError | ReturnIdError | InvalidAddress string | SnapshotDecompressionError string
  | FailedReadingSnapshotHeader string | FailedReadingSnapshot string
  | FailedCreatingSnapshot string | ScenarioMissingModule string
  | FailedGettingEntityById "32 word" | ModelRootNotFound string nat | LuaError string
  | TokioOneshotRecvError string | Timeout | StringTooLong string | RkyvError string

definition error_to_string :: "(string \<Rightarrow> location_info \<Rightarrow> string) \<Rightarrow> error \<Rightarrow> string" where
  "error_to_string snippet e =
    (case e of
       UnexpectedResponse m \<Rightarrow> ''unexpected response: '' @ m
     | InvalidData m \<Rightarrow> ''invalid data: '' @ m
     | Forbidden m \<Rightarrow> ''forbidden: '' @ m
     | FailedConversion m \<Rightarrow> ''failed conversion: '' @ m
     | BincodeError m \<Rightarrow> ''bincode error: '' @ m
     | Other m \<Rightarrow> ''other: '' @ m
     | ErrorResponse m \<Rightarrow> ''got error response: '' @ m
     | IntParseError m \<Rightarrow> ''failed parsing int: '' @ m
     | WorkerNotConnected m \<Rightarrow> ''worker not connected: '' @ m
     | NoAvailableWorkers \<Rightarrow> ''no available workers''
     | LeaderNotConnected m \<Rightarrow> ''leader not connected: '' @ m
     | LeaderNotSelected m \<Rightarrow> ''leader not selected: '' @ m
     | LeaderNotInitialized m \<Rightarrow> ''leader not initialized: '' @ m
     | WorkerNotInitialized m \<Rightarrow> ''worker not initialized: '' @ m
     | ServerNotConnected m \<Rightarrow> ''server not connected: '' @ m
     | Unknown \<Rightarrow> ''unknown error''
     | ParseFloatError m \<Rightarrow> ''failed parsing float: '' @ m
     | ParseBoolError m \<Rightarrow> ''failed parsing bool: '' @ m
     | InvalidVarType m \<Rightarrow> ''invalid var type: '' @ m
     | InvalidLocalAddress m \<Rightarrow> ''invalid local address: '' @ m
     | NoEntityPrefab m \<Rightarrow> ''model: no entity prefab named: '' @ m
     | NoComponentModel m \<Rightarrow> ''model: no component named: '' @ m
     | FailedGettingEntityByName m \<Rightarrow> ''failed getting entity with name: '' @ m
     | FailedGettingVar a \<Rightarrow> ''failed getting variable: '' @ address_to_string a
     | FailedGettingVarFromEntityStorage i \<Rightarrow>
         ''failed getting variable from entity storage: comp: '' @ fst i @ '', var: '' @ snd i
     | FailedCreatingAddress m \<Rightarrow> ''failed creating address from string: '' @ m
     | FailedCreatingVar m \<Rightarrow> ''failed creating variable from string: '' @ m
     | FeatureNotAvailable m \<Rightarrow> ''feature not available: '' @ m
     | MachinePanic m \<Rightarrow> ''runtime machine panic: '' @ machine_error_to_string snippet m
     | ArchiveDisabled \<Rightarrow> ''archive functionality disabled''
     | FjallError m \<Rightarrow> ''fjall storage error: '' @ m
     | AlreadyProcessedSignal m \<Rightarrow> ''already processed signal with id: '' @ uuid_to_string m
     | WouldBlock \<Rightarrow> ''would block''
     | FailedGettingClientById m \<Rightarrow> ''failed getting client by id: '' @ uuid_to_string m
     | FailedGettingClientByAddr m \<Rightarrow> ''failed getting client by address: '' @ m
     | SerdeJsonError m \<Rightarrow> ''serde json error: '' @ m
     | IoError m \<Rightarrow> ''io error: '' @ m
     | AddrParseError m \<Rightarrow> ''failed parsing address: '' @ m
     | TransportUnavailable m \<Rightarrow> ''transport unavailable: '' @ transport_to_string m
     | ServerKeepaliveLimitReached m \<Rightarrow> ''no activity for '' @ show_nat (unat m) @ '' milliseconds, terminating server''
     | FailedConnectingServerToWorker m \<Rightarrow> ''failed connecting server to worker: '' @ m
     | LeaderUnreachable m \<Rightarrow> ''leader unreachable: '' @ m
     | WorkerNotRegistered m \<Rightarrow> ''worker not registered: '' @ m
     | FailedRegisteringWorker m \<Rightarrow> ''failed registering worker: '' @ m
     | FailedConnectingWorkerToLeader m \<Rightarrow> ''failed connecting worker to leader: '' @ m
     | FailedConnectingLeaderToWorker m \<Rightarrow> ''failed connecting leader to worker: '' @ m
     | NetworkError m \<Rightarrow> ''network error: '' @ m
     | ConnectionClosed \<Rightarrow> ''connection closed''
     | QuinnNetworkError m \<Rightarrow> ''quinn network error: '' @ m
     | WsNetworkError m \<Rightarrow> ''ws network error: '' @ m
     | VfsError m \<Rightarrow> ''vfs error: '' @ m
     | YamlDeserError m \<Rightarrow> ''yaml deserialization error: '' @ m
     | TomlDeserError m \<Rightarrow> ''toml deserialization error: '' @ m
     | SemverError m \<Rightarrow> ''semver error: '' @ m
     | ParsingError m \<Rightarrow> ''parsing error: '' @ m
     | ParseIntError m \<Rightarrow> ''failed parsing int: '' @ m
     | RequestIdError \<Rightarrow> ''failed requesting new integer id: no more ids available in the pool?''
     | ReturnIdError \<Rightarrow> ''failed returning integer id to pool: already exists?''
     | InvalidAddress m \<Rightarrow> ''invalid address: '' @ m
     | SnapshotDecompressionError m \<Rightarrow> ''failed decompressing snapshot: '' @ m
     | FailedReadingSnapshotHeader m \<Rightarrow> ''failed reading snapshot header: '' @ m
     | FailedReadingSnapshot m \<Rightarrow> ''failed reading snapshot: '' @ m
     | FailedCreatingSnapshot m \<Rightarrow> ''failed creating snapshot: '' @ m
     | ScenarioMissingModule m \<Rightarrow> ''failed reading scenario: missing module: '' @ m
     | FailedGettingEntityById m \<Rightarrow> ''failed getting entity with id: '' @ show_nat (unat m)
     | ModelRootNotFound p n \<Rightarrow> ''model root not found, searched path: '' @ p @ '', recursion levels: '' @ show_nat n
     | LuaError m \<Rightarrow> ''lua error: '' @ m
     | TokioOneshotRecvError m \<Rightarrow> ''tokio oneshot receive error: '' @ m
     | Timeout \<Rightarrow> ''timed out''
     | StringTooLong m \<Rightarrow> ''string too long: '' @ m
     | RkyvError m \<Rightarrow> ''rkyv error: '' @ m)"

text \<open>The standard library's messages of the parse errors, as the \<open>From\<close> instances wrap them.\<close>

fun int_error_msg :: "int_error \<Rightarrow> string" where
  "int_error_msg IEmpty = ''cannot parse integer from empty string''"
| "int_error_msg IInvalidDigit = ''invalid digit found in string''"
| "int_error_msg IPosOverflow = ''number too large to fit in target type''"
| "int_error_msg INegOverflow = ''number too small to fit in target type''"

definition error_of_int_error :: "int_error \<Rightarrow> error" where
  "error_of_int_error e = IntParseError (int_error_msg e)"

text \<open>\<open>From<crate::error::Error>\<close> for machine errors.\<close>

definition kind_of_error :: "(string \<Rightarrow> location_info \<Rightarrow> string) \<Rightarrow> error \<Rightarrow> error_kind" where
  "kind_of_error snippet e = CoreError (error_to_string snippet e)"

definition machine_error_of :: "(string \<Rightarrow> location_info \<Rightarrow> string) \<Rightarrow> error \<Rightarrow> machine_error" where
  "machine_error_of snippet e = error_of_kind (kind_of_error snippet e)"

type_synonym 'a core_result = "(error, 'a) result"
type_synonym 'a machine_result = "(machine_error, 'a) result"

end
