(* ===== verification/Vars.thy ===== *)
theory Vars
  imports F32 Errors
begin

text \<open>
  Variable types and values, from src/bigworlds/src/var.rs.  \<open>Int\<close> is \<open>i32\<close>, kept as
  \<open>32 word\<close> and read with \<open>sint\<close>; arithmetic wraps, as in a release build.  \<open>Byte\<close> is an
  \<open>8 word\<close>.  A \<open>BTreeMap\<close> is an association list in key order.  The accessors that lend a
  mutable reference (\<open>as_*_mut\<close>) return the current contents with the function that writes
  new contents back into the variable.
\<close>

section \<open>Types of variables\<close>

definition list_elem_type :: "string \<Rightarrow> var_type core_result" where
  "list_elem_type s =
    (if s = ''string'' \<or> s = ''str'' then Ok TStringList
     else if s = ''int'' then Ok TIntList
     else if s = ''float'' then Ok TFloatList
     else if s = ''bool'' then Ok TBoolList
     else if s = ''byte'' then Ok TByteList
     else if s = ''vec2'' then Ok TVec2List
     else if s = ''vec3'' then Ok TVec3List
     else Panic)"

definition grid_elem_type :: "string \<Rightarrow> var_type core_result" where
  "grid_elem_type s =
    (if s = ''string'' then Ok TStringGrid
     else if s = ''int'' then Ok TIntGrid
     else if s = ''float'' then Ok TFloatGrid
     else if s = ''bool'' then Ok TBoolGrid
     else if s = ''byte'' then Ok TByteGrid
     else if s = ''vec2'' then Ok TVec2Grid
     else if s = ''vec3'' then Ok TVec3Grid
     else Panic)"

text \<open>\<open>VarType::from_str\<close>: an unknown name reaches \<open>unimplemented!\<close>, not the error after it.\<close>

definition var_type_from_str :: "string \<Rightarrow> var_type core_result" where
  "var_type_from_str s =
    (if s = ''string'' \<or> s = ''str'' then Ok TString
     else if s = ''int'' then Ok TInt
     else if s = ''float'' then Ok TFloat
     else if s = ''bool'' then Ok TBool
     else if s = ''byte'' then Ok TByte
     else if s = ''vec2'' then Ok TVec2
     else if s = ''vec3'' then Ok TVec3
     else if s = ''map'' then Ok TMap
     else case split_on CHR ''_'' s of
            [a, b] \<Rightarrow> if a = ''list'' then list_elem_type b
                      else if a = ''grid'' then grid_elem_type b
                      else Panic
          | _ \<Rightarrow> Panic)"

definition var_type_from_str_unchecked :: "string \<Rightarrow> var_type core_result" where
  "var_type_from_str_unchecked s =
    (if s = ''string'' \<or> s = ''str'' then Ok TString
     else if s = ''int'' then Ok TInt
     else if s = ''float'' then Ok TFloat
     else if s = ''bool'' then Ok TBool
     else if s = ''byte'' then Ok TByte
     else if s = ''vec2'' then Ok TVec2
     else if s = ''vec3'' then Ok TVec3
     else if s = ''list'' then Ok TList
     else if s = ''grid'' then Ok TGrid
     else Panic)"

text \<open>
  A JSON value, whose number type belongs to \<open>serde_json\<close>: the source reads it through
  \<open>is_f64\<close>, \<open>as_f64\<close> (narrowed to \<open>f32\<close>) and \<open>as_i64\<close>.
\<close>

datatype 'n json =
    JNull | JBool bool | JNumber 'n | JString string
  | JArray "'n json list" | JObject "(string \<times> 'n json) list"

record 'n number_ops =
  is_f64 :: "'n \<Rightarrow> bool"
  as_f64 :: "'n \<Rightarrow> f32 option"
  as_i64 :: "'n \<Rightarrow> int option"

definition var_type_from_json_value :: "'n number_ops \<Rightarrow> 'n json \<Rightarrow> var_type" where
  "var_type_from_json_value nops j =
    (case j of JNull \<Rightarrow> TBool | JBool _ \<Rightarrow> TBool
     | JNumber n \<Rightarrow> if is_f64 nops n then TFloat else TInt
     | JString _ \<Rightarrow> TString | JArray _ \<Rightarrow> TList | JObject _ \<Rightarrow> TMap)"

section \<open>Values\<close>

datatype var =
    VString string | VInt "32 word" | VFloat f32 | VBool bool | VByte "8 word"
  | VVec2 f32 f32 | VVec3 f32 f32 f32
  | VList "var list" | VGrid "var list list" | VMap "(string \<times> var) list"

definition default_value :: "var_type \<Rightarrow> var" where
  "default_value t =
    (case t of
       TString \<Rightarrow> VString [] | TInt \<Rightarrow> VInt 0 | TFloat \<Rightarrow> VFloat 0 | TBool \<Rightarrow> VBool False
     | TByte \<Rightarrow> VByte 0 | TVec2 \<Rightarrow> VVec2 0 0 | TVec3 \<Rightarrow> VVec3 0 0 0
     | TStringList \<Rightarrow> VList [] | TIntList \<Rightarrow> VList [] | TFloatList \<Rightarrow> VList []
     | TBoolList \<Rightarrow> VList [] | TByteList \<Rightarrow> VList [] | TVec2List \<Rightarrow> VList []
     | TVec3List \<Rightarrow> VList [] | TList \<Rightarrow> VList []
     | TStringGrid \<Rightarrow> VGrid [] | TIntGrid \<Rightarrow> VGrid [] | TFloatGrid \<Rightarrow> VGrid []
     | TBoolGrid \<Rightarrow> VGrid [] | TByteGrid \<Rightarrow> VGrid [] | TVec2Grid \<Rightarrow> VGrid []
     | TVec3Grid \<Rightarrow> VGrid [] | TGrid \<Rightarrow> VGrid []
     | TMap \<Rightarrow> VMap [])"

definition var_new :: "var_type \<Rightarrow> var" where
  "var_new t =
    (if t = TString then VString []
     else if t = TInt then VInt 0
     else if t = TFloat then VFloat 0
     else if t = TBool then VBool False
     else if t = TByte then VByte 0
     else if t = TVec2 then VVec2 0 0
     else if t = TVec3 then VVec3 0 0 0
     else if t \<in> {TStringList, TIntList, TFloatList, TBoolList, TByteList, TVec2List, TVec3List, TList}
       then VList []
     else if t \<in> {TStringGrid, TIntGrid, TFloatGrid, TBoolGrid, TByteGrid, TVec2Grid, TVec3Grid, TGrid}
       then VGrid []
     else VMap [])"

fun list_type_of :: "var_type \<Rightarrow> var_type" where
  "list_type_of TString = TStringList" | "list_type_of TInt = TIntList"
| "list_type_of TFloat = TFloatList" | "list_type_of TBool = TBoolList"
| "list_type_of TByte = TByteList" | "list_type_of TVec2 = TVec2List"
| "list_type_of TVec3 = TVec3List" | "list_type_of _ = TList"

fun grid_type_of :: "var_type \<Rightarrow> var_type" where
  "grid_type_of TString = TStringGrid" | "grid_type_of TInt = TIntGrid"
| "grid_type_of TFloat = TFloatGrid" | "grid_type_of TBool = TBoolGrid"
| "grid_type_of TByte = TByteGrid" | "grid_type_of TVec2 = TVec2Grid"
| "grid_type_of TVec3 = TVec3Grid" | "grid_type_of _ = TGrid"

text \<open>\<open>get_type\<close>: a list or grid takes the type of its first element.\<close>

fun get_type :: "var \<Rightarrow> var_type" where
  "get_type (VString _) = TString"
| "get_type (VInt _) = TInt"
| "get_type (VFloat _) = TFloat"
| "get_type (VBool _) = TBool"
| "get_type (VByte _) = TByte"
| "get_type (VVec2 _ _) = TVec2"
| "get_type (VVec3 _ _ _) = TVec3"
| "get_type (VList []) = TList"
| "get_type (VList (v # _)) = list_type_of (get_type v)"
| "get_type (VGrid []) = TGrid"
| "get_type (VGrid ([] # _)) = TGrid"
| "get_type (VGrid ((v # _) # _)) = grid_type_of (get_type v)"
| "get_type (VMap _) = TMap"

section \<open>Display and conversions\<close>

text \<open>
  \<open>Debug\<close> of a string.  Which characters outside ASCII are escaped is a table of the
  standard library, the parameter \<open>uesc\<close>.
\<close>

definition debug_char :: "(string \<Rightarrow> bool) \<Rightarrow> string \<Rightarrow> string" where
  "debug_char uesc g =
    (if g = [CHR 0x00] then [CHR 0x5C, CHR ''0'']
     else if g = [CHR 0x09] then [CHR 0x5C, CHR ''t'']
     else if g = [CHR 0x0D] then [CHR 0x5C, CHR ''r'']
     else if g = [CHR 0x0A] then [CHR 0x5C, CHR ''n'']
     else if g = [CHR 0x5C] then [CHR 0x5C, CHR 0x5C]
     else if g = [CHR 0x22] then [CHR 0x5C, CHR 0x22]
     else if codepoint g < 32 \<or> codepoint g = 127 \<or> (128 \<le> codepoint g \<and> uesc g)
     then [CHR 0x5C, CHR ''u'', CHR 0x7B] @ show_hex 6 (codepoint g) @ [CHR 0x7D]
     else g)"

definition debug_string :: "(string \<Rightarrow> bool) \<Rightarrow> string \<Rightarrow> string" where
  "debug_string uesc s = [CHR 0x22] @ concat (map (debug_char uesc) (utf8_chars s)) @ [CHR 0x22]"

definition show_bool :: "bool \<Rightarrow> string" where
  "show_bool b = (if b then ''true'' else ''false'')"

fun debug_var :: "(string \<Rightarrow> bool) \<Rightarrow> var \<Rightarrow> string" where
  "debug_var uesc (VString s) = ''String('' @ debug_string uesc s @ '')''"
| "debug_var uesc (VInt i) = ''Int('' @ show_int (sint i) @ '')''"
| "debug_var uesc (VFloat x) = ''Float('' @ debug_f32 x @ '')''"
| "debug_var uesc (VBool b) = ''Bool('' @ show_bool b @ '')''"
| "debug_var uesc (VByte b) = ''Byte('' @ show_int (uint b) @ '')''"
| "debug_var uesc (VVec2 x y) = ''Vec2('' @ debug_f32 x @ '', '' @ debug_f32 y @ '')''"
| "debug_var uesc (VVec3 x y z) =
    ''Vec3('' @ debug_f32 x @ '', '' @ debug_f32 y @ '', '' @ debug_f32 z @ '')''"
| "debug_var uesc (VList vs) =
    ''List(['' @ intercalate '', '' (map (debug_var uesc) vs) @ ''])''"
| "debug_var uesc (VGrid rows) =
    ''Grid(['' @ intercalate '', ''
      (map (\<lambda>r. ''['' @ intercalate '', '' (map (debug_var uesc) r) @ '']'') rows) @ ''])''"
| "debug_var uesc (VMap m) =
    ''Map('' @ [CHR 0x7B] @ intercalate '', ''
      (map (\<lambda>(k, v). debug_string uesc k @ '': '' @ debug_var uesc v) m) @ [CHR 0x7D] @ '')''"

fun var_to_string :: "(string \<Rightarrow> bool) \<Rightarrow> var \<Rightarrow> string" where
  "var_to_string uesc (VString s) = s"
| "var_to_string uesc (VInt i) = show_int (sint i)"
| "var_to_string uesc (VFloat x) = show_f32 x"
| "var_to_string uesc (VBool b) = show_bool b"
| "var_to_string uesc (VByte b) = show_int (uint b)"
| "var_to_string uesc (VVec2 x y) = ''x: '' @ show_f32 x @ '', y: '' @ show_f32 y"
| "var_to_string uesc (VVec3 x y z) =
    ''x: '' @ show_f32 x @ '', y: '' @ show_f32 y @ '', z: '' @ show_f32 z"
| "var_to_string uesc (VList vs) = ''['' @ intercalate '', '' (map (debug_var uesc) vs) @ '']''"
| "var_to_string uesc (VGrid rows) =
    ''['' @ intercalate '', ''
      (map (\<lambda>r. ''['' @ intercalate '', '' (map (debug_var uesc) r) @ '']'') rows) @ '']''"
| "var_to_string uesc (VMap m) =
    [CHR 0x7B] @ intercalate '', ''
      (map (\<lambda>(k, v). debug_string uesc k @ '': '' @ debug_var uesc v) m) @ [CHR 0x7D]"

definition f32_as_int :: "f32 \<Rightarrow> 32 word" where
  "f32_as_int x = word_of_int (f32_to_i32 x)"

fun var_to_int :: "var \<Rightarrow> 32 word" where
  "var_to_int (VString s) = word_of_nat (length s)"
| "var_to_int (VInt i) = i"
| "var_to_int (VFloat x) = f32_as_int x"
| "var_to_int (VBool b) = (if b then 1 else 0)"
| "var_to_int (VByte b) = word_of_int (uint b)"
| "var_to_int (VVec2 x y) = f32_as_int x + f32_as_int y"
| "var_to_int (VVec3 x y z) = f32_as_int x + f32_as_int y + f32_as_int z"
| "var_to_int (VList vs) = word_of_nat (length vs)"
| "var_to_int (VGrid rows) = word_of_nat (length rows)"
| "var_to_int (VMap m) = word_of_nat (length m)"

fun var_to_float :: "var \<Rightarrow> f32" where
  "var_to_float (VString s) = f32_of_int (int (length s))"
| "var_to_float (VInt i) = f32_of_int (sint i)"
| "var_to_float (VFloat x) = x"
| "var_to_float (VBool b) = (if b then f32_of_int 1 else 0)"
| "var_to_float (VByte b) = f32_of_int (uint b)"
| "var_to_float (VVec2 x y) = f32_add x y"
| "var_to_float (VVec3 x y z) = f32_add (f32_add x y) z"
| "var_to_float (VList vs) = f32_of_int (int (length vs))"
| "var_to_float (VGrid rows) = f32_of_int (int (length rows))"
| "var_to_float (VMap m) = f32_of_int (int (length m))"

fun var_to_bool :: "var \<Rightarrow> bool" where
  "var_to_bool (VString s) = (0 < length s)"
| "var_to_bool (VInt i) = (0 < sint i)"
| "var_to_bool (VFloat x) = f32_gt x 0"
| "var_to_bool (VBool b) = b"
| "var_to_bool (VByte b) = (0 < uint b)"
| "var_to_bool (VVec2 x y) = (f32_gt x 0 \<and> f32_gt y 0)"
| "var_to_bool (VVec3 x y z) = (f32_gt x 0 \<and> f32_gt y 0 \<and> f32_gt z 0)"
| "var_to_bool (VList vs) = (0 < length vs)"
| "var_to_bool (VGrid rows) = (0 < length rows)"
| "var_to_bool (VMap m) = (0 < length m)"

text \<open>\<open>set_coerce\<close> returns the new contents of \<open>self\<close>.\<close>

definition set_coerce :: "(string \<Rightarrow> bool) \<Rightarrow> var \<Rightarrow> var \<Rightarrow> var core_result" where
  "set_coerce uesc self other =
    (case self of
       VString _ \<Rightarrow> Ok (VString (var_to_string uesc other))
     | VInt _ \<Rightarrow> Ok (VInt (var_to_int other))
     | VFloat _ \<Rightarrow> Ok (VFloat (var_to_float other))
     | VBool _ \<Rightarrow> Ok (VBool (var_to_bool other))
     | _ \<Rightarrow> Panic)"

definition coerce :: "(string \<Rightarrow> bool) \<Rightarrow> var \<Rightarrow> var_type \<Rightarrow> var core_result" where
  "coerce uesc self target =
    (case target of
       TString \<Rightarrow> Ok (VString (var_to_string uesc self))
     | TInt \<Rightarrow> Ok (VInt (var_to_int self))
     | TFloat \<Rightarrow> Ok (VFloat (var_to_float self))
     | TBool \<Rightarrow> Ok (VBool (var_to_bool self))
     | _ \<Rightarrow> Panic)"

text \<open>The derived \<open>PartialEq\<close>, which compares floats as IEEE does.\<close>

fun var_eq :: "var \<Rightarrow> var \<Rightarrow> bool" where
  "var_eq (VString s) w = (case w of VString t \<Rightarrow> s = t | _ \<Rightarrow> False)"
| "var_eq (VInt i) w = (case w of VInt j \<Rightarrow> i = j | _ \<Rightarrow> False)"
| "var_eq (VFloat x) w = (case w of VFloat y \<Rightarrow> f32_eq x y | _ \<Rightarrow> False)"
| "var_eq (VBool b) w = (case w of VBool c \<Rightarrow> b = c | _ \<Rightarrow> False)"
| "var_eq (VByte b) w = (case w of VByte c \<Rightarrow> b = c | _ \<Rightarrow> False)"
| "var_eq (VVec2 x y) w = (case w of VVec2 x' y' \<Rightarrow> f32_eq x x' \<and> f32_eq y y' | _ \<Rightarrow> False)"
| "var_eq (VVec3 x y z) w =
    (case w of VVec3 x' y' z' \<Rightarrow> f32_eq x x' \<and> f32_eq y y' \<and> f32_eq z z' | _ \<Rightarrow> False)"
| "var_eq (VList vs) w = (case w of VList ws \<Rightarrow> list_all2 var_eq vs ws | _ \<Rightarrow> False)"
| "var_eq (VGrid vs) w = (case w of VGrid ws \<Rightarrow> list_all2 (list_all2 var_eq) vs ws | _ \<Rightarrow> False)"
| "var_eq (VMap m) w =
    (case w of VMap m' \<Rightarrow> list_all2 (\<lambda>(k, v) (k', v'). k = k' \<and> var_eq v v') m m' | _ \<Rightarrow> False)"

section \<open>Accessors\<close>

definition type_error :: "string \<Rightarrow> var \<Rightarrow> error" where
  "type_error what v =
    InvalidVarType (''expected '' @ what @ '', got '' @ var_type_to_str (get_type v))"

definition is_string :: "var \<Rightarrow> bool" where
  "is_string v = (case v of VString _ \<Rightarrow> True | _ \<Rightarrow> False)"

definition as_string :: "var \<Rightarrow> string core_result" where
  "as_string v = (case v of VString x \<Rightarrow> Ok x | _ \<Rightarrow> Err (type_error ''string'' v))"

definition as_string_mut :: "var \<Rightarrow> (string \<times> (string \<Rightarrow> var)) core_result" where
  "as_string_mut v = (case v of VString x \<Rightarrow> Ok (x, VString) | _ \<Rightarrow> Err (type_error ''string'' v))"

definition is_int :: "var \<Rightarrow> bool" where
  "is_int v = (case v of VInt _ \<Rightarrow> True | _ \<Rightarrow> False)"

definition as_int :: "var \<Rightarrow> (32 word) core_result" where
  "as_int v = (case v of VInt x \<Rightarrow> Ok x | _ \<Rightarrow> Err (type_error ''int'' v))"

definition as_int_mut :: "var \<Rightarrow> (32 word \<times> (32 word \<Rightarrow> var)) core_result" where
  "as_int_mut v = (case v of VInt x \<Rightarrow> Ok (x, VInt) | _ \<Rightarrow> Err (type_error ''int'' v))"

definition is_float :: "var \<Rightarrow> bool" where
  "is_float v = (case v of VFloat _ \<Rightarrow> True | _ \<Rightarrow> False)"

definition as_float :: "var \<Rightarrow> f32 core_result" where
  "as_float v = (case v of VFloat x \<Rightarrow> Ok x | _ \<Rightarrow> Err (type_error ''float'' v))"

definition as_float_mut :: "var \<Rightarrow> (f32 \<times> (f32 \<Rightarrow> var)) core_result" where
  "as_float_mut v = (case v of VFloat x \<Rightarrow> Ok (x, VFloat) | _ \<Rightarrow> Err (type_error ''float'' v))"

definition is_bool :: "var \<Rightarrow> bool" where
  "is_bool v = (case v of VBool _ \<Rightarrow> True | _ \<Rightarrow> False)"

definition as_bool :: "var \<Rightarrow> bool core_result" where
  "as_bool v = (case v of VBool x \<Rightarrow> Ok x | _ \<Rightarrow> Err (type_error ''bool'' v))"

definition as_bool_mut :: "var \<Rightarrow> (bool \<times> (bool \<Rightarrow> var)) core_result" where
  "as_bool_mut v = (case v of VBool x \<Rightarrow> Ok (x, VBool) | _ \<Rightarrow> Err (type_error ''bool'' v))"

definition as_list :: "var \<Rightarrow> (var list) core_result" where
  "as_list v = (case v of VList x \<Rightarrow> Ok x | _ \<Rightarrow> Panic)"

definition as_list_mut :: "var \<Rightarrow> (var list \<times> (var list \<Rightarrow> var)) core_result" where
  "as_list_mut v = (case v of VList x \<Rightarrow> Ok (x, VList) | _ \<Rightarrow> Panic)"

definition as_grid :: "var \<Rightarrow> (var list list) core_result" where
  "as_grid v = (case v of VGrid x \<Rightarrow> Ok x | _ \<Rightarrow> Panic)"

definition as_grid_mut :: "var \<Rightarrow> (var list list \<times> (var list list \<Rightarrow> var)) core_result" where
  "as_grid_mut v = (case v of VGrid x \<Rightarrow> Ok (x, VGrid) | _ \<Rightarrow> Panic)"

definition as_str_list :: "var \<Rightarrow> (string list) core_result" where
  "as_str_list v =
    (case v of VList vs \<Rightarrow> res_map (\<lambda>x. unwrap (as_string x)) vs
     | _ \<Rightarrow> Err (type_error ''string list'' v))"

definition as_str_list_mut :: "var \<Rightarrow> (string list \<times> (string list \<Rightarrow> var)) core_result" where
  "as_str_list_mut v =
    (case v of VList vs \<Rightarrow>
       map_ok (\<lambda>rs. (map fst rs, \<lambda>xs. VList (map (\<lambda>(r, x). snd r x) (zip rs xs))))
         (res_map (\<lambda>x. unwrap (as_string_mut x)) vs)
     | _ \<Rightarrow> Err (type_error ''string list'' v))"

definition as_int_list :: "var \<Rightarrow> (32 word list) core_result" where
  "as_int_list v =
    (case v of VList vs \<Rightarrow> res_map (\<lambda>x. unwrap (as_int x)) vs
     | _ \<Rightarrow> Err (type_error ''int list'' v))"

definition as_int_list_mut :: "var \<Rightarrow> (32 word list \<times> (32 word list \<Rightarrow> var)) core_result" where
  "as_int_list_mut v =
    (case v of VList vs \<Rightarrow>
       map_ok (\<lambda>rs. (map fst rs, \<lambda>xs. VList (map (\<lambda>(r, x). snd r x) (zip rs xs))))
         (res_map (\<lambda>x. unwrap (as_int_mut x)) vs)
     | _ \<Rightarrow> Err (type_error ''int list'' v))"

definition as_float_list :: "var \<Rightarrow> (f32 list) core_result" where
  "as_float_list v =
    (case v of VList vs \<Rightarrow> res_map (\<lambda>x. unwrap (as_float x)) vs
     | _ \<Rightarrow> Err (type_error ''float list'' v))"

definition as_float_list_mut :: "var \<Rightarrow> (f32 list \<times> (f32 list \<Rightarrow> var)) core_result" where
  "as_float_list_mut v =
    (case v of VList vs \<Rightarrow>
       map_ok (\<lambda>rs. (map fst rs, \<lambda>xs. VList (map (\<lambda>(r, x). snd r x) (zip rs xs))))
         (res_map (\<lambda>x. unwrap (as_float_mut x)) vs)
     | _ \<Rightarrow> Err (type_error ''float list'' v))"

definition as_bool_list :: "var \<Rightarrow> (bool list) core_result" where
  "as_bool_list v =
    (case v of VList vs \<Rightarrow> res_map (\<lambda>x. unwrap (as_bool x)) vs
     | _ \<Rightarrow> Err (type_error ''bool list'' v))"

definition as_bool_list_mut :: "var \<Rightarrow> (bool list \<times> (bool list \<Rightarrow> var)) core_result" where
  "as_bool_list_mut v =
    (case v of VList vs \<Rightarrow>
       map_ok (\<lambda>rs. (map fst rs, \<lambda>xs. VList (map (\<lambda>(r, x). snd r x) (zip rs xs))))
         (res_map (\<lambda>x. unwrap (as_bool_mut x)) vs)
     | _ \<Rightarrow> Err (type_error ''bool list'' v))"

definition as_string_grid :: "var \<Rightarrow> (string list list) core_result" where
  "as_string_grid v =
    (case v of VGrid rows \<Rightarrow> res_map (res_map (\<lambda>x. unwrap (as_string x))) rows
     | _ \<Rightarrow> Err (type_error ''string grid'' v))"

definition as_string_grid_mut ::
  "var \<Rightarrow> (string list list \<times> (string list list \<Rightarrow> var)) core_result" where
  "as_string_grid_mut v =
    (case v of VGrid rows \<Rightarrow>
       map_ok (\<lambda>rss. (map (map fst) rss,
                    \<lambda>xss. VGrid (map (\<lambda>(rs, xs). map (\<lambda>(r, x). snd r x) (zip rs xs)) (zip rss xss))))
         (res_map (res_map (\<lambda>x. unwrap (as_string_mut x))) rows)
     | _ \<Rightarrow> Err (type_error ''string grid'' v))"

definition is_string_grid :: "var \<Rightarrow> bool" where
  "is_string_grid v = (get_type v = TStringGrid)"

definition as_int_grid :: "var \<Rightarrow> (32 word list list) core_result" where
  "as_int_grid v =
    (case v of VGrid rows \<Rightarrow> res_map (res_map (\<lambda>x. unwrap (as_int x))) rows
     | _ \<Rightarrow> Err (type_error ''int grid'' v))"

definition as_int_grid_mut ::
  "var \<Rightarrow> (32 word list list \<times> (32 word list list \<Rightarrow> var)) core_result" where
  "as_int_grid_mut v =
    (case v of VGrid rows \<Rightarrow>
       map_ok (\<lambda>rss. (map (map fst) rss,
                    \<lambda>xss. VGrid (map (\<lambda>(rs, xs). map (\<lambda>(r, x). snd r x) (zip rs xs)) (zip rss xss))))
         (res_map (res_map (\<lambda>x. unwrap (as_int_mut x))) rows)
     | _ \<Rightarrow> Err (type_error ''int grid'' v))"

definition is_int_grid :: "var \<Rightarrow> bool" where
  "is_int_grid v = (get_type v = TIntGrid)"

definition as_float_grid :: "var \<Rightarrow> (f32 list list) core_result" where
  "as_float_grid v =
    (case v of VGrid rows \<Rightarrow> res_map (res_map (\<lambda>x. unwrap (as_float x))) rows
     | _ \<Rightarrow> Err (type_error ''float grid'' v))"

definition as_float_grid_mut ::
  "var \<Rightarrow> (f32 list list \<times> (f32 list list \<Rightarrow> var)) core_result" where
  "as_float_grid_mut v =
    (case v of VGrid rows \<Rightarrow>
       map_ok (\<lambda>rss. (map (map fst) rss,
                    \<lambda>xss. VGrid (map (\<lambda>(rs, xs). map (\<lambda>(r, x). snd r x) (zip rs xs)) (zip rss xss))))
         (res_map (res_map (\<lambda>x. unwrap (as_float_mut x))) rows)
     | _ \<Rightarrow> Err (type_error ''float grid'' v))"

definition is_float_grid :: "var \<Rightarrow> bool" where
  "is_float_grid v = (get_type v = TFloatGrid)"

definition as_bool_grid :: "var \<Rightarrow> (bool list list) core_result" where
  "as_bool_grid v =
    (case v of VGrid rows \<Rightarrow> res_map (res_map (\<lambda>x. unwrap (as_bool x))) rows
     | _ \<Rightarrow> Err (type_error ''bool grid'' v))"

definition as_bool_grid_mut ::
  "var \<Rightarrow> (bool list list \<times> (bool list list \<Rightarrow> var)) core_result" where
  "as_bool_grid_mut v =
    (case v of VGrid rows \<Rightarrow>
       map_ok (\<lambda>rss. (map (map fst) rss,
                    \<lambda>xss. VGrid (map (\<lambda>(rs, xs). map (\<lambda>(r, x). snd r x) (zip rs xs)) (zip rss xss))))
         (res_map (res_map (\<lambda>x. unwrap (as_bool_mut x))) rows)
     | _ \<Rightarrow> Err (type_error ''bool grid'' v))"

definition is_bool_grid :: "var \<Rightarrow> bool" where
  "is_bool_grid v = (get_type v = TBoolGrid)"

section \<open>Parsing\<close>

text \<open>\<open>str::parse\<close> at the four scalar types, with the error \<open>?\<close> converts to.\<close>

definition parse_i32 :: "string \<Rightarrow> (int_error, 32 word) result" where
  "parse_i32 s = map_ok word_of_int (parse_int (-2147483648) 2147483647 s)"

definition parse_u8 :: "string \<Rightarrow> (int_error, 8 word) result" where
  "parse_u8 s = map_ok word_of_int (parse_int 0 255 s)"

definition parse_bool :: "string \<Rightarrow> bool core_result" where
  "parse_bool s =
    (if s = ''true'' then Ok True else if s = ''false'' then Ok False
     else Err (ParseBoolError (''provided string was not `true` or `false`'')))"

definition parse_float :: "string \<Rightarrow> f32 core_result" where
  "parse_float s = map_err (\<lambda>e. ParseFloatError
     (case e of FEmpty \<Rightarrow> ''cannot parse float from empty string'' | FInvalid \<Rightarrow> ''invalid float literal''))
     (parse_f32 s)"

definition list_item_from_str :: "var_type \<Rightarrow> string \<Rightarrow> var core_result" where
  "list_item_from_str t s =
    (case t of
       TStringList \<Rightarrow> Ok (VString s)
     | TIntList \<Rightarrow> map_ok VInt (map_err error_of_int_error (parse_i32 s))
     | TFloatList \<Rightarrow> map_ok VFloat (parse_float s)
     | TBoolList \<Rightarrow> map_ok VBool (parse_bool s)
     | TByteList \<Rightarrow> map_ok VByte (map_err error_of_int_error (parse_u8 s))
     | _ \<Rightarrow> Panic)"

definition list_from_str :: "string \<Rightarrow> var_type \<Rightarrow> var core_result" where
  "list_from_str s t = map_ok VList (res_map (list_item_from_str t) (split_on CHR '','' s))"

definition is_list_type :: "var_type \<Rightarrow> bool" where
  "is_list_type t \<longleftrightarrow>
    t \<in> {TStringList, TIntList, TFloatList, TBoolList, TByteList, TVec2List, TVec3List, TList}"

definition var_from_str :: "string \<Rightarrow> var_type option \<Rightarrow> var core_result" where
  "var_from_str s target =
    (case target of
       Some t \<Rightarrow>
         if t = TString then Ok (VString s)
         else if t = TInt then map_ok VInt (map_err error_of_int_error (parse_i32 s))
         else if t = TFloat then map_ok VFloat (parse_float s)
         else if t = TBool then map_ok VBool (parse_bool s)
         else if t = TByte then map_ok VByte (map_err error_of_int_error (parse_u8 s))
         else if t = TVec2 then
           (case split_on CHR '','' s of
              [a, b] \<Rightarrow> res_bind (parse_float a) (\<lambda>x. res_bind (parse_float b) (\<lambda>y. Ok (VVec2 x y)))
            | _ \<Rightarrow> Err (FailedCreatingVar s))
         else if t = TVec3 then
           (case split_on CHR '','' s of
              [a, b, c] \<Rightarrow> res_bind (parse_float a) (\<lambda>x. res_bind (parse_float b)
                (\<lambda>y. res_bind (parse_float c) (\<lambda>z. Ok (VVec3 x y z))))
            | _ \<Rightarrow> Err (FailedCreatingVar s))
         else if is_list_type t then list_from_str s t
         else Panic
     | None \<Rightarrow>
         if prefix [CHR 0x22] s then
           (if suffix [CHR 0x22] s then Ok (VString s)
            else Err (Other (''Starts with a `'' @ [CHR 0x22] @ ''` but does not end with one'')))
         else if s = ''true'' \<or> s = ''false'' then map_ok VBool (unwrap (parse_bool s))
         else (case parse_i32 s of
                 Ok i \<Rightarrow> Ok (VInt i) | Err _ \<Rightarrow> Ok (VString s) | Panic \<Rightarrow> Panic))"

definition json_f64 :: "'n number_ops \<Rightarrow> 'n json list \<Rightarrow> nat \<Rightarrow> f32" where
  "json_f64 nops vs i =
    (if i < length vs
     then (case vs ! i of JNumber n \<Rightarrow> (case as_f64 nops n of Some x \<Rightarrow> x | None \<Rightarrow> 0) | _ \<Rightarrow> 0)
     else 0)"

fun var_from_serde ::
  "'n number_ops \<Rightarrow> short_local_address option \<Rightarrow> 'n json \<Rightarrow> var core_result" where
  "var_from_serde nops addr JNull = Ok (VInt 0)"
| "var_from_serde nops addr (JBool b) = Ok (VBool b)"
| "var_from_serde nops addr (JNumber n) =
    (if is_f64 nops n then map_ok VFloat (expect (as_f64 nops n))
     else map_ok (VInt \<circ> word_of_int) (expect (as_i64 nops n)))"
| "var_from_serde nops addr (JString s) = Ok (VString s)"
| "var_from_serde nops addr (JArray vs) =
    (if map_option s_type addr = Some TVec2 then Ok (VVec2 (json_f64 nops vs 0) (json_f64 nops vs 1))
     else if map_option s_type addr = Some TVec3 then Panic
     else map_ok VList (res_map (var_from_serde nops None) vs))"
| "var_from_serde nops addr (JObject m) =
    map_ok (VMap \<circ> btree_of)
      (res_map (\<lambda>(k, v). map_ok (\<lambda>x. (k, x)) (var_from_serde nops None v)) m)"

section \<open>Properties\<close>

text \<open>The types whose name parses back.\<close>

definition named_type :: "var_type \<Rightarrow> bool" where
  "named_type t \<longleftrightarrow> t \<notin> {TList, TGrid, TStringGrid}"

lemmas var_type_str_simps = var_type_from_str_def list_elem_type_def grid_elem_type_def

lemma var_type_from_to_str:
  "var_type_from_str (var_type_to_str t) = (if named_type t then Ok t else Panic)"
  by (cases t) (simp_all add: var_type_str_simps named_type_def)

interpretation type_codec: text_codec var_type_to_str var_type_from_str named_type
  by unfold_locales (simp add: var_type_from_to_str)

lemma var_type_from_str_not_generic:
  "var_type_from_str s = Ok t \<Longrightarrow> t \<noteq> TList \<and> t \<noteq> TGrid"
  by (auto simp: var_type_str_simps split: if_splits list.splits)

lemma var_type_to_str_no_dot: "CHR ''.'' \<notin> set (var_type_to_str t)"
  by (cases t) simp_all

lemma parse_show_i32: "parse_i32 (show_int (sint i)) = Ok i"
proof -
  have "- 2147483648 \<le> sint i" "sint i \<le> 2147483647"
    using sint_ge [of i] sint_lt [of i] by simp_all
  then show ?thesis by (simp add: parse_i32_def parse_show_int)
qed

lemma parse_show_u8: "parse_u8 (show_int (uint b)) = Ok b"
proof -
  have "uint b < 256" "0 \<le> uint b" using uint_lt2p [of b] by simp_all
  then show ?thesis by (simp add: parse_u8_def parse_show_nonneg)
qed

lemma parse_show_bool: "parse_bool (show_bool b) = Ok b"
  by (simp add: parse_bool_def show_bool_def)

lemma list_item_type:
  "list_item_from_str t s = Ok v \<Longrightarrow> is_list_type t \<and> list_type_of (get_type v) = t"
  by (cases t) (auto simp: list_item_from_str_def is_list_type_def)

lemma list_from_str_type: "list_from_str s t = Ok v \<Longrightarrow> get_type v = t"
proof -
  assume "list_from_str s t = Ok v"
  then obtain vs where v: "v = VList vs" "res_map (list_item_from_str t) (split_on CHR '','' s) = Ok vs"
    by (auto simp: list_from_str_def)
  obtain p ps where "split_on CHR '','' s = p # ps" by (cases "split_on CHR '','' s") auto
  with v obtain w ws where "vs = w # ws" "list_item_from_str t p = Ok w"
    by (auto simp: result_simps)
  with v(1) list_item_type show ?thesis by auto
qed

text \<open>The name of a variable type parses back to the type, except that \<open>list\<close>, \<open>grid\<close> and
  \<open>grid_str\<close>, which \<open>to_str\<close> produces, make \<open>from_str\<close> panic.\<close>

lemma var_type_str_roundtrip:
  "var_type_from_str (var_type_to_str t) = (if t \<in> {TList, TGrid, TStringGrid} then Panic else Ok t)"
  by (simp add: var_type_from_to_str named_type_def)

lemma get_type_var_from_str: "var_from_str s (Some t) = Ok v \<Longrightarrow> get_type v = t"
  by (auto simp: var_from_str_def result_simps list_from_str_type split: if_splits list.splits)

text \<open>C33: a string parsed at a target type gives a value of exactly that type.\<close>

theorem var_from_str_type: "var_from_str s (Some t) = Ok v \<Longrightarrow> get_type v = t"
  by (rule get_type_var_from_str)

theorem var_from_str_type_witness:
  "\<exists>v. var_from_str ''7,-8'' (Some TIntList) = Ok v \<and> get_type v = TIntList"
proof -
  have "var_from_str ''7,-8'' (Some TIntList) = Ok (VList [VInt 7, VInt (-8)])" by code_simp
  with var_from_str_type [OF this] show ?thesis by blast
qed

text \<open>C32: the text of a string, integer, boolean or byte parses back to the value.\<close>

theorem var_text_roundtrip:
  "get_type v \<in> {TString, TInt, TBool, TByte}
    \<Longrightarrow> var_from_str (var_to_string uesc v) (Some (get_type v)) = Ok v"
  by (cases v rule: get_type.cases)
    (auto simp: var_from_str_def parse_show_i32 parse_show_u8 parse_show_bool
       elim: list_type_of.elims grid_type_of.elims)

theorem var_text_roundtrip_witness:
  "var_from_str (var_to_string (\<lambda>_. False) (VInt (-12))) (Some TInt) = Ok (VInt (-12))"
  using var_text_roundtrip [of "VInt (-12)" "\<lambda>_. False"] by simp

text \<open>\<open>set_coerce\<close> writes the other value coerced to the type of the target; for a
  string, integer, float or boolean target it succeeds and keeps the type, for every other
  target it panics.\<close>

lemma set_coerce_spec:
  "set_coerce uesc v w = coerce uesc w (get_type v)
   \<and> (case set_coerce uesc v w of
        Ok r \<Rightarrow> get_type r = get_type v \<and> get_type v \<in> {TString, TInt, TFloat, TBool}
      | Err _ \<Rightarrow> False
      | Panic \<Rightarrow> get_type v \<notin> {TString, TInt, TFloat, TBool})"
  by (cases v rule: get_type.cases)
    (auto simp: set_coerce_def coerce_def split: var_type.split elim!: list_type_of.elims grid_type_of.elims)

text \<open>An integer below \<open>2 ^ 24\<close> in absolute value survives the conversion to a
  float and back.\<close>

lemma int_float_roundtrip:
  "\<bar>sint i\<bar> < 2 ^ 24 \<Longrightarrow> var_to_int (VFloat (var_to_float (VInt i))) = i"
  by (simp add: f32_as_int_def f32_to_i32_of_int)

end
