(* ===== verification/Addresses.thy ===== *)
theory Addresses
  imports Vars
begin

text \<open>
  References to simulation data, from src/bigworlds/src/address.rs: parsing, printing and the
  conversions between the four kinds of address and the index of an entity's storage.
\<close>

record local_address =
  la_comp :: string
  la_type :: var_type
  la_var :: string

record partial_address =
  p_entity :: "string option"
  p_component :: "string option"
  p_var :: string

section \<open>Short local addresses\<close>

definition short_local_address_from_str :: "string \<Rightarrow> short_local_address core_result" where
  "short_local_address_from_str s =
    (case split_on CHR ''.'' s of
       [t, v] \<Rightarrow> res_bind (var_type_from_str t)
         (\<lambda>ty. Ok \<lparr> s_comp = None, s_type = ty, s_var = v \<rparr>)
     | [c, t, v] \<Rightarrow> res_bind (var_type_from_str t)
         (\<lambda>ty. Ok \<lparr> s_comp = Some c, s_type = ty, s_var = v \<rparr>)
     | _ \<Rightarrow> Err (InvalidLocalAddress s))"

definition from_str_with_type :: "string \<Rightarrow> var_type \<Rightarrow> short_local_address core_result" where
  "from_str_with_type s ty =
    (if length (split_on CHR ''.'' s) = 1
     then Ok \<lparr> s_comp = None, s_type = ty, s_var = s \<rparr>
     else Err (InvalidData []))"

text \<open>The component the caller names takes precedence over the one in the address.\<close>

definition into_local_address ::
  "short_local_address \<Rightarrow> string option \<Rightarrow> local_address core_result" where
  "into_local_address a component =
    (case s_comp a of
       Some c \<Rightarrow> (case component of
           Some c' \<Rightarrow> Ok \<lparr> la_comp = c', la_type = s_type a, la_var = s_var a \<rparr>
         | None \<Rightarrow> Ok \<lparr> la_comp = c, la_type = s_type a, la_var = s_var a \<rparr>)
     | None \<Rightarrow> (case component of
           Some c' \<Rightarrow> Ok \<lparr> la_comp = c', la_type = s_type a, la_var = s_var a \<rparr>
         | None \<Rightarrow> Err (Other ''failed making into local address, missing comp name'')))"

definition into_address :: "short_local_address \<Rightarrow> string \<Rightarrow> string \<Rightarrow> address core_result" where
  "into_address a entity c =
    Ok \<lparr> a_entity = entity, a_comp = c, a_type = s_type a, a_var = s_var a \<rparr>"

definition as_storage_index :: "short_local_address \<Rightarrow> string option \<Rightarrow> storage_index core_result" where
  "as_storage_index a comp_id =
    (case comp_id of
       Some c \<Rightarrow> Ok (c, s_var a)
     | None \<Rightarrow> (case s_comp a of
           Some c \<Rightarrow> Ok (c, s_var a)
         | None \<Rightarrow> Err (Other
             ''failed making storage index, short local address missing component name'')))"

definition short_storage_index_using :: "short_local_address \<Rightarrow> string \<Rightarrow> storage_index" where
  "short_storage_index_using a comp_id = (comp_id, s_var a)"

definition short_local_address_to_string :: "short_local_address \<Rightarrow> string" where
  "short_local_address_to_string a =
    (case s_comp a of
       Some c \<Rightarrow> c @ ''.'' @ var_type_to_str (s_type a) @ ''.'' @ s_var a
     | None \<Rightarrow> var_type_to_str (s_type a) @ ''.'' @ s_var a)"

section \<open>Local addresses\<close>

definition local_address_from_str :: "string \<Rightarrow> local_address core_result" where
  "local_address_from_str s =
    (case split_on CHR ''.'' s of
       [c, t, v] \<Rightarrow> res_bind (var_type_from_str t)
         (\<lambda>ty. Ok \<lparr> la_comp = c, la_type = ty, la_var = v \<rparr>)
     | _ \<Rightarrow> Err (InvalidLocalAddress s))"

definition into_storage_index :: "local_address \<Rightarrow> storage_index" where
  "into_storage_index a = (la_comp a, la_var a)"

definition local_as_storage_index :: "local_address \<Rightarrow> storage_index" where
  "local_as_storage_index a = (la_comp a, la_var a)"

definition local_storage_index_using :: "local_address \<Rightarrow> string \<Rightarrow> storage_index" where
  "local_storage_index_using a comp_id = (comp_id, la_var a)"

definition local_address_to_string :: "local_address \<Rightarrow> string" where
  "local_address_to_string a =
    la_comp a @ ''.'' @ var_type_to_str (la_type a) @ ''.'' @ la_var a"

section \<open>Global and partial addresses\<close>

definition address_from_str :: "string \<Rightarrow> address core_result" where
  "address_from_str s =
    (let split = split_on CHR ''.'' s in
     if length split \<noteq> 4 then Err (FailedCreatingAddress s)
     else res_bind (var_type_from_str (split ! 2))
       (\<lambda>ty. Ok \<lparr> a_entity = split ! 0, a_comp = split ! 1, a_type = ty, a_var = split ! 3 \<rparr>))"

definition address_storage_index :: "address \<Rightarrow> storage_index" where
  "address_storage_index a = (a_comp a, a_var a)"

definition to_local :: "address \<Rightarrow> local_address" where
  "to_local a = \<lparr> la_comp = a_comp a, la_type = a_type a, la_var = a_var a \<rparr>"

definition address_from_local :: "local_address \<Rightarrow> string \<Rightarrow> address" where
  "address_from_local l entity =
    \<lparr> a_entity = entity, a_comp = la_comp l, a_type = la_type l, a_var = la_var l \<rparr>"

definition partial_address_from_str :: "string \<Rightarrow> partial_address core_result" where
  "partial_address_from_str s =
    (case split_on CHR ''.'' s of
       [v] \<Rightarrow> Ok \<lparr> p_entity = None, p_component = None, p_var = v \<rparr>
     | [c, v] \<Rightarrow> Ok \<lparr> p_entity = None, p_component = Some c, p_var = v \<rparr>
     | [e, c, v] \<Rightarrow> Ok \<lparr> p_entity = Some e, p_component = Some c, p_var = v \<rparr>
     | _ \<Rightarrow> Err (FailedCreatingAddress s))"

definition partial_storage_index_using :: "partial_address \<Rightarrow> string \<Rightarrow> storage_index" where
  "partial_storage_index_using a comp_id = (comp_id, p_var a)"

section \<open>Round trips\<close>

text \<open>A printable address: no separator inside a part, and a type whose name parses back.\<close>

definition dotless :: "string \<Rightarrow> bool" where
  "dotless s \<longleftrightarrow> CHR ''.'' \<notin> set s"

definition address_ok :: "address \<Rightarrow> bool" where
  "address_ok a \<longleftrightarrow> dotless (a_entity a) \<and> dotless (a_comp a) \<and> dotless (a_var a) \<and> named_type (a_type a)"

definition local_address_ok :: "local_address \<Rightarrow> bool" where
  "local_address_ok a \<longleftrightarrow> dotless (la_comp a) \<and> dotless (la_var a) \<and> named_type (la_type a)"

definition short_local_address_ok :: "short_local_address \<Rightarrow> bool" where
  "short_local_address_ok a \<longleftrightarrow>
    (\<forall>c \<in> set_option (s_comp a). dotless c) \<and> dotless (s_var a) \<and> named_type (s_type a)"

lemmas split_dot_simps =
  split_on_first split_on_none var_type_to_str_no_dot dotless_def

lemma address_from_to_string: "address_ok a \<Longrightarrow> address_from_str (address_to_string a) = Ok a"
  by (cases a) (simp add: address_ok_def address_from_str_def address_to_string_def
    split_dot_simps var_type_from_to_str)

lemma local_address_from_to_string:
  "local_address_ok a \<Longrightarrow> local_address_from_str (local_address_to_string a) = Ok a"
  by (cases a) (simp add: local_address_ok_def local_address_from_str_def local_address_to_string_def
    split_dot_simps var_type_from_to_str)

lemma short_local_address_from_to_string:
  "short_local_address_ok a \<Longrightarrow> short_local_address_from_str (short_local_address_to_string a) = Ok a"
  by (cases a) (auto simp: short_local_address_ok_def short_local_address_from_str_def
    short_local_address_to_string_def split_dot_simps var_type_from_to_str split: option.splits)

interpretation addr_codec: text_codec address_to_string address_from_str address_ok
  by unfold_locales (rule address_from_to_string)

interpretation local_codec: text_codec local_address_to_string local_address_from_str local_address_ok
  by unfold_locales (rule local_address_from_to_string)

interpretation short_codec: text_codec
  short_local_address_to_string short_local_address_from_str short_local_address_ok
  by unfold_locales (rule short_local_address_from_to_string)

lemma address_from_str_parts:
  "address_from_str s = Ok a \<Longrightarrow>
    dotless (a_entity a) \<and> dotless (a_comp a) \<and> dotless (a_var a)
    \<and> (\<exists>t. s = a_entity a @ ''.'' @ a_comp a @ ''.'' @ t @ ''.'' @ a_var a
           \<and> var_type_from_str t = Ok (a_type a))"
proof -
  assume "address_from_str s = Ok a"
  then obtain ty where sp: "length (split_on CHR ''.'' s) = 4"
    "var_type_from_str (split_on CHR ''.'' s ! 2) = Ok ty"
    "a = \<lparr> a_entity = split_on CHR ''.'' s ! 0, a_comp = split_on CHR ''.'' s ! 1,
           a_type = ty, a_var = split_on CHR ''.'' s ! 3 \<rparr>"
    by (auto simp: address_from_str_def Let_def result_simps split: if_splits)
  then obtain e c t v where s: "split_on CHR ''.'' s = [e, c, t, v]"
    by (auto simp: length_Suc_conv eval_nat_numeral)
  have "\<forall>p \<in> set [e, c, t, v]. dotless p"
    using split_on_parts [of _ "CHR ''.''" s] by (auto simp: s dotless_def)
  with sp s join_split [of "CHR ''.''" s] show ?thesis by auto
qed

text \<open>C35: an address whose parts have no separator and whose type has a parsable name is printed to
  a string that parses back to it, and two such addresses print alike only if they are equal.\<close>

theorem address_roundtrip:
  "\<lbrakk> address_ok a; address_ok b \<rbrakk> \<Longrightarrow>
    address_from_str (address_to_string a) = Ok a
    \<and> (address_to_string a = address_to_string b \<longleftrightarrow> a = b)"
  by (simp add: addr_codec.parse_print addr_codec.print_inject)

theorem address_roundtrip_witness:
  "address_from_str (address_to_string
     \<lparr> a_entity = ''ent'', a_comp = ''c'', a_type = TIntList, a_var = ''x'' \<rparr>)
   = Ok \<lparr> a_entity = ''ent'', a_comp = ''c'', a_type = TIntList, a_var = ''x'' \<rparr>"
  using address_roundtrip [of "\<lparr> a_entity = ''ent'', a_comp = ''c'', a_type = TIntList, a_var = ''x'' \<rparr>"
      "\<lparr> a_entity = ''ent'', a_comp = ''c'', a_type = TIntList, a_var = ''x'' \<rparr>"]
  by (simp add: address_ok_def dotless_def named_type_def)

text \<open>Parsing accepts exactly four separator-free parts with a valid third one; printing what was parsed
  gives the original up to the spelling of the type, and parses to the same address unless the
  type is the grid of strings, whose printed name is not accepted.\<close>

lemma address_reparse:
  assumes "address_from_str s = Ok a"
  shows "(\<exists>t. s = a_entity a @ ''.'' @ a_comp a @ ''.'' @ t @ ''.'' @ a_var a
              \<and> var_type_from_str t = Ok (a_type a))
    \<and> address_from_str (address_to_string a) = (if a_type a = TStringGrid then Panic else Ok a)"
proof -
  note parts = address_from_str_parts [OF assms]
  then have "a_type a \<noteq> TList" "a_type a \<noteq> TGrid" using var_type_from_str_not_generic by blast+
  with parts show ?thesis
    by (cases a) (auto simp: address_from_str_def address_to_string_def split_dot_simps
      var_type_from_to_str named_type_def)
qed

text \<open>An address splits into its entity and a local address without loss, and every way of indexing
  the storage with it gives the same component and variable.\<close>

lemma address_local:
  "address_from_local (to_local a) (a_entity a) = a
   \<and> to_local (address_from_local l e) = l
   \<and> address_storage_index a = into_storage_index (to_local a)
   \<and> into_local_address (\<lparr> s_comp = oc, s_type = a_type a, s_var = a_var a \<rparr>) (Some (a_comp a)) = Ok (to_local a)
   \<and> as_storage_index (\<lparr> s_comp = Some (a_comp a), s_type = a_type a, s_var = a_var a \<rparr>) None
       = Ok (address_storage_index a)"
  by (cases a; cases l) (simp add: address_from_local_def to_local_def address_storage_index_def
    into_storage_index_def into_local_address_def as_storage_index_def split: option.splits)

end
