(* ===== verification/Models.thy ===== *)
theory Models
  imports Addresses
begin

text \<open>
  The simulation model, from src/bigworlds/src/model/mod.rs and the types of
  src/bigworlds/src/model/behavior.rs.  The type parameter \<open>'l\<close> is the logic of a
  machine behavior.  Lookups return the first match of a list, as \<open>iter().find\<close>.
\<close>

section \<open>Data\<close>

record scenario =
  sc_name :: string

record entity_model =
  em_name :: string
  em_prefab :: "string option"
  em_data :: "(local_address, var) kv"

record event_model =
  ev_id :: string

record prefab_model =
  pf_name :: string
  pf_components :: "string list"

record var_model =
  vm_name :: string
  vm_type :: var_type
  vm_default :: "var option"

record component_model =
  cm_name :: string
  cm_vars :: "var_model list"

record service_model =
  sv_name :: string
  sv_type :: "string option"
  sv_type_args :: "string option"
  sv_executable :: "string option"
  sv_project :: "string option"
  sv_managed :: bool
  sv_args :: "string list"
  sv_output :: "string option"

datatype data_entry =
    DSimple string string | DList string "string list" | DGrid string "string list list"

datatype data_file_entry =
    FJson string | FJsonList string | FJsonGrid string | FYaml string | FYamlList string
  | FYamlGrid string | FCsvList string | FCsvGrid string

datatype instancing_target =
    GlobalSingleton | PerWorker | PerEntityWithAllComponents "string list"
  | PerEntityWithAnyComponent "string list" | PerEntityWithAllVars "string list"

type_synonym artifact = "8 word list"

datatype 'l behavior_inner =
    BMachine string 'l
  | BLua bool string
  | BDynlib artifact string bool bool
  | BWasm artifact bool bool

record 'l behavior =
  bh_name :: string
  bh_triggers :: "string list"
  bh_targets :: "instancing_target list"
  bh_tracing :: string
  bh_inner :: "'l behavior_inner"

record 'l model =
  md_scenarios :: "scenario list"
  md_events :: "event_model list"
  md_prefabs :: "prefab_model list"
  md_components :: "component_model list"
  md_behaviors :: "'l behavior list"
  md_data :: "data_entry list"
  md_data_files :: "data_file_entry list"
  md_services :: "service_model list"
  md_entities :: "entity_model list"

definition default_model :: "'l model" where
  "default_model =
    \<lparr> md_scenarios = [], md_events = [], md_prefabs = [], md_components = [], md_behaviors = [],
      md_data = [], md_data_files = [], md_services = [], md_entities = [] \<rparr>"

section \<open>Lookup and merge\<close>

definition get_prefab :: "'l model \<Rightarrow> string \<Rightarrow> prefab_model option" where
  "get_prefab m name = find (\<lambda>p. pf_name p = name) (md_prefabs m)"

definition get_component :: "'l model \<Rightarrow> string \<Rightarrow> component_model core_result" where
  "get_component m name =
    ok_or (NoComponentModel name) (find (\<lambda>c. cm_name c = name) (md_components m))"

text \<open>The mutable lookups: the entry with the function that replaces it.\<close>

fun find_update :: "('a \<Rightarrow> bool) \<Rightarrow> 'a list \<Rightarrow> ('a \<times> ('a \<Rightarrow> 'a list)) option" where
  "find_update P [] = None"
| "find_update P (x # xs) =
    (if P x then Some (x, \<lambda>y. y # xs)
     else map_option (\<lambda>(z, f). (z, \<lambda>y. x # f y)) (find_update P xs))"

definition get_entity_mut ::
  "'l model \<Rightarrow> string \<Rightarrow> (prefab_model \<times> (prefab_model \<Rightarrow> 'l model)) option" where
  "get_entity_mut m name =
    map_option (\<lambda>(p, f). (p, \<lambda>q. m\<lparr> md_prefabs := f q \<rparr>))
      (find_update (\<lambda>p. pf_name p = name) (md_prefabs m))"

definition get_component_mut ::
  "'l model \<Rightarrow> string \<Rightarrow> (component_model \<times> (component_model \<Rightarrow> 'l model)) option" where
  "get_component_mut m name =
    map_option (\<lambda>(c, f). (c, \<lambda>d. m\<lparr> md_components := f d \<rparr>))
      (find_update (\<lambda>c. cm_name c = name) (md_components m))"

text \<open>A prefab of the other model is pushed only when its name is not taken yet.\<close>

definition merge_prefab :: "prefab_model list \<Rightarrow> prefab_model \<Rightarrow> prefab_model list" where
  "merge_prefab ps p =
    (if find (\<lambda>q. pf_name q = pf_name p) ps = None then ps @ [p] else ps)"

definition model_merge :: "'l model \<Rightarrow> 'l model \<Rightarrow> 'l model core_result" where
  "model_merge self other = Ok
    (self\<lparr> md_events := md_events self @ md_events other,
          md_prefabs := foldl merge_prefab (md_prefabs self) (md_prefabs other),
          md_components := md_components self @ md_components other,
          md_data := md_data self @ md_data other,
          md_data_files := md_data_files self @ md_data_files other,
          md_services := md_services self @ md_services other,
          md_entities := md_entities self @ md_entities other \<rparr>)"

section \<open>Variables of a component\<close>

text \<open>
  \<open>Var::new\<close>: the key is an address; a key of one part takes the type of its JSON value.
  Both alternatives of \<open>or\<close> are evaluated, so a panic of either is a panic.
\<close>

definition result_or :: "('e, 'a) result \<Rightarrow> ('e, 'a) result \<Rightarrow> ('e, 'a) result" where
  "result_or r q = (case r of Panic \<Rightarrow> Panic
     | Ok x \<Rightarrow> (case q of Panic \<Rightarrow> Panic | _ \<Rightarrow> Ok x) | Err _ \<Rightarrow> q)"

definition var_model_new :: "'n number_ops \<Rightarrow> string \<Rightarrow> 'n json \<Rightarrow> var_model core_result" where
  "var_model_new nops key value =
    res_bind (result_or (short_local_address_from_str key)
                (from_str_with_type key (var_type_from_json_value nops value)))
      (\<lambda>addr. res_bind (var_from_serde nops (Some addr) value)
        (\<lambda>v. Ok \<lparr> vm_name = s_var addr, vm_type = s_type addr, vm_default = Some v \<rparr>))"

text \<open>The intermediate representation read from the model files.\<close>

record 'n im_component =
  ic_name :: string
  ic_vars :: "(string, 'n json) kv"

record im_prefab =
  ip_name :: string
  ip_components :: "string list"

record 'n im_entity =
  ie_id :: string
  ie_prefab :: "string option"
  ie_data :: "(string, 'n json) kv"
  ie_archived :: bool

definition component_from_im :: "'n number_ops \<Rightarrow> 'n im_component \<Rightarrow> component_model core_result" where
  "component_from_im nops im =
    map_ok (\<lambda>vs. \<lparr> cm_name = ic_name im, cm_vars = List.map_filter id vs \<rparr>)
      (res_map (\<lambda>(k, v). case var_model_new nops k v of
                  Ok x \<Rightarrow> Ok (Some x) | Err _ \<Rightarrow> Ok None | Panic \<Rightarrow> Panic) (ic_vars im))"

definition prefab_from_im :: "im_prefab \<Rightarrow> prefab_model core_result" where
  "prefab_from_im i = Ok \<lparr> pf_name = ip_name i, pf_components = ip_components i \<rparr>"

text \<open>
  The component loop of \<open>Model::from_intermediate\<close>: a key with no separator is prefixed
  before it is parsed, \<open>int.\<close> for a string value and \<open>string.\<close> for a number.
\<close>

definition prefix_key :: "string \<Rightarrow> 'n json \<Rightarrow> string" where
  "prefix_key name value =
    (if \<not> str_contains ''.'' name then
       (case value of
          JString _ \<Rightarrow> var_type_to_str TInt @ ''.'' @ name
        | JNumber _ \<Rightarrow> var_type_to_str TString @ ''.'' @ name
        | _ \<Rightarrow> name)
     else name)"

definition component_of_intermediate ::
  "'n number_ops \<Rightarrow> 'n im_component \<Rightarrow> component_model core_result" where
  "component_of_intermediate nops im =
    map_ok (\<lambda>vs. \<lparr> cm_name = ic_name im, cm_vars = vs \<rparr>)
      (res_map (\<lambda>(k, v). var_model_new nops (prefix_key k v) v) (ic_vars im))"

text \<open>The entities to spawn at startup: a malformed address is unwrapped, a panic.\<close>

definition entity_of_intermediate :: "'n number_ops \<Rightarrow> 'n im_entity \<Rightarrow> entity_model core_result" where
  "entity_of_intermediate nops im =
    map_ok (\<lambda>d. \<lparr> em_name = ie_id im, em_prefab = ie_prefab im,
                 em_data = foldl (\<lambda>m (k, v). kv_insert k v m) [] d \<rparr>)
      (res_map (\<lambda>(k, v). res_bind (unwrap (local_address_from_str k))
          (\<lambda>a. map_ok (\<lambda>x. (a, x)) (var_from_serde nops None v))) (ie_data im))"

section \<open>Properties\<close>

lemma find_append: "find P (xs @ ys) = (case find P xs of Some x \<Rightarrow> Some x | None \<Rightarrow> find P ys)"
  by (induction xs) auto

lemma find_merge_prefab:
  "find (\<lambda>p. pf_name p = n) (merge_prefab ps q) =
    (case find (\<lambda>p. pf_name p = n) ps of Some p \<Rightarrow> Some p
     | None \<Rightarrow> if pf_name q = n then Some q else None)"
  by (auto simp: merge_prefab_def find_append split: option.splits)

lemma find_merge_prefabs:
  "find (\<lambda>p. pf_name p = n) (foldl merge_prefab ps qs) =
    (case find (\<lambda>p. pf_name p = n) ps of Some p \<Rightarrow> Some p | None \<Rightarrow> find (\<lambda>p. pf_name p = n) qs)"
  by (induction qs arbitrary: ps) (auto simp: find_merge_prefab split: option.splits)

lemma merge_prefab_alt:
  "merge_prefab ps q = (if pf_name q \<in> pf_name ` set ps then ps else ps @ [q])"
proof -
  have "find (\<lambda>p. pf_name p = pf_name q) ps = None \<longleftrightarrow> pf_name q \<notin> pf_name ` set ps"
    by (auto simp: find_None_iff image_iff)
  then show ?thesis by (simp add: merge_prefab_def)
qed

lemma names_merge_prefab:
  "pf_name ` set (merge_prefab ps q) = insert (pf_name q) (pf_name ` set ps)"
  by (auto simp: merge_prefab_alt)

lemma names_merge_prefabs:
  "pf_name ` set (foldl merge_prefab ps qs) = pf_name ` set ps \<union> pf_name ` set qs"
  by (induction qs arbitrary: ps) (auto simp: names_merge_prefab)

lemma merge_prefabs_assoc:
  "foldl merge_prefab (foldl merge_prefab ps qs) rs = foldl merge_prefab ps (foldl merge_prefab qs rs)"
proof (induction rs rule: rev_induct)
  case (snoc r rs)
  show ?case
  proof (cases "pf_name r \<in> pf_name ` set (foldl merge_prefab qs rs)")
    case True
    then have "pf_name r \<in> pf_name ` set (foldl merge_prefab (foldl merge_prefab ps qs) rs)"
      by (auto simp: names_merge_prefabs)
    with True snoc show ?thesis by (simp add: merge_prefab_alt [of _ r])
  next
    case False
    then have "merge_prefab (foldl merge_prefab qs rs) r = foldl merge_prefab qs rs @ [r]"
      by (simp add: merge_prefab_alt [of _ r])
    with snoc show ?thesis by simp
  qed
qed simp

lemma merge_prefabs_distinct:
  "distinct (map pf_name ps) \<Longrightarrow> distinct (map pf_name (foldl merge_prefab ps qs))"
  by (induction qs arbitrary: ps) (auto simp: merge_prefab_alt)

text \<open>After a merge a prefab or component is looked up in the receiving model first and in the
  other one only when the first has none; prefab names stay distinct; and the scenarios and
  behaviors of the other model are dropped.\<close>

lemma merge_lookup:
  assumes "model_merge a b = Ok c"
  shows "get_prefab c n = (case get_prefab a n of Some p \<Rightarrow> Some p | None \<Rightarrow> get_prefab b n)
    \<and> get_component c n = (case get_component a n of Ok d \<Rightarrow> Ok d | _ \<Rightarrow> get_component b n)
    \<and> (distinct (map pf_name (md_prefabs a)) \<longrightarrow> distinct (map pf_name (md_prefabs c)))
    \<and> md_scenarios c = md_scenarios a \<and> md_behaviors c = md_behaviors a"
  using assms unfolding model_merge_def
  by (auto simp: get_prefab_def get_component_def find_merge_prefabs find_append
      merge_prefabs_distinct split: option.splits)

text \<open>Merging is associative, with the empty model as a right unit.\<close>

lemma merge_assoc:
  "res_bind (model_merge a b) (\<lambda>ab. model_merge ab c) = res_bind (model_merge b c) (model_merge a)
   \<and> model_merge a default_model = Ok a"
  by (simp add: model_merge_def merge_prefabs_assoc default_model_def)

end
