(* ===== verification/Entities.thy ===== *)
theory Entities
  imports Models
begin

text \<open>
  Entities and their storage, from src/bigworlds/src/entity/mod.rs and
  src/bigworlds/src/entity/storage.rs.  The storage is a hash map from (component, variable)
  to values.
\<close>

section \<open>Storage\<close>

type_synonym storage = "(storage_index, var) kv"

definition storage_get_var :: "storage \<Rightarrow> storage_index \<Rightarrow> var core_result" where
  "storage_get_var st idx = ok_or (FailedGettingVarFromEntityStorage idx) (map_of st idx)"

text \<open>The mutable lookup: the value with the function that replaces it in place.\<close>

definition storage_get_var_mut :: "storage \<Rightarrow> storage_index \<Rightarrow> (var \<times> (var \<Rightarrow> storage)) core_result" where
  "storage_get_var_mut st idx =
    map_ok (\<lambda>v. (v, \<lambda>w. kv_insert idx w st))
      (ok_or (FailedGettingVarFromEntityStorage idx) (map_of st idx))"

definition get_all_coerce_to_string :: "(string \<Rightarrow> bool) \<Rightarrow> storage \<Rightarrow> (string, string) kv" where
  "get_all_coerce_to_string uesc st =
    foldl (\<lambda>out (idx, v). kv_insert
        (fst idx @ ''.'' @ var_type_to_str (get_type v) @ ''.'' @ snd idx)
        (var_to_string uesc v) out) [] st"

definition storage_insert :: "storage_index \<Rightarrow> var \<Rightarrow> storage \<Rightarrow> storage" where
  "storage_insert idx v st = kv_insert idx v st"

definition storage_set_from_str :: "storage \<Rightarrow> storage_index \<Rightarrow> string \<Rightarrow> storage core_result" where
  "storage_set_from_str st idx val =
    res_bind (ok_or (FailedGettingVarFromEntityStorage idx) (map_of st idx))
      (\<lambda>target. res_bind (var_from_str val (Some (get_type target)))
        (\<lambda>source. Ok (kv_insert idx source st)))"

definition storage_set_from_addr :: "storage \<Rightarrow> storage_index \<Rightarrow> address \<Rightarrow> storage core_result" where
  "storage_set_from_addr st target source = Panic"

definition storage_set_from_var :: "storage \<Rightarrow> local_address \<Rightarrow> var \<Rightarrow> storage core_result" where
  "storage_set_from_var st target v =
    res_bind (storage_get_var_mut st (la_comp target, la_var target)) (\<lambda>(_, set). Ok (set v))"

text \<open>The keys to remove are collected first, then removed one by one.\<close>

definition comp_keys :: "storage \<Rightarrow> string \<Rightarrow> storage_index list" where
  "comp_keys st c = filter (\<lambda>k. fst k = c) (map fst st)"

definition remove_comp_vars :: "string \<Rightarrow> storage \<Rightarrow> storage" where
  "remove_comp_vars c st = foldl (\<lambda>st k. kv_remove k st) st (comp_keys st c)"

definition remove_comp_vars_model :: "string \<Rightarrow> component_model \<Rightarrow> storage \<Rightarrow> storage" where
  "remove_comp_vars_model c cm st =
    foldl (\<lambda>st vm. kv_remove (c, vm_name vm) st) st (cm_vars cm)"

text \<open>The storage is a key-value store: \<open>insert\<close> writes and removal deletes.\<close>

interpretation storage_kv: kv_store "map_of :: storage \<Rightarrow> storage_index \<Rightarrow> var option"
  storage_insert kv_remove kv_wf
  by unfold_locales (auto simp: storage_insert_def kv_simps intro: wf_intros)

section \<open>Entities\<close>

record entity_meta =
  em_last_moved :: "32 word option"
  em_last_access :: "32 word option"

record entity =
  e_storage :: storage
  e_components :: "string list"
  e_meta :: entity_meta

definition empty_entity :: entity where
  "empty_entity =
    \<lparr> e_storage = [], e_components = [], e_meta = \<lparr> em_last_moved = None, em_last_access = None \<rparr> \<rparr>"

definition attach :: "'l model \<Rightarrow> string \<Rightarrow> entity \<Rightarrow> entity core_result" where
  "attach m c e =
    res_bind (get_component m c) (\<lambda>cm.
      Ok (e\<lparr> e_components := e_components e @ [c],
            e_storage := foldl (\<lambda>st vm. storage_insert (c, vm_name vm)
                (case vm_default vm of Some v \<Rightarrow> v | None \<Rightarrow> default_value (vm_type vm)) st)
              (e_storage e) (cm_vars cm) \<rparr>))"

definition entity_from_prefab :: "prefab_model \<Rightarrow> 'l model \<Rightarrow> entity core_result" where
  "entity_from_prefab p m = res_foldl (\<lambda>e c. attach m c e) empty_entity (pf_components p)"

definition entity_from_prefab_name :: "string \<Rightarrow> 'l model \<Rightarrow> entity core_result" where
  "entity_from_prefab_name name m =
    res_bind (ok_or (NoEntityPrefab name) (get_prefab m name)) (\<lambda>p. entity_from_prefab p m)"

text \<open>
  \<open>slice::binary_search\<close> of the standard library, which \<open>detach\<close> runs on the component list
  as it is: the window \<open>[base, base + n)\<close> is halved until one candidate is left.
\<close>

function search_base :: "string list \<Rightarrow> string \<Rightarrow> nat \<Rightarrow> nat \<Rightarrow> nat" where
  "search_base xs x base n =
    (if n \<le> 1 then base
     else let mid = base + n div 2 in
          search_base xs x (if x < xs ! mid then base else mid) (n - n div 2))"
  by pat_completeness auto
termination by (relation "measure (\<lambda>(_, _, _, n). n)") auto

declare search_base.simps [simp del]

definition binary_search :: "string list \<Rightarrow> string \<Rightarrow> nat option" where
  "binary_search xs x =
    (if xs = [] then None
     else let b = search_base xs x 0 (length xs) in if xs ! b = x then Some b else None)"

definition remove_nth :: "nat \<Rightarrow> 'a list \<Rightarrow> 'a list" where
  "remove_nth i xs = take i xs @ drop (Suc i) xs"

definition detach :: "'l model \<Rightarrow> string \<Rightarrow> entity \<Rightarrow> entity core_result" where
  "detach m c e =
    Ok (e\<lparr> e_components := (case binary_search (e_components e) c of
                             Some i \<Rightarrow> remove_nth i (e_components e) | None \<Rightarrow> e_components e),
          e_storage := remove_comp_vars c (e_storage e) \<rparr>)"

section \<open>Lemmas\<close>

lemma storage_insert_del_simps [kv_simps]:
  "map_of (storage_insert k v st) = (map_of st)(k \<mapsto> v)"
  by (simp add: storage_insert_def kv_simps)

lemma storage_wf_insert [wf_intros]: "kv_wf st \<Longrightarrow> kv_wf (storage_insert k v st)"
  by (simp add: storage_insert_def wf_intros)

lemma remove_comp_vars_lookup [kv_simps]:
  "map_of (remove_comp_vars c st) k = (if fst k = c then None else map_of st k)"
proof -
  have "remove_comp_vars c st = storage_kv.del_all (comp_keys st c) st"
    by (simp add: remove_comp_vars_def storage_kv.del_all_def)
  moreover have "k \<in> set (comp_keys st c) \<longleftrightarrow> fst k = c \<and> map_of st k \<noteq> None"
    by (auto simp: comp_keys_def map_of_eq_None_iff)
  ultimately show ?thesis by (simp add: storage_kv.get_del_all)
qed

lemma remove_comp_vars_wf [wf_intros]: "kv_wf st \<Longrightarrow> kv_wf (remove_comp_vars c st)"
  using storage_kv.inv_del_all by (simp add: remove_comp_vars_def storage_kv.del_all_def)

lemma remove_comp_vars_model_lookup [kv_simps]:
  "map_of (remove_comp_vars_model c cm st) k =
    (if fst k = c \<and> snd k \<in> vm_name ` set (cm_vars cm) then None else map_of st k)"
proof -
  have "remove_comp_vars_model c cm st
      = storage_kv.del_all (map (\<lambda>vm. (c, vm_name vm)) (cm_vars cm)) st"
    by (simp add: remove_comp_vars_model_def storage_kv.del_all_def foldl_map)
  then show ?thesis by (cases k) (auto simp: storage_kv.get_del_all)
qed

text \<open>The variables a component contributes: the last declaration of a name counts.\<close>

definition comp_defaults :: "string \<Rightarrow> component_model \<Rightarrow> (storage_index \<times> var) list" where
  "comp_defaults c cm = map (\<lambda>vm. ((c, vm_name vm),
     case vm_default vm of Some v \<Rightarrow> v | None \<Rightarrow> default_value (vm_type vm))) (cm_vars cm)"

lemma attach_storage:
  "attach m c e = res_bind (get_component m c) (\<lambda>cm.
     Ok (e\<lparr> e_components := e_components e @ [c],
           e_storage := storage_kv.put_all (comp_defaults c cm) (e_storage e) \<rparr>))"
  by (simp add: attach_def storage_kv.put_all_def comp_defaults_def foldl_map)

lemma comp_defaults_other: "fst k \<noteq> c \<Longrightarrow> map_of (rev (comp_defaults c cm)) k = None"
  by (auto simp: map_of_eq_None_iff comp_defaults_def)

lemma search_base_bounds:
  "\<lbrakk> 0 < n \<rbrakk> \<Longrightarrow> base \<le> search_base xs x base n \<and> search_base xs x base n < base + n"
proof (induction xs x base n rule: search_base.induct)
  case (1 xs x base n)
  show ?case
  proof (cases "n \<le> 1")
    case False
    let ?b = "if x < xs ! (base + n div 2) then base else base + n div 2"
    from False "1.IH" [of "base + n div 2"] have
      "?b \<le> search_base xs x ?b (n - n div 2)"
      "search_base xs x ?b (n - n div 2) < ?b + (n - n div 2)" by auto
    with False show ?thesis by (subst (1 2) search_base.simps) (auto simp: Let_def split: if_splits)
  qed (use "1.prems" in \<open>auto simp: search_base.simps\<close>)
qed

lemma search_base_sorted:
  "\<lbrakk> 0 < n; base + n \<le> length xs; sorted xs;
     \<exists>i. base \<le> i \<and> i < base + n \<and> xs ! i = x \<rbrakk> \<Longrightarrow> xs ! search_base xs x base n = x"
proof (induction xs x base n rule: search_base.induct)
  case (1 xs x base n)
  then obtain i where i: "base \<le> i" "i < base + n" "xs ! i = x" by blast
  show ?case
  proof (cases "n \<le> 1")
    case True
    with i have "i = base" by simp
    with True i show ?thesis by (simp add: search_base.simps)
  next
    case False
    let ?mid = "base + n div 2"
    have mid: "?mid < length xs" using False "1.prems" by auto
    show ?thesis
    proof (cases "x < xs ! ?mid")
      case True
      have "i < ?mid"
      proof (rule ccontr)
        assume "\<not> i < ?mid"
        then have "xs ! ?mid \<le> xs ! i" using "1.prems" i by (intro sorted_nth_mono) auto
        with True i show False by simp
      qed
      moreover have "?mid \<le> base + (n - n div 2)" using False by simp
      ultimately have "\<exists>i. base \<le> i \<and> i < base + (n - n div 2) \<and> xs ! i = x" using i by force
      then have "xs ! search_base xs x base (n - n div 2) = x"
        using "1.IH" [OF False refl] True False "1.prems" by simp
      with True False show ?thesis by (subst search_base.simps) (simp add: Let_def)
    next
      case ge: False
      have "\<exists>j. ?mid \<le> j \<and> j < base + n \<and> xs ! j = x"
      proof (cases "?mid \<le> i")
        case True
        with i show ?thesis by blast
      next
        case lt: False
        then have "xs ! i \<le> xs ! ?mid" using "1.prems" mid by (intro sorted_nth_mono) auto
        with ge i have "xs ! ?mid = x" by simp
        moreover have "?mid < base + n" using False by simp
        ultimately show ?thesis by blast
      qed
      then have "xs ! search_base xs x ?mid (n - n div 2) = x"
        using "1.IH" [OF False refl] ge False "1.prems" by simp
      with ge False show ?thesis by (subst search_base.simps) (simp add: Let_def)
    qed
  qed
qed

lemma binary_search_Some: "binary_search xs x = Some i \<Longrightarrow> i < length xs \<and> xs ! i = x"
  using search_base_bounds [of "length xs" 0 xs x]
  by (auto simp: binary_search_def Let_def split: if_splits)

lemma binary_search_sorted:
  "\<lbrakk> sorted xs; x \<in> set xs \<rbrakk> \<Longrightarrow> \<exists>i. binary_search xs x = Some i \<and> i < length xs \<and> xs ! i = x"
proof -
  assume a: "sorted xs" "x \<in> set xs"
  then have "xs ! search_base xs x 0 (length xs) = x"
    by (intro search_base_sorted) (auto simp: in_set_conv_nth)
  with a search_base_bounds [of "length xs" 0 xs x] show ?thesis
    by (auto simp: binary_search_def Let_def)
qed

lemma mset_remove_nth: "i < length xs \<Longrightarrow> add_mset (xs ! i) (mset (remove_nth i xs)) = mset xs"
proof -
  assume "i < length xs"
  then have "mset xs = mset (take i xs @ xs ! i # drop (Suc i) xs)" by (simp add: id_take_nth_drop [symmetric])
  then show ?thesis by (simp add: remove_nth_def)
qed

section \<open>Properties\<close>

text \<open>Attaching a component fails exactly when the model has no component of that name; otherwise
  the component is listed once more, each of its variables holds its declared default (the
  last declaration of a name counts) and every other stored value is unchanged.\<close>

lemma attach_spec:
  "(case get_component m c of
      Ok cm \<Rightarrow> \<exists>e'. attach m c e = Ok e'
        \<and> e_components e' = e_components e @ [c] \<and> e_meta e' = e_meta e
        \<and> (\<forall>k. map_of (e_storage e') k =
             (case map_of (rev (comp_defaults c cm)) k of Some v \<Rightarrow> Some v | None \<Rightarrow> map_of (e_storage e) k))
    | r \<Rightarrow> attach m c e = Err (NoComponentModel c))"
  by (cases "find (\<lambda>cm. cm_name cm = c) (md_components m)")
    (auto simp: attach_storage storage_kv.get_put_all get_component_def)

text \<open>
  The invariant of an entity built through \<open>attach\<close>: one entry per key, and every stored key
  belongs to a listed component.
\<close>

definition entity_wf :: "entity \<Rightarrow> bool" where
  "entity_wf e \<longleftrightarrow> kv_wf (e_storage e) \<and> (\<forall>k \<in> set (map fst (e_storage e)). fst k \<in> set (e_components e))"

lemma put_all_keys:
  "set (map fst (storage_kv.put_all kvs st)) = set (map fst st) \<union> set (map fst kvs)"
  unfolding storage_kv.put_all_def
proof (induction kvs arbitrary: st)
  case (Cons kv kvs)
  obtain k v where "kv = (k, v)" by (cases kv)
  with Cons [of "storage_insert k v st"] keys_kv_insert [of k v st] show ?case
    by (simp add: storage_insert_def)
qed simp

lemma attach_wf [wf_intros]:
  assumes "entity_wf e" "attach m c e = Ok e'"
  shows "entity_wf e'"
proof -
  from assms(2) obtain cm where e': "e' = e\<lparr> e_components := e_components e @ [c],
      e_storage := storage_kv.put_all (comp_defaults c cm) (e_storage e) \<rparr>"
    by (auto simp: attach_storage result_simps)
  have "set (map fst (e_storage e')) = set (map fst (e_storage e)) \<union> set (map fst (comp_defaults c cm))"
    using put_all_keys [of "comp_defaults c cm" "e_storage e"] by (simp add: e')
  moreover have "\<forall>k \<in> set (map fst (comp_defaults c cm)). fst k = c" by (auto simp: comp_defaults_def)
  moreover have "kv_wf (e_storage e')" using assms(1) by (simp add: e' entity_wf_def storage_kv.inv_put_all)
  ultimately show ?thesis using assms(1) unfolding entity_wf_def by (auto simp: e')
qed

lemma empty_entity_wf [wf_intros]: "entity_wf empty_entity"
  by (simp add: entity_wf_def empty_entity_def)

lemma detach_wf [wf_intros]: "\<lbrakk> entity_wf e; detach m c e = Ok e' \<rbrakk> \<Longrightarrow> kv_wf (e_storage e')"
  by (auto simp: detach_def entity_wf_def intro: wf_intros)

lemma attach_all:
  "list_all (\<lambda>c. \<exists>cm. get_component m c = Ok cm) cs \<Longrightarrow> entity_wf e \<Longrightarrow>
    \<exists>e'. res_foldl (\<lambda>e c. attach m c e) e cs = Ok e' \<and> entity_wf e' \<and> e_components e' = e_components e @ cs"
proof (induction cs arbitrary: e)
  case (Cons c cs)
  then obtain e1 where e1: "attach m c e = Ok e1" "e_components e1 = e_components e @ [c]"
    by (auto simp: attach_storage)
  with Cons.prems have "entity_wf e1" by (auto intro: wf_intros)
  with Cons.IH [of e1] Cons.prems e1 show ?case by auto
qed simp

lemma attach_all_missing:
  "\<not> list_all (\<lambda>c. \<exists>cm. get_component m c = Ok cm) cs \<Longrightarrow>
    \<exists>c. ListMem c cs \<and> res_foldl (\<lambda>e c. attach m c e) e cs = Err (NoComponentModel c)"
proof (induction cs arbitrary: e)
  case (Cons c cs)
  show ?case
  proof (cases "\<exists>cm. get_component m c = Ok cm")
    case True
    with Cons.prems Cons.IH show ?thesis by (fastforce simp: attach_storage intro: ListMem.intros)
  next
    case False
    then have "get_component m c = Err (NoComponentModel c)"
      by (cases "find (\<lambda>cm. cm_name cm = c) (md_components m)") (auto simp: get_component_def)
    then show ?thesis by (auto simp: attach_storage intro: ListMem.intros)
  qed
qed simp

text \<open>An entity is made from a prefab exactly when the model knows the prefab and every one of
  its components; it then lists the prefab's components in order, its storage has one entry
  per key, and every stored key belongs to a listed component.\<close>

lemma from_prefab_spec:
  "(case get_prefab m name of
      None \<Rightarrow> entity_from_prefab_name name m = Err (NoEntityPrefab name)
    | Some p \<Rightarrow>
        if list_all (\<lambda>c. \<exists>cm. get_component m c = Ok cm) (pf_components p)
        then \<exists>e. entity_from_prefab_name name m = Ok e \<and> entity_wf e \<and> e_components e = pf_components p
        else \<exists>c. ListMem c (pf_components p) \<and> entity_from_prefab_name name m = Err (NoComponentModel c))"
proof (cases "get_prefab m name")
  case (Some p)
  with attach_all [of m "pf_components p" empty_entity] attach_all_missing [of m "pf_components p" empty_entity]
    empty_entity_wf
  show ?thesis by (auto simp: entity_from_prefab_name_def entity_from_prefab_def empty_entity_def)
qed (simp add: entity_from_prefab_name_def)

text \<open>Detaching removes every variable of the component and no other one; it removes at most one
  listing of the component, and exactly one when the list is sorted.\<close>

lemma detach_spec:
  assumes "detach m c e = Ok e'"
  shows "map_of (e_storage e') k = (if fst k = c then None else map_of (e_storage e) k)
    \<and> (mset (e_components e') = mset (e_components e) \<or> add_mset c (mset (e_components e')) = mset (e_components e))
    \<and> (sorted (e_components e) \<longrightarrow> mset (e_components e') = mset (e_components e) - {#c#})"
proof -
  from assms have st: "map_of (e_storage e') k = (if fst k = c then None else map_of (e_storage e) k)"
    by (auto simp: detach_def kv_simps)
  show ?thesis
  proof (cases "binary_search (e_components e) c")
    case None
    with binary_search_sorted [of "e_components e" c] have "sorted (e_components e) \<Longrightarrow> c \<notin> set (e_components e)" by auto
    with None assms st show ?thesis by (auto simp: detach_def diff_single_trivial)
  next
    case (Some i)
    with binary_search_Some mset_remove_nth have
      "add_mset c (mset (remove_nth i (e_components e))) = mset (e_components e)" by metis
    moreover from this have "mset (remove_nth i (e_components e)) = mset (e_components e) - {#c#}"
      by (metis add_mset_remove_trivial)
    ultimately show ?thesis using Some assms st by (auto simp: detach_def)
  qed
qed

text \<open>On an unsorted list the binary search can miss: the component stays listed, with no data.\<close>

lemma detach_unsorted:
  "detach m ''b'' (empty_entity\<lparr> e_components := [''b'', ''a''] \<rparr>) = Ok (empty_entity\<lparr> e_components := [''b'', ''a''] \<rparr>)"
proof -
  have "binary_search [''b'', ''a''] ''b'' = None" by code_simp
  then show ?thesis by (simp add: detach_def empty_entity_def remove_comp_vars_def comp_keys_def)
qed

text \<open>Writing a stored variable from text fails without a change when the variable is missing or the
  text does not parse at its type, and otherwise replaces the value by one of the same type and
  leaves every other entry as it was.\<close>

lemma set_from_str_spec:
  "(case map_of st idx of
      None \<Rightarrow> storage_set_from_str st idx val = Err (FailedGettingVarFromEntityStorage idx)
    | Some v \<Rightarrow>
        (case storage_set_from_str st idx val of
           Ok st' \<Rightarrow> \<exists>w. var_from_str val (Some (get_type v)) = Ok w \<and> get_type w = get_type v
                    \<and> map_of st' = (map_of st)(idx \<mapsto> w)
         | Err err \<Rightarrow> var_from_str val (Some (get_type v)) = Err err
         | Panic \<Rightarrow> var_from_str val (Some (get_type v)) = Panic))"
proof (cases "map_of st idx")
  case (Some v)
  then show ?thesis
    by (cases "var_from_str val (Some (get_type v))")
      (auto simp: storage_set_from_str_def kv_simps get_type_var_from_str)
qed (simp add: storage_set_from_str_def)

end
