(* ===== verification/Queries.thy ===== *)
theory Queries
  imports Entities
begin

text \<open>
  Queries, their products and how products combine, from src/bigworlds/src/query.rs.
\<close>

section \<open>Query descriptions\<close>

datatype query_trigger =
    StepEvent | TrEvent string | TrEventAny "string list" | TrTimer nat
  | TrEntityAccess string | TrEntityMutation string
  | TrDataMutation address | TrDataMutationAny "address list" | TrDataMutationAll "address list"

datatype node_filter = NodeLocal "32 word option" | NodeRemote "32 word option"

datatype query_filter =
    AllComponents "string list"
  | SomeComponents "string list"
  | FComponent string
  | FName "string list"
  | FId "32 word list"
  | VarRange local_address var var
  | AttrRange string var var
  | Distance address address address f32 f32 f32
  | DistanceMultiPoint "(address \<times> address \<times> address \<times> f32 \<times> f32 \<times> f32) list"
  | FNode node_filter

datatype query_map =
    MAll | SelectAddrs "address list" | MComponents "string list" | MComponent string
  | MVar string | MVarType var_type

definition map_components :: "string list \<Rightarrow> query_map" where
  "map_components cs = MComponents (foldl (\<lambda>c x. c @ [x]) [] cs)"

datatype description =
    NativeDescribed | Addressed | DEntity | EntityMany | DComponent | DVar | ComponentVar
  | Ordered | DNone

datatype layout = LVar | LString | LTyped

datatype scope =
    Global | LocalNode | LocalWorker | Broadcasts "8 word" | Edges "8 word" | Workers "8 word"
  | STime nat

datatype archive_mode = AOnly | AIgnore | AInclude | AIncludeAndRestoreSelected

record limits =
  lim_entities :: "32 word option"
  lim_product_entries :: "32 word option"
  lim_size_bytes :: "32 word option"

record query =
  q_description :: description
  q_layout :: layout
  q_filters :: "query_filter list"
  q_mappings :: "query_map list"
  q_scope :: scope
  q_archive :: archive_mode
  q_limits :: limits

definition default_query :: query where
  "default_query =
    \<lparr> q_description = DNone, q_layout = LVar, q_filters = [], q_mappings = [], q_scope = Global,
      q_archive = AIgnore,
      q_limits = \<lparr> lim_entities = None, lim_product_entries = None, lim_size_bytes = None \<rparr> \<rparr>"

definition with_scope :: "query \<Rightarrow> scope \<Rightarrow> query" where
  "with_scope q s = q\<lparr> q_scope := s \<rparr>"

definition with_description :: "query \<Rightarrow> description \<Rightarrow> query" where
  "with_description q d = q\<lparr> q_description := d \<rparr>"

definition with_filter :: "query \<Rightarrow> query_filter \<Rightarrow> query" where
  "with_filter q f = q\<lparr> q_filters := q_filters q @ [f] \<rparr>"

definition with_map :: "query \<Rightarrow> query_map \<Rightarrow> query" where
  "with_map q m = q\<lparr> q_mappings := q_mappings q @ [m] \<rparr>"

definition with_archive :: "query \<Rightarrow> archive_mode \<Rightarrow> query" where
  "with_archive q a = q\<lparr> q_archive := a \<rparr>"

definition with_limits :: "query \<Rightarrow> 32 word option \<Rightarrow> 32 word option \<Rightarrow> query" where
  "with_limits q ents entries =
    q\<lparr> q_limits := (q_limits q)\<lparr> lim_entities := ents, lim_product_entries := entries \<rparr> \<rparr>"

section \<open>Products\<close>

record typed_map =
  tm_strings :: "(address, string) kv"
  tm_ints :: "(address, 32 word) kv"
  tm_floats :: "(address, f32) kv"
  tm_bools :: "(address, bool) kv"

datatype query_product =
    PNativeAddressedVar "(string \<times> string \<times> string, var) kv"
  | PAddressedVar "(address, var) kv"
  | PNameAddressedVar "(string, var) kv"
  | PNameAddressedVars "(string, var list) kv"
  | PAddressedTyped typed_map
  | POrderedVar "32 word" "var list"
  | PVar "var list"
  | PString "string list"
  | PEmpty

text \<open>\<open>extend\<close> of a hash map: the entries of the other map are inserted one by one.\<close>

definition kv_extend :: "('k, 'v) kv \<Rightarrow> ('k, 'v) kv \<Rightarrow> ('k, 'v) kv" where
  "kv_extend m m' = foldl (\<lambda>m (k, v). kv_insert k v m) m m'"

definition product_merge :: "query_product \<Rightarrow> query_product \<Rightarrow> query_product core_result" where
  "product_merge self other =
    (case self of
       PNativeAddressedVar _ \<Rightarrow> Panic
     | PNameAddressedVar m \<Rightarrow>
         (case other of PNameAddressedVar m' \<Rightarrow> Ok (PNameAddressedVar (kv_extend m m')) | _ \<Rightarrow> Panic)
     | PNameAddressedVars m \<Rightarrow>
         (case other of PNameAddressedVars m' \<Rightarrow> Ok (PNameAddressedVars (kv_extend m m')) | _ \<Rightarrow> Panic)
     | PAddressedVar m \<Rightarrow>
         (case other of PAddressedVar m' \<Rightarrow> Ok (PAddressedVar (kv_extend m m')) | _ \<Rightarrow> Panic)
     | PAddressedTyped _ \<Rightarrow> Panic
     | POrderedVar _ _ \<Rightarrow> Panic
     | PVar vs \<Rightarrow> (case other of PVar vs' \<Rightarrow> Ok (PVar (vs @ vs')) | _ \<Rightarrow> Panic)
     | PString ss \<Rightarrow> (case other of PString ss' \<Rightarrow> Ok (PString (ss @ ss')) | _ \<Rightarrow> Panic)
     | PEmpty \<Rightarrow> Ok other)"

definition product_to_vec :: "query_product \<Rightarrow> var list core_result" where
  "product_to_vec p =
    (case p of PAddressedVar m \<Rightarrow> Ok (map snd m) | PVar vs \<Rightarrow> Ok vs | _ \<Rightarrow> Panic)"

definition no_address_error :: error where
  "no_address_error = FailedConversion
    (''Can'' @ [CHR 0x27] @ ''t make query product into a map, lacking address information'')"

definition product_to_map :: "query_product \<Rightarrow> (address, var) kv core_result" where
  "product_to_map p =
    (case p of PAddressedVar m \<Rightarrow> Ok m | PVar _ \<Rightarrow> Err no_address_error | _ \<Rightarrow> Panic)"

definition product_to_named_map :: "query_product \<Rightarrow> (string, var) kv core_result" where
  "product_to_named_map p =
    (case p of PNameAddressedVar m \<Rightarrow> Ok m | PVar _ \<Rightarrow> Err no_address_error | _ \<Rightarrow> Panic)"

definition product_to_named_map_many :: "query_product \<Rightarrow> (string, var list) kv core_result" where
  "product_to_named_map_many p =
    (case p of
       PNameAddressedVar m \<Rightarrow> Ok (kv_extend [] (map (\<lambda>(n, v). (n, [v])) m))
     | PNameAddressedVars m \<Rightarrow> Ok m
     | PVar _ \<Rightarrow> Err no_address_error
     | _ \<Rightarrow> Panic)"

definition product_to_var :: "query_product \<Rightarrow> var core_result" where
  "product_to_var p =
    (case p of
       PVar vs \<Rightarrow> if vs = [] then Err (FailedConversion
           (''Can'' @ [CHR 0x27] @ ''t make query product into a single var, no vars available''))
         else Ok (last vs)
     | _ \<Rightarrow> Panic)"

text \<open>
  \<open>combine_products\<close> starts from the last product and adds the missing addresses of the
  others, in order; any other pair of products leaves the accumulated one as it is.
\<close>

definition kv_or_insert :: "'k \<Rightarrow> 'v \<Rightarrow> ('k, 'v) kv \<Rightarrow> ('k, 'v) kv" where
  "kv_or_insert k v m = (if map_of m k = None then kv_insert k v m else m)"

definition combine_step :: "query_product \<Rightarrow> query_product \<Rightarrow> query_product" where
  "combine_step final p =
    (case final of
       PAddressedVar m \<Rightarrow>
         (case p of
            PAddressedVar m' \<Rightarrow> PAddressedVar
              (foldl (\<lambda>m (k, v). kv_or_insert k v m) m m')
          | _ \<Rightarrow> final)
     | _ \<Rightarrow> final)"

definition combine_products :: "query_product list \<Rightarrow> query_product" where
  "combine_products ps =
    (if ps = [] then PEmpty else foldl combine_step (last ps) (butlast ps))"

section \<open>Properties\<close>

lemma map_of_kv_extend [kv_simps]:
  "map_of (kv_extend m m') k = (case map_of (rev m') k of Some v \<Rightarrow> Some v | None \<Rightarrow> map_of m k)"
  unfolding kv_extend_def
  by (induction m' arbitrary: m) (auto simp: kv_simps map_add_def split: option.splits)

lemma map_of_rev: "kv_wf m \<Longrightarrow> map_of (rev m) = map_of m"
  by (rule map_of_inject_set [THEN iffD2]) (auto simp: kv_wf_def rev_map [symmetric])

lemma kv_extend_wf [wf_intros]: "kv_wf m \<Longrightarrow> kv_wf (kv_extend m m')"
  unfolding kv_extend_def by (induction m' arbitrary: m) (auto intro: wf_intros)

text \<open>The products a merge or combination keeps well formed: one entry per key.\<close>

fun product_wf :: "query_product \<Rightarrow> bool" where
  "product_wf (PNativeAddressedVar m) = kv_wf m"
| "product_wf (PAddressedVar m) = kv_wf m"
| "product_wf (PNameAddressedVar m) = kv_wf m"
| "product_wf (PNameAddressedVars m) = kv_wf m"
| "product_wf (PAddressedTyped t) =
    (kv_wf (tm_strings t) \<and> kv_wf (tm_ints t) \<and> kv_wf (tm_floats t) \<and> kv_wf (tm_bools t))"
| "product_wf _ = True"

text \<open>What a merged product holds: the addressed lookup, with the other product first.\<close>

definition product_lookup :: "query_product \<Rightarrow> address \<Rightarrow> var option" where
  "product_lookup p a = (case p of PAddressedVar m \<Rightarrow> map_of m a | _ \<Rightarrow> None)"

fun is_addressed :: "query_product \<Rightarrow> bool" where
  "is_addressed (PAddressedVar m) = kv_wf m"
| "is_addressed _ = False"

lemma map_of_kv_or_insert [kv_simps]:
  "map_of (kv_or_insert k v m) k' =
    (case map_of m k' of Some w \<Rightarrow> Some w | None \<Rightarrow> if k' = k then Some v else None)"
  by (auto simp: kv_or_insert_def kv_simps split: option.splits)

lemma kv_or_insert_wf [wf_intros]: "kv_wf m \<Longrightarrow> kv_wf (kv_or_insert k v m)"
  by (simp add: kv_or_insert_def kv_wf_insert)

lemma map_of_add_missing:
  "map_of (foldl (\<lambda>m (k, v). kv_or_insert k v m) m m') k
    = (case map_of m k of Some v \<Rightarrow> Some v | None \<Rightarrow> map_of m' k)"
  by (induction m' arbitrary: m) (auto simp: map_of_kv_or_insert split: option.splits)

lemma add_missing_wf [wf_intros]:
  "kv_wf m \<Longrightarrow> kv_wf (foldl (\<lambda>m (k, v). kv_or_insert k v m) m m')"
  by (induction m' arbitrary: m) (auto intro: kv_or_insert_wf)

lemma combine_step_addressed:
  "\<lbrakk> is_addressed p; is_addressed q \<rbrakk> \<Longrightarrow> is_addressed (combine_step p q)
     \<and> product_lookup (combine_step p q) a
       = (case product_lookup p a of Some v \<Rightarrow> Some v | None \<Rightarrow> product_lookup q a)"
  by (cases p; cases q)
    (auto simp: combine_step_def product_lookup_def map_of_add_missing add_missing_wf split: option.splits)

lemma combine_steps_addressed:
  "\<lbrakk> is_addressed p; list_all is_addressed qs \<rbrakk> \<Longrightarrow> is_addressed (foldl combine_step p qs)
     \<and> product_lookup (foldl combine_step p qs) a
       = (case product_lookup p a of Some v \<Rightarrow> Some v
          | None \<Rightarrow> (case find (\<lambda>q. product_lookup q a \<noteq> None) qs of
                      Some q \<Rightarrow> product_lookup q a | None \<Rightarrow> None))"
proof (induction qs arbitrary: p)
  case (Cons q qs)
  with combine_step_addressed [of p q a] show ?case by (auto split: option.splits)
qed (auto split: option.splits)

text \<open>Combining addressed products gives an addressed product with one entry per address, which holds
  the value of the last product where it has one and else of the first of the others that has
  one; no address is lost and none invented.\<close>

lemma combine_spec:
  assumes "list_all is_addressed (qs @ [p])"
  shows "is_addressed (combine_products (qs @ [p]))
    \<and> product_lookup (combine_products (qs @ [p])) a
       = (case product_lookup p a of Some v \<Rightarrow> Some v
          | None \<Rightarrow> (case find (\<lambda>q. product_lookup q a \<noteq> None) qs of
                      Some q \<Rightarrow> product_lookup q a | None \<Rightarrow> None))"
  using assms combine_steps_addressed [of p qs a] by (simp add: combine_products_def)

text \<open>Merging into the empty product is the other one; two products of the same mergeable kind
  merge, an addressed lookup taking the other product's value first; every other pair panics;
  and the result keeps one entry per key.\<close>

lemma product_merge_spec:
  assumes "product_wf p" "product_wf q"
  shows "product_merge PEmpty q = Ok q
    \<and> (case product_merge p q of
         Ok r \<Rightarrow> product_wf r \<and> (p = PEmpty \<and> r = q
            \<or> product_lookup r a = (case product_lookup q a of Some v \<Rightarrow> Some v | None \<Rightarrow> product_lookup p a))
       | Err _ \<Rightarrow> False
       | Panic \<Rightarrow> p \<noteq> PEmpty)"
  using assms by (cases p; cases q)
    (auto simp: product_merge_def product_lookup_def kv_simps map_of_rev intro: wf_intros split: option.splits)

end
