(* ===== verification/Parts.thy ===== *)
theory Parts
  imports Entities
begin

text \<open>
  The partition of a worker, from src/bigworlds/src/worker/part.rs, with the behavior spawning
  of src/bigworlds/src/behavior/mod.rs.  Third-party code is a parameter: \<open>'a\<close> is an archive
  handle of the \<open>fjall\<close> store, reached with the binary encoding of entities through
  \<open>archive_api\<close> (\<open>'b\<close> are the encoded bytes), and \<open>load_lib\<close> loads a dynamic library.  An operation that can fail
  after it has changed the partition returns the partition beside the result.
\<close>

section \<open>State\<close>

record part_config =
  cf_enable_archive :: bool
  cf_auto_archive_entities :: bool
  cf_archive_entity_after_secs :: "32 word"
  cf_entity_create_to_archive :: bool
  cf_max_write_buffer_size_bytes :: "64 word"
  cf_max_journaling_size :: "64 word"
  cf_auto_snapshot_secs :: "32 word option"

definition default_part_config :: part_config where
  "default_part_config =
    \<lparr> cf_enable_archive = True, cf_auto_archive_entities = False,
      cf_archive_entity_after_secs = 5, cf_entity_create_to_archive = False,
      cf_max_write_buffer_size_bytes = 1024 * 1024 * 1024,
      cf_max_journaling_size = 512 * 1024 * 1024,
      cf_auto_snapshot_secs = None \<rparr>"

datatype behavior_target = TargetWorker | TargetEntity string

text \<open>A live behavior task, by what its handle exposes.\<close>

record behavior_handle =
  hd_name :: string
  hd_triggers :: "string list"

record 'a partition =
  pt_entities :: "(string, entity) kv"
  pt_archive :: "'a option"
  pt_behaviors :: "(behavior_target, behavior_handle list) kv"
  pt_unsynced :: "string list list"
  pt_machines :: "behavior_handle list"
  pt_libs :: "string list"
  pt_config :: part_config

record ('a, 'b) archive_api =
  arc_get :: "'a \<Rightarrow> string \<Rightarrow> 'b option core_result"
  arc_insert :: "'a \<Rightarrow> string \<Rightarrow> 'b \<Rightarrow> 'a core_result"
  arc_remove :: "'a \<Rightarrow> string \<Rightarrow> 'a core_result"
  arc_keys :: "'a \<Rightarrow> string core_result list"
  encode_entity :: "entity \<Rightarrow> 'b core_result"
  decode_entity :: "'b \<Rightarrow> entity core_result"

definition partition_new :: "(part_config \<Rightarrow> 'a core_result) \<Rightarrow> part_config \<Rightarrow> 'a partition core_result" where
  "partition_new open_archive config =
    res_bind (if cf_enable_archive config then map_ok Some (open_archive config) else Ok None)
      (\<lambda>archive. Ok
        \<lparr> pt_entities = [], pt_archive = archive, pt_behaviors = [], pt_unsynced = [],
          pt_machines = [], pt_libs = [], pt_config = config \<rparr>)"

section \<open>Behaviors\<close>

text \<open>\<open>entry(k).and_modify(push).or_insert(vec![x])\<close>\<close>

definition kv_push :: "'k \<Rightarrow> 'v \<Rightarrow> ('k, 'v list) kv \<Rightarrow> ('k, 'v list) kv" where
  "kv_push k x m = kv_insert k ((case map_of m k of Some xs \<Rightarrow> xs | None \<Rightarrow> []) @ [x]) m"

definition add_handle :: "behavior_target \<Rightarrow> behavior_handle \<Rightarrow> 'a partition \<Rightarrow> 'a partition" where
  "add_handle target h p = p\<lparr> pt_behaviors := kv_push target h (pt_behaviors p) \<rparr>"

definition spawn_onto_partition ::
  "(string \<Rightarrow> artifact \<Rightarrow> string core_result) \<Rightarrow> 'l behavior \<Rightarrow> behavior_target
    \<Rightarrow> 'a partition \<Rightarrow> 'a partition \<times> unit core_result" where
  "spawn_onto_partition load_lib b target p =
    (let h = \<lparr> hd_name = bh_name b, hd_triggers = bh_triggers b \<rparr> in
     case bh_inner b of
       BDynlib artifact entry synced debug \<Rightarrow>
         (case load_lib (bh_name b) artifact of
            Err e \<Rightarrow> (p, Err e)
          | Panic \<Rightarrow> (p, Panic)
          | Ok lib \<Rightarrow>
              (let p' = (if synced then add_handle target h p
                         else p\<lparr> pt_unsynced := pt_unsynced p @ [bh_triggers b] \<rparr>)
               in (p'\<lparr> pt_libs := pt_libs p' @ [lib] \<rparr>, Ok ())))
     | BMachine script logic \<Rightarrow> (p\<lparr> pt_machines := pt_machines p @ [h] \<rparr>, Ok ())
     | BLua synced script \<Rightarrow>
         if synced then (add_handle target h p, Ok ())
         else (p\<lparr> pt_unsynced := pt_unsynced p @ [bh_triggers b] \<rparr>, Ok ())
     | BWasm artifact synced debug \<Rightarrow> (p, Panic))"

text \<open>Spawns a list of behaviors in order, stopping at the first failure.\<close>

fun spawn_all ::
  "(string \<Rightarrow> artifact \<Rightarrow> string core_result) \<Rightarrow> ('l behavior \<times> behavior_target) list
    \<Rightarrow> 'a partition \<Rightarrow> 'a partition \<times> unit core_result" where
  "spawn_all load_lib [] p = (p, Ok ())"
| "spawn_all load_lib ((b, t) # bs) p =
    (case spawn_onto_partition load_lib b t p of
       (p', Ok _) \<Rightarrow> spawn_all load_lib bs p'
     | (p', r) \<Rightarrow> (p', r))"

definition spawn_non_entity_bound ::
  "(string \<Rightarrow> artifact \<Rightarrow> string core_result) \<Rightarrow> 'l model \<Rightarrow> 'a partition
    \<Rightarrow> 'a partition \<times> unit core_result" where
  "spawn_non_entity_bound load_lib m p =
    spawn_all load_lib
      (concat (map (\<lambda>b. map (\<lambda>_. (b, TargetWorker)) (filter (\<lambda>t. t = PerWorker) (bh_targets b)))
        (md_behaviors m))) p"

text \<open>The result of spawning is dropped by \<open>from_model\<close>; a panic still unwinds.\<close>

definition partition_from_model ::
  "(string \<Rightarrow> artifact \<Rightarrow> string core_result) \<Rightarrow> (part_config \<Rightarrow> 'a core_result) \<Rightarrow> 'l model
    \<Rightarrow> part_config \<Rightarrow> 'a partition core_result" where
  "partition_from_model load_lib open_archive m config =
    res_bind (partition_new open_archive config) (\<lambda>p.
      case spawn_non_entity_bound load_lib m p of (p', Panic) \<Rightarrow> Panic | (p', _) \<Rightarrow> Ok p')"

section \<open>Entities\<close>

definition touch :: "32 word \<Rightarrow> entity \<Rightarrow> entity" where
  "touch now e = e\<lparr> e_meta := (e_meta e)\<lparr> em_last_access := Some now \<rparr> \<rparr>"

text \<open>\<open>get_entity\<close> records the access and only looks in memory.\<close>

definition get_entity :: "32 word \<Rightarrow> string \<Rightarrow> 'a partition \<Rightarrow> 'a partition \<times> entity core_result" where
  "get_entity now name p =
    (case map_of (pt_entities p) name of
       Some e \<Rightarrow> (p\<lparr> pt_entities := kv_insert name (touch now e) (pt_entities p) \<rparr>, Ok (touch now e))
     | None \<Rightarrow> (p, Err (FailedGettingEntityByName name)))"

definition get_entity_archived :: "('a, 'b) archive_api \<Rightarrow> 'a partition \<Rightarrow> string \<Rightarrow> entity core_result" where
  "get_entity_archived api p name =
    res_bind (ok_or ArchiveDisabled (pt_archive p)) (\<lambda>a.
      case arc_get api a name of
        Ok (Some bytes) \<Rightarrow> decode_entity api bytes
      | Ok None \<Rightarrow> Err (FailedGettingEntityByName name)
      | Err _ \<Rightarrow> Err (FailedGettingEntityByName name)
      | Panic \<Rightarrow> Panic)"

definition behavior_applies :: "entity \<Rightarrow> 'l behavior \<Rightarrow> bool" where
  "behavior_applies e b =
    list_ex (\<lambda>t. case t of
        PerEntityWithAllComponents cs \<Rightarrow> list_all (\<lambda>c. ListMem c (e_components e)) cs
      | PerEntityWithAnyComponent cs \<Rightarrow> list_ex (\<lambda>c. ListMem c (e_components e)) cs
      | _ \<Rightarrow> False) (bh_targets b)"

definition insert_entity ::
  "('a, 'b) archive_api \<Rightarrow> string \<Rightarrow> entity \<Rightarrow> 'a partition \<Rightarrow> 'a partition \<times> unit core_result" where
  "insert_entity api name e p =
    (if cf_entity_create_to_archive (pt_config p) then
       (case encode_entity api e of
          Ok bytes \<Rightarrow>
            (case pt_archive p of
               None \<Rightarrow> (p, Err ArchiveDisabled)
             | Some a \<Rightarrow> (case arc_insert api a name bytes of
                            Ok a' \<Rightarrow> (p\<lparr> pt_archive := Some a' \<rparr>, Ok ())
                          | _ \<Rightarrow> (p, Panic)))
        | Err err \<Rightarrow> (p, Err err)
        | Panic \<Rightarrow> (p, Panic))
     else (p\<lparr> pt_entities := kv_insert name e (pt_entities p) \<rparr>, Ok ()))"

definition add_entity ::
  "('a, 'b) archive_api \<Rightarrow> (string \<Rightarrow> artifact \<Rightarrow> string core_result) \<Rightarrow> 'l model \<Rightarrow> string \<Rightarrow> entity
    \<Rightarrow> 'a partition \<Rightarrow> 'a partition \<times> unit core_result" where
  "add_entity api load_lib m name e p =
    (case spawn_all load_lib
        (map (\<lambda>b. (b, TargetEntity name)) (filter (behavior_applies e) (md_behaviors m))) p of
       (p', Ok _) \<Rightarrow> insert_entity api name e p'
     | (p', r) \<Rightarrow> (p', r))"

definition spawn_entity ::
  "('a, 'b) archive_api \<Rightarrow> (string \<Rightarrow> artifact \<Rightarrow> string core_result) \<Rightarrow> 'l model \<Rightarrow> string
    \<Rightarrow> string option \<Rightarrow> (local_address, var) kv \<Rightarrow> 'a partition \<Rightarrow> 'a partition \<times> unit core_result" where
  "spawn_entity api load_lib m name prefab data p =
    (case res_bind (case prefab of Some pf \<Rightarrow> entity_from_prefab_name pf m | None \<Rightarrow> Ok empty_entity)
        (\<lambda>e. map_ok (\<lambda>st. e\<lparr> e_storage := st \<rparr>)
          (res_foldl (\<lambda>st (addr, v). storage_set_from_var st addr v) (e_storage e) data)) of
       Ok e \<Rightarrow> add_entity api load_lib m name e p
     | Err err \<Rightarrow> (p, Err err)
     | Panic \<Rightarrow> (p, Panic))"

definition remove_entity ::
  "('a, 'b) archive_api \<Rightarrow> string \<Rightarrow> 'a partition \<Rightarrow> 'a partition \<times> unit core_result" where
  "remove_entity api name p =
    (let p1 = p\<lparr> pt_behaviors := filter (\<lambda>(t, _). t \<noteq> TargetEntity name) (pt_behaviors p) \<rparr> in
     if map_of (pt_entities p1) name \<noteq> None
     then (p1\<lparr> pt_entities := kv_remove name (pt_entities p1) \<rparr>, Ok ())
     else case pt_archive p1 of
            None \<Rightarrow> (p1, Err ArchiveDisabled)
          | Some a \<Rightarrow>
              (case arc_remove api a name of
                 Ok a' \<Rightarrow> (p1\<lparr> pt_archive := Some a' \<rparr>, Ok ())
               | Err _ \<Rightarrow> (p1, Err (FailedGettingEntityByName name))
               | Panic \<Rightarrow> (p1, Panic)))"

section \<open>Archiving\<close>

definition idle_entities :: "32 word \<Rightarrow> 'a partition \<Rightarrow> string list" where
  "idle_entities now p =
    map fst (filter (\<lambda>(_, e). case em_last_access (e_meta e) of
        Some t \<Rightarrow> cf_archive_entity_after_secs (pt_config p) < now - t | None \<Rightarrow> False) (pt_entities p))"

text \<open>One entity leaves the memory before it is encoded and written to the archive.\<close>

definition archive_one ::
  "('a, 'b) archive_api \<Rightarrow> string \<Rightarrow> 'a partition \<Rightarrow> 'a partition \<times> unit core_result" where
  "archive_one api name p =
    (case map_of (pt_entities p) name of
       None \<Rightarrow> (p, Ok ())
     | Some e \<Rightarrow>
         (let p1 = p\<lparr> pt_entities := kv_remove name (pt_entities p) \<rparr> in
          case encode_entity api e of
            Err err \<Rightarrow> (p1, Err err)
          | Panic \<Rightarrow> (p1, Panic)
          | Ok bytes \<Rightarrow>
              (case pt_archive p1 of
                 None \<Rightarrow> (p1, Err ArchiveDisabled)
               | Some a \<Rightarrow> (case arc_insert api a name bytes of
                              Ok a' \<Rightarrow> (p1\<lparr> pt_archive := Some a' \<rparr>, Ok ())
                            | Err err \<Rightarrow> (p1, Err err)
                            | Panic \<Rightarrow> (p1, Panic)))))"

fun archive_names ::
  "('a, 'b) archive_api \<Rightarrow> string list \<Rightarrow> 'a partition \<Rightarrow> 'a partition \<times> unit core_result" where
  "archive_names api [] p = (p, Ok ())"
| "archive_names api (n # ns) p =
    (case archive_one api n p of (p', Ok _) \<Rightarrow> archive_names api ns p' | (p', r) \<Rightarrow> (p', r))"

definition archive_entities ::
  "('a, 'b) archive_api \<Rightarrow> 32 word \<Rightarrow> 'a partition \<Rightarrow> 'a partition \<times> nat core_result" where
  "archive_entities api now p =
    (if \<not> cf_auto_archive_entities (pt_config p) then (p, Ok 0)
     else let names = idle_entities now p in
          case archive_names api names p of (p', r) \<Rightarrow> (p', map_ok (\<lambda>_. length names) r))"

section \<open>Lemmas\<close>

text \<open>
  The documented behaviour of the store and the encoding: a write or removal that succeeds is
  seen by later reads, and an encoded entity decodes to itself.
\<close>

definition archive_ok :: "('a, 'b) archive_api \<Rightarrow> bool" where
  "archive_ok api \<longleftrightarrow>
    (\<forall>a k b a'. arc_insert api a k b = Ok a' \<longrightarrow>
       (\<forall>k'. arc_get api a' k' = (if k' = k then Ok (Some b) else arc_get api a k')))
    \<and> (\<forall>a k a'. arc_remove api a k = Ok a' \<longrightarrow>
       (\<forall>k'. arc_get api a' k' = (if k' = k then Ok None else arc_get api a k')))
    \<and> (\<forall>e b. encode_entity api e = Ok b \<longrightarrow> decode_entity api b = Ok e)"

text \<open>A store that keeps its entries in an association list and encodes an entity as itself.\<close>

definition list_archive :: "((string, entity) kv, entity) archive_api" where
  "list_archive =
    \<lparr> arc_get = (\<lambda>a k. Ok (map_of a k)), arc_insert = (\<lambda>a k b. Ok (kv_insert k b a)),
      arc_remove = (\<lambda>a k. Ok (kv_remove k a)), arc_keys = (\<lambda>a. map (Ok \<circ> fst) a),
      encode_entity = Ok, decode_entity = Ok \<rparr>"

lemma list_archive_ok: "archive_ok list_archive"
  by (auto simp: archive_ok_def list_archive_def kv_simps)

interpretation entities_kv: kv_store "map_of :: (string, entity) kv \<Rightarrow> string \<Rightarrow> entity option"
  kv_insert kv_remove kv_wf
  by unfold_locales (auto simp: kv_simps intro: wf_intros)

text \<open>What a partition holds: an entity in memory, or else the archived one.\<close>

definition entity_view :: "('a, 'b) archive_api \<Rightarrow> 'a partition \<Rightarrow> string \<Rightarrow> entity option" where
  "entity_view api p n =
    (case map_of (pt_entities p) n of
       Some e \<Rightarrow> Some e
     | None \<Rightarrow> (case get_entity_archived api p n of Ok e \<Rightarrow> Some e | _ \<Rightarrow> None))"

definition part_wf :: "'a partition \<Rightarrow> bool" where
  "part_wf p \<longleftrightarrow> kv_wf (pt_entities p) \<and> kv_wf (pt_behaviors p)"

lemma kv_push_wf [wf_intros]: "kv_wf m \<Longrightarrow> kv_wf (kv_push k x m)"
  by (simp add: kv_push_def kv_wf_insert)

lemma map_of_kv_push [kv_simps]:
  "map_of (kv_push k x m) = (map_of m)(k \<mapsto> (case map_of m k of Some xs \<Rightarrow> xs | None \<Rightarrow> []) @ [x])"
  by (simp add: kv_push_def kv_simps)

lemma spawn_onto_partition_frame:
  assumes "spawn_onto_partition load_lib b t p = (p', r)"
  shows "pt_entities p' = pt_entities p" "pt_archive p' = pt_archive p" "pt_config p' = pt_config p"
    "kv_wf (pt_behaviors p) \<Longrightarrow> kv_wf (pt_behaviors p')"
  using assms by (auto simp: spawn_onto_partition_def add_handle_def Let_def kv_push_wf
    split: behavior_inner.splits result.splits if_splits)

lemma spawn_all_frame:
  "spawn_all load_lib bs p = (p', r) \<Longrightarrow>
    pt_entities p' = pt_entities p \<and> pt_archive p' = pt_archive p \<and> pt_config p' = pt_config p
    \<and> (kv_wf (pt_behaviors p) \<longrightarrow> kv_wf (pt_behaviors p'))"
proof (induction bs arbitrary: p)
  case (Cons bt bs)
  obtain b t where bt: "bt = (b, t)" by (cases bt)
  obtain p1 r1 where s: "spawn_onto_partition load_lib b t p = (p1, r1)" by fastforce
  note f = spawn_onto_partition_frame [OF s]
  show ?case
  proof (cases r1)
    case (Ok u)
    with Cons.prems bt s have "spawn_all load_lib bs p1 = (p', r)" by simp
    with Cons.IH [OF this] f show ?thesis by simp
  qed (use Cons.prems bt s f in auto)
qed simp

lemma get_entity_archived_cong:
  "pt_archive p' = pt_archive p \<Longrightarrow> get_entity_archived api p' n = get_entity_archived api p n"
  by (simp add: get_entity_archived_def)

lemma entity_view_frame:
  "\<lbrakk> pt_entities p' = pt_entities p; pt_archive p' = pt_archive p \<rbrakk> \<Longrightarrow> entity_view api p' = entity_view api p"
  by (rule ext) (simp add: entity_view_def get_entity_archived_cong [of p' p] split: option.split)

lemma get_entity_archived_insert:
  assumes "archive_ok api" "pt_archive p = Some a" "arc_insert api a n b = Ok a'" "encode_entity api e = Ok b"
  shows "get_entity_archived api (p\<lparr> pt_entities := es, pt_archive := Some a' \<rparr>) k
    = (if k = n then Ok e else get_entity_archived api p k)"
  using assms by (auto simp: archive_ok_def get_entity_archived_def)

lemma archive_one_view:
  assumes "archive_ok api" "archive_one api n p = (p', Ok u)"
  shows "entity_view api p' = entity_view api p
    \<and> map_of (pt_entities p') = (map_of (pt_entities p))(n := None) \<and> pt_config p' = pt_config p"
proof (cases "map_of (pt_entities p) n")
  case None
  with assms(2) have "p' = p" by (simp add: archive_one_def)
  with None show ?thesis by (auto simp: fun_upd_idem)
next
  case (Some e)
  with assms(2) obtain b a a' where *: "encode_entity api e = Ok b" "pt_archive p = Some a"
    "arc_insert api a n b = Ok a'" "p' = p\<lparr> pt_entities := kv_remove n (pt_entities p), pt_archive := Some a' \<rparr>"
    by (auto simp: archive_one_def Let_def split: result.splits option.splits)
  note arch = get_entity_archived_insert [OF assms(1) *(2,3,1)]
  have "entity_view api p' k = entity_view api p k" for k
    using Some by (cases "k = n") (simp_all add: entity_view_def *(4) arch kv_simps split: option.split)
  then show ?thesis by (auto simp: *(4) kv_simps)
qed

lemma archive_names_view:
  assumes "archive_ok api"
  shows "archive_names api ns p = (p', Ok u) \<Longrightarrow> entity_view api p' = entity_view api p
    \<and> map_of (pt_entities p') = (\<lambda>k. if k \<in> set ns then None else map_of (pt_entities p) k)"
proof (induction ns arbitrary: p)
  case (Cons n ns)
  obtain p1 r1 where s: "archive_one api n p = (p1, r1)" by fastforce
  with Cons.prems obtain w where r1: "r1 = Ok w" "archive_names api ns p1 = (p', Ok u)"
    by (cases r1) auto
  from archive_one_view [OF assms s [unfolded r1(1)]] Cons.IH [OF r1(2)] show ?case by auto
qed auto

text \<open>C29: archiving idle entities moves exactly those out of memory, reports how many there were, and
  loses none: every entity the partition held is still found, in memory or in the archive.\<close>

theorem archive_preserves:
  assumes "archive_ok api" "archive_entities api now p = (p', Ok n)"
  shows "entity_view api p' = entity_view api p
    \<and> map_of (pt_entities p') = (\<lambda>k. if cf_auto_archive_entities (pt_config p) \<and> k \<in> set (idle_entities now p)
                                 then None else map_of (pt_entities p) k)
    \<and> n = (if cf_auto_archive_entities (pt_config p) then length (idle_entities now p) else 0)"
proof (cases "cf_auto_archive_entities (pt_config p)")
  case True
  obtain p1 r where s: "archive_names api (idle_entities now p) p = (p1, r)" by fastforce
  with True assms(2) obtain u where "r = Ok u" "p1 = p'" "n = length (idle_entities now p)"
    by (auto simp: archive_entities_def)
  with archive_names_view [OF assms(1), of "idle_entities now p" p p' u] s True show ?thesis by auto
qed (use assms in \<open>auto simp: archive_entities_def\<close>)

definition sample_partition :: "'a option \<Rightarrow> 'a partition" where
  "sample_partition a =
    \<lparr> pt_entities = [(''e'', touch 10 empty_entity), (''f'', touch 18 empty_entity)], pt_archive = a,
      pt_behaviors = [], pt_unsynced = [], pt_machines = [], pt_libs = [],
      pt_config = default_part_config\<lparr> cf_auto_archive_entities := True \<rparr> \<rparr>"

theorem archive_preserves_witness:
  "entity_view list_archive (fst (archive_entities list_archive 20 (sample_partition (Some [])))) ''e''
     = Some (touch 10 empty_entity)"
proof -
  let ?p = "sample_partition (Some [])"
  have "archive_entities list_archive 20 ?p = (fst (archive_entities list_archive 20 ?p), Ok 1)"
    by (simp add: archive_entities_def sample_partition_def default_part_config_def idle_entities_def
      touch_def empty_entity_def archive_one_def list_archive_def)
  from archive_preserves [OF list_archive_ok this] show ?thesis
    by (simp add: entity_view_def sample_partition_def)
qed

text \<open>With archiving on but no archive the first idle entity is dropped from memory and the
  operation fails, so the entity is in neither place.\<close>

lemma archive_disabled_loses:
  assumes "cf_auto_archive_entities (pt_config p)" "pt_archive p = None"
    "idle_entities now p = n # ns" "map_of (pt_entities p) n = Some e" "encode_entity api e = Ok b"
  shows "\<exists>p'. archive_entities api now p = (p', Err ArchiveDisabled)
    \<and> entity_view api p n = Some e \<and> entity_view api p' n = None"
  using assms by (auto simp: archive_entities_def archive_one_def entity_view_def kv_simps
    get_entity_archived_def)

lemma insert_entity_view:
  assumes "archive_ok api" "insert_entity api n e p = (p', Ok u)"
    "cf_entity_create_to_archive (pt_config p) \<Longrightarrow> map_of (pt_entities p) n = None"
  shows "entity_view api p' = (entity_view api p)(n \<mapsto> e)"
proof (cases "cf_entity_create_to_archive (pt_config p)")
  case True
  with assms(2) obtain b a a' where *: "encode_entity api e = Ok b" "pt_archive p = Some a"
    "arc_insert api a n b = Ok a'" "p' = p\<lparr> pt_archive := Some a' \<rparr>"
    by (auto simp: insert_entity_def split: result.splits option.splits)
  have arch: "get_entity_archived api p' k = (if k = n then Ok e else get_entity_archived api p k)" for k
    using get_entity_archived_insert [OF assms(1) *(2,3,1), of "pt_entities p" k] by (simp add: *(4))
  show ?thesis
  proof
    fix k
    show "entity_view api p' k = ((entity_view api p)(n \<mapsto> e)) k"
      using assms(3) [OF True] arch [of k] by (cases "k = n") (auto simp: entity_view_def *(4) split: option.split)
  qed
next
  case False
  with assms(2) have p': "p' = p\<lparr> pt_entities := kv_insert n e (pt_entities p) \<rparr>"
    by (simp add: insert_entity_def)
  then have f: "map_of (pt_entities p') = (map_of (pt_entities p))(n \<mapsto> e)" by (simp add: kv_simps)
  have arch: "get_entity_archived api p' k = get_entity_archived api p k" for k
    by (rule get_entity_archived_cong) (simp add: p')
  show ?thesis by (rule ext) (simp add: entity_view_def f arch split: option.split)
qed

lemma insert_entity_fail:
  "\<lbrakk> insert_entity api n e p = (p', r); \<nexists>u. r = Ok u \<rbrakk> \<Longrightarrow> p' = p"
  by (auto simp: insert_entity_def split: result.splits option.splits if_splits)

lemma add_entity_view:
  assumes "archive_ok api" "add_entity api load_lib m n e p = (p', r)"
    "cf_entity_create_to_archive (pt_config p) \<Longrightarrow> map_of (pt_entities p) n = None"
  shows "entity_view api p' = (case r of Ok _ \<Rightarrow> (entity_view api p)(n \<mapsto> e) | _ \<Rightarrow> entity_view api p)"
proof -
  obtain p1 r1 where s: "spawn_all load_lib
      (map (\<lambda>b. (b, TargetEntity n)) (filter (behavior_applies e) (md_behaviors m))) p = (p1, r1)" by fastforce
  note f = spawn_all_frame [OF s]
  have v: "entity_view api p1 = entity_view api p" using f by (intro entity_view_frame) auto
  show ?thesis
  proof (cases r1)
    case (Ok u)
    with s assms(2) have i: "insert_entity api n e p1 = (p', r)" by (simp add: add_entity_def)
    show ?thesis
    proof (cases "\<exists>u. r = Ok u")
      case True
      with i insert_entity_view [OF assms(1), of n e p1 p'] f assms(3) v show ?thesis by auto
    next
      case False
      with insert_entity_fail [OF i] v show ?thesis by (cases r) auto
    qed
  qed (use s assms(2) v in \<open>auto simp: add_entity_def\<close>)
qed

text \<open>The entity a spawn request describes.\<close>

definition spawned_entity ::
  "'l model \<Rightarrow> string option \<Rightarrow> (local_address, var) kv \<Rightarrow> entity core_result" where
  "spawned_entity m prefab data =
    res_bind (case prefab of Some pf \<Rightarrow> entity_from_prefab_name pf m | None \<Rightarrow> Ok empty_entity)
      (\<lambda>e. map_ok (\<lambda>st. e\<lparr> e_storage := st \<rparr>)
        (res_foldl (\<lambda>st (addr, v). storage_set_from_var st addr v) (e_storage e) data))"

text \<open>C31: a spawn that succeeds adds exactly the entity its prefab and data describe and leaves every
  other entity as it was; a spawn that fails, for whatever reason, changes no entity.  (When new
  entities go to the archive, the name must not be in memory, where it would shadow the archive.)\<close>

theorem spawn_entity_spec:
  assumes "archive_ok api" "spawn_entity api load_lib m n prefab data p = (p', r)"
    "cf_entity_create_to_archive (pt_config p) \<Longrightarrow> map_of (pt_entities p) n = None"
  shows "case r of
      Ok _ \<Rightarrow> \<exists>e. spawned_entity m prefab data = Ok e \<and> entity_view api p' = (entity_view api p)(n \<mapsto> e)
    | _ \<Rightarrow> entity_view api p' = entity_view api p"
proof (cases "spawned_entity m prefab data")
  case (Ok e)
  with assms(2) have "add_entity api load_lib m n e p = (p', r)"
    by (simp add: spawn_entity_def spawned_entity_def)
  from add_entity_view [OF assms(1) this] assms(3) Ok show ?thesis by (cases r) auto
qed (use assms(2) in \<open>auto simp: spawn_entity_def spawned_entity_def\<close>)

theorem spawn_entity_spec_witness:
  "\<exists>e. spawned_entity (default_model :: unit model) None [] = Ok e
     \<and> entity_view list_archive (fst (spawn_entity list_archive (\<lambda>_ _. Panic) (default_model :: unit model)
           ''g'' None [] (sample_partition None)))
       = (entity_view list_archive (sample_partition None))(''g'' \<mapsto> e)"
proof -
  let ?s = "spawn_entity list_archive (\<lambda>_ _. Panic) (default_model :: unit model) ''g'' None [] (sample_partition None)"
  have s: "?s = (fst ?s, Ok ())"
    by (simp add: spawn_entity_def add_entity_def default_model_def insert_entity_def
      sample_partition_def default_part_config_def)
  have "\<not> cf_entity_create_to_archive (pt_config (sample_partition (None :: (string, entity) kv option)))"
    by (simp add: sample_partition_def default_part_config_def)
  with spawn_entity_spec [OF list_archive_ok s] show ?thesis by simp
qed

text \<open>C30: a removal that succeeds takes the entity out of memory or, when it is not there, out of the
  archive, with the synced behaviors bound to it, and leaves every other entity and behavior;
  one that fails changes no entity.\<close>

theorem remove_entity_spec:
  assumes "archive_ok api" "remove_entity api n p = (p', r)"
  shows "(\<forall>k. entity_view api p' k =
      (if k = n \<and> r = Ok ()
       then (if map_of (pt_entities p) n = None then None
             else case get_entity_archived api p n of Ok e \<Rightarrow> Some e | _ \<Rightarrow> None)
       else entity_view api p k))
    \<and> map_of (pt_behaviors p') t = (if t = TargetEntity n then None else map_of (pt_behaviors p) t)"
proof -
  let ?bs = "filter (\<lambda>(t, _). t \<noteq> TargetEntity n) (pt_behaviors p)"
  have bs: "map_of ?bs t = (if t = TargetEntity n then None else map_of (pt_behaviors p) t)"
    by (simp add: map_of_filter_key)
  show ?thesis
  proof (cases "map_of (pt_entities p) n")
    case (Some e)
    with assms(2) have p': "p' = p\<lparr> pt_behaviors := ?bs, pt_entities := kv_remove n (pt_entities p) \<rparr>" "r = Ok ()"
      by (auto simp: remove_entity_def Let_def)
    then have f: "map_of (pt_entities p') = (map_of (pt_entities p))(n := None)" "pt_behaviors p' = ?bs"
      by (simp_all add: kv_simps)
    have arch: "get_entity_archived api p' k = get_entity_archived api p k" for k
      by (rule get_entity_archived_cong) (simp add: p')
    show ?thesis using Some bs p'(2) by (simp add: entity_view_def f arch split: option.split)
  next
    case None
    show ?thesis
    proof (cases "\<exists>a a'. pt_archive p = Some a \<and> arc_remove api a n = Ok a'")
      case True
      then obtain a a' where a: "pt_archive p = Some a" "arc_remove api a n = Ok a'" by blast
      with None assms(2) have p': "p' = p\<lparr> pt_behaviors := ?bs, pt_archive := Some a' \<rparr>" "r = Ok ()"
        by (auto simp: remove_entity_def Let_def)
      have "get_entity_archived api p' k =
          (if k = n then Err (FailedGettingEntityByName n) else get_entity_archived api p k)" for k
        using a assms(1) by (auto simp: get_entity_archived_def p' archive_ok_def)
      moreover have "pt_entities p' = pt_entities p" "pt_behaviors p' = ?bs" by (simp_all add: p')
      ultimately show ?thesis using None bs p'(2) by (simp add: entity_view_def split: option.split)
    next
      case False
      with None assms(2) have p': "p' = p\<lparr> pt_behaviors := ?bs \<rparr>" "r \<noteq> Ok ()"
        by (auto simp: remove_entity_def Let_def split: option.splits result.splits)
      have "entity_view api p' = entity_view api p" by (rule entity_view_frame) (simp_all add: p')
      moreover have "pt_behaviors p' = ?bs" by (simp add: p')
      ultimately show ?thesis using bs p'(2) by simp
    qed
  qed
qed

theorem remove_entity_spec_witness:
  "entity_view list_archive (fst (remove_entity list_archive ''e'' (sample_partition (Some [])))) ''e'' = None"
proof -
  let ?s = "remove_entity list_archive ''e'' (sample_partition (Some []))"
  have s: "?s = (fst ?s, Ok ())"
    by (simp add: remove_entity_def sample_partition_def Let_def)
  from remove_entity_spec [OF list_archive_ok s] show ?thesis
    by (simp add: sample_partition_def get_entity_archived_def list_archive_def)
qed

text \<open>With a store whose removal of an absent key succeeds, removing an unknown entity reports success.\<close>

lemma remove_unknown_entity:
  "\<lbrakk> map_of (pt_entities p) n = None; pt_archive p = Some a; arc_remove api a n = Ok a' \<rbrakk>
    \<Longrightarrow> snd (remove_entity api n p) = Ok ()"
  by (simp add: remove_entity_def Let_def)

section \<open>Invariant\<close>

lemma get_entity_wf [wf_intros]: "\<lbrakk> part_wf p; get_entity now n p = (p', r) \<rbrakk> \<Longrightarrow> part_wf p'"
  by (auto simp: get_entity_def part_wf_def kv_wf_insert split: option.splits)

lemma insert_entity_wf: "\<lbrakk> part_wf p; insert_entity api n e p = (p', r) \<rbrakk> \<Longrightarrow> part_wf p'"
  by (auto simp: insert_entity_def part_wf_def kv_wf_insert split: option.splits result.splits if_splits)

lemma add_entity_wf [wf_intros]:
  assumes "part_wf p" "add_entity api load_lib m n e p = (p', r)"
  shows "part_wf p'"
proof -
  obtain p1 r1 where s: "spawn_all load_lib
      (map (\<lambda>b. (b, TargetEntity n)) (filter (behavior_applies e) (md_behaviors m))) p = (p1, r1)" by fastforce
  from spawn_all_frame [OF s] assms(1) have "part_wf p1" by (simp add: part_wf_def)
  with s assms(2) insert_entity_wf show ?thesis by (cases r1) (auto simp: add_entity_def)
qed

lemma spawn_entity_wf [wf_intros]:
  assumes "part_wf p" "spawn_entity api load_lib m n prefab data p = (p', r)"
  shows "part_wf p'"
proof (cases "spawned_entity m prefab data")
  case (Ok e)
  with assms show ?thesis using add_entity_wf [OF assms(1)] by (simp add: spawn_entity_def spawned_entity_def)
qed (use assms in \<open>auto simp: spawn_entity_def spawned_entity_def\<close>)

lemma remove_entity_wf [wf_intros]: "\<lbrakk> part_wf p; remove_entity api n p = (p', r) \<rbrakk> \<Longrightarrow> part_wf p'"
  by (auto simp: remove_entity_def part_wf_def Let_def kv_wf_filter kv_wf_remove
    split: option.splits result.splits if_splits)

lemma archive_one_wf: "\<lbrakk> part_wf p; archive_one api n p = (p', r) \<rbrakk> \<Longrightarrow> part_wf p'"
  by (auto simp: archive_one_def part_wf_def Let_def kv_wf_remove split: option.splits result.splits)

lemma archive_names_wf: "\<lbrakk> part_wf p; archive_names api ns p = (p', r) \<rbrakk> \<Longrightarrow> part_wf p'"
proof (induction ns arbitrary: p)
  case (Cons n ns)
  obtain p1 r1 where s: "archive_one api n p = (p1, r1)" by fastforce
  with archive_one_wf Cons.prems(1) have "part_wf p1" by blast
  with s Cons show ?case by (cases r1) auto
qed simp

lemma archive_entities_wf [wf_intros]: "\<lbrakk> part_wf p; archive_entities api now p = (p', r) \<rbrakk> \<Longrightarrow> part_wf p'"
  by (auto simp: archive_entities_def Let_def archive_names_wf split: if_splits prod.splits)

lemma partition_from_model_wf [wf_intros]:
  assumes "partition_from_model load_lib open_archive m config = Ok p"
  shows "part_wf p \<and> pt_config p = config \<and> pt_entities p = []"
proof -
  from assms obtain q where q1: "partition_new open_archive config = Ok q"
    and q2: "(case spawn_non_entity_bound load_lib m q of (p', Panic) \<Rightarrow> Panic | (p', _) \<Rightarrow> Ok p') = (Ok p :: _ core_result)"
    unfolding partition_from_model_def res_bind_Ok_iff by blast
  obtain p1 r where s: "spawn_non_entity_bound load_lib m q = (p1, r)" by fastforce
  with q2 have q: "partition_new open_archive config = Ok q" "spawn_non_entity_bound load_lib m q = (p, r)"
    using q1 by (cases r; simp)+
  then have "pt_entities q = []" "kv_wf (pt_behaviors q)" "pt_config q = config"
    by (auto simp: partition_new_def result_simps)
  with spawn_all_frame [OF q(2) [unfolded spawn_non_entity_bound_def]] show ?thesis
    by (simp add: part_wf_def)
qed

end
