(* ===== verification/Processing.thy ===== *)
theory Processing
  imports Queries Parts
begin

text \<open>
  The processing of a query on a partition, from src/bigworlds/src/query/process.rs: the
  filter loop, the mapping loop and the construction of the product.  \<open>now\<close> is the time at
  which an entity is accessed.
\<close>

section \<open>Filters\<close>

text \<open>A loop that keeps the items a fallible test accepts.\<close>

fun res_filter :: "('a \<Rightarrow> ('e, bool) result) \<Rightarrow> 'a list \<Rightarrow> ('e, 'a list) result" where
  "res_filter f [] = Ok []"
| "res_filter f (x # xs) =
    res_bind (f x) (\<lambda>b. map_ok (\<lambda>ys. if b then x # ys else ys) (res_filter f xs))"

definition has_component :: "'a partition \<Rightarrow> string \<Rightarrow> string \<Rightarrow> bool" where
  "has_component p c n =
    (case map_of (pt_entities p) n of Some e \<Rightarrow> ListMem c (e_components e) | None \<Rightarrow> False)"

definition in_var_range ::
  "(string \<Rightarrow> bool) \<Rightarrow> var_type \<Rightarrow> var \<Rightarrow> var \<Rightarrow> var \<Rightarrow> bool core_result" where
  "in_var_range uesc t v low high =
    (if t = TString then
       (let len = sint (word_of_nat (length (var_to_string uesc v)) :: 32 word)
        in Ok (sint (var_to_int low) < len \<and> len < sint (var_to_int high)))
     else if t = TInt then
       map_ok (\<lambda>i. sint (var_to_int low) < sint i \<and> sint i < sint (var_to_int high)) (as_int v)
     else if t = TFloat then
       map_ok (\<lambda>x. f32_gt x (var_to_float low) \<and> f32_gt (var_to_float high) x) (as_float v)
     else Panic)"

definition var_range_test ::
  "(string \<Rightarrow> bool) \<Rightarrow> 'a partition \<Rightarrow> local_address \<Rightarrow> var \<Rightarrow> var \<Rightarrow> string \<Rightarrow> bool core_result" where
  "var_range_test uesc p addr low high n =
    (case map_of (pt_entities p) n of
       None \<Rightarrow> Ok False
     | Some e \<Rightarrow>
         (case storage_get_var (e_storage e) (local_as_storage_index addr) of
            Ok v \<Rightarrow> in_var_range uesc (la_type addr) v low high
          | _ \<Rightarrow> Ok False))"

text \<open>The component filter walks all entities of the partition, and stops at the entity limit.\<close>

fun scan_component :: "string \<Rightarrow> nat option \<Rightarrow> string list \<Rightarrow> (string, entity) kv \<Rightarrow> string list" where
  "scan_component c lim acc [] = acc"
| "scan_component c lim acc ((n, e) # es) =
    (if ListMem c (e_components e)
     then (if (case lim of Some l \<Rightarrow> l \<le> length (acc @ [n]) | None \<Rightarrow> False) then acc @ [n]
           else scan_component c lim (acc @ [n]) es)
     else scan_component c lim acc es)"

definition entity_limit :: "query \<Rightarrow> nat option" where
  "entity_limit q = map_option unat (lim_entities (q_limits q))"

definition select_step ::
  "(string \<Rightarrow> bool) \<Rightarrow> query \<Rightarrow> 'a partition \<Rightarrow> query_filter \<Rightarrow> string list \<times> string list
    \<Rightarrow> (string list \<times> string list) core_result" where
  "select_step uesc q p f sa =
    (case sa of (sel, arch) \<Rightarrow>
     case f of
       FId ids \<Rightarrow> Panic
     | FName names \<Rightarrow> Ok
         (filter (\<lambda>n. ListMem n sel) names,
          if q_archive q \<noteq> AIgnore then filter (\<lambda>n. ListMem n arch) names else [])
     | AllComponents cs \<Rightarrow> Ok
         (filter (\<lambda>n. case map_of (pt_entities p) n of
             Some e \<Rightarrow> list_all (\<lambda>c. ListMem c (e_components e)) cs | None \<Rightarrow> False) sel, [])
     | Distance _ _ _ _ _ _ \<Rightarrow> Panic
     | DistanceMultiPoint _ \<Rightarrow> Panic
     | FNode _ \<Rightarrow> Ok (sel, [])
     | FComponent c \<Rightarrow> Ok (scan_component c (entity_limit q) [] (pt_entities p), [])
     | SomeComponents _ \<Rightarrow> Panic
     | VarRange addr low high \<Rightarrow>
         map_ok (\<lambda>s. (s, [])) (res_filter (var_range_test uesc p addr low high) sel)
     | AttrRange _ _ _ \<Rightarrow> Panic)"

definition truncate_to :: "nat option \<Rightarrow> string list \<Rightarrow> string list" where
  "truncate_to lim xs = (case lim of Some l \<Rightarrow> take l xs | None \<Rightarrow> xs)"

definition filter_step ::
  "(string \<Rightarrow> bool) \<Rightarrow> query \<Rightarrow> 'a partition \<Rightarrow> string list \<times> string list \<Rightarrow> query_filter
    \<Rightarrow> (string list \<times> string list) core_result" where
  "filter_step uesc q p sa f =
    map_ok (\<lambda>(s, a). (truncate_to (entity_limit q) s, truncate_to (entity_limit q) a))
      (select_step uesc q p f sa)"

definition initial_selection ::
  "('a, 'b) archive_api \<Rightarrow> query \<Rightarrow> 'a partition \<Rightarrow> (string list \<times> string list) core_result" where
  "initial_selection api q p =
    (if q_archive q = AInclude
     then map_ok (\<lambda>a. (map fst (pt_entities p),
            List.map_filter (\<lambda>k. case k of Ok n \<Rightarrow> Some n | _ \<Rightarrow> None) (arc_keys api a)))
          (ok_or ArchiveDisabled (pt_archive p))
     else Ok (map fst (pt_entities p), []))"

definition select_entities ::
  "('a, 'b) archive_api \<Rightarrow> (string \<Rightarrow> bool) \<Rightarrow> query \<Rightarrow> 'a partition
    \<Rightarrow> (string list \<times> string list) core_result" where
  "select_entities api uesc q p =
    res_bind (initial_selection api q p) (\<lambda>sa. res_foldl (filter_step uesc q p) sa (q_filters q))"

section \<open>Mappings\<close>

type_synonym mapped = "(string \<times> string \<times> string, var) kv"

text \<open>The entries of one entity that a test on component and variable selects.\<close>

definition map_storage :: "(string \<Rightarrow> string \<Rightarrow> bool) \<Rightarrow> string \<Rightarrow> storage \<Rightarrow> mapped \<Rightarrow> mapped" where
  "map_storage P n st data =
    foldl (\<lambda>d ((c, v), x). if P c v then kv_insert (n, c, v) x d else d) data st"

definition map_addrs :: "address list \<Rightarrow> string \<Rightarrow> storage \<Rightarrow> mapped \<Rightarrow> mapped" where
  "map_addrs addrs n st data =
    foldl (\<lambda>d a. case storage_get_var st (address_storage_index a) of
        Ok x \<Rightarrow> kv_insert (n, a_comp a, a_var a) x d | _ \<Rightarrow> d) data addrs"

text \<open>The loop over the selected entities, each read through \<open>get_entity\<close>.\<close>

fun map_selected ::
  "32 word \<Rightarrow> (string \<Rightarrow> storage \<Rightarrow> mapped \<Rightarrow> mapped) \<Rightarrow> string list
    \<Rightarrow> 'a partition \<times> mapped \<Rightarrow> 'a partition \<times> mapped" where
  "map_selected now g [] pd = pd"
| "map_selected now g (n # ns) (p, data) =
    (case get_entity now n p of
       (p', Ok e) \<Rightarrow> map_selected now g ns (p', g n (e_storage e) data)
     | (p', _) \<Rightarrow> map_selected now g ns (p', data))"

definition map_archived ::
  "('a, 'b) archive_api \<Rightarrow> 'a partition \<Rightarrow> string list \<Rightarrow> mapped \<Rightarrow> mapped" where
  "map_archived api p ns data =
    foldl (\<lambda>d n. case get_entity_archived api p n of
        Ok e \<Rightarrow> map_storage (\<lambda>_ _. True) n (e_storage e) d | _ \<Rightarrow> d) data ns"

fun run_mappings ::
  "('a, 'b) archive_api \<Rightarrow> 32 word \<Rightarrow> query \<Rightarrow> string list \<Rightarrow> string list \<Rightarrow> query_map list
    \<Rightarrow> 'a partition \<times> mapped \<Rightarrow> 'a partition \<times> mapped core_result" where
  "run_mappings api now q sel arch [] (p, data) = (p, Ok data)"
| "run_mappings api now q sel arch (m # ms) (p, data) =
    (case m of
       MAll \<Rightarrow>
         (case map_selected now (map_storage (\<lambda>_ _. True)) sel
             (p, if q_archive q \<noteq> AIgnore then map_archived api p arch data else data)
          of (p', d) \<Rightarrow> (p', Ok d))
     | MVar x \<Rightarrow> run_mappings api now q sel arch ms
         (map_selected now (map_storage (\<lambda>c v. v = x)) sel (p, data))
     | MComponents cs \<Rightarrow> run_mappings api now q sel arch ms
         (map_selected now (map_storage (\<lambda>c v. ListMem c cs)) sel (p, data))
     | MComponent x \<Rightarrow> run_mappings api now q sel arch ms
         (map_selected now (map_storage (\<lambda>c v. c = x)) sel (p, data))
     | SelectAddrs addrs \<Rightarrow> run_mappings api now q sel arch ms
         (map_selected now (map_addrs addrs) sel (p, data))
     | MVarType t \<Rightarrow> (p, Panic))"

section \<open>Products\<close>

definition data_address :: "string \<times> string \<times> string \<Rightarrow> var \<Rightarrow> address" where
  "data_address k x =
    (case k of (n, c, v) \<Rightarrow> \<lparr> a_entity = n, a_comp = c, a_type = get_type x, a_var = v \<rparr>)"

definition typed_insert :: "typed_map \<Rightarrow> (string \<times> string \<times> string) \<times> var \<Rightarrow> typed_map" where
  "typed_insert t kx =
    (case kx of (k, x) \<Rightarrow>
     if is_float x then t\<lparr> tm_floats := kv_insert (data_address k x) (var_to_float x) (tm_floats t) \<rparr>
     else if is_bool x then t\<lparr> tm_bools := kv_insert (data_address k x) (var_to_bool x) (tm_bools t) \<rparr>
     else if is_int x then t\<lparr> tm_ints := kv_insert (data_address k x) (var_to_int x) (tm_ints t) \<rparr>
     else t)"

definition build_product ::
  "(string \<Rightarrow> bool) \<Rightarrow> description \<Rightarrow> layout \<Rightarrow> mapped \<Rightarrow> query_product core_result" where
  "build_product uesc d l data =
    (case d of
       DNone \<Rightarrow>
         (case l of LVar \<Rightarrow> Ok (PVar (map snd data))
          | LString \<Rightarrow> Ok (PString (map (\<lambda>(_, x). var_to_string uesc x) data))
          | LTyped \<Rightarrow> Panic)
     | NativeDescribed \<Rightarrow>
         (case l of LVar \<Rightarrow> Ok (PNativeAddressedVar (foldl (\<lambda>m (k, x). kv_insert k x m) [] data))
          | _ \<Rightarrow> Panic)
     | DEntity \<Rightarrow>
         (case l of LVar \<Rightarrow> Ok (PNameAddressedVar (foldl (\<lambda>m ((n, _, _), x). kv_insert n x m) [] data))
          | _ \<Rightarrow> Panic)
     | EntityMany \<Rightarrow>
         (case l of LVar \<Rightarrow> Ok (PNameAddressedVars (foldl (\<lambda>m ((n, _, _), x). kv_push n x m) [] data))
          | _ \<Rightarrow> Panic)
     | Addressed \<Rightarrow>
         (case l of
            LVar \<Rightarrow> Ok (PAddressedVar (foldl (\<lambda>m (k, x). kv_insert (data_address k x) x m) [] data))
          | LTyped \<Rightarrow> Ok (PAddressedTyped (foldl typed_insert
              \<lparr> tm_strings = [], tm_ints = [], tm_floats = [], tm_bools = [] \<rparr> data))
          | LString \<Rightarrow> Panic)
     | _ \<Rightarrow> Panic)"

definition process_query ::
  "('a, 'b) archive_api \<Rightarrow> (string \<Rightarrow> bool) \<Rightarrow> 32 word \<Rightarrow> query \<Rightarrow> 'a partition
    \<Rightarrow> 'a partition \<times> query_product core_result" where
  "process_query api uesc now q p =
    (case select_entities api uesc q p of
       Err e \<Rightarrow> (p, Err e)
     | Panic \<Rightarrow> (p, Panic)
     | Ok (sel, arch) \<Rightarrow>
         (case run_mappings api now q sel arch (q_mappings q) (p, []) of
            (p', r) \<Rightarrow> (p', res_bind r (build_product uesc (q_description q) (q_layout q)))))"

section \<open>What the filters select\<close>

definition filter_sat :: "(string \<Rightarrow> bool) \<Rightarrow> 'a partition \<Rightarrow> string \<Rightarrow> query_filter \<Rightarrow> bool" where
  "filter_sat uesc p n f =
    (case f of
       FName names \<Rightarrow> ListMem n names
     | AllComponents cs \<Rightarrow>
         (case map_of (pt_entities p) n of Some e \<Rightarrow> list_all (\<lambda>c. ListMem c (e_components e)) cs | None \<Rightarrow> False)
     | FComponent c \<Rightarrow> has_component p c n
     | FNode _ \<Rightarrow> True
     | VarRange a l h \<Rightarrow> var_range_test uesc p a l h n = Ok True
     | _ \<Rightarrow> False)"

text \<open>The filters that count: a component filter starts over from the whole partition.\<close>

fun from_component :: "query_filter list \<Rightarrow> query_filter list" where
  "from_component [] = []"
| "from_component (f # fs) = (case f of FComponent _ \<Rightarrow> [f] | _ \<Rightarrow> f # from_component fs)"

definition effective_filters :: "query_filter list \<Rightarrow> query_filter list" where
  "effective_filters fs = rev (from_component (rev fs))"

lemma effective_filters_simps [simp]:
  "effective_filters [] = []"
  "effective_filters (fs @ [f]) = (case f of FComponent _ \<Rightarrow> [f] | _ \<Rightarrow> effective_filters fs @ [f])"
  by (simp_all add: effective_filters_def split: query_filter.split)

lemma ListMem_iff_set [simp]: "ListMem x xs \<longleftrightarrow> x \<in> set xs"
  by (simp add: ListMem_iff)

lemma res_filter_Ok: "res_filter f xs = Ok ys \<Longrightarrow> ys = filter (\<lambda>x. f x = Ok True) xs"
proof (induction xs arbitrary: ys)
  case (Cons x xs)
  then show ?case by (cases "f x") auto
qed simp

lemma scan_component_set:
  "set (scan_component c lim acc es) \<subseteq> set acc \<union> {n. \<exists>e. (n, e) \<in> set es \<and> c \<in> set (e_components e)}"
  by (induction c lim acc es rule: scan_component.induct) (auto split: if_splits)

lemma scan_component_all:
  "scan_component c None acc es = acc @ map fst (filter (\<lambda>(n, e). c \<in> set (e_components e)) es)"
  by (induction c "None :: nat option" acc es rule: scan_component.induct) auto

lemma part_wf_map_of:
  "part_wf p \<Longrightarrow> map_of (pt_entities p) n = Some e \<longleftrightarrow> (n, e) \<in> set (pt_entities p)"
  by (simp add: part_wf_def kv_wf_def)

lemma has_component_iff:
  "part_wf p \<Longrightarrow> has_component p c n \<longleftrightarrow> (\<exists>e. (n, e) \<in> set (pt_entities p) \<and> c \<in> set (e_components e))"
  by (auto simp: has_component_def part_wf_map_of [symmetric] split: option.splits)

lemma scan_partition:
  assumes "part_wf p"
  shows "n \<in> set (scan_component c lim [] (pt_entities p)) \<Longrightarrow> has_component p c n"
    and "n \<in> set (scan_component c None [] (pt_entities p)) \<longleftrightarrow> has_component p c n"
  using scan_component_set [of c lim "[]" "pt_entities p"]
  by (auto simp: has_component_iff [OF assms] scan_component_all image_iff)

lemma truncate_to_simps [simp]:
  "truncate_to None xs = xs" "set (truncate_to lim xs) \<subseteq> set xs"
  "lim = Some l \<Longrightarrow> length (truncate_to lim xs) \<le> l"
  by (auto simp: truncate_to_def split: option.splits dest: in_set_takeD)

definition keys :: "'a partition \<Rightarrow> string set" where
  "keys p = dom (map_of (pt_entities p))"

lemma keys_component: "has_component p c n \<Longrightarrow> n \<in> keys p"
  by (auto simp: has_component_def keys_def split: option.splits)

definition restart :: "'a partition \<Rightarrow> query_filter \<Rightarrow> string set \<Rightarrow> string set" where
  "restart p f S = (case f of FComponent _ \<Rightarrow> keys p | _ \<Rightarrow> S)"

lemma select_step_set:
  assumes "part_wf p" "select_step uesc q p f (sel, arch) = Ok (sel', arch')"
  shows "set sel' \<subseteq> {n \<in> restart p f (set sel). filter_sat uesc p n f}"
    and "entity_limit q = None \<Longrightarrow> {n \<in> restart p f (set sel). filter_sat uesc p n f} \<subseteq> set sel'"
  using assms
  by (auto simp: select_step_def filter_sat_def restart_def scan_partition(2) [OF assms(1)]
      dest!: res_filter_Ok dest: scan_partition(1) [OF assms(1)] keys_component
      split: query_filter.splits option.splits)

lemma filter_step_set:
  assumes "part_wf p" "filter_step uesc q p (sel, arch) f = Ok (sel', arch')"
  shows "set sel' \<subseteq> {n \<in> restart p f (set sel). filter_sat uesc p n f}"
    and "entity_limit q = None \<Longrightarrow> set sel' = {n \<in> restart p f (set sel). filter_sat uesc p n f}"
    and "entity_limit q = Some l \<Longrightarrow> length sel' \<le> l"
proof -
  from assms(2) obtain s a where s: "select_step uesc q p f (sel, arch) = Ok (s, a)"
    "sel' = truncate_to (entity_limit q) s"
    by (auto simp: filter_step_def)
  from select_step_set [OF assms(1) s(1)] s(2) truncate_to_simps(2) [of "entity_limit q" s]
  show "set sel' \<subseteq> {n \<in> restart p f (set sel). filter_sat uesc p n f}" by blast
  show "entity_limit q = None \<Longrightarrow> set sel' = {n \<in> restart p f (set sel). filter_sat uesc p n f}"
    using select_step_set [OF assms(1) s(1)] s(2) by auto
  show "entity_limit q = Some l \<Longrightarrow> length sel' \<le> l"
    using s(2) by (simp add: truncate_to_def)
qed

definition selectable :: "(string \<Rightarrow> bool) \<Rightarrow> 'a partition \<Rightarrow> query_filter list \<Rightarrow> string set" where
  "selectable uesc p fs = {n \<in> keys p. list_all (filter_sat uesc p n) (effective_filters fs)}"

lemma selectable_snoc:
  "selectable uesc p (fs @ [f]) = {n \<in> restart p f (selectable uesc p fs). filter_sat uesc p n f}"
  by (auto simp: selectable_def restart_def split: query_filter.split)

lemma restart_mono: "S \<subseteq> T \<Longrightarrow> restart p f S \<subseteq> restart p f T"
  by (auto simp: restart_def split: query_filter.split)

lemma filter_steps_set:
  assumes "part_wf p"
  shows "res_foldl (filter_step uesc q p) (map fst (pt_entities p), arch) fs = Ok (sel, arch') \<Longrightarrow>
    set sel \<subseteq> selectable uesc p fs
    \<and> (entity_limit q = None \<longrightarrow> set sel = selectable uesc p fs)
    \<and> (fs = [] \<or> (case entity_limit q of None \<Rightarrow> True | Some l \<Rightarrow> length sel \<le> l))"
proof (induction fs arbitrary: sel arch' rule: rev_induct)
  case Nil
  then have "sel = map fst (pt_entities p)" by simp
  then show ?case by (simp add: selectable_def keys_def dom_map_of_conv_image_fst)
next
  case (snoc f fs)
  then obtain s a where s: "res_foldl (filter_step uesc q p) (map fst (pt_entities p), arch) fs = Ok (s, a)"
    "filter_step uesc q p (s, a) f = Ok (sel, arch')"
    by (auto simp: res_foldl_append result_simps)
  note step = filter_step_set [OF assms s(2)] and ih = snoc.IH [OF s(1)]
  have "set sel \<subseteq> selectable uesc p (fs @ [f])"
    using step(1) ih restart_mono [of "set s" "selectable uesc p fs" p f] by (auto simp: selectable_snoc)
  moreover have "set sel = selectable uesc p (fs @ [f])" if "entity_limit q = None"
    using step(2) ih that by (simp add: selectable_snoc)
  ultimately show ?case using step(3) by (auto split: option.split)
qed

text \<open>C36: filters that succeed select only entities of the partition that satisfy every filter from the
  last component filter on, a component filter discarding what earlier filters left out; with
  no entity limit they select all of them, and with one at most that many unless the query has
  no filter at all.\<close>

theorem select_spec:
  assumes "part_wf p" "select_entities api uesc q p = Ok (sel, arch)"
  shows "set sel \<subseteq> selectable uesc p (q_filters q)
    \<and> (entity_limit q = None \<longrightarrow> set sel = selectable uesc p (q_filters q))
    \<and> (q_filters q = [] \<or> (case entity_limit q of None \<Rightarrow> True | Some l \<Rightarrow> length sel \<le> l))"
proof -
  from assms(2) obtain a where "res_foldl (filter_step uesc q p) (map fst (pt_entities p), a) (q_filters q) = Ok (sel, arch)"
    by (auto simp: select_entities_def initial_selection_def result_simps split: if_splits)
  from filter_steps_set [OF assms(1) this] show ?thesis .
qed

definition sample_entities :: "'a partition" where
  "sample_entities = (sample_partition None)\<lparr> pt_entities :=
    [(''a'', empty_entity\<lparr> e_components := [''c''], e_storage := [((''c'', ''x''), VInt 1)] \<rparr>),
     (''b'', empty_entity\<lparr> e_components := [''d''], e_storage := [((''d'', ''x''), VInt 2)] \<rparr>)] \<rparr>"

lemma sample_entities_wf: "part_wf sample_entities"
  by (simp add: sample_entities_def sample_partition_def part_wf_def kv_wf_def)

theorem select_spec_witness:
  "set (fst (case select_entities list_archive (\<lambda>_. False)
      (with_filter default_query (AllComponents [''d''])) sample_entities of Ok s \<Rightarrow> s | _ \<Rightarrow> ([], []))) = {''b''}"
proof -
  let ?q = "with_filter default_query (AllComponents [''d''])"
  have s: "select_entities list_archive (\<lambda>_. False) ?q sample_entities = Ok ([''b''], [])"
    by (simp add: select_entities_def initial_selection_def default_query_def with_filter_def filter_step_def
      select_step_def sample_entities_def entity_limit_def truncate_to_def empty_entity_def)
  from select_spec [OF sample_entities_wf s] show ?thesis by (simp add: s)
qed

section \<open>What the mappings collect\<close>

text \<open>The contents of a partition: everything but the access times.\<close>

definition contents :: "'a partition \<Rightarrow> (string \<times> storage \<times> string list \<times> 32 word option) list" where
  "contents p = map (\<lambda>(n, e). (n, e_storage e, e_components e, em_last_moved (e_meta e))) (pt_entities p)"

definition stored :: "'a partition \<Rightarrow> string \<Rightarrow> storage option" where
  "stored p n = map_option e_storage (map_of (pt_entities p) n)"

lemma stored_contents: "stored p n = map_option fst (map_of (contents p) n)"
proof -
  have "map_option e_storage (map_of es n) = map_option fst (map_of
      (map (\<lambda>(n, e). (n, e_storage e, e_components e, em_last_moved (e_meta e))) es) n)" for es
    by (induction es) auto
  then show ?thesis by (simp add: stored_def contents_def)
qed

lemma contents_insert_touch:
  "map_of es n = Some e \<Longrightarrow>
    map (\<lambda>(n, e). (n, e_storage e, e_components e, em_last_moved (e_meta e))) (kv_insert n (touch now e) es)
    = map (\<lambda>(n, e). (n, e_storage e, e_components e, em_last_moved (e_meta e))) es"
  by (induction n "touch now e" es rule: kv_insert.induct) (auto simp: touch_def split: if_splits)

lemma touch_simps [simp]:
  "e_storage (touch now e) = e_storage e" "e_components (touch now e) = e_components e"
  "em_last_moved (e_meta (touch now e)) = em_last_moved (e_meta e)"
  by (simp_all add: touch_def)

lemma get_entity_frame:
  assumes "get_entity now n p = (p', r)"
  shows "contents p' = contents p" "p'\<lparr> pt_entities := [] \<rparr> = p\<lparr> pt_entities := [] \<rparr>"
    "map_option e_storage (case r of Ok e \<Rightarrow> Some e | _ \<Rightarrow> None) = stored p n"
  using assms
  by (auto simp: get_entity_def contents_def contents_insert_touch stored_def split: option.splits)

lemma map_selected_spec:
  "map_selected now g ns (p, data) = (p', d) \<Longrightarrow>
    contents p' = contents p \<and> p'\<lparr> pt_entities := [] \<rparr> = p\<lparr> pt_entities := [] \<rparr>
    \<and> d = foldl (\<lambda>d n. case stored p n of Some st \<Rightarrow> g n st d | None \<Rightarrow> d) data ns"
proof (induction ns arbitrary: p data)
  case (Cons n ns)
  obtain p1 r where g: "get_entity now n p = (p1, r)" by fastforce
  note f = get_entity_frame [OF g]
  have st: "stored p1 = stored p" by (rule ext) (simp add: stored_contents f(1))
  show ?case
  proof (cases r)
    case (Ok e)
    with g Cons.prems have "map_selected now g ns (p1, g n (e_storage e) data) = (p', d)" by simp
    moreover have "stored p n = Some (e_storage e)" using f(3) Ok by simp
    ultimately show ?thesis using Cons.IH [of p1 "g n (e_storage e) data"] f(1,2) by (simp add: st)
  next
    case (Err err)
    with g Cons.prems have "map_selected now g ns (p1, data) = (p', d)" by simp
    moreover have "stored p n = None" using f(3) Err by simp
    ultimately show ?thesis using Cons.IH [of p1 data] f(1,2) by (simp add: st)
  next
    case Panic
    with g Cons.prems have "map_selected now g ns (p1, data) = (p', d)" by simp
    moreover have "stored p n = None" using f(3) Panic by simp
    ultimately show ?thesis using Cons.IH [of p1 data] f(1,2) by (simp add: st)
  qed
qed simp

lemma run_mappings_frame:
  "run_mappings api now q sel arch ms (p, data) = (p', r) \<Longrightarrow>
    contents p' = contents p \<and> p'\<lparr> pt_entities := [] \<rparr> = p\<lparr> pt_entities := [] \<rparr>"
proof (induction ms arbitrary: p data)
  case (Cons m ms)
  have step: "contents p' = contents p \<and> p'\<lparr> pt_entities := [] \<rparr> = p\<lparr> pt_entities := [] \<rparr>"
    if "run_mappings api now q sel arch ms (map_selected now g sel (p, data)) = (p', r)" for g
  proof -
    obtain p1 d1 where m: "map_selected now g sel (p, data) = (p1, d1)" by fastforce
    with that Cons.IH [of p1 d1] map_selected_spec [OF m] show ?thesis by auto
  qed
  show ?case
  proof (cases m)
    case MAll
    with Cons.prems show ?thesis by (auto dest: map_selected_spec split: prod.splits if_splits)
  qed (use Cons.prems step in auto)
qed simp

lemma process_query_frame:
  assumes "process_query api uesc now q p = (p', r)"
  shows "contents p' = contents p \<and> p'\<lparr> pt_entities := [] \<rparr> = p\<lparr> pt_entities := [] \<rparr>"
proof -
  have "p' = p \<or> (\<exists>sel arch r'. run_mappings api now q sel arch (q_mappings q) (p, []) = (p', r'))"
    using assms by (cases "select_entities api uesc q p") (auto simp: process_query_def split: prod.splits)
  with run_mappings_frame show ?thesis by blast
qed

text \<open>Whatever its outcome, processing a query changes nothing on the partition but the access times
  of entities: their order, storage and components, the archive, the behaviors and the
  configuration stay as they were.\<close>

lemma query_read_only:
  assumes "process_query api uesc now q p = (p', r)"
  shows "contents p' = contents p \<and> p'\<lparr> pt_entities := [] \<rparr> = p\<lparr> pt_entities := [] \<rparr>"
  using process_query_frame [OF assms] .

subsection \<open>Lookups in the mapped data\<close>

lemma map_storage_extend:
  "map_storage P n st data =
    kv_extend data (map (\<lambda>((c, v), x). ((n, c, v), x)) (filter (\<lambda>((c, v), x). P c v) st))"
  unfolding map_storage_def kv_extend_def
  by (induction st arbitrary: data) auto

lemma map_of_storage_keys:
  "map_of (map (\<lambda>((c, v), x). ((n, c, v), x)) (filter (\<lambda>((c, v), x). P c v) st)) (n', c, v)
    = (if n' = n \<and> P c v then map_of st (c, v) else None)"
  by (induction st) auto

lemma map_storage_lookup:
  assumes "kv_wf st"
  shows "map_of (map_storage P n st data) (n', c, v) =
    (case (if n' = n \<and> P c v then map_of st (c, v) else None) of
       Some x \<Rightarrow> Some x | None \<Rightarrow> map_of data (n', c, v))"
proof -
  let ?xs = "map (\<lambda>((c, v), x). ((n, c, v), x)) (filter (\<lambda>((c, v), x). P c v) st)"
  have "kv_wf ?xs"
    using assms by (induction st) (auto simp: kv_wf_def image_iff split: if_splits)
  then show ?thesis
    by (simp add: map_storage_extend map_of_kv_extend map_of_rev map_of_storage_keys split: option.split)
qed

lemma map_addrs_lookup:
  "map_of (map_addrs addrs n st data) (n', c, v) =
    (case (if n' = n \<and> list_ex (\<lambda>a. a_comp a = c \<and> a_var a = v) addrs then map_of st (c, v) else None) of
       Some x \<Rightarrow> Some x | None \<Rightarrow> map_of data (n', c, v))"
proof (induction addrs arbitrary: data)
  case (Cons a addrs)
  let ?k = "(a_comp a, a_var a)"
  show ?case
  proof (cases "map_of st ?k")
    case None
    then have "map_addrs (a # addrs) n st data = map_addrs addrs n st data"
      by (simp add: map_addrs_def storage_get_var_def address_storage_index_def)
    with Cons.IH [of data] None show ?thesis by (auto split: option.split)
  next
    case (Some x)
    then have "map_addrs (a # addrs) n st data = map_addrs addrs n st (kv_insert (n, ?k) x data)"
      by (simp add: map_addrs_def storage_get_var_def address_storage_index_def)
    with Cons.IH [of "kv_insert (n, ?k) x data"] Some show ?thesis by (auto simp: kv_simps split: option.split)
  qed
qed (simp add: map_addrs_def)

section \<open>The addressed product\<close>

fun covers :: "query_map \<Rightarrow> string \<Rightarrow> string \<Rightarrow> bool" where
  "covers MAll c v = True"
| "covers (MVar x) c v = (v = x)"
| "covers (MComponents cs) c v = ListMem c cs"
| "covers (MComponent x) c v = (c = x)"
| "covers (SelectAddrs addrs) c v = list_ex (\<lambda>a. a_comp a = c \<and> a_var a = v) addrs"
| "covers (MVarType t) c v = False"

definition storages_wf :: "'a partition \<Rightarrow> bool" where
  "storages_wf p \<longleftrightarrow> list_all (\<lambda>(n, e). kv_wf (e_storage e)) (pt_entities p)"

definition lookup_var :: "'a partition \<Rightarrow> string \<Rightarrow> string \<Rightarrow> string \<Rightarrow> var option" where
  "lookup_var p n c v = (case stored p n of Some st \<Rightarrow> map_of st (c, v) | None \<Rightarrow> None)"

lemma stored_wf: "\<lbrakk> storages_wf p; stored p n = Some st \<rbrakk> \<Longrightarrow> kv_wf st"
  by (auto simp: storages_wf_def stored_def list_all_iff dest!: map_of_SomeD)

text \<open>One mapping, applied to every selected entity.\<close>

lemma map_fold_lookup:
  assumes "\<And>n st d n' c v. stored p n = Some st \<Longrightarrow> map_of (g n st d) (n', c, v) =
      (case (if n' = n \<and> P c v then map_of st (c, v) else None) of
         Some x \<Rightarrow> Some x | None \<Rightarrow> map_of d (n', c, v))"
  shows "map_of (foldl (\<lambda>d n. case stored p n of Some st \<Rightarrow> g n st d | None \<Rightarrow> d) data ns) (n, c, v) =
    (case (if n \<in> set ns \<and> P c v then lookup_var p n c v else None) of
       Some x \<Rightarrow> Some x | None \<Rightarrow> map_of data (n, c, v))"
proof (induction ns arbitrary: data)
  case (Cons m ns)
  show ?case
  proof (cases "stored p m")
    case None
    with Cons.IH [of data] show ?thesis by (auto simp: lookup_var_def split: option.split)
  next
    case (Some st)
    with Cons.IH [of "g m st data"] assms [OF Some] show ?thesis
      by (auto simp: lookup_var_def split: option.splits)
  qed
qed simp

lemma map_selected_lookup:
  assumes "map_selected now g sel (p, data) = (p', d)"
    and "\<And>n st d n' c v. stored p n = Some st \<Longrightarrow> map_of (g n st d) (n', c, v) =
      (case (if n' = n \<and> P c v then map_of st (c, v) else None) of
         Some x \<Rightarrow> Some x | None \<Rightarrow> map_of d (n', c, v))"
  shows "map_of d (n, c, v) = (case (if n \<in> set sel \<and> P c v then lookup_var p n c v else None) of
       Some x \<Rightarrow> Some x | None \<Rightarrow> map_of data (n, c, v))"
  using map_selected_spec [OF assms(1)] map_fold_lookup [of p g P data sel n c v] assms(2) by simp

lemma map_storage_wf: "kv_wf d \<Longrightarrow> kv_wf (map_storage P n st d)"
  by (simp add: map_storage_extend kv_extend_wf)

lemma map_addrs_wf: "kv_wf d \<Longrightarrow> kv_wf (map_addrs addrs n st d)"
  unfolding map_addrs_def
  by (induction addrs arbitrary: d) (auto intro: wf_intros split: result.split)

lemma map_selected_wf:
  assumes "map_selected now g sel (p, data) = (p', d)" "kv_wf data" "\<And>n st d. kv_wf d \<Longrightarrow> kv_wf (g n st d)"
  shows "kv_wf d"
proof -
  have "kv_wf d0 \<Longrightarrow> kv_wf (foldl (\<lambda>d n. case stored p n of Some st \<Rightarrow> g n st d | None \<Rightarrow> d) d0 sel)" for d0
    using assms(3) by (induction sel arbitrary: d0) (auto split: option.split)
  with map_selected_spec [OF assms(1)] assms(2) show ?thesis by simp
qed

lemma lookup_var_contents: "contents p' = contents p \<Longrightarrow> lookup_var p' = lookup_var p"
  by (intro ext) (simp add: lookup_var_def stored_contents)

lemma storages_wf_contents: "storages_wf p \<longleftrightarrow> list_all (\<lambda>(n, st, _). kv_wf st) (contents p)"
  by (simp add: storages_wf_def contents_def list_all_iff split_beta)

lemma mapping_lookup:
  assumes "storages_wf p" "map_selected now g sel (p, data) = (p', d)" "kv_wf data"
    "(g, P) \<in> {(map_storage (\<lambda>_ _. True), \<lambda>_ _. True)}
       \<union> {(map_storage P, P) | P. True}
       \<union> {(map_addrs addrs, \<lambda>c v. list_ex (\<lambda>a. a_comp a = c \<and> a_var a = v) addrs) | addrs. True}"
  shows "map_of d (n, c, v) = (case (if n \<in> set sel \<and> P c v then lookup_var p n c v else None) of
       Some x \<Rightarrow> Some x | None \<Rightarrow> map_of data (n, c, v)) \<and> kv_wf d
    \<and> contents p' = contents p"
  using assms(4)
proof (elim UnE CollectE insertE emptyE exE conjE, goal_cases)
  case 1
  then have g: "g = map_storage (\<lambda>_ _. True)" "P = (\<lambda>_ _. True)" by auto
  show ?case using map_selected_lookup [OF assms(2), of P n c v] map_selected_wf [OF assms(2,3)]
      map_storage_lookup [OF stored_wf [OF assms(1)]] map_storage_wf map_selected_spec [OF assms(2)]
    unfolding g by blast
next
  case (2 Q)
  then have g: "g = map_storage P" by auto
  show ?case using map_selected_lookup [OF assms(2), of P n c v] map_selected_wf [OF assms(2,3)]
      map_storage_lookup [OF stored_wf [OF assms(1)]] map_storage_wf map_selected_spec [OF assms(2)]
    unfolding g by blast
next
  case (3 addrs)
  then have g: "g = map_addrs addrs" "P = (\<lambda>c v. list_ex (\<lambda>a. a_comp a = c \<and> a_var a = v) addrs)" by auto
  show ?case using map_selected_lookup [OF assms(2), of P n c v] map_selected_wf [OF assms(2,3)]
      map_addrs_lookup map_addrs_wf map_selected_spec [OF assms(2)]
    unfolding g by blast
qed

lemma run_mappings_lookup:
  assumes "q_archive q = AIgnore"
  shows "\<lbrakk> run_mappings api now q sel arch ms (p, data) = (p', Ok d); kv_wf data; storages_wf p \<rbrakk> \<Longrightarrow>
    kv_wf d \<and> map_of d (n, c, v) =
      (case (if n \<in> set sel \<and> list_ex (\<lambda>m. covers m c v) ms then lookup_var p n c v else None) of
         Some x \<Rightarrow> Some x | None \<Rightarrow> map_of data (n, c, v))"
proof (induction ms arbitrary: p data)
  case (Cons m ms)
  have step: ?case
    if g: "(g, covers m) \<in> {(map_storage (\<lambda>_ _. True), \<lambda>_ _. True)} \<union> {(map_storage P, P) | P. True}
       \<union> {(map_addrs addrs, \<lambda>c v. list_ex (\<lambda>a. a_comp a = c \<and> a_var a = v) addrs) | addrs. True}"
      and r: "run_mappings api now q sel arch ms (map_selected now g sel (p, data)) = (p', Ok d)" for g
  proof -
    obtain p1 d1 where s: "map_selected now g sel (p, data) = (p1, d1)" by fastforce
    note l = mapping_lookup [OF Cons.prems(3) s Cons.prems(2) g, of n c v]
    have "storages_wf p1" using Cons.prems(3) l by (simp add: storages_wf_contents)
    with Cons.IH [of p1 d1] r s l lookup_var_contents [of p1 p] show ?thesis
      by (auto split: option.splits)
  qed
  show ?case
  proof (cases m)
    case MAll
    obtain p1 d1 where s: "map_selected now (map_storage (\<lambda>_ _. True)) sel (p, data) = (p1, d1)" by fastforce
    with Cons.prems(1) MAll assms have "d1 = d" by simp
    with mapping_lookup [OF Cons.prems(3) s Cons.prems(2), of "\<lambda>_ _. True" n c v] MAll show ?thesis by simp
  next
    case (SelectAddrs addrs)
    have "covers m = (\<lambda>c v. list_ex (\<lambda>a. a_comp a = c \<and> a_var a = v) addrs)"
      by (intro ext) (simp add: SelectAddrs)
    with Cons.prems(1) SelectAddrs show ?thesis by (intro step [of "map_addrs addrs"]) auto
  next
    case (MComponents cs)
    have "covers m = (\<lambda>c v. ListMem c cs)" by (intro ext) (simp add: MComponents)
    with Cons.prems(1) MComponents show ?thesis
      by (intro step [of "map_storage (\<lambda>c v. ListMem c cs)"]) auto
  next
    case (MComponent x)
    have "covers m = (\<lambda>c v. c = x)" by (intro ext) (simp add: MComponent)
    with Cons.prems(1) MComponent show ?thesis by (intro step [of "map_storage (\<lambda>c v. c = x)"]) auto
  next
    case (MVar x)
    have "covers m = (\<lambda>c v. v = x)" by (intro ext) (simp add: MVar)
    with Cons.prems(1) MVar show ?thesis by (intro step [of "map_storage (\<lambda>c v. v = x)"]) auto
  qed (use Cons.prems in simp)
qed simp

lemma addressed_product:
  assumes "kv_wf data"
  shows "kv_wf (foldl (\<lambda>m (k, x). kv_insert (data_address k x) x m) [] data)
    \<and> map_of (foldl (\<lambda>m (k, x). kv_insert (data_address k x) x m) [] data) a
      = (case map_of data (a_entity a, a_comp a, a_var a) of
           Some x \<Rightarrow> if get_type x = a_type a then Some x else None | None \<Rightarrow> None)"
proof -
  let ?xs = "map (\<lambda>(k, x). (data_address k x, x)) data"
  have e: "foldl (\<lambda>m (k, x). kv_insert (data_address k x) x m) m data = kv_extend m ?xs" for m
    unfolding kv_extend_def by (induction data arbitrary: m) auto
  have inj: "data_address k x = data_address k' x' \<Longrightarrow> k = k'" for k x k' x'
    by (cases k; cases k') (simp add: data_address_def)
  have wf: "kv_wf ?xs" using assms
  proof (induction data)
    case (Cons kx data)
    obtain k x where kx: "kx = (k, x)" by (cases kx)
    have "data_address k x \<notin> fst ` set (map (\<lambda>(k, x). (data_address k x, x)) data)"
    proof
      assume "data_address k x \<in> fst ` set (map (\<lambda>(k, x). (data_address k x, x)) data)"
      then obtain k' x' where "(k', x') \<in> set data" "data_address k x = data_address k' x'" by auto
      with inj [of k x k' x'] Cons.prems kx show False by (force simp: kv_wf_def)
    qed
    with Cons kx show ?case by (simp add: kv_wf_def image_image)
  qed simp
  have "map_of ?xs a = (case map_of data (a_entity a, a_comp a, a_var a) of
           Some x \<Rightarrow> if get_type x = a_type a then Some x else None | None \<Rightarrow> None)" using assms
  proof (induction data)
    case (Cons kx data)
    obtain n c v x where kx: "kx = ((n, c, v), x)" by (cases kx) auto
    have none: "map_of data (n, c, v) = None" and wf': "kv_wf data"
      using Cons.prems by (auto simp: kx kv_wf_def map_of_eq_None_iff)
    have iff: "data_address (n, c, v) x = a \<longleftrightarrow>
        (n, c, v) = (a_entity a, a_comp a, a_var a) \<and> get_type x = a_type a"
      by (cases a) (auto simp: data_address_def)
    show ?case
    proof (cases "(n, c, v) = (a_entity a, a_comp a, a_var a)")
      case True
      with none have "map_of data (a_entity a, a_comp a, a_var a) = None" by simp
      with True iff Cons.IH [OF wf'] show ?thesis by (auto simp: kx)
    next
      case False
      with iff have "a \<noteq> data_address (n, c, v) x" by blast
      moreover have "(a_entity a, a_comp a, a_var a) \<noteq> (n, c, v)" using False by blast
      ultimately show ?thesis using Cons.IH [OF wf'] by (simp only: kx map_of.simps list.map case_prod_conv fst_conv snd_conv fun_upd_apply if_False)
    qed
  qed simp
  with wf show ?thesis by (simp add: e map_of_kv_extend map_of_rev kv_extend_wf split: option.split)
qed

text \<open>C19: a query for addressed values, on entities in memory and without an entity limit, returns one
  entry for every variable that is stored on an entity passing the filters and covered by some
  mapping, under the address made of its entity, component, actual type and name, and no other
  entry.\<close>

theorem query_addressed_spec:
  assumes "part_wf p" "storages_wf p" "q_archive q = AIgnore" "entity_limit q = None"
    and "q_description q = Addressed" "q_layout q = LVar"
    and "process_query api uesc now q p = (p', Ok res)"
  shows "is_addressed res \<and> product_lookup res a =
    (if a_entity a \<in> selectable uesc p (q_filters q) \<and> list_ex (\<lambda>m. covers m (a_comp a) (a_var a)) (q_mappings q)
     then (case lookup_var p (a_entity a) (a_comp a) (a_var a) of
             Some x \<Rightarrow> if get_type x = a_type a then Some x else None | None \<Rightarrow> None)
     else None)"
proof -
  from assms(5-7) obtain sel arch d where s: "select_entities api uesc q p = Ok (sel, arch)"
    and r: "run_mappings api now q sel arch (q_mappings q) (p, []) = (p', Ok d)"
    and res: "res = PAddressedVar (foldl (\<lambda>m (k, x). kv_insert (data_address k x) x m) [] d)"
    by (auto simp: process_query_def build_product_def result_simps split: result.splits prod.splits)
  have "res_foldl (filter_step uesc q p) (map fst (pt_entities p), []) (q_filters q) = Ok (sel, arch)"
    using s assms(3) by (simp add: select_entities_def initial_selection_def)
  with filter_steps_set [OF assms(1)] assms(4) have sel: "set sel = selectable uesc p (q_filters q)" by blast
  note l = run_mappings_lookup [OF assms(3) r kv_wf_Nil assms(2)]
  with addressed_product [of d a] show ?thesis
    by (simp add: res product_lookup_def sel split: option.split)
qed

theorem query_addressed_spec_witness:
  "\<exists>res. snd (process_query list_archive (\<lambda>_. False) 7
       (with_map (with_filter (with_description default_query Addressed) (AllComponents [''d''])) (MVar ''x''))
       (sample_entities :: (string, entity) kv partition)) = Ok res
     \<and> product_lookup res \<lparr> a_entity = ''b'', a_comp = ''d'', a_type = TInt, a_var = ''x'' \<rparr> = Some (VInt 2)"
proof -
  let ?p = "sample_entities :: (string, entity) kv partition"
  let ?q = "with_map (with_filter (with_description default_query Addressed) (AllComponents [''d''])) (MVar ''x'')"
  let ?r = "process_query list_archive (\<lambda>_. False) 7 ?q ?p"
  have q: "q_archive ?q = AIgnore" "entity_limit ?q = None" "q_description ?q = Addressed" "q_layout ?q = LVar"
    by (simp_all add: with_map_def with_filter_def with_description_def default_query_def entity_limit_def)
  have wf: "storages_wf ?p" by (simp add: storages_wf_def sample_entities_def kv_wf_def)
  have "select_entities list_archive (\<lambda>_. False) ?q ?p = Ok ([''b''], [])"
    by (simp add: select_entities_def initial_selection_def default_query_def with_filter_def with_map_def
      with_description_def filter_step_def select_step_def sample_entities_def entity_limit_def
      truncate_to_def empty_entity_def)
  then have "\<exists>res. ?r = (fst ?r, Ok res)"
    by (simp add: process_query_def with_map_def with_filter_def with_description_def default_query_def
      build_product_def get_entity_def sample_entities_def)
  then obtain res where r: "?r = (fst ?r, Ok res)" by blast
  have snd: "snd ?r = Ok res" using r by (metis snd_conv)
  have sel: "''b'' \<in> selectable (\<lambda>_. False) ?p (q_filters ?q)"
    by (simp add: selectable_def keys_def filter_sat_def sample_entities_def with_map_def with_filter_def
      with_description_def default_query_def effective_filters_def)
  have cov: "list_ex (\<lambda>m. covers m ''d'' ''x'') (q_mappings ?q)"
    by (simp add: with_map_def default_query_def with_filter_def with_description_def)
  have val: "lookup_var ?p ''b'' ''d'' ''x'' = Some (VInt 2)"
    by (simp add: lookup_var_def stored_def sample_entities_def)
  from query_addressed_spec [OF sample_entities_wf wf q r,
      of "\<lparr> a_entity = ''b'', a_comp = ''d'', a_type = TInt, a_var = ''x'' \<rparr>"] sel cov val snd
  show ?thesis by auto
qed

text \<open>The typed layout has no entry for a string, list, grid, map or vector.\<close>

lemma typed_product_no_strings:
  "build_product uesc Addressed LTyped data = Ok (PAddressedTyped t) \<Longrightarrow> tm_strings t = []"
proof -
  have "tm_strings t0 = [] \<Longrightarrow> tm_strings (foldl typed_insert t0 data) = []" for t0
    by (induction data arbitrary: t0) (auto simp: typed_insert_def)
  then show "build_product uesc Addressed LTyped data = Ok (PAddressedTyped t) \<Longrightarrow> tm_strings t = []"
    by (auto simp: build_product_def)
qed

end
