(* ===== verification/Commands.thy ===== *)
theory Commands
  imports Entities
begin

text \<open>
  The instruction set of the script machine: command prototypes, the command structs with their
  constructors, and the search for the end of a block, from src/bigworlds/src/machine/mod.rs and
  src/bigworlds/src/machine/cmd/.  The option parser, the renderers of error snippets and the
  expression evaluator are third-party and stand in the record \<open>script_env\<close>.
\<close>

section \<open>Third-party interfaces\<close>

text \<open>What \<open>getopts\<close> returns: the free arguments and the option values in the order given.\<close>

record opt_matches =
  om_free :: "string list"
  om_opts :: "(string \<times> string) list"

definition opt_str :: "opt_matches \<Rightarrow> string \<Rightarrow> string option" where
  "opt_str m n = map_of (om_opts m) n"

definition opt_strs :: "opt_matches \<Rightarrow> string \<Rightarrow> string list" where
  "opt_strs m n = map snd (filter (\<lambda>(k, v). k = n) (om_opts m))"

text \<open>
  \<open>se_getopts\<close> takes the declared options (short and long name) and the arguments;
  \<open>se_no_args\<close> is the message of a block without arguments (it reads the script file, None is
  a failure to do so); \<open>se_eval\<close> evaluates an expression over named numbers and prints the
  result (None: the expression is rejected); \<open>se_uesc\<close> says which characters the standard
  library's debug output escapes.
\<close>

record script_env =
  se_snippet :: "string \<Rightarrow> location_info \<Rightarrow> string"
  se_no_args :: "location_info \<Rightarrow> string option"
  se_getopts :: "(string \<times> string) list \<Rightarrow> string list \<Rightarrow> (string, opt_matches) result"
  se_eval :: "string \<Rightarrow> (string \<times> f32) list \<Rightarrow> string option"
  se_uesc :: "string \<Rightarrow> bool"

text \<open>The \<open>?\<close> conversion of a core error and of a failure of the option parser.\<close>

abbreviation lift_core :: "script_env \<Rightarrow> 'a core_result \<Rightarrow> 'a machine_result" where
  "lift_core env \<equiv> map_err (machine_error_of (se_snippet env))"

definition error_of_fail :: "string \<Rightarrow> machine_error" where
  "error_of_fail e = machine_err empty_location (KParseError e)"

text \<open>Indexing a vector: out of range is a panic.\<close>

definition arg_at :: "'a list \<Rightarrow> nat \<Rightarrow> ('e, 'a) result" where
  "arg_at args i = (if i < length args then Ok (args ! i) else Panic)"

lemma arg_at_simps [simp]:
  "arg_at [] i = Panic"
  "arg_at (x # xs) 0 = Ok x"
  "arg_at (x # xs) (Suc i) = arg_at xs i"
  by (simp_all add: arg_at_def)

lemma arg_at_Ok_iff [simp]: "arg_at args i = Ok x \<longleftrightarrow> i < length args \<and> x = args ! i"
  by (auto simp: arg_at_def)

section \<open>Data\<close>

record command_prototype =
  cp_name :: "string option"
  cp_arguments :: "string list option"
  cp_output :: "string option"

datatype set_target = TAddress address | TLocal short_local_address

datatype set_source = SAddress address | SLocal short_local_address | SValue var

record set_cmd =
  set_target :: set_target
  set_source :: set_source
  set_out :: "short_local_address option"

record eval_cmd =
  ev_expr :: string
  ev_args :: "(string \<times> address) list"
  ev_out :: "address option"

record print_fmt =
  pf_fmt :: string
  pf_inserts :: "(nat \<times> address) list"

record spawn_cmd =
  sp_prefab :: "string option"
  sp_name :: "string option"
  sp_out :: "short_local_address option"

record register_prefab =
  rp_name :: string
  rp_components :: "string list"
  rp_setters :: "(local_address \<times> var) list"

record register_trigger =
  rt_name :: string
  rt_comp :: string

record register_var =
  rv_comp :: string
  rv_addr :: short_local_address
  rv_val :: "var option"

record machine_block =
  mb_start_line :: nat
  mb_end_line :: nat
  mb_output :: "address option"

record state_block =
  st_name :: string
  st_start_line :: nat
  st_end_line :: nat

record component_block =
  cb_name :: string
  cb_source_file :: "string option"
  cb_start_line :: nat
  cb_end_line :: nat
  cb_output :: "address option"

record procedure =
  pr_name :: string
  pr_start_line :: nat
  pr_end_line :: nat
  pr_output :: "address option"

datatype if_condition =
    AssertEqual address var | BooleanCheck address
  | BooleanCheckLocal short_local_address | BoolValue bool

record if_cmd =
  if_condition :: if_condition
  if_start :: nat
  if_end :: nat
  if_else_lines :: "nat list"

datatype loop_condition = LNone | LBoolValue bool

record loop_cmd =
  lp_break_condition :: loop_condition
  lp_start :: nat
  lp_end :: nat

record for_in =
  fi_start :: nat
  fi_end :: nat
  fi_target :: short_local_address
  fi_variable :: short_local_address

datatype (plugins only: code size) command =
    CNoOp | CPrint address | CPrintFmt print_fmt | CSet set_cmd | CEval eval_cmd | CQuery
  | CGoto string | CInvoke "string list" | CSpawn spawn_cmd
  | CRegisterEntityPrefab register_prefab | CRegisterComponent string
  | CRegisterTrigger register_trigger | CRegisterVar register_var
  | CMachine machine_block | CState state_block | CComponent component_block
  | CIf if_cmd | CElse | CEnd | CCall string | CForIn for_in | CLoop loop_cmd | CBreak
  | CProcedure procedure

datatype command_result =
  Continue | Break | JumpToLine nat | JumpToTag string | CmdErr machine_error

definition command_result_from_str :: "string \<Rightarrow> ('e, command_result option) result" where
  "command_result_from_str s =
    (if prefix ''jump.'' s
     then map_ok (\<lambda>i. Some (JumpToLine (nat i))) (unwrap (parse_int 0 (2 ^ 64 - 1) (drop 5 s)))
     else if s \<in> {''ok'', ''Ok'', ''OK'', ''continue''} then Ok (Some Continue)
     else if s = ''break'' then Ok (Some Break)
     else Ok None)"

record logic =
  lg_start_state :: string
  lg_commands :: "command list"
  lg_states :: "(string, nat \<times> nat) kv"
  lg_procedures :: "(string, nat \<times> nat) kv"
  lg_locations :: "location_info list"

definition default_logic :: logic where
  "default_logic =
    \<lparr> lg_start_state = ''start'', lg_commands = [], lg_states = [], lg_procedures = [],
      lg_locations = [] \<rparr>"

text \<open>A slice of the commands: out of range is a panic.\<close>

definition get_subset :: "logic \<Rightarrow> nat \<Rightarrow> nat \<Rightarrow> ('e, logic) result" where
  "get_subset lg start_line last_line =
    (if start_line \<le> last_line \<and> last_line \<le> length (lg_commands lg)
        \<and> last_line \<le> length (lg_locations lg)
     then Ok (default_logic\<lparr>
         lg_commands := take (last_line - start_line) (drop start_line (lg_commands lg)),
         lg_locations := take (last_line - start_line) (drop start_line (lg_locations lg)) \<rparr>)
     else Panic)"

section \<open>Searching for the end of a block\<close>

text \<open>
  \<open>bd_begins\<close>, \<open>bd_middles\<close>, \<open>bd_ends\<close> are the marks of the block whose end is searched;
  \<open>bd_opens\<close>, \<open>bd_closes\<close> those of any other block.  \<open>search_from\<close> is the body of the loop:
  \<open>mids\<close> holds the middle parts found so far, lines before \<open>skip_to\<close> are skipped, and \<open>diff\<close>
  is the number of other blocks open.
\<close>

record block_defs =
  bd_begins :: "string list"
  bd_middles :: "string list"
  bd_ends :: "string list"
  bd_opens :: "string list"
  bd_closes :: "string list"

text \<open>The debug output of a list of plain names.\<close>

definition debug_names :: "string list \<Rightarrow> string" where
  "debug_names ns = ''['' @ intercalate '', '' (map (\<lambda>s. [CHR 0x22] @ s @ [CHR 0x22]) ns) @ '']''"

definition no_end_error :: "location_info \<Rightarrow> block_defs \<Rightarrow> machine_error" where
  "no_end_error loc d =
    machine_err loc (CommandSearchFailed
      (''no end of structure for begin defs: '' @ debug_names (bd_begins d)))"

function search_from ::
  "location_info \<Rightarrow> command_prototype list \<Rightarrow> block_defs \<Rightarrow> bool \<Rightarrow> nat \<Rightarrow> nat list \<Rightarrow> nat \<Rightarrow> nat
   \<Rightarrow> (nat \<times> nat list) option machine_result" where
  "search_from loc cmds d recurse line mids skip_to diff =
    (if length cmds \<le> line then Err (no_end_error loc d)
     else if line < skip_to then search_from loc cmds d recurse (line + 1) mids skip_to diff
     else case cp_name (cmds ! line) of
         None \<Rightarrow> search_from loc cmds d recurse (line + 1) mids skip_to diff
       | Some c \<Rightarrow>
           if c \<in> set (bd_opens d)
           then search_from loc cmds d recurse (line + 1) mids skip_to (diff + 1)
           else if c \<in> set (bd_middles d)
           then search_from loc cmds d recurse (line + 1) (mids @ [line]) skip_to diff
           else if c \<in> set (bd_closes d) \<and> 0 < diff
           then search_from loc cmds d recurse (line + 1) mids skip_to (diff - 1)
           else if c \<in> set (bd_ends d) then Ok (Some (line, mids))
           else if c \<in> set (bd_begins d)
           then (if recurse
                 then (case search_from loc cmds d recurse (line + 1) [] (line + 1) 0 of
                     Ok (Some (e, _)) \<Rightarrow>
                       search_from loc cmds d recurse (line + 1) mids (e + 1) diff
                   | Ok None \<Rightarrow> Err (machine_err loc (CommandSearchFailed
                       (''bad nesting: got '' @ c @ '' but end not found'')))
                   | Err err \<Rightarrow> Err err
                   | Panic \<Rightarrow> Panic)
                 else Err (machine_err loc (CommandSearchFailed (''bad nesting: got '' @ c))))
           else search_from loc cmds d recurse (line + 1) mids skip_to diff)"
  by pat_completeness auto
termination
  by (relation "measure (\<lambda>(loc, cmds, d, recurse, line, mids, skip_to, diff). length cmds - line)")
    auto

declare search_from.simps [simp del]

definition command_search ::
  "location_info \<Rightarrow> command_prototype list \<Rightarrow> nat \<Rightarrow> block_defs \<Rightarrow> bool
   \<Rightarrow> (nat \<times> nat list) option machine_result" where
  "command_search loc cmds start d recurse =
    (if bd_begins d = [] then Err (machine_err loc (CommandSearchFailed
       ''command search requires begin definitions to be non-empty''))
     else if bd_ends d = [] then Err (machine_err loc (CommandSearchFailed
       ''command search requires ending definitions to be non-empty''))
     else search_from loc cmds d recurse start [] start 0)"

section \<open>Constructors of the block commands\<close>

definition if_defs :: block_defs where
  "if_defs = \<lparr> bd_begins = [''if''], bd_middles = [''else'', ''else_if''], bd_ends = [''end''],
     bd_opens = [''proc'', ''procedure'', ''for''], bd_closes = [''end''] \<rparr>"

definition loop_defs :: block_defs where
  "loop_defs = \<lparr> bd_begins = [''loop'', ''while''], bd_middles = [], bd_ends = [''end''],
     bd_opens = [''proc'', ''procedure'', ''for''], bd_closes = [''end''] \<rparr>"

definition for_defs :: block_defs where
  "for_defs = \<lparr> bd_begins = [''for''], bd_middles = [], bd_ends = [''end''],
     bd_opens = [''if'', ''else'', ''else_if'', ''for'', ''proc'', ''procedure''],
     bd_closes = [''end''] \<rparr>"

definition procedure_defs :: block_defs where
  "procedure_defs = \<lparr> bd_begins = [''proc'', ''procedure''], bd_middles = [], bd_ends = [''end''],
     bd_opens = [''if'', ''else'', ''else_if'', ''for'', ''state''], bd_closes = [''end''] \<rparr>"

definition state_defs :: block_defs where
  "state_defs = \<lparr> bd_begins = [''state''], bd_middles = [], bd_ends = [''end''],
     bd_opens = [''if'', ''else'', ''else_if'', ''for'', ''proc'', ''procedure'', ''component''],
     bd_closes = [''end''] \<rparr>"

definition component_defs :: block_defs where
  "component_defs = \<lparr> bd_begins = [''component''], bd_middles = [], bd_ends = [''end''],
     bd_opens = [''if'', ''else'', ''else_if'', ''for'', ''proc'', ''procedure'', ''state''],
     bd_closes = [''end''] \<rparr>"

definition machine_defs :: block_defs where
  "machine_defs = \<lparr> bd_begins = [''machine''], bd_middles = [], bd_ends = [''end''],
     bd_opens = [''if'', ''else'', ''else_if'', ''for'', ''proc'', ''procedure'', ''state''],
     bd_closes = [''end''] \<rparr>"

text \<open>
  The part the constructors share: a search from the line after the command, whose error is
  wrapped, and whose missing result is an error with the message \<open>missing\<close>.
\<close>

definition find_block ::
  "script_env \<Rightarrow> location_info \<Rightarrow> command_prototype list \<Rightarrow> nat \<Rightarrow> block_defs
   \<Rightarrow> (nat \<times> nat list) option machine_result" where
  "find_block env loc cmds line d =
    map_err (\<lambda>e. machine_err loc
        (InvalidCommandBody (machine_error_to_string (se_snippet env) e)))
      (command_search loc cmds (line + 1) d True)"

definition positions_or :: "location_info \<Rightarrow> string \<Rightarrow> 'a option \<Rightarrow> 'a machine_result" where
  "positions_or loc missing r = ok_or (machine_err loc (InvalidCommandBody missing)) r"

definition if_condition_new :: "script_env \<Rightarrow> string list \<Rightarrow> if_condition machine_result" where
  "if_condition_new env args =
    res_bind (arg_at args 0) (\<lambda>a0.
      if CHR ''.'' \<in> set a0 \<and> length args = 1
      then map_ok BooleanCheck (unwrap (address_from_str a0))
      else res_bind (arg_at args 1) (\<lambda>a1.
        if a1 = ''==''
        then res_bind (lift_core env (address_from_str a0)) (\<lambda>addr.
             res_bind (arg_at args 2) (\<lambda>a2.
             res_bind (lift_core env (var_from_str a2 None)) (\<lambda>v.
             Ok (AssertEqual addr v))))
        else if a0 = ''true'' then Ok (BoolValue True)
        else Ok (BoolValue False)))"

definition if_new ::
  "script_env \<Rightarrow> string list \<Rightarrow> location_info \<Rightarrow> command_prototype list \<Rightarrow> if_cmd machine_result" where
  "if_new env args loc cmds =
    (if length args = 0
     then Err (machine_err loc (InvalidCommandBody ''no arguments provided''))
     else res_bind (expect (l_line loc)) (\<lambda>line.
       res_bind (find_block env loc cmds line if_defs) (\<lambda>found.
       res_bind (if_condition_new env args) (\<lambda>condition.
       res_bind (positions_or loc ''end of if/else block not found.'' found) (\<lambda>(e, mids).
         Ok \<lparr> if_condition = condition, if_start = line, if_end = e,
              if_else_lines = mids \<rparr>)))))"

definition loop_condition_new :: "string list \<Rightarrow> loop_condition machine_result" where
  "loop_condition_new args =
    (case args of
       [] \<Rightarrow> Ok LNone
     | a # _ \<Rightarrow> if a = ''true'' then Ok (LBoolValue True)
               else if a = ''false'' then Ok (LBoolValue False)
               else Panic)"

definition loop_new ::
  "script_env \<Rightarrow> string list \<Rightarrow> location_info \<Rightarrow> command_prototype list \<Rightarrow> loop_cmd machine_result" where
  "loop_new env args loc cmds =
    res_bind (expect (l_line loc)) (\<lambda>line.
    res_bind (find_block env loc cmds line loop_defs) (\<lambda>found.
    res_bind (loop_condition_new args) (\<lambda>condition.
    res_bind (positions_or loc ''end of if/else block not found.'' found) (\<lambda>(e, _).
      Ok \<lparr> lp_break_condition = condition, lp_start = line, lp_end = e \<rparr>))))"

definition for_in_new ::
  "script_env \<Rightarrow> string list \<Rightarrow> location_info \<Rightarrow> command_prototype list \<Rightarrow> for_in machine_result" where
  "for_in_new env args loc cmds =
    (let bad_address = (\<lambda>e. machine_err loc (KInvalidAddress (error_to_string (se_snippet env) e)))
     in
     res_bind (expect (l_line loc)) (\<lambda>line.
     res_bind (if 0 < length args
               then map_err bad_address (short_local_address_from_str (args ! 0))
               else res_bind (expect (se_no_args env loc))
                 (\<lambda>m. Err (machine_err loc (InvalidCommandBody m)))) (\<lambda>variable.
     res_bind (if 2 < length args
               then map_err bad_address (short_local_address_from_str (args ! 2))
               else Err (machine_err loc (InvalidCommandBody ''too few arguments?''))) (\<lambda>target.
     res_bind (find_block env loc cmds line for_defs) (\<lambda>found.
     res_bind (positions_or loc ''End of forin block not found.'' found) (\<lambda>(e, _).
       Ok \<lparr> fi_start = line, fi_end = e, fi_target = target, fi_variable = variable \<rparr>))))))"

definition procedure_new ::
  "script_env \<Rightarrow> string list \<Rightarrow> location_info \<Rightarrow> command_prototype list \<Rightarrow> procedure machine_result" where
  "procedure_new env args loc cmds =
    res_bind (expect (l_line loc)) (\<lambda>line.
    res_bind (find_block env loc cmds line procedure_defs) (\<lambda>found.
    res_bind (positions_or loc ''End of procedure block not found'' found) (\<lambda>(e, _).
    res_bind (arg_at args 0) (\<lambda>name.
      Ok \<lparr> pr_name = name, pr_start_line = line, pr_end_line = e, pr_output = None \<rparr>))))"

definition state_new ::
  "script_env \<Rightarrow> string list \<Rightarrow> location_info \<Rightarrow> command_prototype list \<Rightarrow> state_block machine_result" where
  "state_new env args loc cmds =
    res_bind (expect (l_line loc)) (\<lambda>line.
    res_bind (find_block env loc cmds line state_defs) (\<lambda>found.
    res_bind (positions_or loc ''end of state block not found'' found) (\<lambda>(e, _).
    res_bind (arg_at args 0) (\<lambda>name.
      Ok \<lparr> st_name = name, st_start_line = line + 1, st_end_line = e \<rparr>))))"

definition component_new ::
  "script_env \<Rightarrow> string list \<Rightarrow> location_info \<Rightarrow> command_prototype list
   \<Rightarrow> component_block machine_result" where
  "component_new env args loc cmds =
    res_bind (expect (l_line loc)) (\<lambda>line.
    res_bind (find_block env loc cmds line component_defs) (\<lambda>found.
    res_bind (positions_or loc ''end of component block not found'' found) (\<lambda>(e, _).
    res_bind (arg_at args 0) (\<lambda>name.
      Ok \<lparr> cb_name = name, cb_source_file = l_source loc, cb_start_line = line + 1,
           cb_end_line = e, cb_output = None \<rparr>))))"

definition machine_new ::
  "script_env \<Rightarrow> location_info \<Rightarrow> command_prototype list \<Rightarrow> machine_block machine_result" where
  "machine_new env loc cmds =
    res_bind (expect (l_line loc)) (\<lambda>line.
    res_bind (find_block env loc cmds line machine_defs) (\<lambda>found.
    res_bind (positions_or loc ''end of component block not found'' found) (\<lambda>(e, _).
      Ok \<lparr> mb_start_line = line + 1, mb_end_line = e, mb_output = None \<rparr>)))"

section \<open>Constructors of the other commands\<close>

definition target_from_str :: "script_env \<Rightarrow> string \<Rightarrow> location_info \<Rightarrow> set_target machine_result" where
  "target_from_str env s loc =
    (if CHR ''.'' \<in> set s
     then (case split_on CHR ''.'' s of
         [t, v] \<Rightarrow> res_bind (lift_core env (var_type_from_str t)) (\<lambda>ty.
           Ok (TLocal \<lparr> s_comp = None, s_type = ty, s_var = v \<rparr>))
       | [c, t, v] \<Rightarrow> res_bind (lift_core env (var_type_from_str t)) (\<lambda>ty.
           Ok (TLocal \<lparr> s_comp = Some c, s_type = ty, s_var = v \<rparr>))
       | [e, c, t, v] \<Rightarrow> res_bind (lift_core env (var_type_from_str t)) (\<lambda>ty.
           Ok (TAddress \<lparr> a_entity = e, a_comp = c, a_type = ty, a_var = v \<rparr>))
       | _ \<Rightarrow> Panic)
     else Err (machine_err loc (KOther ''failed parsing set.target'')))"

fun target_var_type :: "set_target \<Rightarrow> var_type" where
  "target_var_type (TLocal a) = s_type a"
| "target_var_type (TAddress a) = a_type a"

definition source_from_str ::
  "script_env \<Rightarrow> string \<Rightarrow> var_type \<Rightarrow> location_info \<Rightarrow> set_source machine_result" where
  "source_from_str env s ty loc =
    (if CHR ''.'' \<in> set s
     then (case split_on CHR ''.'' s of
         [t, v] \<Rightarrow> res_bind (lift_core env (var_type_from_str t)) (\<lambda>t'.
           Ok (SLocal \<lparr> s_comp = None, s_type = t', s_var = v \<rparr>))
       | [c, t, v] \<Rightarrow> res_bind (lift_core env (var_type_from_str t)) (\<lambda>t'.
           Ok (SLocal \<lparr> s_comp = Some c, s_type = t', s_var = v \<rparr>))
       | [e, c, t, v] \<Rightarrow> res_bind (lift_core env (var_type_from_str t)) (\<lambda>t'.
           Ok (SAddress \<lparr> a_entity = e, a_comp = c, a_type = t', a_var = v \<rparr>))
       | _ \<Rightarrow> Panic)
     else map_ok SValue (map_err (\<lambda>e. machine_err loc (InvalidCommandBody
            (''can't parse from source into target type: '' @ error_to_string (se_snippet env) e)))
          (var_from_str s (Some ty))))"

text \<open>The argument after the first \<open>=>\<close>, when both are there.\<close>

fun after_arrow :: "string list \<Rightarrow> string option" where
  "after_arrow [] = None"
| "after_arrow (a # args) =
    (if a = ''=>'' then (case args of [] \<Rightarrow> None | b # _ \<Rightarrow> Some b) else after_arrow args)"

definition set_new :: "script_env \<Rightarrow> string list \<Rightarrow> location_info \<Rightarrow> command machine_result" where
  "set_new env args loc =
    res_bind (arg_at args 0) (\<lambda>a0.
    res_bind (target_from_str env a0 loc) (\<lambda>target.
    res_bind (if 1 < length args
              then (if args ! 1 = ''='' then arg_at args 2 else Ok (args ! 1))
              else Ok []) (\<lambda>source_str.
    res_bind (source_from_str env source_str (target_var_type target) loc) (\<lambda>source.
    res_bind (case after_arrow args of
                None \<Rightarrow> Ok None
              | Some a \<Rightarrow> map_ok Some (lift_core env (short_local_address_from_str a))) (\<lambda>out.
    Ok (CSet \<lparr> set_target = target, set_source = source, set_out = out \<rparr>))))))"

definition spawn_new :: "script_env \<Rightarrow> string list \<Rightarrow> location_info \<Rightarrow> spawn_cmd machine_result" where
  "spawn_new env args loc =
    res_bind (map_err (\<lambda>e. machine_err loc (KParseError e))
               (se_getopts env [(''o'', ''out'')] args)) (\<lambda>matches.
    res_bind (case opt_str matches ''out'' of
                None \<Rightarrow> Ok None
              | Some s \<Rightarrow> map_ok Some (lift_core env (short_local_address_from_str s))) (\<lambda>out.
    if length (om_free matches) = 0
    then Ok \<lparr> sp_prefab = None, sp_name = None, sp_out = out \<rparr>
    else if length (om_free matches) = 1
    then res_bind (arg_at args 0) (\<lambda>a0.
      Ok \<lparr> sp_prefab = Some a0, sp_name = None, sp_out = out \<rparr>)
    else if length (om_free matches) = 2
    then res_bind (arg_at args 0) (\<lambda>a0. res_bind (arg_at args 1) (\<lambda>a1.
      Ok \<lparr> sp_prefab = Some a0, sp_name = Some a1, sp_out = out \<rparr>))
    else Err (machine_err loc (InvalidCommandBody ''can't accept more than 2 arguments''))))"

definition eval_arg :: "script_env \<Rightarrow> string \<Rightarrow> (string \<times> address) list machine_result" where
  "eval_arg env free_arg =
    (case split_on CHR ''='' free_arg of
       [n, a] \<Rightarrow> map_ok (\<lambda>addr. [(n, addr)]) (lift_core env (address_from_str a))
     | _ \<Rightarrow> Ok [])"

definition eval_new :: "script_env \<Rightarrow> string list \<Rightarrow> eval_cmd machine_result" where
  "eval_new env args =
    res_bind (map_err error_of_fail (se_getopts env [(''o'', ''out'')] args)) (\<lambda>matches.
    res_bind (case opt_str matches ''out'' of
                None \<Rightarrow> Ok None
              | Some s \<Rightarrow> map_ok Some (lift_core env (address_from_str s))) (\<lambda>out.
    res_bind (res_map (eval_arg env) (drop 1 (om_free matches))) (\<lambda>eval_args.
    res_bind (arg_at (om_free matches) 0) (\<lambda>expr.
    Ok \<lparr> ev_expr = expr, ev_args = concat eval_args, ev_out = out \<rparr>))))"

text \<open>
  The placeholders of a format string, each taken out at the position it is found at; the free
  argument \<open>cnt\<close> goes there when it is an address.
\<close>

function fmt_inserts ::
  "string list \<Rightarrow> nat \<Rightarrow> string \<Rightarrow> (nat \<times> address) list
   \<Rightarrow> (string \<times> (nat \<times> address) list) machine_result" where
  "fmt_inserts free cnt fmt inserts =
    (case find_sub ''{}'' fmt of
       None \<Rightarrow> Ok (fmt, inserts)
     | Some i \<Rightarrow>
         (let fmt' = take i fmt @ drop (i + 2) fmt in
          if cnt < length free
          then (case address_from_str (free ! cnt) of
                  Ok a \<Rightarrow> fmt_inserts free (cnt + 1) fmt' (inserts @ [(i, a)])
                | Err _ \<Rightarrow> fmt_inserts free (cnt + 1) fmt' inserts
                | Panic \<Rightarrow> Panic)
          else fmt_inserts free (cnt + 1) fmt' inserts))"
  by pat_completeness auto
termination
  by (relation "measure (\<lambda>(free, cnt, fmt, inserts). length fmt)") (auto dest: find_sub_le)

declare fmt_inserts.simps [simp del]

definition print_fmt_from_args :: "script_env \<Rightarrow> string list \<Rightarrow> print_fmt machine_result" where
  "print_fmt_from_args env args =
    res_bind (map_err error_of_fail (se_getopts env [] args)) (\<lambda>matches.
    res_bind (arg_at (om_free matches) 0) (\<lambda>f0.
    case address_from_str f0 of
      Ok addr \<Rightarrow> Ok \<lparr> pf_fmt = [], pf_inserts = [(0, addr)] \<rparr>
    | Panic \<Rightarrow> Panic
    | Err _ \<Rightarrow> res_bind (fmt_inserts (om_free matches) 1 f0 [])
        (\<lambda>(fmt, inserts). Ok \<lparr> pf_fmt = fmt, pf_inserts = inserts \<rparr>)))"

definition register_var_new :: "script_env \<Rightarrow> string list \<Rightarrow> location_info \<Rightarrow> register_var machine_result" where
  "register_var_new env args loc =
    res_bind (unwrap (se_getopts env [([], ''default'')] args)) (\<lambda>matches.
    if om_free matches = []
    then Err (machine_err loc (InvalidCommandBody ''Must provide variable address as free arg''))
    else
      (let val = (case opt_str matches ''default'' of
                    None \<Rightarrow> None
                  | Some s \<Rightarrow> (case parse_f32 s of Ok x \<Rightarrow> Some (VFloat x) | _ \<Rightarrow> None))
       in res_bind (map_err (\<lambda>e. machine_err loc
                       (InvalidCommandBody (error_to_string (se_snippet env) e)))
                     (short_local_address_from_str (om_free matches ! 0))) (\<lambda>addr.
          Ok \<lparr> rv_comp = [], rv_addr = addr, rv_val = val \<rparr>)))"

text \<open>A setter \<open>address=value\<close>, split at the first equals sign.\<close>

definition setter_from_str :: "string \<Rightarrow> ('e, local_address \<times> var) result" where
  "setter_from_str s =
    (case split_on CHR ''='' s of
       a # b # rest \<Rightarrow>
         res_bind (unwrap (local_address_from_str a)) (\<lambda>addr.
         res_bind (unwrap (var_from_str (join_on CHR ''='' (b # rest)) None)) (\<lambda>v.
         Ok (addr, v)))
     | _ \<Rightarrow> Panic)"

definition register_prefab_new :: "script_env \<Rightarrow> string list \<Rightarrow> register_prefab machine_result" where
  "register_prefab_new env args =
    res_bind (map_err error_of_fail
      (se_getopts env [(''c'', ''component''), ([], ''set'')] args)) (\<lambda>matches.
    res_bind (arg_at args 0) (\<lambda>name.
    res_bind (res_map setter_from_str (opt_strs matches ''set'')) (\<lambda>setters.
    Ok \<lparr> rp_name = name, rp_components = opt_strs matches ''component'',
         rp_setters = setters \<rparr>)))"

definition register_trigger_new :: "string list \<Rightarrow> register_trigger machine_result" where
  "register_trigger_new args =
    map_ok (\<lambda>name. \<lparr> rt_name = name, rt_comp = [] \<rparr>) (arg_at args 0)"

section \<open>From prototypes to commands\<close>

definition from_prototype ::
  "script_env \<Rightarrow> command_prototype \<Rightarrow> location_info \<Rightarrow> command_prototype list
   \<Rightarrow> command machine_result" where
  "from_prototype env proto loc cmds =
    (case cp_name proto of
       None \<Rightarrow> Err (machine_err loc NoCommandPresent)
     | Some c \<Rightarrow>
        (let args = (case cp_arguments proto of Some a \<Rightarrow> a | None \<Rightarrow> []) in
         if c = ''print'' then map_ok CPrintFmt (print_fmt_from_args env args)
         else if c = ''set'' then set_new env args loc
         else if c = ''spawn'' then map_ok CSpawn (spawn_new env args loc)
         else if c = ''invoke'' then Ok (CInvoke args)
         else if c = ''query'' then Ok CQuery
         else if c = ''entity'' \<or> c = ''prefab''
         then map_ok CRegisterEntityPrefab (register_prefab_new env args)
         else if c = ''trigger'' \<or> c = ''triggered_by''
         then map_ok CRegisterTrigger (register_trigger_new args)
         else if c = ''var'' then map_ok CRegisterVar (register_var_new env args loc)
         else if c = ''machine'' then map_ok CMachine (machine_new env loc cmds)
         else if c = ''component'' \<or> c = ''comp''
         then map_ok CComponent (component_new env args loc cmds)
         else if c = ''state'' then map_ok CState (state_new env args loc cmds)
         else if c = ''goto'' then map_ok CGoto (arg_at args 0)
         else if c = ''if'' then map_ok CIf (if_new env args loc cmds)
         else if c = ''else'' then Ok CElse
         else if c = ''proc'' \<or> c = ''procedure''
         then map_ok CProcedure (procedure_new env args loc cmds)
         else if c = ''call'' then map_ok CCall (arg_at args 0)
         else if c = ''end'' then Ok CEnd
         else if c = ''for'' then map_ok CForIn (for_in_new env args loc cmds)
         else if c = ''loop'' \<or> c = ''while'' then map_ok CLoop (loop_new env args loc cmds)
         else if c = ''break'' then Ok CBreak
         else if c = ''eval'' then map_ok CEval (eval_new env args)
         else Err (machine_err loc (UnknownCommand c))))"

text \<open>
  The second half of \<open>Logic::from_script\<close>: the command prototypes left by the preprocessor,
  with the locations of their instructions, become the commands and the tables of a logic.
\<close>

definition cmd_location :: "string option \<Rightarrow> nat \<Rightarrow> location_info \<Rightarrow> location_info" where
  "cmd_location path n loc =
    (case path of
       Some p \<Rightarrow> loc\<lparr> l_line := Some n, l_source := Some p \<rparr>
     | None \<Rightarrow> loc\<lparr> l_line := Some n \<rparr>)"

definition register_block :: "command \<Rightarrow> logic \<Rightarrow> logic" where
  "register_block c lg =
    (case c of
       CProcedure p \<Rightarrow> lg\<lparr> lg_procedures :=
           kv_insert (pr_name p) (pr_start_line p, pr_end_line p) (lg_procedures lg) \<rparr>
     | CState s \<Rightarrow> lg\<lparr> lg_states :=
           kv_insert (st_name s) (st_start_line s, st_end_line s) (lg_states lg) \<rparr>
     | _ \<Rightarrow> lg)"

definition add_command ::
  "script_env \<Rightarrow> string option \<Rightarrow> command_prototype list \<Rightarrow> logic
   \<Rightarrow> nat \<times> command_prototype \<times> location_info \<Rightarrow> logic core_result" where
  "add_command env path protos lg = (\<lambda>(n, proto, loc).
    (let l = cmd_location path n loc in
     res_bind (map_err MachinePanic (from_prototype env proto l protos)) (\<lambda>c.
       let lg' = register_block c lg in
       Ok (lg'\<lparr> lg_commands := lg_commands lg' @ [c], lg_locations := lg_locations lg' @ [l] \<rparr>))))"

definition logic_of_prototypes ::
  "script_env \<Rightarrow> string option \<Rightarrow> (command_prototype \<times> location_info) list \<Rightarrow> logic core_result" where
  "logic_of_prototypes env path pls =
    res_bind (res_foldl (add_command env path (map fst pls)) default_logic
                (enumerate 0 pls)) (\<lambda>lg.
      Ok (lg\<lparr> lg_states := kv_insert ''_main'' (0, length (lg_commands lg)) (lg_states lg) \<rparr>))"

section \<open>The end of a block\<close>

text \<open>
  The abstract counterpart of the search: one pass over the lines with a stack of the blocks
  open, True for a block of the kind searched and False for any other.  A middle part counts
  when no inner block of the same kind is open.
\<close>

datatype line_kind = Opens | Middle | Ends | Begins | Plain

definition line_kind :: "block_defs \<Rightarrow> command_prototype \<Rightarrow> line_kind" where
  "line_kind d p =
    (case cp_name p of
       None \<Rightarrow> Plain
     | Some c \<Rightarrow> if c \<in> set (bd_opens d) then Opens
         else if c \<in> set (bd_middles d) then Middle
         else if c \<in> set (bd_ends d) then Ends
         else if c \<in> set (bd_begins d) then Begins
         else Plain)"

fun block_end ::
  "block_defs \<Rightarrow> bool list \<Rightarrow> nat \<Rightarrow> command_prototype list \<Rightarrow> (nat \<times> nat list) option" where
  "block_end d stk line [] = None"
| "block_end d stk line (p # ps) =
    (case line_kind d p of
       Opens \<Rightarrow> block_end d (False # stk) (line + 1) ps
     | Begins \<Rightarrow> block_end d (True # stk) (line + 1) ps
     | Plain \<Rightarrow> block_end d stk (line + 1) ps
     | Middle \<Rightarrow>
         if True \<in> set stk then block_end d stk (line + 1) ps
         else map_option (\<lambda>(e, ms). (e, line # ms)) (block_end d stk (line + 1) ps)
     | Ends \<Rightarrow>
         (case stk of [] \<Rightarrow> Some (line, []) | _ # stk' \<Rightarrow> block_end d stk' (line + 1) ps))"

text \<open>The scan from a line of the whole script, and its rule for one line.\<close>

definition scan :: "block_defs \<Rightarrow> command_prototype list \<Rightarrow> bool list \<Rightarrow> nat \<Rightarrow> (nat \<times> nat list) option"
  where "scan d cmds stk line = block_end d stk line (drop line cmds)"

lemma scan_past [simp]: "length cmds \<le> line \<Longrightarrow> scan d cmds stk line = None"
  by (simp add: scan_def)

lemma scan_line:
  assumes "line < length cmds"
  shows "scan d cmds stk line =
    (case line_kind d (cmds ! line) of
       Opens \<Rightarrow> scan d cmds (False # stk) (Suc line)
     | Begins \<Rightarrow> scan d cmds (True # stk) (Suc line)
     | Plain \<Rightarrow> scan d cmds stk (Suc line)
     | Middle \<Rightarrow>
         if True \<in> set stk then scan d cmds stk (Suc line)
         else map_option (\<lambda>(e, ms). (e, line # ms)) (scan d cmds stk (Suc line))
     | Ends \<Rightarrow> (case stk of [] \<Rightarrow> Some (line, []) | _ # stk' \<Rightarrow> scan d cmds stk' (Suc line)))"
proof -
  have "drop line cmds = cmds ! line # drop (Suc line) cmds"
    by (simp add: Cons_nth_drop_Suc assms)
  then show ?thesis unfolding scan_def by (simp only: block_end.simps Suc_eq_plus1)
qed

lemma scan_induct [case_names past line]:
  assumes "\<And>line. length cmds \<le> line \<Longrightarrow> P line"
    and "\<And>line. \<lbrakk> line < length cmds; P (Suc line) \<rbrakk> \<Longrightarrow> P line"
  shows "P line"
proof (induction "length cmds - line" arbitrary: line rule: less_induct)
  case less
  show ?case
  proof (cases "line < length cmds")
    case True
    show ?thesis by (rule assms(2) [OF True], rule less) (use True in simp)
  qed (simp add: assms(1))
qed

text \<open>What the scan returns is marked as an end, and the middle parts lie before it.\<close>

definition block_found ::
  "block_defs \<Rightarrow> command_prototype list \<Rightarrow> nat \<Rightarrow> nat \<times> nat list \<Rightarrow> bool" where
  "block_found d cmds line = (\<lambda>(e, ms).
    line \<le> e \<and> e < length cmds \<and> line_kind d (cmds ! e) = Ends \<and> sorted ms
    \<and> (\<forall>m \<in> set ms. line \<le> m \<and> m < e \<and> line_kind d (cmds ! m) = Middle))"

lemma block_found_Suc: "block_found d cmds (Suc line) r \<Longrightarrow> block_found d cmds line r"
  by (auto simp: block_found_def)

lemma block_found_middle:
  "\<lbrakk> block_found d cmds (Suc line) (e, ms); line_kind d (cmds ! line) = Middle \<rbrakk>
   \<Longrightarrow> block_found d cmds line (e, line # ms)"
  by (auto simp: block_found_def)

lemma block_found_here:
  "\<lbrakk> line < length cmds; line_kind d (cmds ! line) = Ends \<rbrakk> \<Longrightarrow> block_found d cmds line (line, [])"
  by (simp add: block_found_def)

lemma scan_found: "scan d cmds stk line = Some r \<Longrightarrow> block_found d cmds line r"
proof (induction line arbitrary: stk r rule: scan_induct [where cmds = cmds])
  case (line line)
  from line.prems show ?case
    unfolding scan_line [OF line.hyps]
    by (cases "line_kind d (cmds ! line)")
      (auto split: if_splits list.splits intro: block_found_Suc block_found_middle
        block_found_here line.IH line.hyps)
qed simp

lemma scan_nested:
  "scan d cmds (stk @ True # rest) line =
    (case scan d cmds stk line of None \<Rightarrow> None | Some (e, _) \<Rightarrow> scan d cmds rest (Suc e))"
proof (induction line arbitrary: stk rule: scan_induct [where cmds = cmds])
  case (line line)
  note step = scan_line [OF line.hyps, of d]
  show ?case
  proof (cases "line_kind d (cmds ! line)")
    case Opens
    then show ?thesis using line.IH [of "False # stk"] by (simp add: step)
  next
    case Begins
    then show ?thesis using line.IH [of "True # stk"] by (simp add: step)
  next
    case Plain
    then show ?thesis using line.IH [of stk] by (simp add: step)
  next
    case Middle
    then show ?thesis using line.IH [of stk] by (simp add: step split: option.split)
  next
    case Ends
    then show ?thesis using line.IH [of "tl stk"] by (cases stk) (simp_all add: step)
  qed
qed simp

lemma search_from_skip:
  "\<lbrakk> line \<le> skip; skip \<le> length cmds \<rbrakk>
   \<Longrightarrow> search_from loc cmds d r line mids skip diff = search_from loc cmds d r skip mids skip diff"
proof (induction "skip - line" arbitrary: line)
  case (Suc n)
  then have "n = skip - (line + 1)" "line + 1 \<le> skip" by auto
  note IH = Suc.hyps(1) [OF this Suc.prems(2)]
  have "line < skip" "line < length cmds" using Suc.hyps(2) Suc.prems by auto
  then show ?case by (subst search_from.simps) (simp add: IH [simplified])
qed simp

text \<open>One line of the search, by the kind of the line.\<close>

lemma search_from_line:
  assumes "bd_closes d = bd_ends d" and "line < length cmds" and "skip \<le> line"
  shows "search_from loc cmds d True line mids skip diff =
    (case line_kind d (cmds ! line) of
       Opens \<Rightarrow> search_from loc cmds d True (Suc line) mids skip (Suc diff)
     | Begins \<Rightarrow>
         (case search_from loc cmds d True (Suc line) [] (Suc line) 0 of
            Ok (Some (e, _)) \<Rightarrow> search_from loc cmds d True (Suc line) mids (Suc e) diff
          | Ok None \<Rightarrow> Err (machine_err loc (CommandSearchFailed
              (''bad nesting: got '' @ the (cp_name (cmds ! line)) @ '' but end not found'')))
          | Err err \<Rightarrow> Err err
          | Panic \<Rightarrow> Panic)
     | Plain \<Rightarrow> search_from loc cmds d True (Suc line) mids skip diff
     | Middle \<Rightarrow> search_from loc cmds d True (Suc line) (mids @ [line]) skip diff
     | Ends \<Rightarrow> (case diff of 0 \<Rightarrow> Ok (Some (line, mids))
         | Suc n \<Rightarrow> search_from loc cmds d True (Suc line) mids skip n))"
  using assms
  by (subst search_from.simps)
    (cases "cp_name (cmds ! line)"; cases diff;
      simp add: line_kind_def split: result.split option.split)

abbreviation search_result ::
  "location_info \<Rightarrow> block_defs \<Rightarrow> nat list \<Rightarrow> (nat \<times> nat list) option
   \<Rightarrow> (nat \<times> nat list) option machine_result" where
  "search_result loc d mids r \<equiv>
    (case r of None \<Rightarrow> Err (no_end_error loc d) | Some (e, ms) \<Rightarrow> Ok (Some (e, mids @ ms)))"

text \<open>The recursive search with its counter is the one-pass scan.\<close>

lemma search_from_scan:
  assumes "bd_closes d = bd_ends d" and "skip \<le> line"
  shows "search_from loc cmds d True line mids skip diff =
    search_result loc d mids (scan d cmds (replicate diff False) line)"
  using assms(2)
proof (induction "length cmds - line" arbitrary: line mids skip diff rule: less_induct)
  case less
  show ?case
  proof (cases "line < length cmds")
    case False
    then show ?thesis by (subst search_from.simps) simp
  next
    case True
    have IH: "search_from loc cmds d True line' mids' skip' diff' =
        search_result loc d mids' (scan d cmds (replicate diff' False) line')"
      if "line < line'" "skip' \<le> line'" for line' mids' skip' diff'
      by (rule less(1)) (use that True in auto)
    have after: "search_from loc cmds d True (Suc line) mids (Suc e) diff =
        search_result loc d mids (scan d cmds (replicate diff False) (Suc e))"
      if "scan d cmds [] (Suc line) = Some (e, ms)" for e ms
    proof -
      from scan_found [OF that] have "Suc line \<le> e" "e < length cmds"
        by (auto simp: block_found_def)
      then show ?thesis using search_from_skip [of "Suc line" "Suc e"] IH by simp
    qed
    note step = search_from_line [OF assms(1) True less.prems] scan_line [OF True]
    show ?thesis
    proof (cases "line_kind d (cmds ! line)")
      case Begins
      then show ?thesis
        using scan_nested [of d cmds "[]" "replicate diff False" "Suc line"]
        by (auto simp: step IH after split: option.split)
    qed (use less.prems in \<open>auto simp: step IH split: option.split nat.split\<close>)
  qed
qed

lemma command_search_scan:
  assumes "bd_closes d = bd_ends d" "bd_begins d \<noteq> []" "bd_ends d \<noteq> []"
  shows "command_search loc cmds start d True = search_result loc d [] (scan d cmds [] start)"
  using assms search_from_scan [OF assms(1), of start start loc cmds "[]" 0]
  by (simp add: command_search_def)

section \<open>Well-formed logic\<close>

text \<open>The first line of a block's body and the line of its end.\<close>

fun block_range :: "command \<Rightarrow> (nat \<times> nat) option" where
  "block_range (CIf c) = Some (if_start c + 1, if_end c)"
| "block_range (CLoop c) = Some (lp_start c + 1, lp_end c)"
| "block_range (CForIn c) = Some (fi_start c + 1, fi_end c)"
| "block_range (CProcedure p) = Some (pr_start_line p + 1, pr_end_line p)"
| "block_range (CState b) = Some (st_start_line b, st_end_line b)"
| "block_range (CComponent b) = Some (cb_start_line b, cb_end_line b)"
| "block_range (CMachine b) = Some (mb_start_line b, mb_end_line b)"
| "block_range c = None"

fun middle_lines :: "command \<Rightarrow> nat list" where
  "middle_lines (CIf c) = if_else_lines c"
| "middle_lines c = []"

text \<open>
  Every block starts right after its command and ends at an \<open>end\<close> further down, its middle
  parts are \<open>else\<close> lines in between in ascending order; the tables name blocks of the script.
\<close>

definition block_wf :: "command list \<Rightarrow> nat \<Rightarrow> bool" where
  "block_wf cs i \<longleftrightarrow>
    (\<forall>s e. block_range (cs ! i) = Some (s, e) \<longrightarrow>
      s = i + 1 \<and> i < e \<and> e < length cs \<and> cs ! e = CEnd \<and> sorted (middle_lines (cs ! i))
      \<and> (\<forall>m \<in> set (middle_lines (cs ! i)). i < m \<and> m < e \<and> cs ! m = CElse))"

definition logic_wf :: "logic \<Rightarrow> bool" where
  "logic_wf lg \<longleftrightarrow>
    length (lg_locations lg) = length (lg_commands lg)
    \<and> (\<forall>i < length (lg_commands lg). l_line (lg_locations lg ! i) = Some i)
    \<and> (\<forall>i < length (lg_commands lg). block_wf (lg_commands lg) i)
    \<and> map_of (lg_states lg) ''_main'' = Some (0, length (lg_commands lg))
    \<and> (\<forall>n s e. map_of (lg_states lg) n = Some (s, e) \<and> n \<noteq> ''_main'' \<longrightarrow>
        (\<exists>i < length (lg_commands lg). \<exists>b. lg_commands lg ! i = CState b
          \<and> st_name b = n \<and> st_start_line b = s \<and> st_end_line b = e))
    \<and> (\<forall>n s e. map_of (lg_procedures lg) n = Some (s, e) \<longrightarrow>
        (\<exists>p. s < length (lg_commands lg) \<and> lg_commands lg ! s = CProcedure p
          \<and> pr_name p = n \<and> pr_start_line p = s \<and> pr_end_line p = e))"

lemma find_block_scan:
  assumes "find_block env loc cmds line d = Ok (Some (e, mids))"
    and "bd_closes d = bd_ends d" "bd_begins d \<noteq> []" "bd_ends d \<noteq> []"
  shows "scan d cmds [] (Suc line) = Some (e, mids)"
  using assms(1) command_search_scan [OF assms(2-4)]
  by (auto simp: find_block_def split: option.splits)

lemmas block_defs_defs =
  if_defs_def loop_defs_def for_defs_def procedure_defs_def state_defs_def component_defs_def
  machine_defs_def

lemmas block_new_defs =
  if_new_def loop_new_def for_in_new_def procedure_new_def state_new_def component_new_def
  machine_new_def positions_or_def

text \<open>The definitions of the block a prototype opens.\<close>

fun defs_of :: "command \<Rightarrow> block_defs" where
  "defs_of (CIf c) = if_defs"
| "defs_of (CLoop c) = loop_defs"
| "defs_of (CForIn c) = for_defs"
| "defs_of (CProcedure p) = procedure_defs"
| "defs_of (CState b) = state_defs"
| "defs_of (CComponent b) = component_defs"
| "defs_of c = machine_defs"

lemma defs_of_simps [simp]:
  "bd_closes (defs_of c) = [''end'']" "bd_ends (defs_of c) = [''end'']" "bd_begins (defs_of c) \<noteq> []"
  "set (bd_middles (defs_of c)) \<subseteq> {''else'', ''else_if''}"
  by (cases c; simp add: block_defs_defs)+

lemma set_new_is_set: "set_new env args loc = Ok c \<Longrightarrow> \<exists>b. c = CSet b"
  by (auto simp: set_new_def result_simps)

lemma if_new_Ok:
  "\<lbrakk> if_new env args loc cmds = Ok c; l_line loc = Some i \<rbrakk>
   \<Longrightarrow> if_start c = i \<and> find_block env loc cmds i if_defs = Ok (Some (if_end c, if_else_lines c))"
  by (auto simp: block_new_defs result_simps split: if_splits)

lemma loop_new_Ok:
  "\<lbrakk> loop_new env args loc cmds = Ok c; l_line loc = Some i \<rbrakk>
   \<Longrightarrow> lp_start c = i \<and> (\<exists>ms. find_block env loc cmds i loop_defs = Ok (Some (lp_end c, ms)))"
  by (auto simp: block_new_defs result_simps)

lemma for_in_new_Ok:
  "\<lbrakk> for_in_new env args loc cmds = Ok c; l_line loc = Some i \<rbrakk>
   \<Longrightarrow> fi_start c = i \<and> (\<exists>ms. find_block env loc cmds i for_defs = Ok (Some (fi_end c, ms)))"
  by (auto simp: block_new_defs result_simps Let_def)

lemma procedure_new_Ok:
  "\<lbrakk> procedure_new env args loc cmds = Ok c; l_line loc = Some i \<rbrakk>
   \<Longrightarrow> pr_start_line c = i
     \<and> (\<exists>ms. find_block env loc cmds i procedure_defs = Ok (Some (pr_end_line c, ms)))"
  by (auto simp: block_new_defs result_simps)

lemma state_new_Ok:
  "\<lbrakk> state_new env args loc cmds = Ok c; l_line loc = Some i \<rbrakk>
   \<Longrightarrow> st_start_line c = i + 1
     \<and> (\<exists>ms. find_block env loc cmds i state_defs = Ok (Some (st_end_line c, ms)))"
  by (auto simp: block_new_defs result_simps)

lemma component_new_Ok:
  "\<lbrakk> component_new env args loc cmds = Ok c; l_line loc = Some i \<rbrakk>
   \<Longrightarrow> cb_start_line c = i + 1
     \<and> (\<exists>ms. find_block env loc cmds i component_defs = Ok (Some (cb_end_line c, ms)))"
  by (auto simp: block_new_defs result_simps)

lemma machine_new_Ok:
  "\<lbrakk> machine_new env loc cmds = Ok c; l_line loc = Some i \<rbrakk>
   \<Longrightarrow> mb_start_line c = i + 1
     \<and> (\<exists>ms. find_block env loc cmds i machine_defs = Ok (Some (mb_end_line c, ms)))"
  by (auto simp: block_new_defs result_simps)

text \<open>Which constructor made a block command.\<close>

fun made_by :: "script_env \<Rightarrow> string list \<Rightarrow> location_info \<Rightarrow> command_prototype list \<Rightarrow> command \<Rightarrow> bool"
  where
  "made_by env args loc cmds (CIf b) = (if_new env args loc cmds = Ok b)"
| "made_by env args loc cmds (CLoop b) = (loop_new env args loc cmds = Ok b)"
| "made_by env args loc cmds (CForIn b) = (for_in_new env args loc cmds = Ok b)"
| "made_by env args loc cmds (CProcedure b) = (procedure_new env args loc cmds = Ok b)"
| "made_by env args loc cmds (CState b) = (state_new env args loc cmds = Ok b)"
| "made_by env args loc cmds (CComponent b) = (component_new env args loc cmds = Ok b)"
| "made_by env args loc cmds (CMachine b) = (machine_new env loc cmds = Ok b)"
| "made_by env args loc cmds c = True"

lemma from_prototype_made:
  assumes "from_prototype env p loc cmds = Ok c"
  shows "made_by env (case cp_arguments p of Some a \<Rightarrow> a | None \<Rightarrow> []) loc cmds c"
proof -
  obtain name where name: "cp_name p = Some name"
    using assms by (cases "cp_name p") (auto simp: from_prototype_def)
  have if_Ok: "(if b then r else r') = Ok c \<longleftrightarrow> (b \<and> r = Ok c) \<or> (\<not> b \<and> r' = Ok c)"
    for b and r r' :: "command machine_result" by simp
  show ?thesis
    using assms unfolding from_prototype_def name option.case Let_def if_Ok map_ok_Ok_iff
    by (elim disjE conjE exE) (auto dest: set_new_is_set)
qed

lemma from_prototype_block:
  assumes "from_prototype env p loc cmds = Ok c" and "block_range c = Some (s, e)"
    and "l_line loc = Some i"
  shows "s = i + 1 \<and> (\<exists>mids. scan (defs_of c) cmds [] (Suc i) = Some (e, mids)
           \<and> set (middle_lines c) \<subseteq> set mids \<and> (sorted mids \<longrightarrow> sorted (middle_lines c)))"
proof -
  have fb: "scan (defs_of c) cmds [] (Suc i) = Some (e, mids)"
    if "find_block env loc cmds i (defs_of c) = Ok (Some (e, mids))" for mids
    by (rule find_block_scan [OF that]) auto
  show ?thesis
    using from_prototype_made [OF assms(1)] assms(2,3) fb
    by (cases c) (auto dest: if_new_Ok loop_new_Ok for_in_new_Ok procedure_new_Ok state_new_Ok
        component_new_Ok machine_new_Ok)
qed

text \<open>What assembling the commands of a script leaves, before the entry of the whole script.\<close>

definition assembled ::
  "script_env \<Rightarrow> string option \<Rightarrow> command_prototype list
   \<Rightarrow> (command_prototype \<times> location_info) list \<Rightarrow> logic \<Rightarrow> bool" where
  "assembled env path protos pls lg \<longleftrightarrow>
    length (lg_commands lg) = length pls \<and> length (lg_locations lg) = length pls
    \<and> (\<forall>i < length pls. lg_locations lg ! i = cmd_location path i (snd (pls ! i))
        \<and> from_prototype env (fst (pls ! i)) (cmd_location path i (snd (pls ! i))) protos =
             Ok (lg_commands lg ! i))
    \<and> (\<forall>n s e. map_of (lg_states lg) n = Some (s, e) \<longrightarrow>
        (\<exists>b. CState b \<in> set (lg_commands lg)
          \<and> st_name b = n \<and> st_start_line b = s \<and> st_end_line b = e))
    \<and> (\<forall>n s e. map_of (lg_procedures lg) n = Some (s, e) \<longrightarrow>
        (\<exists>p. CProcedure p \<in> set (lg_commands lg)
          \<and> pr_name p = n \<and> pr_start_line p = s \<and> pr_end_line p = e))"

lemma register_block_simps [simp]:
  "lg_commands (register_block c lg) = lg_commands lg"
  "lg_locations (register_block c lg) = lg_locations lg"
  by (cases c; simp add: register_block_def)+

lemma register_block_lookup:
  "map_of (lg_states (register_block c lg)) n = Some (s, e) \<Longrightarrow>
     map_of (lg_states lg) n = Some (s, e)
     \<or> (\<exists>b. c = CState b \<and> st_name b = n \<and> st_start_line b = s \<and> st_end_line b = e)"
  "map_of (lg_procedures (register_block c lg)) n = Some (s, e) \<Longrightarrow>
     map_of (lg_procedures lg) n = Some (s, e)
     \<or> (\<exists>p. c = CProcedure p \<and> pr_name p = n \<and> pr_start_line p = s \<and> pr_end_line p = e)"
  by (cases c; auto simp: register_block_def kv_simps split: if_splits)+

lemma assembled_step:
  assumes "assembled env path protos pls lg"
    and "add_command env path protos lg (length pls, p, l) = Ok lg'"
  shows "assembled env path protos (pls @ [(p, l)]) lg'"
proof -
  from assms(2) obtain c where c: "from_prototype env p (cmd_location path (length pls) l) protos = Ok c"
    and lg': "lg' = (register_block c lg)\<lparr> lg_commands := lg_commands lg @ [c],
        lg_locations := lg_locations lg @ [cmd_location path (length pls) l] \<rparr>"
    by (auto simp: add_command_def Let_def result_simps)
  show ?thesis
    using assms(1) c unfolding assembled_def lg'
    by (auto simp: nth_append less_Suc_eq dest!: register_block_lookup) blast+
qed

lemma assemble:
  "res_foldl (add_command env path protos) default_logic (enumerate 0 pls) = Ok lg
   \<Longrightarrow> assembled env path protos pls lg"
proof (induction pls arbitrary: lg rule: rev_induct)
  case Nil
  then show ?case by (auto simp: assembled_def default_logic_def)
next
  case (snoc x pls)
  obtain p l where x: "x = (p, l)" by (cases x)
  from snoc.prems obtain lg0 where
    "res_foldl (add_command env path protos) default_logic (enumerate 0 pls) = Ok lg0"
    "add_command env path protos lg0 (length pls, p, l) = Ok lg"
    by (auto simp: enumerate_append_eq res_foldl_append result_simps x)
  then show ?case unfolding x by (blast intro: assembled_step snoc.IH)
qed

lemma cmd_location_line [simp]: "l_line (cmd_location path n l) = Some n"
  by (simp add: cmd_location_def split: option.split)

lemma from_prototype_end:
  "\<lbrakk> from_prototype env p loc cmds = Ok c; cp_name p = Some ''end'' \<rbrakk> \<Longrightarrow> c = CEnd"
  by (simp add: from_prototype_def Let_def)

lemma from_prototype_else:
  "\<lbrakk> from_prototype env p loc cmds = Ok c; cp_name p = Some n; n \<in> {''else'', ''else_if''} \<rbrakk>
   \<Longrightarrow> c = CElse"
  by (auto simp: from_prototype_def Let_def)

lemma line_kind_names:
  "line_kind d p = Ends \<Longrightarrow> \<exists>c. cp_name p = Some c \<and> c \<in> set (bd_ends d)"
  "line_kind d p = Middle \<Longrightarrow> \<exists>c. cp_name p = Some c \<and> c \<in> set (bd_middles d)"
  by (auto simp: line_kind_def split: option.splits if_splits)

lemma assembled_block_wf:
  assumes asm: "assembled env path (map fst pls) pls lg" and i: "i < length pls"
  shows "block_wf (lg_commands lg) i"
proof (unfold block_wf_def, intro allI impI)
  fix s e assume range: "block_range (lg_commands lg ! i) = Some (s, e)"
  let ?d = "defs_of (lg_commands lg ! i)"
  have from_p: "from_prototype env (map fst pls ! j) (cmd_location path j (snd (pls ! j))) (map fst pls) =
      Ok (lg_commands lg ! j)" if "j < length pls" for j
    using asm that by (simp add: assembled_def)
  from from_prototype_block [OF from_p [OF i] range cmd_location_line] obtain mids where
    s: "s = i + 1" and found: "block_found ?d (map fst pls) (Suc i) (e, mids)"
    and mids: "set (middle_lines (lg_commands lg ! i)) \<subseteq> set mids"
      "sorted mids \<longrightarrow> sorted (middle_lines (lg_commands lg ! i))"
    using scan_found by blast
  have e: "i < e" "e < length pls" "line_kind ?d (map fst pls ! e) = Ends"
    using found by (auto simp: block_found_def)
  then have "cp_name (map fst pls ! e) = Some ''end''" by (auto dest: line_kind_names)
  then have "lg_commands lg ! e = CEnd" by (rule from_prototype_end [OF from_p [OF e(2)]])
  moreover have "i < m \<and> m < e \<and> lg_commands lg ! m = CElse"
    if "m \<in> set (middle_lines (lg_commands lg ! i))" for m
  proof -
    from that mids(1) have "m \<in> set mids" by blast
    with found have m: "i < m" "m < e" "line_kind ?d (map fst pls ! m) = Middle"
      by (auto simp: block_found_def Suc_le_eq)
    then obtain n where "cp_name (map fst pls ! m) = Some n" "n \<in> {''else'', ''else_if''}"
      using defs_of_simps(4) by (blast dest: line_kind_names)
    then have "lg_commands lg ! m = CElse"
      using m e(2) by (intro from_prototype_else [OF from_p]) auto
    then show ?thesis using m by simp
  qed
  ultimately show "s = i + 1 \<and> i < e \<and> e < length (lg_commands lg) \<and> lg_commands lg ! e = CEnd
    \<and> sorted (middle_lines (lg_commands lg ! i))
    \<and> (\<forall>m \<in> set (middle_lines (lg_commands lg ! i)).
        i < m \<and> m < e \<and> lg_commands lg ! m = CElse)"
    using s e mids found asm by (simp add: assembled_def block_found_def)
qed

lemma logic_of_prototypes_wf:
  assumes "logic_of_prototypes env path pls = Ok lg"
  shows "logic_wf lg" "length (lg_commands lg) = length pls"
proof -
  from assms obtain lg0 where asm: "assembled env path (map fst pls) pls lg0"
    and lg: "lg = lg0\<lparr> lg_states :=
      kv_insert ''_main'' (0, length (lg_commands lg0)) (lg_states lg0) \<rparr>"
    by (auto simp: logic_of_prototypes_def result_simps dest: assemble)
  have len: "length (lg_commands lg0) = length pls" using asm by (simp add: assembled_def)
  have range: "s = i + 1" if "block_range (lg_commands lg0 ! i) = Some (s, e)" "i < length pls"
    for i s e using assembled_block_wf [OF asm that(2)] that(1) unfolding block_wf_def by blast
  have state: "\<exists>i < length (lg_commands lg0). \<exists>b. lg_commands lg0 ! i = CState b
      \<and> st_name b = n \<and> st_start_line b = s \<and> st_end_line b = e"
    if "map_of (lg_states lg0) n = Some (s, e)" for n s e
  proof -
    from asm that obtain b where b: "CState b \<in> set (lg_commands lg0)" "st_name b = n"
      "st_start_line b = s" "st_end_line b = e" unfolding assembled_def by blast
    then obtain i where "i < length (lg_commands lg0)" "lg_commands lg0 ! i = CState b"
      by (auto simp: in_set_conv_nth)
    with b show ?thesis by auto
  qed
  have proc: "\<exists>p. s < length (lg_commands lg0) \<and> lg_commands lg0 ! s = CProcedure p
      \<and> pr_name p = n \<and> pr_start_line p = s \<and> pr_end_line p = e"
    if "map_of (lg_procedures lg0) n = Some (s, e)" for n s e
  proof -
    from asm that obtain p where p: "CProcedure p \<in> set (lg_commands lg0)" "pr_name p = n"
      "pr_start_line p = s" "pr_end_line p = e" unfolding assembled_def by blast
    then obtain i where i: "i < length pls" "lg_commands lg0 ! i = CProcedure p"
      using len by (auto simp: in_set_conv_nth)
    with range [of i "s + 1" e] p have "s = i" by simp
    with p i len show ?thesis by auto
  qed
  show "logic_wf lg"
    unfolding logic_wf_def lg
    using asm state proc
    by (intro conjI) (simp_all add: assembled_def kv_simps assembled_block_wf [OF asm] len)
  show "length (lg_commands lg) = length pls" using len by (simp add: lg)
qed

section \<open>Properties\<close>

text \<open>
  Sample data for the examples: an option parser that takes every argument as a free one, and a
  script with a procedure, a call, a conditional and a loop.
\<close>

definition sample_env :: script_env where
  "sample_env =
    \<lparr> se_snippet = (\<lambda>m loc. m), se_no_args = (\<lambda>loc. None),
      se_getopts = (\<lambda>opts args. Ok \<lparr> om_free = args, om_opts = [] \<rparr>),
      se_eval = (\<lambda>e ns. None), se_uesc = (\<lambda>c. False) \<rparr>"

definition proto :: "string \<Rightarrow> string list \<Rightarrow> command_prototype" where
  "proto name args = \<lparr> cp_name = Some name, cp_arguments = Some args, cp_output = None \<rparr>"

definition sample_script :: "(command_prototype \<times> location_info) list" where
  "sample_script = map (\<lambda>p. (p, empty_location))
    [proto ''proc'' [''p''], proto ''set'' [''e.c.int.x'', ''1''], proto ''end'' [],
     proto ''call'' [''p''],
     proto ''if'' [''true'', '' ''], proto ''set'' [''e.c.int.x'', ''2''], proto ''else'' [],
     proto ''set'' [''e.c.int.x'', ''3''], proto ''end'' [],
     proto ''loop'' [], proto ''break'' [], proto ''end'' []]"

definition sample_set :: "int \<Rightarrow> command" where
  "sample_set i = CSet
    \<lparr> set_target = TAddress \<lparr> a_entity = ''e'', a_comp = ''c'', a_type = TInt, a_var = ''x'' \<rparr>,
      set_source = SValue (VInt (word_of_int i)), set_out = None \<rparr>"

definition sample_commands :: "command list" where
  "sample_commands =
    [CProcedure \<lparr> pr_name = ''p'', pr_start_line = 0, pr_end_line = 2, pr_output = None \<rparr>,
     sample_set 1, CEnd, CCall ''p'',
     CIf \<lparr> if_condition = BoolValue True, if_start = 4, if_end = 8, if_else_lines = [6] \<rparr>,
     sample_set 2, CElse, sample_set 3, CEnd,
     CLoop \<lparr> lp_break_condition = LNone, lp_start = 9, lp_end = 11 \<rparr>, CBreak, CEnd]"

definition sample_logic :: logic where
  "sample_logic =
    \<lparr> lg_start_state = ''start'', lg_commands = sample_commands,
      lg_states = [(''_main'', (0, 12))], lg_procedures = [(''p'', (0, 2))],
      lg_locations = map (\<lambda>n. empty_location\<lparr> l_line := Some n \<rparr>) [0..<12] \<rparr>"

text \<open>Assembling a script is translating every prototype and then entering the commands in order.\<close>

definition enter_command :: "logic \<Rightarrow> command \<times> location_info \<Rightarrow> logic" where
  "enter_command lg = (\<lambda>(c, l).
    (register_block c lg)\<lparr> lg_commands := lg_commands lg @ [c], lg_locations := lg_locations lg @ [l] \<rparr>)"

lemma add_commands_map:
  "res_foldl (add_command env path protos) lg (enumerate k pls) =
    res_bind (map_err MachinePanic (res_map (\<lambda>(n, p, l).
        from_prototype env p (cmd_location path n l) protos) (enumerate k pls))) (\<lambda>cs.
      Ok (foldl enter_command lg (zip cs (map (\<lambda>(n, p, l). cmd_location path n l) (enumerate k pls)))))"
proof (induction pls arbitrary: k lg)
  case (Cons x pls)
  obtain p l where x: "x = (p, l)" by (cases x)
  have bind_err: "map_err f (res_bind r g) = res_bind (map_err f r) (\<lambda>y. map_err f (g y))"
    for f :: "machine_error \<Rightarrow> error" and r :: "'x machine_result" and g :: "'x \<Rightarrow> 'y machine_result"
    by (cases r) simp_all
  show ?case
  proof (cases "from_prototype env p (cmd_location path k l) protos")
    case (Ok c)
    then have step: "add_command env path protos lg (k, p, l) =
        Ok (enter_command lg (c, cmd_location path k l))"
      by (simp add: add_command_def enter_command_def Let_def)
    show ?thesis
      by (simp add: x step Cons.IH Ok bind_err)
        (cases "res_map (\<lambda>(n, p, l). from_prototype env p (cmd_location path n l) protos)
                  (enumerate (Suc k) pls)"; simp)
  qed (simp_all add: x add_command_def Let_def)
qed simp

lemma sample_script_commands:
  "res_map (\<lambda>(n, p, l). from_prototype sample_env p (cmd_location None n l) (map fst sample_script))
     (enumerate 0 sample_script) = Ok sample_commands"
  by code_simp

lemma sample_script_logic: "logic_of_prototypes sample_env None sample_script = Ok sample_logic"
proof -
  have "foldl enter_command default_logic (zip sample_commands
      (map (\<lambda>(n, p, l). cmd_location None n l) (enumerate 0 sample_script))) =
    sample_logic\<lparr> lg_states := [] \<rparr>"
    by (simp add: sample_commands_def sample_script_def enter_command_def register_block_def
        sample_logic_def default_logic_def cmd_location_def sample_set_def upt_rec)
  then show ?thesis
    by (simp add: logic_of_prototypes_def add_commands_map sample_script_commands sample_logic_def
        sample_commands_def)
qed

lemma sample_logic_wf: "logic_wf sample_logic"
  by (rule logic_of_prototypes_wf [OF sample_script_logic])

text \<open>C23: the recursive search for the end of a block, which counts other blocks and
  calls itself on nested blocks of the same kind, returns what one pass with a stack of open
  blocks returns: the first end at which no block is open and the middle parts not inside a
  nested block, both at or after the line the search starts from; and it fails exactly when the
  pass finds no such end.\<close>

theorem command_search_spec:
  assumes "bd_closes d = bd_ends d" "bd_begins d \<noteq> []" "bd_ends d \<noteq> []"
  shows "command_search loc cmds start d True =
      (case block_end d [] start (drop start cmds) of
         None \<Rightarrow> Err (no_end_error loc d) | Some r \<Rightarrow> Ok (Some r))
    \<and> (\<forall>e ms. command_search loc cmds start d True = Ok (Some (e, ms)) \<longrightarrow>
         start \<le> e \<and> e < length cmds \<and> sorted ms \<and> (\<forall>m \<in> set ms. start \<le> m \<and> m < e)
         \<and> (\<exists>c. cp_name (cmds ! e) = Some c \<and> c \<in> set (bd_ends d)))"
proof -
  have eq: "command_search loc cmds start d True = search_result loc d [] (scan d cmds [] start)"
    by (rule command_search_scan [OF assms])
  have "start \<le> e \<and> e < length cmds \<and> sorted ms \<and> (\<forall>m \<in> set ms. start \<le> m \<and> m < e)
      \<and> (\<exists>c. cp_name (cmds ! e) = Some c \<and> c \<in> set (bd_ends d))"
    if "command_search loc cmds start d True = Ok (Some (e, ms))" for e ms
  proof -
    from that eq have "scan d cmds [] start = Some (e, ms)" by (auto split: option.splits)
    from scan_found [OF this] show ?thesis by (auto simp: block_found_def dest: line_kind_names)
  qed
  then show ?thesis using eq by (auto simp: scan_def split: option.split)
qed

theorem command_search_spec_witness:
  "command_search empty_location (map fst sample_script) 5 if_defs True = Ok (Some (8, [6]))"
  using command_search_spec [of if_defs empty_location "map fst sample_script" 5]
  by (simp add: if_defs_def sample_script_def proto_def line_kind_def)

text \<open>When the commands of a script are assembled, there is one command and one location
  per line, every block starts right after its line and ends at an \<open>end\<close> further down, with its
  \<open>else\<close> lines in between, every procedure and state of the tables is declared in the script with
  the lines the table gives, and the whole script is the state \<open>_main\<close>.\<close>

lemma from_script_wf:
  "logic_of_prototypes env path pls = Ok lg \<Longrightarrow> length (lg_commands lg) = length pls \<and> logic_wf lg"
  by (simp add: logic_of_prototypes_wf)

text \<open>A loop inside a conditional, or a conditional inside a loop, ends the outer block:
  neither search knows the other's opening line, so it takes the first \<open>end\<close> for its own.  An
  \<open>else\<close> inside a state is counted as opening a block, so the state's own \<open>end\<close> is not found.\<close>

lemma inner_loop_ends_if:
  "find_block env loc [proto ''if'' a, proto ''loop'' b, proto ''end'' [], proto ''end'' []] 0 if_defs
     = Ok (Some (2, []))
   \<and> find_block env loc [proto ''loop'' b, proto ''if'' a, proto ''end'' [], proto ''end'' []] 0 loop_defs
     = Ok (Some (2, []))
   \<and> find_block env loc [proto ''state'' b, proto ''if'' a, proto ''else'' [], proto ''end'' [],
        proto ''end'' []] 0 state_defs
     = Err (machine_err loc (InvalidCommandBody
          (machine_error_to_string (se_snippet env) (no_end_error loc state_defs))))"
  by (simp add: find_block_def command_search_def search_from.simps proto_def block_defs_defs)

end
