(* ===== verification/Machines.thy ===== *)
theory Machines
  imports Commands
begin

text \<open>
  Execution of a script: the machine task and its requests to the worker
  (src/bigworlds/src/machine/mod.rs), the execution loop (src/bigworlds/src/machine/exec.rs) and
  the \<open>execute\<close> of every command (src/bigworlds/src/machine/cmd/).  The worker is an argument
  \<open>ask\<close>: it takes its state and a request and returns its next state and a reply.
\<close>

section \<open>Requests to the worker\<close>

datatype (plugins only: code size) worker_request =
    ReqInvoke "string list" bool
  | ReqSetVar address var
  | ReqGetVar address
  | ReqSpawnEntity string "string option"
  | ReqMergeModel "logic model"
  | ReqMachineLogic string

text \<open>The responses a machine tells apart; \<open>RespOther\<close> stands for any other, by its name.\<close>

datatype (plugins only: code size) worker_response =
  RespEmpty | RespGetVar var | RespMachineLogic logic | RespOther string

text \<open>The outer result is that of the channel to the worker, the inner one the worker's.\<close>

type_synonym worker_reply = "worker_response core_result core_result"
type_synonym 'w worker = "'w \<Rightarrow> worker_request \<Rightarrow> 'w \<times> worker_reply"

abbreviation join_reply :: "'a core_result core_result \<Rightarrow> 'a core_result" where
  "join_reply r \<equiv> res_bind r id"

section \<open>State\<close>

record machine =
  mc_behavior :: "string option"
  mc_state :: string

record procedure_call_info =
  pci_call_line :: nat
  pci_start_line :: nat
  pci_end_line :: nat

record for_in_call_info =
  fici_target :: "local_address option"
  fici_target_len :: nat
  fici_variable :: "local_address option"
  fici_iteration :: nat
  fici_start :: nat
  fici_end :: nat

record loop_call_info =
  lci_start :: nat
  lci_end :: nat

record if_else_call_info =
  ieci_current :: nat
  ieci_passed :: bool
  ieci_else_line_index :: nat
  ieci_start :: nat
  ieci_end :: nat
  ieci_else_lines :: "nat list"

record component_call_info =
  cci_name :: string
  cci_vars :: "var_model list"
  cci_start_line :: nat
  cci_end_line :: nat

datatype call_info =
    ProcedureCall procedure_call_info | ForInCall for_in_call_info | LoopCall loop_call_info
  | IfElseCall if_else_call_info | ComponentCall component_call_info

text \<open>
  The call stack, its top first; a push beyond its capacity panics.  \<open>rn_log\<close> is what the
  commands print and the errors the loop logs; \<open>rn_spawned\<close> holds the events of the tasks
  spawned by \<open>invoke\<close>, which run on their own.
\<close>

datatype log_line = Info string | LogErr machine_error

record 'w run =
  rn_world :: 'w
  rn_machine :: machine
  rn_stack :: "call_info list"
  rn_log :: "log_line list"
  rn_spawned :: "string list list"

definition stack_capacity :: nat where
  "stack_capacity = 32"

text \<open>A command's result; None when it panics.\<close>

type_synonym 'w outcome = "'w run \<times> command_result option"

definition push_call :: "call_info \<Rightarrow> command_result \<Rightarrow> 'w run \<Rightarrow> 'w outcome" where
  "push_call ci res r =
    (if length (rn_stack r) < stack_capacity
     then (r\<lparr> rn_stack := ci # rn_stack r \<rparr>, Some res)
     else (r, None))"

definition send :: "'w worker \<Rightarrow> worker_request \<Rightarrow> 'w run \<Rightarrow> 'w run \<times> worker_reply" where
  "send ask req r = (let (w, reply) = ask (rn_world r) req in (r\<lparr> rn_world := w \<rparr>, reply))"

definition machine_set_var ::
  "script_env \<Rightarrow> 'w worker \<Rightarrow> address \<Rightarrow> var \<Rightarrow> 'w run \<Rightarrow> 'w run \<times> unit machine_result" where
  "machine_set_var env ask addr v r =
    (let (r', reply) = send ask (ReqSetVar addr v) r in
     (r', res_bind (lift_core env (join_reply reply))
            (\<lambda>resp. case resp of RespEmpty \<Rightarrow> Ok () | _ \<Rightarrow> Panic)))"

definition machine_get_var ::
  "script_env \<Rightarrow> 'w worker \<Rightarrow> address \<Rightarrow> 'w run \<Rightarrow> 'w run \<times> var machine_result" where
  "machine_get_var env ask addr r =
    (let (r', reply) = send ask (ReqGetVar addr) r in
     (r', res_bind (lift_core env (join_reply reply))
            (\<lambda>resp. case resp of RespGetVar v \<Rightarrow> Ok v | _ \<Rightarrow> Panic)))"

text \<open>The spawned half of \<open>invoke\<close>: whatever the reply, the machine does not see it.\<close>

definition machine_invoke :: "'w worker \<Rightarrow> string list \<Rightarrow> 'w \<Rightarrow> 'w" where
  "machine_invoke ask events w = fst (ask w (ReqInvoke events True))"

section \<open>Commands\<close>

text \<open>Inserting into a string panics outside of it and inside a multi-byte character.\<close>

definition is_char_boundary :: "string \<Rightarrow> nat \<Rightarrow> bool" where
  "is_char_boundary s i =
    (i = length s \<or> i < length s \<and> \<not> is_continuation (s ! i))"

fun print_inserts ::
  "script_env \<Rightarrow> 'w worker \<Rightarrow> (nat \<times> address) list \<Rightarrow> string \<Rightarrow> nat \<Rightarrow> 'w run
   \<Rightarrow> 'w run \<times> string option" where
  "print_inserts env ask [] out added r = (r, Some out)"
| "print_inserts env ask ((i, addr) # ins) out added r =
    (case machine_get_var env ask addr r of
       (r', Ok v) \<Rightarrow>
         (let sub = var_to_string (se_uesc env) v in
          if is_char_boundary out (i + added)
          then print_inserts env ask ins (take (i + added) out @ sub @ drop (i + added) out)
                 (added + length sub) r'
          else (r', None))
     | (r', Err e) \<Rightarrow> print_inserts env ask ins out added r'
     | (r', Panic) \<Rightarrow> (r', None))"

definition execute_print_fmt :: "script_env \<Rightarrow> 'w worker \<Rightarrow> print_fmt \<Rightarrow> 'w run \<Rightarrow> 'w outcome" where
  "execute_print_fmt env ask c r =
    (case print_inserts env ask (pf_inserts c) (pf_fmt c) 0 r of
       (r', Some out) \<Rightarrow> (r'\<lparr> rn_log := rn_log r' @ [Info out] \<rparr>, Some Continue)
     | (r', None) \<Rightarrow> (r', None))"

text \<open>A local target is not implemented, and a failing read or write panics.\<close>

definition execute_set :: "script_env \<Rightarrow> 'w worker \<Rightarrow> set_cmd \<Rightarrow> 'w run \<Rightarrow> 'w outcome" where
  "execute_set env ask c r =
    (case set_target c of
       TLocal _ \<Rightarrow> (r, None)
     | TAddress target \<Rightarrow>
        (let (r', val) =
           (case set_source c of
              SLocal l \<Rightarrow> (case into_address l ''entity'' ''component'' of
                  Ok a \<Rightarrow> machine_get_var env ask a r
                | Err e \<Rightarrow> (r, Panic)
                | Panic \<Rightarrow> (r, Panic))
            | SAddress a \<Rightarrow> machine_get_var env ask a r
            | SValue v \<Rightarrow> (r, Ok v))
         in case val of
              Ok v \<Rightarrow> (case machine_set_var env ask target v r' of
                  (r'', Ok _) \<Rightarrow> (r'', Some Continue)
                | (r'', _) \<Rightarrow> (r'', None))
            | _ \<Rightarrow> (r', None)))"

fun eval_args ::
  "script_env \<Rightarrow> 'w worker \<Rightarrow> location_info \<Rightarrow> (string \<times> address) list \<Rightarrow> (string \<times> f32) list
   \<Rightarrow> 'w run \<Rightarrow> 'w run \<times> (string \<times> f32) list machine_result" where
  "eval_args env ask loc [] ns r = (r, Ok ns)"
| "eval_args env ask loc ((n, addr) # args) ns r =
    (case machine_get_var env ask addr r of
       (r', Ok v) \<Rightarrow> eval_args env ask loc args (ns @ [(n, var_to_float v)]) r'
     | (r', Err e) \<Rightarrow>
         (r', Err (machine_err loc (CoreError (machine_error_to_string (se_snippet env) e))))
     | (r', Panic) \<Rightarrow> (r', Panic))"

definition execute_eval ::
  "script_env \<Rightarrow> 'w worker \<Rightarrow> eval_cmd \<Rightarrow> location_info \<Rightarrow> 'w run \<Rightarrow> 'w outcome" where
  "execute_eval env ask c loc r =
    (case eval_args env ask loc (ev_args c) [] r of
       (r', Err e) \<Rightarrow> (r', Some (CmdErr e))
     | (r', Panic) \<Rightarrow> (r', None)
     | (r', Ok ns) \<Rightarrow>
        (case se_eval env (ev_expr c) ns of
           None \<Rightarrow> (r', None)
         | Some val \<Rightarrow>
            (case ev_out c of
               None \<Rightarrow> (r', Some Continue)
             | Some out \<Rightarrow>
                (case var_from_str val (Some (a_type out)) of
                   Ok v \<Rightarrow> (case machine_set_var env ask out v r' of
                       (r'', Ok _) \<Rightarrow> (r'', Some Continue)
                     | (r'', _) \<Rightarrow> (r'', None))
                 | _ \<Rightarrow> (r', None)))))"

definition execute_spawn :: "script_env \<Rightarrow> 'w worker \<Rightarrow> spawn_cmd \<Rightarrow> 'w run \<Rightarrow> 'w outcome" where
  "execute_spawn env ask c r =
    (let name = (case sp_name c of Some n \<Rightarrow> n | None \<Rightarrow> ''todo'');
         (r', reply) = send ask (ReqSpawnEntity name (sp_prefab c)) r;
         failed = (\<lambda>e. (r', Some (CmdErr (error_of_kind
                     (CoreError (error_to_string (se_snippet env) e))))))
     in case reply of
          Ok (Ok RespEmpty) \<Rightarrow> (r', Some Continue)
        | Ok (Err e) \<Rightarrow> failed e
        | Err e \<Rightarrow> failed e
        | _ \<Rightarrow> (r', None))"

text \<open>Registrations merge a model with the one part registered; the setters are not used.\<close>

definition component_part :: "string \<Rightarrow> var_model list \<Rightarrow> 'l model" where
  "component_part name vars = default_model\<lparr> md_components := [\<lparr> cm_name = name, cm_vars = vars \<rparr>] \<rparr>"

definition execute_register_prefab :: "'w worker \<Rightarrow> register_prefab \<Rightarrow> 'w run \<Rightarrow> 'w outcome" where
  "execute_register_prefab ask c r =
    (let (r', reply) = send ask (ReqMergeModel (default_model\<lparr> md_prefabs :=
           [\<lparr> pf_name = rp_name c, pf_components = rp_components c \<rparr>] \<rparr>)) r
     in (r', case reply of Ok _ \<Rightarrow> Some Continue | _ \<Rightarrow> None))"

definition execute_register_component :: "'w worker \<Rightarrow> string \<Rightarrow> 'w run \<Rightarrow> 'w outcome" where
  "execute_register_component ask name r =
    (fst (send ask (ReqMergeModel (component_part name [])) r), Some Continue)"

text \<open>A variable is added to the component block on top of the stack, if there is one.\<close>

definition execute_register_var :: "register_var \<Rightarrow> 'w run \<Rightarrow> 'w outcome" where
  "execute_register_var c r =
    (case rn_stack r of
       ComponentCall ci # rest \<Rightarrow>
         (r\<lparr> rn_stack := ComponentCall (ci\<lparr> cci_vars := cci_vars ci @
            [\<lparr> vm_name = s_var (rv_addr c), vm_type = s_type (rv_addr c), vm_default = rv_val c \<rparr>] \<rparr>)
            # rest \<rparr>, Some Continue)
     | _ \<Rightarrow> (r, Some Continue))"

definition condition_evaluate ::
  "script_env \<Rightarrow> 'w worker \<Rightarrow> if_condition \<Rightarrow> 'w run \<Rightarrow> 'w run \<times> bool machine_result" where
  "condition_evaluate env ask c r =
    (case c of
       AssertEqual addr right \<Rightarrow>
         (let (r', v) = machine_get_var env ask addr r in (r', map_ok (\<lambda>left. var_eq left right) v))
     | BooleanCheck addr \<Rightarrow>
         (let (r', v) = machine_get_var env ask addr r in (r', map_ok var_to_bool v))
     | BoolValue b \<Rightarrow> (r, Ok b)
     | BooleanCheckLocal _ \<Rightarrow> (r, Ok False))"

text \<open>The \<open>else\<close> lines are copied into an array of ten: more of them panic.\<close>

definition else_lines_arr :: "nat list \<Rightarrow> nat list option" where
  "else_lines_arr ls =
    (if length ls \<le> 10 then Some (ls @ replicate (10 - length ls) 0) else None)"

definition execute_if :: "script_env \<Rightarrow> 'w worker \<Rightarrow> if_cmd \<Rightarrow> 'w run \<Rightarrow> 'w outcome" where
  "execute_if env ask c r =
    (case else_lines_arr (if_else_lines c) of
       None \<Rightarrow> (r, None)
     | Some arr \<Rightarrow>
        (let info = (\<lambda>passed next_line. IfElseCall
           \<lparr> ieci_current = next_line, ieci_passed = passed, ieci_else_line_index = 0,
             ieci_start = if_start c, ieci_end = if_end c, ieci_else_lines = arr \<rparr>)
         in case condition_evaluate env ask (if_condition c) r of
              (r', Ok True) \<Rightarrow>
                push_call (info True (case if_else_lines c of [] \<Rightarrow> if_end c | l # _ \<Rightarrow> l))
                  Continue r'
            | (r', Ok False) \<Rightarrow>
                (case if_else_lines c of
                   [] \<Rightarrow> (r', Some (JumpToLine (if_end c + 1)))
                 | l # _ \<Rightarrow> push_call (info False l) (JumpToLine l) r')
            | (r', _) \<Rightarrow> (r', None)))"

definition update_variable :: "local_address \<Rightarrow> bool" where
  "update_variable variable = (la_type variable \<noteq> TInt)"

text \<open>
  \<open>end\<close>: a loop jumps back, a procedure returns when the line is its own end, a component is
  merged into the model; the entry of an \<open>if\<close> stays on the stack.
\<close>

definition execute_end :: "'w worker \<Rightarrow> location_info \<Rightarrow> 'w run \<Rightarrow> 'w outcome" where
  "execute_end ask loc r =
    (case rn_stack r of
       [] \<Rightarrow> (r, Some Continue)
     | ci # rest \<Rightarrow>
        (let popped = r\<lparr> rn_stack := rest \<rparr> in
         case ci of
           ForInCall f \<Rightarrow>
             if fici_iteration f < fici_target_len f
             then (let back = (r\<lparr> rn_stack :=
                          ForInCall (f\<lparr> fici_iteration := fici_iteration f + 1 \<rparr>) # rest \<rparr>,
                        Some (JumpToLine (fici_start f + 1)))
                   in case fici_target f of
                        None \<Rightarrow> back
                      | Some target \<Rightarrow>
                          (case fici_variable f of
                             None \<Rightarrow> (r, None)
                           | Some v \<Rightarrow> if update_variable v then back else (r, None)))
             else (popped, Some Continue)
         | IfElseCall _ \<Rightarrow> (r, Some Continue)
         | LoopCall l \<Rightarrow> (r, Some (JumpToLine (lci_start l + 1)))
         | ProcedureCall p \<Rightarrow>
             (case l_line loc of
                None \<Rightarrow> (popped, None)
              | Some line \<Rightarrow>
                  if pci_end_line p = line
                  then (popped, Some (JumpToLine (pci_call_line p + 1)))
                  else (popped, Some Continue))
         | ComponentCall c \<Rightarrow>
             (fst (send ask (ReqMergeModel (component_part (cci_name c) (cci_vars c))) popped),
              Some Continue)))"

definition execute_call :: "logic \<Rightarrow> location_info \<Rightarrow> string \<Rightarrow> 'w run \<Rightarrow> 'w outcome" where
  "execute_call lg loc name r =
    (case map_of (lg_procedures lg) name of
       None \<Rightarrow> (r, None)
     | Some (s, e) \<Rightarrow>
        (case l_line loc of
           None \<Rightarrow> (r, Some (CmdErr (machine_err loc MissingLocationLine)))
         | Some line \<Rightarrow>
             push_call (ProcedureCall
                 \<lparr> pci_call_line = line, pci_start_line = s, pci_end_line = e \<rparr>)
               (JumpToLine (s + 1)) r))"

text \<open>
  The \<open>execute_loc\<close> of \<open>else\<close>, \<open>break\<close> and \<open>for\<close>, which the dispatch below does not call.  The length of a number is its value cast to \<open>usize\<close>: an integer is sign-extended, so a
  negative one becomes huge, and a float saturates.
\<close>

definition else_execute_loc :: "location_info \<Rightarrow> call_info list \<Rightarrow> call_info list \<times> command_result" where
  "else_execute_loc loc stk =
    (case stk of
       [] \<Rightarrow> (stk, CmdErr (machine_err loc StackEmpty))
     | IfElseCall i # _ \<Rightarrow> (stk, if ieci_passed i then JumpToLine (ieci_end i + 1) else Continue)
     | _ \<Rightarrow> (stk, Continue))"

definition break_execute_loc :: "location_info \<Rightarrow> call_info list \<Rightarrow> call_info list \<times> command_result" where
  "break_execute_loc loc stk =
    (case stk of
       [] \<Rightarrow> (stk, CmdErr (machine_err loc StackEmpty))
     | LoopCall l # rest \<Rightarrow> (rest, JumpToLine (lci_end l))
     | _ \<Rightarrow> (stk, Continue))"

definition int_as_usize :: "32 word \<Rightarrow> nat" where
  "int_as_usize i = nat (sint i mod 2 ^ 64)"

definition f32_as_usize :: "f32 \<Rightarrow> nat" where
  "f32_as_usize x =
    (case f32_classify x of FNan \<Rightarrow> 0
     | FInf s \<Rightarrow> if s then 0 else 2 ^ 64 - 1
     | FFin s k \<Rightarrow> if s then 0 else min (nat (k div f32_unit)) (2 ^ 64 - 1))"

definition iter_len :: "var \<Rightarrow> nat" where
  "iter_len v = (case v of VInt i \<Rightarrow> int_as_usize i | VFloat x \<Rightarrow> f32_as_usize x | _ \<Rightarrow> 0)"

definition for_in_execute_loc ::
  "for_in \<Rightarrow> storage \<Rightarrow> string \<Rightarrow> location_info \<Rightarrow> 'w run \<Rightarrow> 'w outcome" where
  "for_in_execute_loc c st comp_id loc r =
    (case storage_get_var st (short_storage_index_using (fi_target c) comp_id) of
       Err _ \<Rightarrow> (r, Some (CmdErr (machine_err loc
           (FailedGettingFromStorage (short_local_address_to_string (fi_target c))))))
     | Panic \<Rightarrow> (r, None)
     | Ok v \<Rightarrow>
        (let local = (\<lambda>a. \<lparr> la_comp = (case s_comp a of Some n \<Rightarrow> n | None \<Rightarrow> comp_id),
                 la_type = s_type a, la_var = s_var a \<rparr>);
             variable = local (fi_variable c); target = local (fi_target c)
         in if update_variable variable
            then push_call (ForInCall \<lparr> fici_target = Some target, fici_target_len = iter_len v,
                fici_variable = Some variable, fici_iteration = 1, fici_start = fi_start c,
                fici_end = fi_end c \<rparr>) Continue r
            else (r, None)))"

text \<open>The dispatch.  \<open>else\<close>, \<open>break\<close>, \<open>for\<close>, \<open>trigger\<close> and others are only warned about.\<close>

definition execute_cmd ::
  "script_env \<Rightarrow> 'w worker \<Rightarrow> logic \<Rightarrow> location_info \<Rightarrow> command \<Rightarrow> 'w run \<Rightarrow> 'w outcome" where
  "execute_cmd env ask lg loc c r =
    (case c of
       CPrintFmt p \<Rightarrow> execute_print_fmt env ask p r
     | CSet s \<Rightarrow> execute_set env ask s r
     | CEval e \<Rightarrow> execute_eval env ask e loc r
     | CGoto st \<Rightarrow> (r\<lparr> rn_machine := (rn_machine r)\<lparr> mc_state := st \<rparr> \<rparr>, Some Continue)
     | CRegisterEntityPrefab p \<Rightarrow> execute_register_prefab ask p r
     | CRegisterComponent n \<Rightarrow> execute_register_component ask n r
     | CRegisterVar v \<Rightarrow> execute_register_var v r
     | CInvoke events \<Rightarrow> (r\<lparr> rn_spawned := rn_spawned r @ [events] \<rparr>, Some Continue)
     | CSpawn s \<Rightarrow> execute_spawn env ask s r
     | CCall p \<Rightarrow> execute_call lg loc p r
     | CIf i \<Rightarrow> execute_if env ask i r
     | CLoop l \<Rightarrow> push_call (LoopCall \<lparr> lci_start = lp_start l, lci_end = lp_end l \<rparr>) Continue r
     | CEnd \<Rightarrow> execute_end ask loc r
     | CProcedure p \<Rightarrow> (r, Some (JumpToLine (pr_end_line p + 1)))
     | CState s \<Rightarrow> (r, Some (JumpToLine (st_end_line s + 1)))
     | CComponent b \<Rightarrow> push_call (ComponentCall
           \<lparr> cci_name = cb_name b, cci_vars = [], cci_start_line = cb_start_line b,
             cci_end_line = cb_end_line b \<rparr>) Continue r
     | CNoOp \<Rightarrow> (r, Some Continue)
     | _ \<Rightarrow> (r, Some Continue))"

section \<open>The execution loop\<close>

datatype 'w exec_state = Running nat "'w run" | Halted "'w run" | Crashed "'w run"

definition location_at :: "logic \<Rightarrow> nat \<Rightarrow> location_info" where
  "location_at lg n =
    (if n < length (lg_locations lg) then lg_locations lg ! n
     else empty_location\<lparr> l_line := Some 0 \<rparr>)"

text \<open>One round: an error is logged and the next line follows.\<close>

definition after_command :: "nat \<Rightarrow> 'w outcome \<Rightarrow> 'w exec_state" where
  "after_command n = (\<lambda>(r, res).
    (case res of
       None \<Rightarrow> Crashed r
     | Some Continue \<Rightarrow> Running (n + 1) r
     | Some Break \<Rightarrow> Halted r
     | Some (JumpToLine m) \<Rightarrow> Running m r
     | Some (JumpToTag _) \<Rightarrow> Crashed r
     | Some (CmdErr e) \<Rightarrow> Running (n + 1) (r\<lparr> rn_log := rn_log r @ [LogErr e] \<rparr>)))"

definition exec_step ::
  "script_env \<Rightarrow> 'w worker \<Rightarrow> logic \<Rightarrow> nat \<Rightarrow> nat \<Rightarrow> 'w run \<Rightarrow> 'w exec_state" where
  "exec_step env ask lg end_line n r =
    (if length (lg_commands lg) \<le> n then Halted r
     else if rn_stack r = [] \<and> end_line \<le> n then Halted r
     else after_command n (execute_cmd env ask lg (location_at lg n) (lg_commands lg ! n) r))"

text \<open>The loop has no bound of its own; the fuel counts its rounds.\<close>

fun exec_loop ::
  "script_env \<Rightarrow> 'w worker \<Rightarrow> logic \<Rightarrow> nat \<Rightarrow> nat \<Rightarrow> nat \<Rightarrow> 'w run \<Rightarrow> 'w exec_state" where
  "exec_loop env ask lg end_line 0 n r = Running n r"
| "exec_loop env ask lg end_line (Suc k) n r =
    (case exec_step env ask lg end_line n r of
       Running n' r' \<Rightarrow> exec_loop env ask lg end_line k n' r'
     | st \<Rightarrow> st)"

text \<open>The entry: the lines of the machine's state; every execution starts with an empty stack.\<close>

definition exec_entry :: "logic \<Rightarrow> machine \<Rightarrow> (nat \<times> nat) machine_result" where
  "exec_entry lg m =
    ok_or (error_of_kind (KOther (''State `'' @ mc_state m @
        ''` not found in machine logic state collection'')))
      (map_of (lg_states lg) (mc_state m))"

datatype 'w exec_end = Done "'w run" | Failed "'w run" machine_error | Panicked "'w run"
  | OutOfFuel

definition exec :: "script_env \<Rightarrow> 'w worker \<Rightarrow> nat \<Rightarrow> logic \<Rightarrow> 'w run \<Rightarrow> 'w exec_end" where
  "exec env ask fuel lg r =
    (case exec_entry lg (rn_machine r) of
       Err e \<Rightarrow> Failed r e
     | Panic \<Rightarrow> Panicked r
     | Ok (start, end_line) \<Rightarrow>
        (case exec_loop env ask lg end_line fuel start (r\<lparr> rn_stack := [] \<rparr>) of
           Running _ _ \<Rightarrow> OutOfFuel
         | Halted r' \<Rightarrow> Done r'
         | Crashed r' \<Rightarrow> Panicked r'))"

section \<open>The machine task\<close>

datatype machine_request = MStep | MExecute command | MExecuteBatch "command list" | MEvent string
  | MShutdown

text \<open>
  How the task answers: a reply, after which it waits for the next request, the end of the task
  (with the error that ended it), a panic, or an execution that has not returned within the fuel.
\<close>

datatype 'w task_result =
  Answered "'w run" "unit core_result" | Ended "'w run" "error option" | TaskPanic "'w run"
  | Unfinished

definition machine_init :: "string option \<Rightarrow> machine" where
  "machine_init behavior = \<lparr> mc_behavior = behavior, mc_state = ''start'' \<rparr>"

text \<open>Fetching the logic of the machine's behavior; an error ends the task.\<close>

definition fetch_logic :: "'w worker \<Rightarrow> string \<Rightarrow> 'w run \<Rightarrow> 'w run \<times> logic core_result" where
  "fetch_logic ask name r =
    (let (r', reply) = send ask (ReqMachineLogic name) r in
     (r', res_bind (join_reply reply)
            (\<lambda>resp. case resp of RespMachineLogic lg \<Rightarrow> Ok lg | _ \<Rightarrow> Panic)))"

definition run_logic ::
  "script_env \<Rightarrow> 'w worker \<Rightarrow> nat \<Rightarrow> bool \<Rightarrow> 'w run \<Rightarrow> 'w task_result" where
  "run_logic env ask fuel default_main r =
    (case mc_behavior (rn_machine r) of
       None \<Rightarrow> Answered r (Ok ())
     | Some name \<Rightarrow>
        (case fetch_logic ask name r of
           (r', Err e) \<Rightarrow> Ended r' (Some e)
         | (r', Panic) \<Rightarrow> TaskPanic r'
         | (r', Ok lg) \<Rightarrow>
            (let r'' = (if default_main \<and> length (lg_states lg) = 1
                        then r'\<lparr> rn_machine := (rn_machine r')\<lparr> mc_state := ''_main'' \<rparr> \<rparr>
                        else r')
             in case exec env ask fuel lg r'' of
                  Done s \<Rightarrow> Answered s (Ok ())
                | Failed s e \<Rightarrow> Ended s (Some (MachinePanic e))
                | Panicked s \<Rightarrow> TaskPanic s
                | OutOfFuel \<Rightarrow> Unfinished)))"

fun execute_batch :: "script_env \<Rightarrow> 'w worker \<Rightarrow> command list \<Rightarrow> 'w run \<Rightarrow> 'w task_result" where
  "execute_batch env ask [] r = Answered r (Ok ())"
| "execute_batch env ask (c # cs) r =
    (case execute_cmd env ask default_logic empty_location c (r\<lparr> rn_stack := [] \<rparr>) of
       (r', None) \<Rightarrow> TaskPanic r'
     | (r', Some _) \<Rightarrow> execute_batch env ask cs r')"

definition execute_one :: "script_env \<Rightarrow> 'w worker \<Rightarrow> command \<Rightarrow> 'w run \<Rightarrow> 'w task_result" where
  "execute_one env ask c r =
    (let (r', lg) = (case mc_behavior (rn_machine r) of
           None \<Rightarrow> (r, Ok default_logic)
         | Some name \<Rightarrow> fetch_logic ask name r)
     in case lg of
          Err e \<Rightarrow> Ended r' (Some e)
        | Panic \<Rightarrow> TaskPanic r'
        | Ok lg \<Rightarrow>
           (case execute_cmd env ask lg empty_location c (r'\<lparr> rn_stack := [] \<rparr>) of
              (s, None) \<Rightarrow> TaskPanic s
            | (s, Some (CmdErr e)) \<Rightarrow> Answered s (Err (MachinePanic e))
            | (s, Some _) \<Rightarrow> Answered s (Ok ())))"

definition handle_machine_request ::
  "script_env \<Rightarrow> 'w worker \<Rightarrow> nat \<Rightarrow> machine_request \<Rightarrow> 'w run \<Rightarrow> 'w task_result" where
  "handle_machine_request env ask fuel req r =
    (case req of
       MStep \<Rightarrow> run_logic env ask fuel True r
     | MExecuteBatch cs \<Rightarrow> execute_batch env ask cs r
     | MExecute c \<Rightarrow> execute_one env ask c r
     | MEvent _ \<Rightarrow> run_logic env ask fuel False r
     | MShutdown \<Rightarrow> Ended r None)"

section \<open>Steps and reachability\<close>

inductive exec_next ::
  "script_env \<Rightarrow> 'w worker \<Rightarrow> logic \<Rightarrow> nat \<Rightarrow> nat \<times> 'w run \<Rightarrow> nat \<times> 'w run \<Rightarrow> bool"
  for env ask lg end_line where
  next_line: "exec_step env ask lg end_line n r = Running n' r'
    \<Longrightarrow> exec_next env ask lg end_line (n, r) (n', r')"

inductive_cases exec_nextE [elim!]: "exec_next env ask lg end_line s t"
inductive_simps exec_next_simps [simp]: "exec_next env ask lg end_line (n, r) (n', r')"

inductive exec_reaches ::
  "script_env \<Rightarrow> 'w worker \<Rightarrow> logic \<Rightarrow> nat \<Rightarrow> nat \<times> 'w run \<Rightarrow> nat \<times> 'w run \<Rightarrow> bool"
  for env ask lg end_line where
  reach_refl: "exec_reaches env ask lg end_line s s"
| reach_step: "\<lbrakk> exec_reaches env ask lg end_line s t; exec_next env ask lg end_line t u \<rbrakk>
    \<Longrightarrow> exec_reaches env ask lg end_line s u"

lemma exec_loop_add:
  "exec_loop env ask lg e (j + k) n r =
    (case exec_loop env ask lg e j n r of
       Running n' r' \<Rightarrow> exec_loop env ask lg e k n' r' | st \<Rightarrow> st)"
  by (induction j arbitrary: n r) (auto split: exec_state.split)

lemma exec_loop_last:
  "exec_loop env ask lg e (Suc k) n r =
    (case exec_loop env ask lg e k n r of
       Running n' r' \<Rightarrow> exec_step env ask lg e n' r' | st \<Rightarrow> st)"
  using exec_loop_add [of env ask lg e k "Suc 0" n r]
  by (auto split: exec_state.splits)

text \<open>Reaching a state and having it left after some rounds are the same.\<close>

lemma exec_loop_reaches:
  "exec_reaches env ask lg e (n, r) (n', r') \<longleftrightarrow> (\<exists>k. exec_loop env ask lg e k n r = Running n' r')"
proof
  assume "exec_reaches env ask lg e (n, r) (n', r')"
  then show "\<exists>k. exec_loop env ask lg e k n r = Running n' r'"
  proof (induction "(n, r)" "(n', r')" arbitrary: n' r' rule: exec_reaches.induct)
    case reach_refl
    then show ?case by (metis exec_loop.simps(1))
  next
    case (reach_step t)
    obtain m s where t: "t = (m, s)" by (cases t)
    from reach_step.hyps(2) [OF t] obtain k where "exec_loop env ask lg e k n r = Running m s" ..
    with reach_step.hyps(3) t have "exec_loop env ask lg e (Suc k) n r = Running n' r'"
      by (simp add: exec_loop_last del: exec_loop.simps)
    then show ?case ..
  qed
next
  assume "\<exists>k. exec_loop env ask lg e k n r = Running n' r'"
  then obtain k where "exec_loop env ask lg e k n r = Running n' r'" ..
  then show "exec_reaches env ask lg e (n, r) (n', r')"
  proof (induction k arbitrary: n' r')
    case (Suc k)
    then obtain m s where "exec_loop env ask lg e k n r = Running m s"
      "exec_step env ask lg e m s = Running n' r'"
      by (auto simp: exec_loop_last simp del: exec_loop.simps split: exec_state.splits)
    with Suc.IH show ?case by (auto intro: reach_step)
  qed (simp add: reach_refl)
qed

section \<open>What a command does to the stack\<close>

lemma send_stack: "send ask req r = (r', reply) \<Longrightarrow> rn_stack r' = rn_stack r"
  by (auto simp: send_def split: prod.splits)

lemma get_var_stack: "machine_get_var env ask a r = (r', v) \<Longrightarrow> rn_stack r' = rn_stack r"
  by (auto simp: machine_get_var_def split: prod.splits dest: send_stack)

lemma set_var_stack: "machine_set_var env ask a v r = (r', x) \<Longrightarrow> rn_stack r' = rn_stack r"
  by (auto simp: machine_set_var_def split: prod.splits dest: send_stack)

lemma print_inserts_stack:
  "print_inserts env ask ins out added r = (r', x) \<Longrightarrow> rn_stack r' = rn_stack r"
proof (induction env ask ins out added r rule: print_inserts.induct)
  case (2 env ask i addr ins out added r)
  then show ?case
    by (auto simp: Let_def split: prod.splits result.splits if_splits dest: get_var_stack)
qed simp

lemma eval_args_stack: "eval_args env ask loc args ns r = (r', x) \<Longrightarrow> rn_stack r' = rn_stack r"
proof (induction env ask loc args ns r rule: eval_args.induct)
  case (2 env ask loc n addr args ns r)
  then show ?case by (auto split: prod.splits result.splits dest: get_var_stack)
qed simp

lemmas stack_dests =
  send_stack get_var_stack set_var_stack print_inserts_stack eval_args_stack

text \<open>Commands that neither touch the stack nor jump.\<close>

fun quiet :: "command \<Rightarrow> bool" where
  "quiet (CIf c) = False"
| "quiet (CLoop c) = False"
| "quiet (CCall c) = False"
| "quiet CEnd = False"
| "quiet (CComponent c) = False"
| "quiet (CRegisterVar c) = False"
| "quiet (CProcedure c) = False"
| "quiet (CState c) = False"
| "quiet c = True"

definition calm :: "'w run \<Rightarrow> 'w outcome \<Rightarrow> bool" where
  "calm r = (\<lambda>(r', res). rn_stack r' = rn_stack r
     \<and> (res = None \<or> res = Some Continue \<or> (\<exists>e. res = Some (CmdErr e))))"

lemma calm_print_fmt: "calm r (execute_print_fmt env ask c r)"
  by (auto simp: calm_def execute_print_fmt_def split: prod.splits option.splits dest: stack_dests)

lemma calm_set: "calm r (execute_set env ask c r)"
  by (auto simp: calm_def execute_set_def Let_def into_address_def
      split: prod.splits option.splits result.splits set_target.splits set_source.splits
      dest!: stack_dests)

lemma calm_eval: "calm r (execute_eval env ask c loc r)"
  by (auto simp: calm_def execute_eval_def
      split: prod.splits option.splits result.splits dest!: stack_dests)

lemma calm_spawn: "calm r (execute_spawn env ask c r)"
  by (auto simp: calm_def execute_spawn_def Let_def
      split: prod.splits option.splits result.splits worker_response.splits dest!: stack_dests)

lemma calm_prefab: "calm r (execute_register_prefab ask c r)"
  by (auto simp: calm_def execute_register_prefab_def Let_def
      split: prod.splits result.splits dest!: stack_dests)

lemma calm_component: "calm r (execute_register_component ask c r)"
  by (auto simp: calm_def execute_register_component_def send_def split: prod.splits)

lemma quiet_calm: "quiet c \<Longrightarrow> calm r (execute_cmd env ask lg loc c r)"
  by (cases c) (auto simp: execute_cmd_def calm_print_fmt calm_set calm_eval calm_spawn calm_prefab
      calm_component, auto simp: calm_def)

lemma condition_stack: "condition_evaluate env ask c r = (r', b) \<Longrightarrow> rn_stack r' = rn_stack r"
  by (auto simp: condition_evaluate_def split: if_condition.splits prod.splits dest: stack_dests)

section \<open>The invariant of an execution\<close>

text \<open>Every entry of the stack was pushed by a command of the script.\<close>

fun call_wf :: "logic \<Rightarrow> call_info \<Rightarrow> bool" where
  "call_wf lg (ProcedureCall p) =
    (pci_call_line p < length (lg_commands lg)
     \<and> (\<exists>name. lg_commands lg ! pci_call_line p = CCall name
          \<and> map_of (lg_procedures lg) name = Some (pci_start_line p, pci_end_line p)))"
| "call_wf lg (LoopCall l) =
    (lci_start l < length (lg_commands lg)
     \<and> (\<exists>c. lg_commands lg ! lci_start l = CLoop c \<and> lp_end c = lci_end l))"
| "call_wf lg (IfElseCall i) =
    (ieci_start i < length (lg_commands lg)
     \<and> (\<exists>c. lg_commands lg ! ieci_start i = CIf c \<and> if_end c = ieci_end i))"
| "call_wf lg (ComponentCall c) =
    (\<exists>b. CComponent b \<in> set (lg_commands lg) \<and> cb_name b = cci_name c)"
| "call_wf lg (ForInCall f) = False"

definition exec_inv :: "logic \<Rightarrow> nat \<times> 'w run \<Rightarrow> bool" where
  "exec_inv lg = (\<lambda>(n, r). n \<le> length (lg_commands lg)
     \<and> length (rn_stack r) \<le> stack_capacity \<and> (\<forall>ci \<in> set (rn_stack r). call_wf lg ci))"

lemma block_range_wf:
  assumes "logic_wf lg" "n < length (lg_commands lg)" "block_range (lg_commands lg ! n) = Some (s, e)"
  shows "s = n + 1" "n < e" "e < length (lg_commands lg)" "lg_commands lg ! e = CEnd"
    "\<And>m. m \<in> set (middle_lines (lg_commands lg ! n)) \<Longrightarrow> n < m \<and> m < e \<and> lg_commands lg ! m = CElse"
  using assms unfolding logic_wf_def block_wf_def by blast+

lemma location_at_wf: "\<lbrakk> logic_wf lg; n < length (lg_commands lg) \<rbrakk> \<Longrightarrow> l_line (location_at lg n) = Some n"
  by (simp add: logic_wf_def location_at_def)

lemma procedure_wf:
  assumes "logic_wf lg" "map_of (lg_procedures lg) name = Some (s, e)"
  shows "s < e" "e < length (lg_commands lg)" "lg_commands lg ! e = CEnd"
proof -
  obtain p where p: "s < length (lg_commands lg)" "lg_commands lg ! s = CProcedure p"
    "pr_start_line p = s" "pr_end_line p = e"
    using assms unfolding logic_wf_def by blast
  then show "s < e" "e < length (lg_commands lg)" "lg_commands lg ! e = CEnd"
    using block_range_wf [OF assms(1) p(1), of "s + 1" e] by simp_all
qed

lemma state_start:
  assumes "logic_wf lg" "map_of (lg_states lg) n = Some (s, e)"
  shows "s \<le> length (lg_commands lg)"
proof (cases "n = ''_main''")
  case True
  then show ?thesis using assms by (auto simp: logic_wf_def)
next
  case False
  with assms obtain i b where "i < length (lg_commands lg)" "lg_commands lg ! i = CState b"
    "st_start_line b = s" unfolding logic_wf_def by blast
  then show ?thesis using block_range_wf(1) [OF assms(1), of i s "st_end_line b"] by simp
qed

text \<open>The outcome of a command keeps the invariant, and says where the loop goes on.\<close>

definition outcome_ok :: "logic \<Rightarrow> 'w outcome \<Rightarrow> bool" where
  "outcome_ok lg = (\<lambda>(r, res). length (rn_stack r) \<le> stack_capacity
     \<and> (\<forall>ci \<in> set (rn_stack r). call_wf lg ci)
     \<and> (\<forall>m. res = Some (JumpToLine m) \<longrightarrow> m \<le> length (lg_commands lg)))"

lemma outcome_ok_pair:
  "outcome_ok lg (r, res) \<longleftrightarrow> length (rn_stack r) \<le> stack_capacity
     \<and> (\<forall>ci \<in> set (rn_stack r). call_wf lg ci)
     \<and> (\<forall>m. res = Some (JumpToLine m) \<longrightarrow> m \<le> length (lg_commands lg))"
  by (simp add: outcome_ok_def)

lemma outcome_ok_push:
  "\<lbrakk> call_wf lg ci; \<forall>ci \<in> set (rn_stack r). call_wf lg ci; length (rn_stack r) \<le> stack_capacity;
     \<And>m. res = JumpToLine m \<Longrightarrow> m \<le> length (lg_commands lg) \<rbrakk>
   \<Longrightarrow> outcome_ok lg (push_call ci res r)"
  by (auto simp: outcome_ok_def push_call_def)

lemma calm_outcome_ok:
  "\<lbrakk> calm r out; exec_inv lg (n, r) \<rbrakk> \<Longrightarrow> outcome_ok lg out"
  by (cases out) (auto simp: calm_def outcome_ok_def exec_inv_def)

lemma if_outcome_ok:
  assumes "logic_wf lg" "n < length (lg_commands lg)" "lg_commands lg ! n = CIf c"
    and "exec_inv lg (n, r)"
  shows "outcome_ok lg (execute_if env ask c r)"
proof -
  note block = block_range_wf [OF assms(1,2), of "if_start c + 1" "if_end c"]
  have range: "if_start c = n" "if_end c < length (lg_commands lg)"
    using block(1,3) assms(3) by auto
  have mids: "m < length (lg_commands lg)" if "m \<in> set (if_else_lines c)" for m
    using block(5) [of m] range(2) assms(3) that by auto
  show ?thesis
    unfolding execute_if_def Let_def
    using assms range mids
    by (auto split: option.split prod.split result.split bool.split list.split
        intro!: outcome_ok_push dest!: condition_stack
        simp: exec_inv_def outcome_ok_pair less_imp_le)
qed

lemma end_outcome_ok:
  assumes "logic_wf lg" "n < length (lg_commands lg)" "exec_inv lg (n, r)"
  shows "outcome_ok lg (execute_end ask (location_at lg n) r)"
proof (cases "rn_stack r")
  case Nil
  then show ?thesis using assms by (simp add: execute_end_def outcome_ok_def exec_inv_def)
next
  case (Cons ci rest)
  have rest: "length rest \<le> stack_capacity" "\<forall>ci \<in> set rest. call_wf lg ci" "call_wf lg ci"
    using assms(3) Cons by (auto simp: exec_inv_def)
  show ?thesis
    using assms Cons rest location_at_wf [OF assms(1,2)]
    by (cases ci) (auto simp: execute_end_def Let_def outcome_ok_def exec_inv_def send_def
        split: prod.split)
qed

lemma call_outcome_ok:
  assumes "logic_wf lg" "n < length (lg_commands lg)" "lg_commands lg ! n = CCall name"
    and "exec_inv lg (n, r)"
  shows "outcome_ok lg (execute_call lg (location_at lg n) name r)"
proof (cases "map_of (lg_procedures lg) name")
  case None
  then show ?thesis using assms by (simp add: execute_call_def outcome_ok_def exec_inv_def)
next
  case (Some se)
  obtain s e where se: "se = (s, e)" by (cases se)
  have "s < length (lg_commands lg)" using procedure_wf [OF assms(1)] Some se by fastforce
  then show ?thesis
    using assms Some se location_at_wf [OF assms(1,2)]
    by (auto simp: execute_call_def exec_inv_def intro!: outcome_ok_push)
qed

lemma execute_outcome_ok:
  assumes "logic_wf lg" "n < length (lg_commands lg)" "exec_inv lg (n, r)"
  shows "outcome_ok lg (execute_cmd env ask lg (location_at lg n) (lg_commands lg ! n) r)"
proof (cases "quiet (lg_commands lg ! n)")
  case True
  then show ?thesis by (intro calm_outcome_ok [OF quiet_calm assms(3)])
next
  case False
  note range = block_range_wf [OF assms(1,2)]
  have inv: "length (rn_stack r) \<le> stack_capacity" "\<forall>ci \<in> set (rn_stack r). call_wf lg ci"
    using assms(3) by (auto simp: exec_inv_def)
  show ?thesis
  proof (cases "lg_commands lg ! n")
    case (CIf c)
    then show ?thesis using if_outcome_ok [OF assms(1,2) CIf assms(3)] by (simp add: execute_cmd_def)
  next
    case CEnd
    then show ?thesis using end_outcome_ok [OF assms] by (simp add: execute_cmd_def)
  next
    case (CCall c)
    then show ?thesis using call_outcome_ok [OF assms(1,2) CCall assms(3)]
      by (simp add: execute_cmd_def)
  next
    case (CLoop c)
    then show ?thesis using inv assms(2) range [of "lp_start c + 1" "lp_end c"]
      by (auto simp: execute_cmd_def intro!: outcome_ok_push)
  next
    case (CComponent c)
    then have "CComponent c \<in> set (lg_commands lg)" using assms(2) by (metis nth_mem)
    then show ?thesis using inv CComponent by (auto simp: execute_cmd_def intro!: outcome_ok_push)
  next
    case (CRegisterVar v)
    then show ?thesis using inv
      by (auto simp: execute_cmd_def execute_register_var_def outcome_ok_def
          split: list.split call_info.split)
  next
    case (CProcedure p)
    then show ?thesis using inv range [of "pr_start_line p + 1" "pr_end_line p"]
      by (auto simp: execute_cmd_def outcome_ok_def)
  next
    case (CState p)
    then show ?thesis using inv range [of "st_start_line p" "st_end_line p"]
      by (auto simp: execute_cmd_def outcome_ok_def)
  qed (use False in simp_all)
qed

lemma exec_step_inv:
  assumes "logic_wf lg" "exec_inv lg (n, r)" "exec_step env ask lg e n r = Running n' r'"
  shows "exec_inv lg (n', r')"
proof -
  have n: "n < length (lg_commands lg)" using assms(3) by (auto simp: exec_step_def split: if_splits)
  show ?thesis
    using assms(3) execute_outcome_ok [OF assms(1) n assms(2), of env ask] n
    by (auto simp: exec_step_def after_command_def exec_inv_def outcome_ok_def
        split: if_splits prod.splits option.splits command_result.splits)
qed

lemma exec_reaches_inv:
  assumes "logic_wf lg" "exec_reaches env ask lg e s t" "exec_inv lg s"
  shows "exec_inv lg t"
  using assms(2,3)
proof (induction rule: exec_reaches.induct)
  case (reach_step s t u)
  then show ?case using exec_step_inv [OF assms(1)] by (cases t) auto
qed

section \<open>Straight-line code, calls and blocks\<close>

text \<open>The commands of \<open>k\<close> lines from \<open>n\<close> on, one after the other; None if one panics.\<close>

fun run_lines ::
  "script_env \<Rightarrow> 'w worker \<Rightarrow> logic \<Rightarrow> nat \<Rightarrow> nat \<Rightarrow> 'w run \<Rightarrow> 'w run option" where
  "run_lines env ask lg 0 n r = Some r"
| "run_lines env ask lg (Suc k) n r =
    (case execute_cmd env ask lg (location_at lg n) (lg_commands lg ! n) r of
       (r', Some Continue) \<Rightarrow> run_lines env ask lg k (n + 1) r'
     | (r', Some (CmdErr e)) \<Rightarrow>
         run_lines env ask lg k (n + 1) (r'\<lparr> rn_log := rn_log r' @ [LogErr e] \<rparr>)
     | _ \<Rightarrow> None)"

definition quiet_lines :: "logic \<Rightarrow> nat \<Rightarrow> nat \<Rightarrow> bool" where
  "quiet_lines lg a b \<longleftrightarrow> b \<le> length (lg_commands lg) \<and> (\<forall>j. a \<le> j \<and> j < b \<longrightarrow> quiet (lg_commands lg ! j))"

text \<open>The loop runs on when a block is open or the last line of the state is not reached.\<close>

definition runs_on :: "nat \<Rightarrow> nat \<Rightarrow> 'w run \<Rightarrow> bool" where
  "runs_on end_line n r \<longleftrightarrow> rn_stack r \<noteq> [] \<or> n < end_line"

lemma exec_step_cases:
  "\<lbrakk> n < length (lg_commands lg); runs_on e n r \<rbrakk>
   \<Longrightarrow> exec_step env ask lg e n r =
      after_command n (execute_cmd env ask lg (location_at lg n) (lg_commands lg ! n) r)"
  by (auto simp: exec_step_def runs_on_def)

lemma quiet_step:
  assumes "n < length (lg_commands lg)" "runs_on e n r" "quiet (lg_commands lg ! n)"
  shows "(\<exists>r'. exec_step env ask lg e n r = Crashed r')
    \<or> (\<exists>r'. exec_step env ask lg e n r = Running (n + 1) r' \<and> rn_stack r' = rn_stack r)"
  using quiet_calm [OF assms(3), of r env ask lg "location_at lg n"]
  unfolding exec_step_cases [OF assms(1,2)] calm_def after_command_def
  by (auto split: prod.splits)

lemma run_lines_exec:
  assumes "run_lines env ask lg k n r = Some r'" "quiet_lines lg n (n + k)" "rn_stack r \<noteq> []"
  shows "exec_loop env ask lg e k n r = Running (n + k) r' \<and> rn_stack r' = rn_stack r"
  using assms
proof (induction k arbitrary: n r)
  case (Suc k)
  have n: "n < length (lg_commands lg)" "quiet (lg_commands lg ! n)" "quiet_lines lg (n + 1) (n + 1 + k)"
    using Suc.prems(2) by (auto simp: quiet_lines_def)
  have on: "runs_on e n r" using Suc.prems(3) by (simp add: runs_on_def)
  obtain s res where s: "execute_cmd env ask lg (location_at lg n) (lg_commands lg ! n) r = (s, res)"
    by fastforce
  then have calm: "rn_stack s = rn_stack r" "res = None \<or> res = Some Continue \<or> (\<exists>x. res = Some (CmdErr x))"
    using quiet_calm [OF n(2), of r env ask lg "location_at lg n"] by (auto simp: calm_def)
  from calm(2) Suc.prems(1) s consider "res = Some Continue" "run_lines env ask lg k (n + 1) s = Some r'"
    | x where "res = Some (CmdErr x)"
      "run_lines env ask lg k (n + 1) (s\<lparr> rn_log := rn_log s @ [LogErr x] \<rparr>) = Some r'"
    by auto
  then show ?case
  proof cases
    case 1
    then show ?thesis using Suc.IH [OF 1(2)] n calm(1) Suc.prems(3) s
      by (simp add: exec_step_cases [OF n(1) on] after_command_def)
  next
    case 2
    then show ?thesis using Suc.IH [OF 2(2)] n calm(1) Suc.prems(3) s
      by (simp add: exec_step_cases [OF n(1) on] after_command_def)
  qed
qed simp

lemma exec_loop_step:
  "exec_step env ask lg e n r = Running n' r'
   \<Longrightarrow> exec_loop env ask lg e (Suc k) n r = exec_loop env ask lg e k n' r'"
  by simp

lemma exec_loop_Suc_add:
  "exec_loop env ask lg e j n r = Running n' r'
   \<Longrightarrow> exec_loop env ask lg e (j + k) n r = exec_loop env ask lg e k n' r'"
  by (simp add: exec_loop_add)

lemma call_runs_body:
  assumes wf: "logic_wf lg" and line: "l < length (lg_commands lg)" "lg_commands lg ! l = CCall name"
    and proc: "map_of (lg_procedures lg) name = Some (s, e)"
    and on: "runs_on end_line l r" "length (rn_stack r) < stack_capacity"
    and quiet: "quiet_lines lg (s + 1) e"
    and body: "run_lines env ask lg (e - s - 1) (s + 1) (r\<lparr> rn_stack := ProcedureCall
        \<lparr> pci_call_line = l, pci_start_line = s, pci_end_line = e \<rparr> # rn_stack r \<rparr>) = Some r'"
  shows "exec_loop env ask lg end_line (e - s + 1) l r =
    Running (l + 1) (r'\<lparr> rn_stack := rn_stack r \<rparr>)"
proof -
  let ?ci = "ProcedureCall \<lparr> pci_call_line = l, pci_start_line = s, pci_end_line = e \<rparr>"
  let ?r = "r\<lparr> rn_stack := ?ci # rn_stack r \<rparr>"
  have e: "s < e" "e < length (lg_commands lg)" "lg_commands lg ! e = CEnd"
    using procedure_wf [OF wf proc] by auto
  have call: "exec_step env ask lg end_line l r = Running (s + 1) ?r"
    unfolding exec_step_cases [OF line(1) on(1)]
    using line proc on(2) location_at_wf [OF wf line(1)]
    by (simp add: execute_cmd_def execute_call_def push_call_def after_command_def)
  have body': "exec_loop env ask lg end_line (e - s - 1) (s + 1) ?r = Running e r'"
    and stack: "rn_stack r' = ?ci # rn_stack r"
    using run_lines_exec [OF body, of end_line] quiet e(1) by auto
  have "runs_on end_line e r'" using stack by (simp add: runs_on_def)
  then have ret: "exec_step env ask lg end_line e r' = Running (l + 1) (r'\<lparr> rn_stack := rn_stack r \<rparr>)"
    using stack e(3) location_at_wf [OF wf e(2)]
    by (simp add: exec_step_cases [OF e(2)] execute_cmd_def execute_end_def after_command_def)
  have "e - s + 1 = Suc ((e - s - 1) + Suc 0)" using e(1) by simp
  then show ?thesis
    by (simp only: exec_loop_step [OF call] exec_loop_Suc_add [OF body'] exec_loop_step [OF ret]
        exec_loop.simps(1))
qed

text \<open>A true condition: the lines of every branch run, and the entry of the \<open>if\<close> stays.\<close>

lemma if_true_runs_all:
  assumes wf: "logic_wf lg" and line: "l < length (lg_commands lg)" "lg_commands lg ! l = CIf c"
    and cond: "if_condition c = BoolValue True" "else_lines_arr (if_else_lines c) = Some arr"
    and on: "runs_on end_line l r" "length (rn_stack r) < stack_capacity"
    and quiet: "quiet_lines lg (l + 1) (if_end c)"
    and ci: "ci = IfElseCall \<lparr> ieci_current = (case if_else_lines c of [] \<Rightarrow> if_end c | m # _ \<Rightarrow> m),
        ieci_passed = True, ieci_else_line_index = 0, ieci_start = if_start c, ieci_end = if_end c,
        ieci_else_lines = arr \<rparr>"
    and body: "run_lines env ask lg (if_end c - l - 1) (l + 1) (r\<lparr> rn_stack := ci # rn_stack r \<rparr>) = Some r'"
  shows "exec_loop env ask lg end_line (if_end c - l + 1) l r = Running (if_end c + 1) r'"
    and "rn_stack r' = ci # rn_stack r"
proof -
  let ?r = "r\<lparr> rn_stack := ci # rn_stack r \<rparr>"
  have e: "if_start c = l" "l < if_end c" "if_end c < length (lg_commands lg)"
    "lg_commands lg ! if_end c = CEnd"
    using block_range_wf [OF wf line(1), of "if_start c + 1" "if_end c"] line(2) by auto
  have enter: "exec_step env ask lg end_line l r = Running (l + 1) ?r"
    unfolding exec_step_cases [OF line(1) on(1)]
    using line(2) cond on(2)
    by (simp add: execute_cmd_def execute_if_def condition_evaluate_def push_call_def
        after_command_def ci)
  have body': "exec_loop env ask lg end_line (if_end c - l - 1) (l + 1) ?r = Running (if_end c) r'"
    and stack: "rn_stack r' = ci # rn_stack r"
    using run_lines_exec [OF body, of end_line] quiet e(2) by auto
  have "runs_on end_line (if_end c) r'" using stack by (simp add: runs_on_def)
  then have leave: "exec_step env ask lg end_line (if_end c) r' = Running (if_end c + 1) r'"
    using stack e(4) by (simp add: exec_step_cases [OF e(3)] execute_cmd_def execute_end_def
        after_command_def ci)
  have "if_end c - l + 1 = Suc ((if_end c - l - 1) + Suc 0)" using e(2) by simp
  then show "exec_loop env ask lg end_line (if_end c - l + 1) l r = Running (if_end c + 1) r'"
    by (simp only: exec_loop_step [OF enter] exec_loop_Suc_add [OF body'] exec_loop_step [OF leave]
        exec_loop.simps(1))
  show "rn_stack r' = ci # rn_stack r" by (rule stack)
qed

text \<open>A loop of quiet commands, \<open>break\<close> among them, goes round between its two lines.\<close>

definition in_loop :: "loop_cmd \<Rightarrow> call_info list \<Rightarrow> nat \<Rightarrow> 'w run \<Rightarrow> bool" where
  "in_loop c stk n r \<longleftrightarrow> lp_start c < n \<and> n \<le> lp_end c
     \<and> rn_stack r = LoopCall \<lparr> lci_start = lp_start c, lci_end = lp_end c \<rparr> # stk"

definition stays_in :: "('w run \<Rightarrow> nat \<Rightarrow> bool) \<Rightarrow> 'w exec_state \<Rightarrow> bool" where
  "stays_in P st = (case st of Running n r \<Rightarrow> P r n | Halted _ \<Rightarrow> False | Crashed _ \<Rightarrow> True)"

lemma stays_in_loop:
  assumes "\<And>n r. P r n \<Longrightarrow> stays_in P (exec_step env ask lg e n r)" and "P r n"
  shows "stays_in P (exec_loop env ask lg e k n r)"
  using assms(2)
proof (induction k arbitrary: n r)
  case (Suc k)
  from assms(1) [OF Suc.prems] show ?case
    by (auto simp: stays_in_def split: exec_state.splits dest: Suc.IH)
qed (simp add: stays_in_def)

lemma in_loop_step:
  assumes wf: "logic_wf lg" and line: "l < length (lg_commands lg)" "lg_commands lg ! l = CLoop c"
    and quiet: "quiet_lines lg (l + 1) (lp_end c)" and here: "in_loop c stk n r"
  shows "stays_in (\<lambda>r n. in_loop c stk n r) (exec_step env ask lg end_line n r)"
proof -
  have e: "lp_start c = l" "l < lp_end c" "lp_end c < length (lg_commands lg)"
    "lg_commands lg ! lp_end c = CEnd"
    using block_range_wf [OF wf line(1), of "lp_start c + 1" "lp_end c"] line(2) by auto
  have on: "runs_on end_line n r" "n < length (lg_commands lg)"
    using here e by (auto simp: in_loop_def runs_on_def)
  show ?thesis
  proof (cases "n = lp_end c")
    case True
    have "exec_step env ask lg end_line n r = Running (l + 1) r"
      using here e(1) e(4) [folded True]
      by (simp add: exec_step_cases [OF on(2,1)] execute_cmd_def execute_end_def in_loop_def
          after_command_def)
    then show ?thesis using here e by (simp add: in_loop_def stays_in_def)
  next
    case False
    then have "quiet (lg_commands lg ! n)" using here quiet e by (auto simp: in_loop_def quiet_lines_def)
    from quiet_step [OF on(2,1) this, of env ask] show ?thesis
      using here False by (auto simp: in_loop_def stays_in_def)
  qed
qed

lemma loop_never_left:
  assumes wf: "logic_wf lg" and line: "l < length (lg_commands lg)" "lg_commands lg ! l = CLoop c"
    and quiet: "quiet_lines lg (l + 1) (lp_end c)"
    and on: "runs_on end_line l r" "length (rn_stack r) < stack_capacity"
  shows "stays_in (\<lambda>r' n. in_loop c (rn_stack r) n r') (exec_loop env ask lg end_line (Suc k) l r)"
proof -
  have e: "lp_start c = l" "l < lp_end c"
    using block_range_wf [OF wf line(1), of "lp_start c + 1" "lp_end c"] line(2) by auto
  let ?r = "r\<lparr> rn_stack := LoopCall \<lparr> lci_start = lp_start c, lci_end = lp_end c \<rparr> # rn_stack r \<rparr>"
  have "exec_step env ask lg end_line l r = Running (l + 1) ?r"
    using line(2) on(2)
    by (simp add: exec_step_cases [OF line(1) on(1)] execute_cmd_def push_call_def after_command_def)
  moreover have "in_loop c (rn_stack r) (l + 1) ?r" using e by (simp add: in_loop_def)
  ultimately show ?thesis
    by (simp only: exec_loop_step stays_in_loop [OF in_loop_step [OF wf line quiet]])
qed

section \<open>Termination\<close>

text \<open>Without loops and calls every round goes down the script.\<close>

definition forward_only :: "logic \<Rightarrow> bool" where
  "forward_only lg \<longleftrightarrow> (\<forall>c \<in> set (lg_commands lg). case c of CLoop _ \<Rightarrow> False | CCall _ \<Rightarrow> False | _ \<Rightarrow> True)"

lemma forward_stack:
  assumes "forward_only lg" "exec_inv lg (n, r)" "ci \<in> set (rn_stack r)"
    "\<And>c. ci \<noteq> ComponentCall c"
  shows "\<exists>i. ci = IfElseCall i"
proof -
  have "call_wf lg ci" using assms by (auto simp: exec_inv_def)
  then show ?thesis
    using assms(1,4) unfolding forward_only_def
    by (cases ci) (auto dest!: nth_mem split: command.splits)
qed

lemma forward_step:
  assumes wf: "logic_wf lg" and fwd: "forward_only lg" and inv: "exec_inv lg (n, r)"
    and step: "exec_step env ask lg e n r = Running n' r'"
  shows "n < n'"
proof -
  have n: "n < length (lg_commands lg)" and on: "runs_on e n r"
    using step by (auto simp: exec_step_def runs_on_def split: if_splits)
  note step' = step [unfolded exec_step_cases [OF n on]]
  note range = block_range_wf [OF wf n]
  have no: "\<not> (\<exists>c. lg_commands lg ! n = CLoop c)" "\<not> (\<exists>c. lg_commands lg ! n = CCall c)"
    using fwd n unfolding forward_only_def by (auto dest!: nth_mem)
  show ?thesis
  proof (cases "quiet (lg_commands lg ! n)")
    case True
    then show ?thesis using quiet_step [OF n on True, of env ask] step by auto
  next
    case False
    show ?thesis
    proof (cases "lg_commands lg ! n")
      case (CIf c)
      have "m > n" if "m \<in> set (if_else_lines c)" for m
        using range(5) [of "if_start c + 1" "if_end c" m] CIf that by simp
      moreover have "if_end c > n" using range(2) [of "if_start c + 1" "if_end c"] CIf by simp
      ultimately show ?thesis
        using step' CIf
        by (auto simp: execute_cmd_def execute_if_def Let_def push_call_def after_command_def
            split: option.splits prod.splits result.splits bool.splits list.splits if_splits)
    next
      case CEnd
      have "\<exists>i. ci = IfElseCall i" if "ci \<in> set (rn_stack r)" "\<And>c. ci \<noteq> ComponentCall c" for ci
        by (rule forward_stack [OF fwd inv that])
      then show ?thesis
        using step' CEnd
        by (fastforce simp: execute_cmd_def execute_end_def Let_def after_command_def
            split: list.splits call_info.splits)
    next
      case (CProcedure p)
      then show ?thesis using step' range(2) [of "pr_start_line p + 1" "pr_end_line p"]
        by (auto simp: execute_cmd_def after_command_def)
    next
      case (CState p)
      then show ?thesis using step' range(2) [of "st_start_line p" "st_end_line p"]
        by (auto simp: execute_cmd_def after_command_def)
    next
      case (CComponent p)
      then show ?thesis using step'
        by (auto simp: execute_cmd_def push_call_def after_command_def split: if_splits)
    next
      case (CRegisterVar v)
      then show ?thesis using step'
        by (auto simp: execute_cmd_def execute_register_var_def after_command_def
            split: list.splits call_info.splits)
    qed (use no False in simp_all)
  qed
qed

lemma forward_terminates:
  assumes "logic_wf lg" "forward_only lg" "exec_inv lg (n, r)" "length (lg_commands lg) - n < k"
  shows "case exec_loop env ask lg e k n r of Running _ _ \<Rightarrow> False | _ \<Rightarrow> True"
  using assms(3,4)
proof (induction k arbitrary: n r)
  case (Suc k)
  show ?case
  proof (cases "exec_step env ask lg e n r")
    case (Running n' r')
    have "n < n'" by (rule forward_step [OF assms(1,2) Suc.prems(1) Running])
    moreover have inv: "exec_inv lg (n', r')"
      by (rule exec_step_inv [OF assms(1) Suc.prems(1) Running])
    moreover have "n < length (lg_commands lg)"
      using Running by (auto simp: exec_step_def split: if_splits)
    ultimately have "length (lg_commands lg) - n' < k" using Suc.prems(2) by linarith
    then show ?thesis using Suc.IH [OF inv] Running by simp
  qed simp_all
qed simp

section \<open>Formatted print\<close>

text \<open>The positions of the placeholders between the pieces, and the pieces with values between.\<close>

fun positions :: "nat \<Rightarrow> string list \<Rightarrow> address list \<Rightarrow> (nat \<times> address) list" where
  "positions off (q # qs) (a # as) = (off, a) # positions (off + length q) qs as"
| "positions off qs as = []"

fun splice :: "string list \<Rightarrow> string list \<Rightarrow> string" where
  "splice (q # qs) (v # vs) = v @ q @ splice qs vs"
| "splice qs vs = concat qs"

definition braceless :: "string \<Rightarrow> bool" where
  "braceless s \<longleftrightarrow> CHR ''{'' \<notin> set s"

lemma find_braces: "braceless x \<Longrightarrow> find_sub ''{}'' (x @ ''{}'' @ y) = Some (length x)"
  by (induction x) (auto simp: braceless_def)

lemma find_braces_none: "braceless x \<Longrightarrow> find_sub ''{}'' x = None"
  by (induction x) (auto simp: braceless_def)

lemma fmt_inserts_pieces:
  assumes "length qs = length as" "\<forall>q \<in> set (p # qs). braceless q" "\<forall>a \<in> set as. address_ok a"
    and "drop cnt free = map address_to_string as" "braceless pre"
  shows "fmt_inserts free cnt (pre @ intercalate ''{}'' (p # qs)) ins =
    Ok (pre @ concat (p # qs), ins @ positions (length (pre @ p)) qs as)"
  using assms
proof (induction qs as arbitrary: p pre cnt ins rule: list_induct2)
  case Nil
  then show ?case
    by (subst fmt_inserts.simps) (simp add: find_braces_none braceless_def)
next
  case (Cons q qs a as)
  let ?rest = "intercalate ''{}'' (q # qs)"
  have fmt: "pre @ intercalate ''{}'' (p # q # qs) = (pre @ p) @ ''{}'' @ ?rest" by simp
  have pp: "braceless (pre @ p)" using Cons.prems by (simp add: braceless_def)
  have cnt: "cnt < length free" "free ! cnt = address_to_string a"
    "drop (cnt + 1) free = map address_to_string as"
    using Cons.prems(3)
    by (auto simp: Cons_nth_drop_Suc [symmetric] drop_Suc nth_via_drop tl_drop [symmetric]
        intro: ccontr dest: arg_cong [where f = length] arg_cong [where f = tl])
  have "address_from_str (address_to_string a) = Ok a"
    using Cons.prems(2) by (simp add: address_from_to_string)
  then have "fmt_inserts free cnt (pre @ intercalate ''{}'' (p # q # qs)) ins =
      fmt_inserts free (cnt + 1) ((pre @ p) @ ?rest) (ins @ [(length (pre @ p), a)])"
    unfolding fmt
    by (subst fmt_inserts.simps) (simp only: find_braces [OF pp], simp add: cnt)
  also have "\<dots> = Ok ((pre @ p) @ concat (q # qs),
      (ins @ [(length (pre @ p), a)]) @ positions (length ((pre @ p) @ q)) qs as)"
    using Cons.prems cnt(3) pp by (intro Cons.IH) auto
  finally show ?case by (simp add: add.assoc)
qed

text \<open>A worker whose reads answer with the value at the address and change nothing.\<close>

definition reads_as :: "'w worker \<Rightarrow> (address \<Rightarrow> var) \<Rightarrow> bool" where
  "reads_as ask val \<longleftrightarrow> (\<forall>w a. ask w (ReqGetVar a) = (w, Ok (Ok (RespGetVar (val a)))))"

lemma reads_as_get_var: "reads_as ask val \<Longrightarrow> machine_get_var env ask a r = (r, Ok (val a))"
  by (simp add: reads_as_def machine_get_var_def send_def)

text \<open>Pieces that begin with whole characters.\<close>

definition starts_char :: "string \<Rightarrow> bool" where
  "starts_char s \<longleftrightarrow> s = [] \<or> \<not> is_continuation (hd s)"

lemma concat_starts_char: "\<forall>q \<in> set qs. starts_char q \<Longrightarrow> starts_char (concat qs)"
  by (induction qs) (auto simp: starts_char_def hd_append)

lemma boundary_between: "starts_char t \<Longrightarrow> is_char_boundary (s @ t) (length s)"
  by (cases t) (auto simp: is_char_boundary_def starts_char_def nth_append)

lemma print_inserts_splice:
  assumes "reads_as ask val" "length qs = length as" "\<forall>q \<in> set qs. starts_char q"
  shows "length pre = off + added \<Longrightarrow>
    print_inserts env ask (positions off qs as) (pre @ concat qs) added r =
      (r, Some (pre @ splice qs (map (\<lambda>a. var_to_string (se_uesc env) (val a)) as)))"
  using assms(2,3)
proof (induction qs as arbitrary: pre off added rule: list_induct2)
  case (Cons q qs a as)
  let ?v = "var_to_string (se_uesc env) (val a)"
  have "is_char_boundary (pre @ concat (q # qs)) (length pre)"
    by (rule boundary_between, rule concat_starts_char) (use Cons.prems(2) in simp)
  then have "print_inserts env ask (positions off (q # qs) (a # as)) (pre @ concat (q # qs)) added r =
      print_inserts env ask (positions (off + length q) qs as) ((pre @ ?v @ q) @ concat qs)
        (added + length ?v) r"
    using Cons.prems(1) by (simp add: reads_as_get_var [OF assms(1)] Let_def)
  also have "\<dots> = (r, Some ((pre @ ?v @ q) @
      splice qs (map (\<lambda>a. var_to_string (se_uesc env) (val a)) as)))"
    using Cons.prems by (intro Cons.IH) auto
  finally show ?case by simp
qed simp

section \<open>Properties\<close>

text \<open>Sample data: a worker that stores one variable and knows one script.\<close>

definition sample_ask :: "var worker" where
  "sample_ask w req =
    (case req of
       ReqSetVar a v \<Rightarrow> (v, Ok (Ok RespEmpty))
     | ReqGetVar a \<Rightarrow> (w, Ok (Ok (RespGetVar w)))
     | ReqMachineLogic n \<Rightarrow> (w, Ok (Ok (RespMachineLogic sample_logic)))
     | _ \<Rightarrow> (w, Ok (Ok RespEmpty)))"

definition sample_run :: "var run" where
  "sample_run = \<lparr> rn_world = VInt 0, rn_machine = machine_init (Some ''b''), rn_stack = [],
     rn_log = [], rn_spawned = [] \<rparr>"

text \<open>C18: an execution of an assembled script never leaves the script or overruns the call
  stack: wherever it gets to, the line is within the script or just past its end, the stack has
  at most 32 entries, and each entry is that of a call, loop, conditional or component block of
  the script, with the lines that block has there.\<close>

theorem exec_stays_in_script:
  assumes "logic_of_prototypes env path pls = Ok lg" "exec_entry lg m = Ok (start, end_line)"
    and "rn_stack r = []" "exec_reaches env ask lg end_line (start, r) (n, r')"
  shows "n \<le> length pls \<and> length (rn_stack r') \<le> 32 \<and> (\<forall>ci \<in> set (rn_stack r'). call_wf lg ci)"
proof -
  note wf = logic_of_prototypes_wf [OF assms(1)]
  have "start \<le> length (lg_commands lg)"
    using assms(2) state_start [OF wf(1)] by (simp add: exec_entry_def)
  then have "exec_inv lg (start, r)" using assms(3) by (simp add: exec_inv_def)
  from exec_reaches_inv [OF wf(1) assms(4) this] show ?thesis
    using wf(2) by (simp add: exec_inv_def stack_capacity_def)
qed

theorem exec_stays_in_script_witness:
  "call_wf sample_logic (ProcedureCall \<lparr> pci_call_line = 3, pci_start_line = 0, pci_end_line = 2 \<rparr>)"
proof -
  let ?ci = "ProcedureCall \<lparr> pci_call_line = 3, pci_start_line = 0, pci_end_line = 2 \<rparr>"
  let ?r = "sample_run\<lparr> rn_world := VInt 1, rn_stack := [?ci] \<rparr>"
  have "exec_loop sample_env sample_ask sample_logic 12 3 0 sample_run = Running 2 ?r"
    by code_simp
  then have reach: "exec_reaches sample_env sample_ask sample_logic 12 (0, sample_run) (2, ?r)"
    unfolding exec_loop_reaches by blast
  have entry: "exec_entry sample_logic \<lparr> mc_behavior = None, mc_state = ''_main'' \<rparr> = Ok (0, 12)"
    by (simp add: exec_entry_def sample_logic_def)
  show ?thesis
    using exec_stays_in_script [OF sample_script_logic entry _ reach] by (simp add: sample_run_def)
qed


lemma less_3_cases: "(\<forall>j. 1 \<le> j \<and> j < (2::nat) \<longrightarrow> P j) \<longleftrightarrow> P 1"
  by (auto dest: le_antisym simp: less_Suc_eq_le numeral_2_eq_2)


text \<open>When the condition of an \<open>if\<close> is true the lines of all its branches run, those after
  \<open>else\<close> too, since \<open>else\<close> is not executed; and the entry of the \<open>if\<close> is still on the stack when
  the line after its end is reached.\<close>

lemma if_true_runs_else:
  assumes "logic_wf lg" "l < length (lg_commands lg)" "lg_commands lg ! l = CIf c"
    and "if_condition c = BoolValue True" "else_lines_arr (if_else_lines c) = Some arr"
    and "runs_on end_line l r" "length (rn_stack r) < 32" "quiet_lines lg (l + 1) (if_end c)"
    and "ci = IfElseCall \<lparr> ieci_current = (case if_else_lines c of [] \<Rightarrow> if_end c | m # _ \<Rightarrow> m),
        ieci_passed = True, ieci_else_line_index = 0, ieci_start = if_start c, ieci_end = if_end c,
        ieci_else_lines = arr \<rparr>"
    and "run_lines env ask lg (if_end c - l - 1) (l + 1) (r\<lparr> rn_stack := ci # rn_stack r \<rparr>) = Some r'"
  shows "exec_loop env ask lg end_line (if_end c - l + 1) l r = Running (if_end c + 1) r'
    \<and> rn_stack r' = ci # rn_stack r"
  using if_true_runs_all [OF assms(1-6) _ assms(8-10)] assms(7) by (simp add: stack_capacity_def)

lemma less_8_cases: "(\<forall>j. 5 \<le> j \<and> j < (8::nat) \<longrightarrow> P j) \<longleftrightarrow> P 5 \<and> P 6 \<and> P 7"
proof -
  have "5 \<le> j \<and> j < (8::nat) \<longleftrightarrow> j = 5 \<or> j = 6 \<or> j = 7" for j by linarith
  then show ?thesis by auto
qed

text \<open>A \<open>loop\<close> whose body neither jumps nor touches the stack is never left, even when
  \<open>break\<close> is among its commands: after any number of rounds the execution is between the loop's
  lines with the loop on top of the stack, or one of its commands has panicked.\<close>

lemma loop_not_left:
  assumes "logic_wf lg" "l < length (lg_commands lg)" "lg_commands lg ! l = CLoop c"
    and "quiet_lines lg (l + 1) (lp_end c)" "runs_on end_line l r" "length (rn_stack r) < 32"
  shows "case exec_loop env ask lg end_line (Suc k) l r of
      Running n r' \<Rightarrow> l < n \<and> n \<le> lp_end c
        \<and> rn_stack r' = LoopCall \<lparr> lci_start = l, lci_end = lp_end c \<rparr> # rn_stack r
    | Halted _ \<Rightarrow> False
    | Crashed _ \<Rightarrow> True"
proof -
  have "lp_start c = l"
    using block_range_wf(1) [OF assms(1,2), of "lp_start c + 1" "lp_end c"] assms(3) by simp
  moreover have "length (rn_stack r) < stack_capacity" by (simp add: stack_capacity_def assms(6))
  ultimately show ?thesis
    using loop_never_left [OF assms(1-5), of env ask k]
    by (auto simp: stays_in_def in_loop_def split: exec_state.splits)
qed

lemma less_11_cases: "(\<forall>j. 10 \<le> j \<and> j < (11::nat) \<longrightarrow> P j) \<longleftrightarrow> P 10"
proof -
  have "10 \<le> j \<and> j < (11::nat) \<longleftrightarrow> j = 10" for j by linarith
  then show ?thesis by auto
qed

text \<open>C5: a script without loops and calls ends: within as many rounds as it has lines, and one
  to notice the end, its execution halts or panics, whatever the worker answers.\<close>

theorem exec_terminates:
  assumes "logic_wf lg" "forward_only lg" "exec_entry lg (rn_machine r) = Ok se"
  shows "exec env ask (length (lg_commands lg) + 1) lg r \<noteq> OutOfFuel"
proof -
  obtain s e where se: "se = (s, e)" by (cases se)
  have "s \<le> length (lg_commands lg)"
    using assms(3) state_start [OF assms(1)] by (simp add: exec_entry_def se)
  then have inv: "exec_inv lg (s, r\<lparr> rn_stack := [] \<rparr>)" by (simp add: exec_inv_def)
  have "length (lg_commands lg) - s < length (lg_commands lg) + 1" by linarith
  from forward_terminates [OF assms(1,2) inv this, of env ask e] show ?thesis
    using assms(3)
    by (auto simp: exec_def se simp del: exec_loop.simps split: exec_state.splits)
qed

definition short_logic :: logic where
  "short_logic = sample_logic\<lparr> lg_commands := [CNoOp], lg_states := [(''_main'', (0, 1))],
     lg_procedures := [], lg_locations := [empty_location\<lparr> l_line := Some 0 \<rparr>] \<rparr>"

theorem exec_terminates_witness:
  "exec sample_env sample_ask 2 short_logic
     (sample_run\<lparr> rn_machine := \<lparr> mc_behavior = None, mc_state = ''_main'' \<rparr> \<rparr>) \<noteq> OutOfFuel"
proof -
  have "logic_wf short_logic" by (auto simp: short_logic_def logic_wf_def block_wf_def)
  moreover have "forward_only short_logic" by (simp add: short_logic_def forward_only_def)
  moreover have "exec_entry short_logic \<lparr> mc_behavior = None, mc_state = ''_main'' \<rparr> = Ok (0, 1)"
    by (simp add: exec_entry_def short_logic_def)
  ultimately show ?thesis
    using exec_terminates [of short_logic
        "sample_run\<lparr> rn_machine := \<lparr> mc_behavior = None, mc_state = ''_main'' \<rparr> \<rparr>" "(0, 1)"
        sample_env sample_ask]
    by (simp add: short_logic_def numeral_2_eq_2)
qed

text \<open>A machine whose script declares no states runs the whole script on a step request,
  but an event, which is how a worker drives it, finds no state named \<open>start\<close>: the task ends
  with an error and nothing of the script runs.\<close>

lemma event_ends_machine:
  assumes "mc_behavior (rn_machine r) = Some name" "mc_state (rn_machine r) = ''start''"
    and "ask (rn_world r) (ReqMachineLogic name) = (w, Ok (Ok (RespMachineLogic lg)))"
    and "lg_states lg = [(''_main'', se)]"
  shows "handle_machine_request env ask fuel (MEvent ev) r = Ended (r\<lparr> rn_world := w \<rparr>)
      (Some (MachinePanic (error_of_kind (KOther
        ''State `start` not found in machine logic state collection''))))
    \<and> handle_machine_request env ask fuel MStep r =
        (case exec env ask fuel lg (r\<lparr> rn_world := w,
             rn_machine := (rn_machine r)\<lparr> mc_state := ''_main'' \<rparr> \<rparr>) of
           Done s \<Rightarrow> Answered s (Ok ()) | Failed s e \<Rightarrow> Ended s (Some (MachinePanic e))
         | Panicked s \<Rightarrow> TaskPanic s | OutOfFuel \<Rightarrow> Unfinished)"
  using assms
  by (simp add: handle_machine_request_def run_logic_def fetch_logic_def send_def exec_def
      exec_entry_def)

text \<open>\<open>print\<close> of a format string with one placeholder between each two pieces and a valid
  address for each placeholder prints the pieces with the text of the addressed values between
  them, whatever the length of the pieces and values.\<close>

lemma print_fmt_spec:
  assumes "length qs = length as" "\<forall>q \<in> set (p # qs). braceless q \<and> starts_char q"
    and "\<forall>a \<in> set as. address_ok a" "reads_as ask val"
    and "se_getopts env [] args = Ok matches"
    and "om_free matches = intercalate ''{}'' (p # qs) # map address_to_string as"
    and "\<forall>a. address_from_str (intercalate ''{}'' (p # qs)) \<noteq> Ok a"
    and "address_from_str (intercalate ''{}'' (p # qs)) \<noteq> Panic"
  shows "\<exists>c. print_fmt_from_args env args = Ok c
    \<and> execute_print_fmt env ask c r =
        (r\<lparr> rn_log := rn_log r @ [Info (p @ splice qs (map (\<lambda>a. var_to_string (se_uesc env) (val a)) as))] \<rparr>,
         Some Continue)"
proof -
  let ?c = "\<lparr> pf_fmt = concat (p # qs), pf_inserts = positions (length p) qs as \<rparr>"
  have "fmt_inserts (om_free matches) 1 (intercalate ''{}'' (p # qs)) [] =
      Ok (concat (p # qs), positions (length p) qs as)"
    using fmt_inserts_pieces [of qs as p 1 "om_free matches" "[]" "[]"] assms(1-3,6)
    by (simp add: braceless_def)
  then have "print_fmt_from_args env args = Ok ?c"
    using assms(5-8) by (cases "address_from_str (intercalate ''{}'' (p # qs))")
      (simp_all add: print_fmt_from_args_def)
  moreover have "execute_print_fmt env ask ?c r =
      (r\<lparr> rn_log := rn_log r @ [Info (p @ splice qs (map (\<lambda>a. var_to_string (se_uesc env) (val a)) as))] \<rparr>,
       Some Continue)"
    using print_inserts_splice [OF assms(4,1), of p "length p" 0 env r] assms(2)
    by (simp add: execute_print_fmt_def)
  ultimately show ?thesis by blast
qed

end
