(* ===== verification/Rpc.thy ===== *)
theory Rpc
  imports Errors
begin

text \<open>
  Call contexts, from src/bigworlds/src/rpc/mod.rs: participants and callers of the cluster,
  the network hops recorded along a call and what routing reads from them.  The system clock is the argument \<open>now\<close> (unix micros); the arithmetic of
  \<open>register_hop\<close> is that of a build with overflow checks, so an underflow is a \<open>Panic\<close>.
\<close>

section \<open>Callers and contexts\<close>

datatype participant = PLeader | PWorker uuid | PServer uuid | PClient uuid

datatype caller = CallerParticipant participant | CallerSimHandle | CallerBehavior | CallerUnknown

text \<open>\<open>debug\<close> is the derived \<open>Debug\<close> rendering of a caller.\<close>

definition participant_try_from :: "(caller \<Rightarrow> string) \<Rightarrow> caller \<Rightarrow> participant core_result" where
  "participant_try_from debug c =
    (case c of
       CallerParticipant p \<Rightarrow> Ok p
     | _ \<Rightarrow> Err (FailedConversion (''unable to convert caller into participant: '' @ debug c)))"

definition caller_from :: "participant \<Rightarrow> caller" where
  "caller_from p = CallerParticipant p"

definition caller_id :: "caller \<Rightarrow> uuid" where
  "caller_id c =
    (case c of
       CallerParticipant p \<Rightarrow>
         (case p of PWorker i \<Rightarrow> i | PServer i \<Rightarrow> i | PClient i \<Rightarrow> i | PLeader \<Rightarrow> 1)
     | CallerSimHandle \<Rightarrow> 0
     | CallerBehavior \<Rightarrow> - 1
     | CallerUnknown \<Rightarrow> 42)"

record network_hop =
  nh_observer :: participant
  nh_delta :: "32 word"

datatype delivery = Unlimited | Limited "8 word"

record call_context =
  cx_id :: uuid
  cx_delivery :: delivery
  cx_origin :: caller
  cx_target :: "participant option"
  cx_initiated_at :: "64 word"
  cx_hops :: "network_hop list"

text \<open>The fresh identifier and the time are drawn by the caller.\<close>

definition context_new :: "uuid \<Rightarrow> 64 word \<Rightarrow> caller \<Rightarrow> call_context" where
  "context_new fresh now origin =
    \<lparr> cx_id = fresh, cx_delivery = Unlimited, cx_origin = origin, cx_target = None,
      cx_initiated_at = now, cx_hops = [] \<rparr>"

definition with_delivery :: "8 word option \<Rightarrow> call_context \<Rightarrow> call_context" where
  "with_delivery limit cx =
    (case limit of Some n \<Rightarrow> cx\<lparr> cx_delivery := Limited n \<rparr> | None \<Rightarrow> cx\<lparr> cx_delivery := Unlimited \<rparr>)"

record 't signal =
  sg_payload :: 't
  sg_ctx :: call_context

definition signal_from :: "uuid \<Rightarrow> 64 word \<Rightarrow> 't \<Rightarrow> 't signal" where
  "signal_from fresh now payload =
    \<lparr> sg_payload = payload, sg_ctx = context_new fresh now CallerUnknown \<rparr>"

definition signal_new :: "'t \<Rightarrow> call_context \<Rightarrow> 't signal" where
  "signal_new payload ctx = \<lparr> sg_payload = payload, sg_ctx = ctx \<rparr>"

definition originating_at :: "caller \<Rightarrow> 't signal \<Rightarrow> 't signal" where
  "originating_at c s = s\<lparr> sg_ctx := (sg_ctx s)\<lparr> cx_origin := c \<rparr> \<rparr>"

definition with_target :: "participant \<Rightarrow> 't signal \<Rightarrow> 't signal" where
  "with_target p s = s\<lparr> sg_ctx := (sg_ctx s)\<lparr> cx_target := Some p \<rparr> \<rparr>"

section \<open>Hops\<close>

definition last_observer :: "call_context \<Rightarrow> participant option" where
  "last_observer cx = (case cx_hops cx of [] \<Rightarrow> None | hs \<Rightarrow> Some (nh_observer (last hs)))"

definition total_transfer_time_micros :: "call_context \<Rightarrow> 32 word" where
  "total_transfer_time_micros cx = (case cx_hops cx of [] \<Rightarrow> 0 | hs \<Rightarrow> nh_delta (last hs))"

definition register_hop :: "64 word \<Rightarrow> participant \<Rightarrow> call_context \<Rightarrow> call_context core_result" where
  "register_hop now observer cx =
    (if now < cx_initiated_at cx then Panic
     else let elapsed = (ucast (now - cx_initiated_at cx) :: 32 word);
              total = total_transfer_time_micros cx in
          if elapsed < total then Panic
          else Ok (cx\<lparr> cx_hops := cx_hops cx @
                       [\<lparr> nh_observer = observer, nh_delta = elapsed - total \<rparr>] \<rparr>))"

definition merge_hops :: "network_hop list \<Rightarrow> call_context \<Rightarrow> call_context" where
  "merge_hops other cx = cx\<lparr> cx_hops := cx_hops cx @ drop (length (cx_hops cx)) other \<rparr>"

definition has_observer :: "participant \<Rightarrow> network_hop list \<Rightarrow> bool" where
  "has_observer p hs = list_ex (\<lambda>h. nh_observer h = p) hs"

definition merge_hops_unique :: "network_hop list \<Rightarrow> call_context \<Rightarrow> call_context" where
  "merge_hops_unique other cx = cx\<lparr> cx_hops :=
    foldl (\<lambda>hs h. if has_observer (nh_observer h) hs then hs else hs @ [h]) (cx_hops cx) other \<rparr>"

definition merge_hops_timebased :: "network_hop list \<Rightarrow> call_context \<Rightarrow> call_context" where
  "merge_hops_timebased other cx =
    (let largest = foldl (\<lambda>l h. if l < nh_delta h then nh_delta h else l) 0 (cx_hops cx) in
     cx\<lparr> cx_hops := cx_hops cx @ filter (\<lambda>h. largest < nh_delta h) other \<rparr>)"

definition clear_hops :: "call_context \<Rightarrow> call_context" where
  "clear_hops cx = cx\<lparr> cx_hops := [] \<rparr>"

definition worker_observers :: "call_context \<Rightarrow> uuid list" where
  "worker_observers cx =
    List.map_filter (\<lambda>h. case nh_observer h of PWorker i \<Rightarrow> Some i | _ \<Rightarrow> None) (cx_hops cx)"

definition went_through_worker :: "uuid \<Rightarrow> call_context \<Rightarrow> bool" where
  "went_through_worker i cx \<longleftrightarrow> caller_id (cx_origin cx) = i \<or> i \<in> set (worker_observers cx)"

definition went_through_leader :: "call_context \<Rightarrow> bool" where
  "went_through_leader cx \<longleftrightarrow>
    cx_origin cx = CallerParticipant PLeader \<or> has_observer PLeader (cx_hops cx)"

definition is_worker :: "participant \<Rightarrow> bool" where
  "is_worker p = (case p of PWorker _ \<Rightarrow> True | _ \<Rightarrow> False)"

definition worker_hop_count :: "call_context \<Rightarrow> nat" where
  "worker_hop_count cx = length (filter (\<lambda>h. is_worker (nh_observer h)) (cx_hops cx))"

definition leader_hop_count :: "call_context \<Rightarrow> nat" where
  "leader_hop_count cx = length (filter (\<lambda>h. nh_observer h = PLeader) (cx_hops cx))"

definition reached_target :: "call_context \<Rightarrow> bool" where
  "reached_target cx = (case cx_target cx of Some t \<Rightarrow> has_observer t (cx_hops cx) | None \<Rightarrow> False)"

section \<open>Observers\<close>

abbreviation observers :: "call_context \<Rightarrow> participant list" where
  "observers cx \<equiv> map nh_observer (cx_hops cx)"

lemma has_observer_iff [simp]: "has_observer p hs \<longleftrightarrow> p \<in> nh_observer ` set hs"
  by (auto simp: has_observer_def list_ex_iff)

lemma worker_observers_iff: "i \<in> set (worker_observers cx) \<longleftrightarrow> PWorker i \<in> set (observers cx)"
  by (force simp: worker_observers_def List.map_filter_def split: participant.splits)

lemma went_through_worker_iff:
  "went_through_worker i cx \<longleftrightarrow> caller_id (cx_origin cx) = i \<or> PWorker i \<in> set (observers cx)"
  by (simp add: went_through_worker_def worker_observers_iff)

lemma went_through_leader_iff:
  "went_through_leader cx \<longleftrightarrow> cx_origin cx = CallerParticipant PLeader \<or> PLeader \<in> set (observers cx)"
  by (simp add: went_through_leader_def)

lemma worker_hop_count_eq: "worker_hop_count cx = length (worker_observers cx)"
  by (induction "cx_hops cx" arbitrary: cx)
    (auto simp: worker_hop_count_def worker_observers_def List.map_filter_def is_worker_def
      filter_map o_def intro!: arg_cong [where f = length] filter_cong split: participant.splits)

text \<open>A hop is added for an observer not seen so far, and only then.\<close>

definition add_unseen :: "network_hop list \<Rightarrow> network_hop \<Rightarrow> network_hop list" where
  "add_unseen hs h = (if has_observer (nh_observer h) hs then hs else hs @ [h])"

lemma merge_hops_unique_alt:
  "merge_hops_unique other cx = cx\<lparr> cx_hops := foldl add_unseen (cx_hops cx) other \<rparr>"
  by (simp add: merge_hops_unique_def add_unseen_def [abs_def])

lemma add_unseen_all:
  "nh_observer ` set (foldl add_unseen hs other) = nh_observer ` set hs \<union> nh_observer ` set other
   \<and> prefix hs (foldl add_unseen hs other)
   \<and> (distinct (map nh_observer (foldl add_unseen hs other)) \<longleftrightarrow> distinct (map nh_observer hs))"
proof (induction other arbitrary: hs)
  case (Cons h other)
  have step: "nh_observer ` set (add_unseen hs h) = insert (nh_observer h) (nh_observer ` set hs)"
    "prefix hs (add_unseen hs h)"
    "distinct (map nh_observer (add_unseen hs h)) \<longleftrightarrow> distinct (map nh_observer hs)"
    by (auto simp: add_unseen_def)
  from Cons.IH [of "add_unseen hs h"] step show ?case
    by (auto intro: prefix_order.trans)
qed simp

lemma add_unseen_seen:
  "nh_observer ` set other \<subseteq> nh_observer ` set hs \<Longrightarrow> foldl add_unseen hs other = hs"
  by (induction other) (auto simp: add_unseen_def)

section \<open>Properties\<close>

text \<open>Merging the hops of another copy of a call keeps the hops known so far as a
  prefix, makes the observers the union of both lists, adds no observer twice (they are distinct
  exactly when they were), and merging the
  same hops again changes nothing; so a worker or leader passed by either copy counts as passed.\<close>

lemma merge_hops_unique_spec:
  "let cx' = merge_hops_unique other cx in
     prefix (cx_hops cx) (cx_hops cx')
     \<and> set (observers cx') = set (observers cx) \<union> nh_observer ` set other
     \<and> (distinct (observers cx') \<longleftrightarrow> distinct (observers cx))
     \<and> merge_hops_unique other cx' = cx'
     \<and> (went_through_worker i cx' \<longleftrightarrow> went_through_worker i cx \<or> PWorker i \<in> nh_observer ` set other)
     \<and> (went_through_leader cx' \<longleftrightarrow> went_through_leader cx \<or> PLeader \<in> nh_observer ` set other)"
  using add_unseen_all [of "cx_hops cx" other]
  by (auto simp: Let_def merge_hops_unique_alt went_through_worker_iff went_through_leader_iff
      add_unseen_seen)

text \<open>The hops of one call registered one after the other, at the given times.\<close>

fun register_all :: "(64 word \<times> participant) list \<Rightarrow> call_context \<Rightarrow> call_context core_result" where
  "register_all [] cx = Ok cx"
| "register_all ((now, p) # hs) cx = res_bind (register_hop now p cx) (register_all hs)"

abbreviation elapsed_micros :: "call_context \<Rightarrow> 64 word \<Rightarrow> 32 word" where
  "elapsed_micros cx now \<equiv> ucast (now - cx_initiated_at cx)"

text \<open>The deltas recorded for the given times, from the total before them.\<close>

fun deltas :: "call_context \<Rightarrow> 32 word \<Rightarrow> (64 word \<times> participant) list \<Rightarrow> 32 word list" where
  "deltas cx d [] = []"
| "deltas cx d ((now, p) # hs) = (elapsed_micros cx now - d) # deltas cx (elapsed_micros cx now - d) hs"

lemma deltas_cong: "cx_initiated_at cx = cx_initiated_at cx' \<Longrightarrow> deltas cx d hs = deltas cx' d hs"
  by (induction hs arbitrary: d) auto

lemma total_snoc: "cx_hops cx = hs @ [h] \<Longrightarrow> total_transfer_time_micros cx = nh_delta h"
  by (cases hs) (auto simp: total_transfer_time_micros_def)

lemma register_hop_OkD:
  assumes "register_hop now p cx = Ok cx'"
  shows "cx' = cx\<lparr> cx_hops := cx_hops cx @
      [\<lparr> nh_observer = p, nh_delta = elapsed_micros cx now - total_transfer_time_micros cx \<rparr>] \<rparr>"
    and "cx_initiated_at cx \<le> now" and "total_transfer_time_micros cx \<le> elapsed_micros cx now"
  using assms by (auto simp: register_hop_def Let_def split: if_splits)

lemma register_all_hops:
  "register_all hs cx = Ok cx' \<Longrightarrow>
    map nh_delta (cx_hops cx') = map nh_delta (cx_hops cx) @ deltas cx (total_transfer_time_micros cx) hs
    \<and> observers cx' = observers cx @ map snd hs \<and> cx_initiated_at cx' = cx_initiated_at cx"
proof (induction hs arbitrary: cx)
  case (Cons h hs)
  obtain now p where h: "h = (now, p)" by (cases h)
  with Cons.prems obtain c where c: "register_hop now p cx = Ok c" "register_all hs c = Ok cx'"
    by (auto simp: result_simps)
  let ?d = "elapsed_micros cx now - total_transfer_time_micros cx"
  from register_hop_OkD(1) [OF c(1)] have c': "cx_hops c = cx_hops cx @ [\<lparr> nh_observer = p, nh_delta = ?d \<rparr>]"
    "cx_initiated_at c = cx_initiated_at cx" by auto
  with total_snoc [of c] have "total_transfer_time_micros c = ?d" by simp
  with Cons.IH [OF c(2)] c' h deltas_cong [of c cx] show ?case by simp
qed simp

lemma deltas_step:
  "Suc k < length hs \<Longrightarrow>
    deltas cx d hs ! Suc k + deltas cx d hs ! k = elapsed_micros cx (fst (hs ! Suc k))"
proof (induction cx d hs arbitrary: k rule: deltas.induct)
  case (2 cx d now p hs)
  then show ?case by (cases k; cases hs) auto
qed simp

lemma length_deltas [simp]: "length (deltas cx d hs) = length hs"
  by (induction cx d hs rule: deltas.induct) auto


definition sample_context :: call_context where
  "sample_context = context_new 7 1000 (CallerParticipant (PWorker 5))"


text \<open>A hop registered sooner after the last one than that one's delta underflows.\<close>

lemma register_hop_Panic:
  assumes "cx_initiated_at cx \<le> now"
  shows "register_hop now p cx = Panic \<longleftrightarrow> elapsed_micros cx now < total_transfer_time_micros cx"
  using assms by (auto simp: register_hop_def Let_def)

end
