(* ===== verification/Nets.thy ===== *)
theory Nets
  imports Errors
begin

text \<open>
  Network addresses, from src/bigworlds/src/net/mod.rs: the transports and encodings with their
  parsers and printers, and composite addresses of the form \<open>encoding@transport://address\<close>.
  Name resolution, the \<open>url\<close> crate and the printing of socket addresses are the parameter
  \<open>net_lib\<close>; \<open>'s\<close> is a socket address.
\<close>

section \<open>Transports and encodings\<close>

text \<open>
  \<open>to_lowercase\<close>, as far as the comparison with lower case ASCII text can tell: besides the
  ASCII capitals only the Kelvin sign has an ASCII letter as its lower case.
\<close>

definition lower_char :: "string \<Rightarrow> string" where
  "lower_char c = (if c = [CHR 0xE2, CHR 0x84, CHR 0xAA] then ''k''
     else map (\<lambda>b. let v = (of_char b :: nat) in if 65 \<le> v \<and> v \<le> 90 then char_of (v + 32) else b) c)"

definition to_lowercase :: "string \<Rightarrow> string" where
  "to_lowercase s = concat (map lower_char (utf8_chars s))"

text \<open>The transports compiled in: the browser and server ones are features.\<close>

record net_features =
  nf_ws_transport :: bool
  nf_http_server :: bool
  nf_grpc_server :: bool

definition list_supported :: "net_features \<Rightarrow> string list" where
  "list_supported nf =
    map transport_to_string
      ([Quic] @ (if nf_ws_transport nf then [WebSocket] else [])
        @ (if nf_http_server nf then [HttpServer] else [])
        @ (if nf_grpc_server nf then [GrpcServer] else []))"

text \<open>\<open>debug_list\<close> is the \<open>Debug\<close> rendering of a list of strings.\<close>

definition debug_list :: "string list \<Rightarrow> string" where
  "debug_list xs = ''['' @ intercalate '', '' (map (\<lambda>x. [CHR 0x22] @ x @ [CHR 0x22]) xs) @ '']''"

definition transport_from_str :: "net_features \<Rightarrow> string \<Rightarrow> transport core_result" where
  "transport_from_str nf s =
    (let l = to_lowercase s in
     if l = ''quic'' then Ok Quic
     else if l \<in> {''websocket'', ''web_socket'', ''web-socket'', ''ws''} then Ok WebSocket
     else if l = ''wss'' then Ok SecureWebSocket
     else if l \<in> {''http'', ''http_server''} then Ok HttpServer
     else if l \<in> {''grpc'', ''grpc_server''} then Ok GrpcServer
     else Err (ParsingError (''failed parsing transport from string: '' @ s @
                 '', available transports: '' @ debug_list (list_supported nf))))"

datatype encoding = Bincode | MsgPack | Json

fun encoding_to_string :: "encoding \<Rightarrow> string" where
  "encoding_to_string Bincode = ''bincode''"
| "encoding_to_string MsgPack = ''msgpack''"
| "encoding_to_string Json = ''json''"

definition encoding_from_str :: "string \<Rightarrow> encoding core_result" where
  "encoding_from_str s =
    (let l = to_lowercase s in
     if l \<in> {''bincode'', ''bin''} then Ok Bincode
     else if l \<in> {''msgpack'', ''messagepack'', ''rmp''} then Ok MsgPack
     else if l = ''json'' then Ok Json
     else Err (Other (''failed parsing encoding from string: '' @ s)))"

section \<open>Addresses\<close>

datatype 's net_address = Net 's | NetUrl string | FilePath string

record 's net_lib =
  nl_resolve :: "string \<Rightarrow> 's list option"
  nl_url_ok :: "string \<Rightarrow> bool"
  nl_show :: "'s \<Rightarrow> string"
  nl_debug :: "'s net_address \<Rightarrow> string"
  nl_localhost :: "16 word \<Rightarrow> 's"
  nl_unspecified_port :: "'s \<Rightarrow> 16 word option"

text \<open>A resolution that succeeds with no address is unwrapped, a panic.\<close>

definition net_address_from_str :: "'s net_lib \<Rightarrow> string \<Rightarrow> 's net_address core_result" where
  "net_address_from_str nl s =
    (case nl_resolve nl s of
       Some as \<Rightarrow> (case as of [] \<Rightarrow> Panic | a # _ \<Rightarrow> Ok (Net a))
     | None \<Rightarrow> if nl_url_ok nl s then Ok (NetUrl s) else Ok (FilePath s))"

definition net_address_to_string :: "'s net_lib \<Rightarrow> 's net_address \<Rightarrow> string" where
  "net_address_to_string nl a = (case a of Net s \<Rightarrow> nl_show nl s | NetUrl u \<Rightarrow> u | FilePath p \<Rightarrow> p)"

definition try_into_socket_addr :: "'s net_lib \<Rightarrow> 's net_address \<Rightarrow> 's core_result" where
  "try_into_socket_addr nl a =
    (case a of Net s \<Rightarrow> Ok s
     | _ \<Rightarrow> Err (InvalidAddress (''unable to turn abstract address into socket address '' @ nl_debug nl a)))"

definition default_net_address :: "'s net_lib \<Rightarrow> 's net_address" where
  "default_net_address nl = Net (nl_localhost nl 9090)"

record 's composite_address =
  ca_encoding :: "encoding option"
  ca_transport :: "transport option"
  ca_address :: "'s net_address"

definition default_composite :: "'s net_lib \<Rightarrow> 's composite_address" where
  "default_composite nl =
    \<lparr> ca_encoding = None, ca_transport = None, ca_address = default_net_address nl \<rparr>"

text \<open>The first two parts of \<open>split\<close> at a separator that occurs.\<close>

definition part0 :: "string \<Rightarrow> string \<Rightarrow> string" where
  "part0 sep s = (case find_sub sep s of Some i \<Rightarrow> take i s | None \<Rightarrow> s)"

definition part1 :: "string \<Rightarrow> string \<Rightarrow> string" where
  "part1 sep s = (case find_sub sep s of
     Some i \<Rightarrow> part0 sep (drop (i + length sep) s) | None \<Rightarrow> [])"

definition composite_from_str :: "net_features \<Rightarrow> 's net_lib \<Rightarrow> string \<Rightarrow> 's composite_address core_result" where
  "composite_from_str nf nl s =
    (let mk = (\<lambda>e t a. Ok \<lparr> ca_encoding = e, ca_transport = t, ca_address = a \<rparr>) in
     if str_contains ''://'' s then
       (let l = part0 ''://'' s; r = part1 ''://'' s in
        if str_contains ''@'' l then
          res_bind (encoding_from_str (part0 ''@'' l)) (\<lambda>e.
          res_bind (transport_from_str nf (part1 ''@'' l)) (\<lambda>t.
          res_bind (net_address_from_str nl r) (\<lambda>a. mk (Some e) (Some t) a)))
        else
          res_bind (transport_from_str nf l) (\<lambda>t.
          res_bind (net_address_from_str nl r) (\<lambda>a. mk None (Some t) a)))
     else if str_contains ''@'' s then
       res_bind (encoding_from_str (part0 ''@'' s)) (\<lambda>e.
       res_bind (net_address_from_str nl (part1 ''@'' s)) (\<lambda>a. mk (Some e) None a))
     else res_bind (net_address_from_str nl s) (\<lambda>a. mk None None a))"

definition composite_to_string :: "'s net_lib \<Rightarrow> 's composite_address \<Rightarrow> string" where
  "composite_to_string nl c =
    (let out = net_address_to_string nl (ca_address c);
         out = (case ca_transport c of Some t \<Rightarrow> transport_to_string t @ ''://'' @ out | None \<Rightarrow> out)
     in case ca_encoding c of Some e \<Rightarrow> encoding_to_string e @ ''@'' @ out | None \<Rightarrow> out)"

text \<open>\<open>nl_unspecified_port\<close>: the port of a socket address whose ip is \<open>0.0.0.0\<close>.\<close>

definition normalize_non_routable ::
  "net_features \<Rightarrow> 's net_lib \<Rightarrow> 's composite_address \<Rightarrow> 's composite_address core_result" where
  "normalize_non_routable nf nl c =
    res_bind (unwrap (try_into_socket_addr nl (ca_address c))) (\<lambda>a.
      case nl_unspecified_port nl a of
        Some port \<Rightarrow> composite_from_str nf nl (''127.0.0.1:'' @ show_nat (unat port))
      | None \<Rightarrow> Ok c)"

section \<open>Lemmas\<close>

lemma transport_roundtrip: "transport_from_str nf (transport_to_string t) = Ok t"
proof -
  have "\<forall>t \<in> {Quic, WebSocket, SecureWebSocket, HttpServer, GrpcServer}.
      to_lowercase (transport_to_string t) = transport_to_string t" by code_simp
  then have "to_lowercase (transport_to_string t) = transport_to_string t" by (cases t) auto
  then show ?thesis by (cases t) (simp_all add: transport_from_str_def)
qed

lemma encoding_roundtrip: "encoding_from_str (encoding_to_string e) = Ok e"
proof -
  have "\<forall>e \<in> {Bincode, MsgPack, Json}. to_lowercase (encoding_to_string e) = encoding_to_string e"
    by code_simp
  then have "to_lowercase (encoding_to_string e) = encoding_to_string e" by (cases e) auto
  then show ?thesis by (cases e) (simp_all add: encoding_from_str_def)
qed

text \<open>A text without the first character of the separator is passed over.\<close>

lemma find_sub_skip:
  "c \<notin> set p \<Longrightarrow> find_sub (c # pat) (p @ s) = map_option ((+) (length p)) (find_sub (c # pat) s)"
proof (induction p)
  case (Cons x p)
  then show ?case by (cases "find_sub (c # pat) s") auto
qed (cases "find_sub (c # pat) s", auto)

lemma find_sub_here: "find_sub (c # pat) ((c # pat) @ s) = Some 0"
  by simp

lemma parts_sep:
  assumes "c \<notin> set p"
  shows "part0 (c # pat) (p @ (c # pat) @ s) = p"
    and "part1 (c # pat) (p @ (c # pat) @ s) = part0 (c # pat) s"
    and "str_contains (c # pat) (p @ (c # pat) @ s)"
  using assms find_sub_skip [OF assms, of pat "(c # pat) @ s"] find_sub_here [of c pat s]
  by (simp_all add: part0_def part1_def str_contains_def del: find_sub.simps)

lemmas scheme_parts = parts_sep [of "CHR '':''" _ "''//''", simplified]
lemmas at_parts = parts_sep [of "CHR ''@''" _ "[]", simplified]

lemma part0_none: "\<not> str_contains sep s \<Longrightarrow> part0 sep s = s"
  by (simp add: part0_def str_contains_def)

lemma str_contains_skip: "c \<notin> set p \<Longrightarrow> str_contains (c # pat) (p @ s) = str_contains (c # pat) s"
  by (simp add: str_contains_def find_sub_skip)

lemma str_contains_char: "str_contains [c] s \<longleftrightarrow> c \<in> set s"
  by (induction s) (auto simp: str_contains_def)

lemma names_plain:
  "CHR '':'' \<notin> set (encoding_to_string e)" "CHR ''@'' \<notin> set (encoding_to_string e)"
  "CHR '':'' \<notin> set (transport_to_string t)" "CHR ''@'' \<notin> set (transport_to_string t)"
  by (cases e, auto)+ (cases t, auto)+

section \<open>Properties\<close>

text \<open>A composite address prints to a text that parses back to the same encoding,
  transport and address, when the text of its bare address parses back and holds neither of the
  two separators.\<close>

lemma composite_roundtrip:
  assumes "net_address_from_str nl (net_address_to_string nl (ca_address c)) = Ok (ca_address c)"
    and "\<not> str_contains ''://'' (net_address_to_string nl (ca_address c))"
    and "\<not> str_contains ''@'' (net_address_to_string nl (ca_address c))"
  shows "composite_from_str nf nl (composite_to_string nl c) = Ok c"
proof (cases "ca_encoding c")
  case None
  then show ?thesis using assms
    by (cases "ca_transport c")
      (simp_all add: composite_from_str_def composite_to_string_def Let_def scheme_parts names_plain
        str_contains_char part0_none transport_roundtrip)
next
  case e: (Some e)
  show ?thesis
  proof (cases "ca_transport c")
    case None
    have "\<not> str_contains ''://'' ((encoding_to_string e @ ''@'') @ net_address_to_string nl (ca_address c))"
      using assms(2) names_plain(1) [of e] by (subst str_contains_skip) auto
    then show ?thesis using assms e None names_plain
      by (simp add: composite_from_str_def composite_to_string_def Let_def at_parts
          part0_none encoding_roundtrip)
  next
    case (Some t)
    have "CHR '':'' \<notin> set (encoding_to_string e @ ''@'' @ transport_to_string t)"
      by (simp add: names_plain)
    note l = scheme_parts [OF this, of "net_address_to_string nl (ca_address c)", simplified]
    have t: "\<not> str_contains ''@'' (transport_to_string t)" by (simp add: str_contains_char names_plain)
    show ?thesis using assms e Some l t
      by (simp add: composite_from_str_def composite_to_string_def Let_def at_parts names_plain
          part0_none encoding_roundtrip transport_roundtrip)
  qed
qed

text \<open>A library whose socket addresses are their own text and resolve without a slash or an at sign.\<close>

definition sample_net_lib :: "string net_lib" where
  "sample_net_lib =
    \<lparr> nl_resolve = (\<lambda>s. if CHR ''/'' \<in> set s \<or> CHR ''@'' \<in> set s then None else Some [s]),
      nl_url_ok = (\<lambda>s. str_contains ''://'' s), nl_show = id, nl_debug = (\<lambda>_. ''addr''),
      nl_localhost = (\<lambda>p. ''127.0.0.1:'' @ show_nat (unat p)),
      nl_unspecified_port = (\<lambda>_. None) \<rparr>"

definition sample_net_features :: net_features where
  "sample_net_features = \<lparr> nf_ws_transport = True, nf_http_server = False, nf_grpc_server = False \<rparr>"

text \<open>A url as the address is outside of that: its own scheme is taken for the transport.\<close>

lemma composite_url_misread:
  "composite_from_str sample_net_features sample_net_lib ''http://host/x'' =
     Ok \<lparr> ca_encoding = None, ca_transport = Some HttpServer, ca_address = FilePath ''host/x'' \<rparr>"
  by code_simp

end
