(* ===== verification/Messages.thy ===== *)
theory Messages
  imports Processing Machines Rpc Nets
begin

text \<open>
  The protocol of the cluster: requests and responses of workers and leaders
  (src/bigworlds/src/rpc/worker.rs, src/bigworlds/src/rpc/leader.rs), the configurations,
  snapshots and views they carry, and the actions a handler is made of.  An executor is
  a connection number: \<open>Local\<close> a channel of the same runtime, \<open>Remote\<close> a network connection.
\<close>

section \<open>Data carried by messages\<close>

type_synonym listener = "string composite_address"
type_synonym project = "logic model"

datatype executor = Local nat | Remote nat

datatype topo_strategy =
  ConnectToOne | ConnectToTwo | ConnectToRandom "8 word" | ConnectToClosest "8 word" | ConnectToAll

record worker_config =
  wc_listeners :: "listener list"
  wc_partition :: part_config
  wc_topo_strategy :: topo_strategy
  wc_orphan_fork :: bool
  wc_behaviors_follow_model_changes :: bool
  wc_entity_migration_cooldown_secs :: "32 word option"
  wc_max_ram_mb :: "64 word"
  wc_max_disk_mb :: "64 word"
  wc_max_transfer_mb :: "64 word"
  wc_use_auth :: bool
  wc_passwd_list :: "string list"

definition default_worker_config :: worker_config where
  "default_worker_config =
    \<lparr> wc_listeners = [], wc_partition = default_part_config, wc_topo_strategy = ConnectToAll,
      wc_orphan_fork = True, wc_behaviors_follow_model_changes = True,
      wc_entity_migration_cooldown_secs = Some 3, wc_max_ram_mb = 0, wc_max_disk_mb = 0,
      wc_max_transfer_mb = 0, wc_use_auth = False, wc_passwd_list = [] \<rparr>"

definition no_archive_config :: worker_config where
  "no_archive_config = default_worker_config
    \<lparr> wc_partition := default_part_config\<lparr> cf_enable_archive := False \<rparr> \<rparr>"

datatype distribution_policy =
    DRandom | DMaxSpeed | DLowTraffic | DBalanced | DSimilarMemoryUsage | DSimilarProcessorUsage
  | DSpatial

text \<open>The auto-step interval is in microseconds.\<close>

record leader_config =
  lc_listeners :: "listener list"
  lc_autostep :: "nat option"
  lc_distribution :: distribution_policy

definition default_leader_config :: leader_config where
  "default_leader_config = \<lparr> lc_listeners = [], lc_autostep = None, lc_distribution = DRandom \<rparr>"

record leader_status =
  lst_started_at :: "32 word"

record snapshot =
  sn_created_at :: "32 word"
  sn_worker_count :: "32 word"
  sn_clock :: "64 word"
  sn_model :: project
  sn_entities :: "(string \<times> entity) list"

section \<open>Requests and responses\<close>

text \<open>
  Workers and leaders proxy each other's messages: the leader's are generic in the worker's.
\<close>

datatype (plugins only: code size) 'w leader_req_of =
    LConnectToWorker listener | LIntroduceWorker uuid | LDisconnectWorker | LStatus
  | LReplaceModel project | LMergeModel project | LInitialize "string option" | LStep | LClock
  | LGetWorkers | LGetModel | LReadyUntil "64 word" | LSpawnEntity string "string option"
  | LRemoveEntity string | LPing "8 word list" | LWorkerBroadcast 'w
  | LWorkerProxy 'w "uuid option" | LReorganizeEntities bool | LLoadSnapshot snapshot

datatype (plugins only: code size) worker_req =
    WPullConfig worker_config | WConnectToLeader listener
  | WIntroduceLeader "listener list" "(uuid \<times> listener list) list"
  | WConnectToWorker listener | WIntroduceWorker uuid | WGetLeader | WGetListeners | WStatus
  | WNewRequirements "64 word" "64 word" "64 word" | WPing "8 word list" | WMemorySize | WClock
  | WInitialize | WStep | WIsBlocking bool | WEntityList | WProcessQuery query
  | WSubscribe "query_trigger list" query | WUnsubscribe uuid | WSetBlocking bool
  | WGetModel | WReplaceModel project | WMergeModel project | WSetModel project
  | WGetVar address | WSetVar address var | WSetVars "(address \<times> var) list"
  | WInvoke "string list" bool | WSpawnEntity string "string option" | WDespawnEntity string
  | WTakeEntity string entity | WGetEntity string | WSpawnSingletonBehavior "logic behavior"
  | WMigrateEntities | WElection uuid | WAuthorize string | WSnapshot
  | WLeaderProxy "worker_req leader_req_of" | WMachineLogic string

type_synonym leader_req = "worker_req leader_req_of"

datatype (plugins only: code size) 'w leader_resp_of =
    LrEmpty | LrStatus leader_status | LrWorkerStatus "64 word" | LrClusterStatus "64 word"
  | LrPing "8 word list" | LrConnect | LrRegister uuid | LrClock "64 word"
  | LrGetWorkers "(uuid, listener list) kv" | LrModel project | LrStepUntil
  | LrWorkerBroadcast "'w list" | LrWorkerProxy 'w

datatype (plugins only: code size) worker_resp =
    WrConnectToLeader uuid | WrIntroduceLeader uuid | WrIntroduceWorker uuid
  | WrGetLeader "string option" | WrGetListeners "listener list" | WrClusterStatus "64 word"
  | WrNewRequirements | WrEmpty | WrMemorySize "64 word" | WrPing "8 word list"
  | WrGetModel project | WrClock "64 word" | WrStep | WrIsBlocking bool | WrRegister uuid
  | WrEntityList "string list" | WrEntity entity | WrQuery query_product | WrSubscribe uuid
  | WrPullProject | WrStepUntil | WrStatus uuid "64 word" "32 word" | WrGetVar var
  | WrEntityNotFound | WrSnapshot snapshot | WrLeaderProxy "worker_resp leader_resp_of" | WrMachineLogic logic

type_synonym leader_resp = "worker_resp leader_resp_of"

text \<open>\<open>Display\<close> of a response: the name of its variant.\<close>

definition worker_resp_name :: "worker_resp \<Rightarrow> string" where
  "worker_resp_name r =
    (case r of
       WrConnectToLeader _ \<Rightarrow> ''ConnectToLeader'' | WrIntroduceLeader _ \<Rightarrow> ''IntroduceLeader''
     | WrIntroduceWorker _ \<Rightarrow> ''IntroduceWorker'' | WrGetLeader _ \<Rightarrow> ''GetLeader''
     | WrGetListeners _ \<Rightarrow> ''GetListeners'' | WrClusterStatus _ \<Rightarrow> ''ClusterStatus''
     | WrNewRequirements \<Rightarrow> ''NewRequirements'' | WrEmpty \<Rightarrow> ''Empty''
     | WrMemorySize _ \<Rightarrow> ''MemorySize'' | WrPing _ \<Rightarrow> ''Ping'' | WrGetModel _ \<Rightarrow> ''GetModel''
     | WrClock _ \<Rightarrow> ''Clock'' | WrStep \<Rightarrow> ''Step'' | WrIsBlocking _ \<Rightarrow> ''IsBlocking''
     | WrRegister _ \<Rightarrow> ''Register'' | WrEntityList _ \<Rightarrow> ''EntityList'' | WrEntity _ \<Rightarrow> ''Entity''
     | WrQuery _ \<Rightarrow> ''Query'' | WrSubscribe _ \<Rightarrow> ''Subscribe'' | WrPullProject \<Rightarrow> ''PullProject''
     | WrStepUntil \<Rightarrow> ''StepUntil'' | WrStatus _ _ _ \<Rightarrow> ''Status'' | WrGetVar _ \<Rightarrow> ''GetVar''
     | WrEntityNotFound \<Rightarrow> ''EntityNotFound'' | WrSnapshot _ \<Rightarrow> ''Snapshot''
     | WrLeaderProxy _ \<Rightarrow> ''LeaderProxy'' | WrMachineLogic _ \<Rightarrow> ''MachineLogic'')"

definition leader_resp_name :: "leader_resp \<Rightarrow> string" where
  "leader_resp_name r =
    (case r of
       LrEmpty \<Rightarrow> ''Empty'' | LrStatus _ \<Rightarrow> ''Status'' | LrWorkerStatus _ \<Rightarrow> ''WorkerStatus''
     | LrClusterStatus _ \<Rightarrow> ''ClusterStatus'' | LrPing _ \<Rightarrow> ''Ping'' | LrConnect \<Rightarrow> ''Connect''
     | LrRegister _ \<Rightarrow> ''Register'' | LrClock _ \<Rightarrow> ''Clock'' | LrGetWorkers _ \<Rightarrow> ''GetWorkers''
     | LrModel _ \<Rightarrow> ''Model'' | LrStepUntil \<Rightarrow> ''StepUntil''
     | LrWorkerBroadcast _ \<Rightarrow> ''WorkerBroadcast'' | LrWorkerProxy _ \<Rightarrow> ''WorkerProxy'')"

section \<open>Views of other participants\<close>

datatype leader_situation =
  LsUnaware | LsUnreachable | LsAware "32 word" | LsConnected executor | LsElection | LsOrphanedWaiting

record leader_view =
  lv_situation :: leader_situation
  lv_listeners :: "listener list"

definition default_leader_view :: leader_view where
  "default_leader_view = \<lparr> lv_situation = LsUnaware, lv_listeners = [] \<rparr>"

definition leader_view_from :: "leader_situation \<Rightarrow> leader_view" where
  "leader_view_from s = default_leader_view\<lparr> lv_situation := s \<rparr>"

datatype worker_situation = WsAware "32 word" | WsConnected executor | WsUnreachable

record other_worker =
  ow_id :: uuid
  ow_situation :: worker_situation
  ow_listeners :: "listener list"

record server_view =
  sv_id :: uuid
  sv_exec :: executor
  sv_listeners :: "listener list"

record subscription =
  sb_id :: uuid
  sb_triggers :: "query_trigger list"
  sb_query :: query
  sb_sender :: nat

text \<open>A worker as the leader keeps it.\<close>

record leader_worker =
  lw_id :: uuid
  lw_entities :: "string list"
  lw_exec :: executor
  lw_listeners :: "listener list"

definition leader_worker_new :: "uuid \<Rightarrow> executor \<Rightarrow> leader_worker" where
  "leader_worker_new i e = \<lparr> lw_id = i, lw_entities = [], lw_exec = e, lw_listeners = [] \<rparr>"

section \<open>Actions\<close>

text \<open>
  A handler runs against a world \<open>'w\<close>: the tasks it exchanges messages with, its own manager
  among them.  Every message leaves the world changed by whatever those tasks did meanwhile.
  A failed action stops the ones after it, with the changes made so far kept.
\<close>

type_synonym ('w, 'a) act = "'w \<Rightarrow> 'w \<times> 'a core_result"

definition act_ret :: "'a \<Rightarrow> ('w, 'a) act" where
  "act_ret x w = (w, Ok x)"

definition act_of :: "'a core_result \<Rightarrow> ('w, 'a) act" where
  "act_of r w = (w, r)"

definition act_bind :: "('w, 'a) act \<Rightarrow> ('a \<Rightarrow> ('w, 'b) act) \<Rightarrow> ('w, 'b) act" where
  "act_bind m f w =
    (case m w of
       (w', Ok x) \<Rightarrow> f x w'
     | (w', Err e) \<Rightarrow> (w', Err e)
     | (w', Panic) \<Rightarrow> (w', Panic))"

text \<open>The result of an awaited call looked at instead of passed on; a panic is not caught.\<close>

definition act_try :: "('w, 'a) act \<Rightarrow> ('w, 'a core_result) act" where
  "act_try m w = (case m w of (w', Panic) \<Rightarrow> (w', Panic) | (w', r) \<Rightarrow> (w', Ok r))"

fun act_iter :: "('a \<Rightarrow> ('w, unit) act) \<Rightarrow> 'a list \<Rightarrow> ('w, unit) act" where
  "act_iter f [] = act_ret ()"
| "act_iter f (x # xs) = act_bind (f x) (\<lambda>_. act_iter f xs)"

fun act_fold :: "('s \<Rightarrow> 'a \<Rightarrow> ('w, 's) act) \<Rightarrow> 's \<Rightarrow> 'a list \<Rightarrow> ('w, 's) act" where
  "act_fold f s [] = act_ret s"
| "act_fold f s (x # xs) = act_bind (f s x) (\<lambda>s'. act_fold f s' xs)"

text \<open>What a caller sees of a task that panicked: its reply channel is dropped.\<close>

definition recv_error :: error where
  "recv_error = TokioOneshotRecvError ''channel closed''"

definition as_reply :: "'w \<times> 'a core_result \<Rightarrow> 'w \<times> 'a core_result" where
  "as_reply r = (case r of (w, Panic) \<Rightarrow> (w, Err recv_error) | (w, r) \<Rightarrow> (w, r))"

named_theorems act_simps \<open>computation rules for actions\<close>

lemma act_ret_apply [act_simps]: "act_ret x w = (w, Ok x)"
  by (simp add: act_ret_def)

lemma act_of_apply [act_simps]: "act_of r w = (w, r)"
  by (simp add: act_of_def)

lemma act_bind_Ok [act_simps]: "m w = (w', Ok x) \<Longrightarrow> act_bind m f w = f x w'"
  by (simp add: act_bind_def)

lemma act_bind_Err [act_simps]: "m w = (w', Err e) \<Longrightarrow> act_bind m f w = (w', Err e)"
  by (simp add: act_bind_def)

lemma act_bind_Panic [act_simps]: "m w = (w', Panic) \<Longrightarrow> act_bind m f w = (w', Panic)"
  by (simp add: act_bind_def)

lemma act_bind_ret [act_simps]: "act_bind (act_ret x) f = f x"
  by (rule ext) (simp add: act_bind_def act_ret_def)

lemma act_try_apply [act_simps]:
  "m w = (w', r) \<Longrightarrow> act_try m w = (w', if r = Panic then Panic else Ok r)"
  by (cases r) (simp_all add: act_try_def)

lemma act_bind_Ok_iff:
  "act_bind m f w = (w'', Ok y) \<longleftrightarrow> (\<exists>w' x. m w = (w', Ok x) \<and> f x w' = (w'', Ok y))"
  by (auto simp: act_bind_def split: prod.splits result.splits)

end
