(* ===== verification/WorkerManagers.thy ===== *)
theory WorkerManagers
  imports Messages
begin

text \<open>
  The worker manager, from src/bigworlds/src/worker/manager.rs with the worker \<open>State\<close> of
  src/bigworlds/src/worker/mod.rs: the task that owns the state of a worker and serves one
  request after the other.  A \<open>Panic\<close> of a request ends the task.  The store of archived
  entities and the loading of libraries are the parameters of the partition; \<open>now\<close> is the
  time in seconds and \<open>fresh\<close> a new identifier.
\<close>

section \<open>State\<close>

record ('a, 'b) node_env =
  ne_api :: "('a, 'b) archive_api"
  ne_uesc :: "string \<Rightarrow> bool"
  ne_load_lib :: "string \<Rightarrow> artifact \<Rightarrow> string core_result"
  ne_open :: "uuid \<Rightarrow> part_config \<Rightarrow> 'a core_result"

text \<open>
  The watch channels are their current values.  The broadcast channel of the partition is the
  list of its subscribers, \<open>pt_unsynced\<close>.
\<close>

record 'a worker_state =
  ws_id :: uuid
  ws_config :: worker_config
  ws_listeners :: "listener list"
  ws_model :: "project option"
  ws_part :: "'a partition option"
  ws_leader :: leader_view
  ws_servers :: "(uuid, server_view) kv"
  ws_other_workers :: "(uuid, other_worker) kv"
  ws_blocked :: bool
  ws_clock :: "64 word"
  ws_subscriptions :: "subscription list"
  ws_recent_signals :: "(uuid, 64 word) kv"

text \<open>The state a new worker starts from.\<close>

definition worker_spawn :: "('a, 'b) node_env \<Rightarrow> uuid \<Rightarrow> worker_config \<Rightarrow> 'a worker_state core_result" where
  "worker_spawn env fresh config =
    res_bind (partition_new (ne_open env fresh) (wc_partition config)) (\<lambda>part. Ok
      \<lparr> ws_id = fresh, ws_config = config, ws_listeners = wc_listeners config, ws_model = None,
        ws_part = Some part, ws_leader = default_leader_view, ws_servers = [],
        ws_other_workers = [], ws_blocked = False, ws_clock = 0, ws_subscriptions = [],
        ws_recent_signals = [] \<rparr>)"

section \<open>Requests\<close>

datatype (plugins only: code size) mgr_req =
    MgGetId | MgGetConfig | MgPullConfig worker_config | MgGetClock | MgGetBlockedWatch
  | MgSetBlockedWatch bool | MgGetClockWatch | MgSetClockWatch "64 word" | MgGetServers
  | MgGetOtherWorkers | MgAddOtherWorker other_worker | MgGetEntities
  | MgGetSyncedBehaviorHandles | MgGetUnsyncedBehaviorTx | MgMemorySize | MgGetLeader
  | MgSetLeader leader_view | MgInsertServer uuid server_view | MgProcessQuery query
  | MgSubscribe "query_trigger list" query nat | MgUnsubscribe uuid | MgGetSubscriptions
  | MgGetModel | MgSetModel project | MgSetVars "(address \<times> var) list" | MgGetVar address
  | MgInitialize | MgSpawnMachine | MgShutdown | MgSpawnEntity string "string option"
  | MgAddEntity string entity | MgRemoveEntity string | MgGetEntity string | MgGetListeners
  | MgAddBehavior behavior_target behavior_handle | MgSnapshot | MgGetMachineHandles

datatype (plugins only: code size) mgr_resp =
    MrGetId uuid | MrGetConfig worker_config | MrGetBlockedWatch bool | MrGetClockWatch "64 word"
  | MrGetServers "(uuid, server_view) kv" | MrGetOtherWorkers "(uuid, other_worker) kv"
  | MrGetLeader leader_view
  | MrGetSyncedBehaviorHandles "(behavior_target, behavior_handle list) kv"
  | MrGetUnsyncedBehaviorTx "string list list" | MrGetListeners "listener list" | MrGetVar var
  | MrProcessQuery query_product | MrSubscribe uuid | MrEntities "string list" | MrEntity entity
  | MrModel project | MrMemorySize "64 word" | MrSubscriptions "subscription list"
  | MrSnapshot snapshot | MrEmpty | MrGetMachineHandles "behavior_handle list"

definition mgr_resp_name :: "mgr_resp \<Rightarrow> string" where
  "mgr_resp_name r =
    (case r of
       MrGetId _ \<Rightarrow> ''GetId'' | MrGetConfig _ \<Rightarrow> ''GetConfig'' | MrGetBlockedWatch _ \<Rightarrow> ''GetBlockedWatch''
     | MrGetClockWatch _ \<Rightarrow> ''GetClockWatch'' | MrGetServers _ \<Rightarrow> ''GetServers''
     | MrGetOtherWorkers _ \<Rightarrow> ''GetOtherWorkers'' | MrGetLeader _ \<Rightarrow> ''GetLeader''
     | MrGetSyncedBehaviorHandles _ \<Rightarrow> ''GetSyncedBehaviorHandles''
     | MrGetUnsyncedBehaviorTx _ \<Rightarrow> ''GetUnsyncedBehaviorTx'' | MrGetListeners _ \<Rightarrow> ''GetListeners''
     | MrGetVar _ \<Rightarrow> ''GetVar'' | MrProcessQuery _ \<Rightarrow> ''ProcessQuery'' | MrSubscribe _ \<Rightarrow> ''Subscribe''
     | MrEntities _ \<Rightarrow> ''Entities'' | MrEntity _ \<Rightarrow> ''Entity'' | MrModel _ \<Rightarrow> ''Model''
     | MrMemorySize _ \<Rightarrow> ''MemorySize'' | MrSubscriptions _ \<Rightarrow> ''Subscriptions''
     | MrSnapshot _ \<Rightarrow> ''Snapshot'' | MrEmpty \<Rightarrow> ''Empty'' | MrGetMachineHandles _ \<Rightarrow> ''GetMachineHandles'')"

definition no_part :: error where
  "no_part = WorkerNotInitialized ''Partition not available''"

text \<open>
  \<open>SetVars\<close>: the pairs in order.  Only entities in memory are written; a pair whose entity is not
  there is passed over, and a pair whose variable is not stored ends the request, with the
  pairs before it written.
\<close>

fun set_vars :: "(address \<times> var) list \<Rightarrow> 'a partition \<Rightarrow> 'a partition \<times> unit core_result" where
  "set_vars [] p = (p, Ok ())"
| "set_vars ((addr, v) # pairs) p =
    (case map_of (pt_entities p) (a_entity addr) of
       None \<Rightarrow> set_vars pairs p
     | Some e \<Rightarrow>
         (case storage_set_from_var (e_storage e) (to_local addr) v of
            Ok st \<Rightarrow> set_vars pairs
              (p\<lparr> pt_entities := kv_insert (a_entity addr) (e\<lparr> e_storage := st \<rparr>) (pt_entities p) \<rparr>)
          | Err err \<Rightarrow> (p, Err err)
          | Panic \<Rightarrow> (p, Panic)))"

definition get_var :: "32 word \<Rightarrow> address \<Rightarrow> 'a partition \<Rightarrow> 'a partition \<times> var core_result" where
  "get_var now addr p =
    (case get_entity now (a_entity addr) p of
       (p', Ok e) \<Rightarrow> (p', storage_get_var (e_storage e) (address_storage_index addr))
     | (p', Err _) \<Rightarrow> (p', Err (FailedGettingVar addr))
     | (p', Panic) \<Rightarrow> (p', Panic))"

text \<open>The listing joins the archived names; an unreadable archive entry is unwrapped.\<close>

definition get_entities :: "('a, 'b) archive_api \<Rightarrow> 'a partition \<Rightarrow> string list core_result" where
  "get_entities api p =
    (case pt_archive p of
       None \<Rightarrow> Ok (map fst (pt_entities p))
     | Some a \<Rightarrow> map_ok (\<lambda>ks. map fst (pt_entities p) @ ks) (res_map unwrap (arc_keys api a)))"

text \<open>The new partition takes over the broadcast channel of the old one.\<close>

definition initialize_part ::
  "('a, 'b) node_env \<Rightarrow> 'a worker_state \<Rightarrow> 'a worker_state \<times> mgr_resp core_result" where
  "initialize_part env st =
    (case ws_model st of
       None \<Rightarrow> (st, Err (WorkerNotInitialized ''model is not set''))
     | Some m \<Rightarrow>
         (case partition_from_model (ne_load_lib env) (ne_open env (ws_id st)) m
                 (wc_partition (ws_config st)) of
            Ok p \<Rightarrow>
              (let p' = (case ws_part st of Some old \<Rightarrow> p\<lparr> pt_unsynced := pt_unsynced old \<rparr> | None \<Rightarrow> p)
               in (st\<lparr> ws_part := Some p' \<rparr>, Ok MrEmpty))
          | Err e \<Rightarrow> (st, Err e)
          | Panic \<Rightarrow> (st, Panic)))"

definition take_snapshot :: "32 word \<Rightarrow> 'a worker_state \<Rightarrow> snapshot" where
  "take_snapshot now st =
    \<lparr> sn_created_at = now, sn_worker_count = 1, sn_clock = ws_clock st,
      sn_model = (case ws_model st of Some m \<Rightarrow> m | None \<Rightarrow> default_model),
      sn_entities = (case ws_part st of Some p \<Rightarrow> pt_entities p | None \<Rightarrow> []) \<rparr>"

text \<open>
  The messages a shutdown sends, in order, and its result: only the leader's answer matters.
\<close>

datatype shutdown_message =
  ToUnsynced | ToBehavior behavior_target behavior_handle | ToLeader executor "leader_req \<times> caller"

definition shutdown_messages :: "'a worker_state \<Rightarrow> shutdown_message list" where
  "shutdown_messages st =
    (case ws_part st of
       None \<Rightarrow> []
     | Some p \<Rightarrow>
         ToUnsynced # concat (map (\<lambda>(t, hs). map (ToBehavior t) hs) (pt_behaviors p))
         @ (case lv_situation (ws_leader st) of
              LsConnected e \<Rightarrow> [ToLeader e (LDisconnectWorker, CallerParticipant (PWorker (ws_id st)))]
            | _ \<Rightarrow> []))"

definition mgr_shutdown ::
  "(executor \<Rightarrow> leader_req \<times> caller \<Rightarrow> unit core_result) \<Rightarrow> 'a worker_state \<Rightarrow> mgr_resp core_result" where
  "mgr_shutdown leader_reply st =
    (case ws_part st of
       None \<Rightarrow> Err (WorkerNotInitialized ''can't shutdown items on worker part'')
     | Some p \<Rightarrow>
         (case lv_situation (ws_leader st) of
            LsConnected e \<Rightarrow> map_ok (\<lambda>_. MrEmpty)
              (leader_reply e (LDisconnectWorker, CallerParticipant (PWorker (ws_id st))))
          | _ \<Rightarrow> Ok MrEmpty))"

text \<open>A request that acts on the partition, with the error of a missing one.\<close>

definition on_part ::
  "error \<Rightarrow> 'a worker_state \<Rightarrow> ('a partition \<Rightarrow> 'a partition \<times> mgr_resp core_result)
    \<Rightarrow> 'a worker_state \<times> mgr_resp core_result" where
  "on_part e st f =
    (case ws_part st of
       None \<Rightarrow> (st, Err e)
     | Some p \<Rightarrow> (case f p of (p', r) \<Rightarrow> (st\<lparr> ws_part := Some p' \<rparr>, r)))"

definition on_model_part ::
  "'a worker_state \<Rightarrow> (project \<Rightarrow> 'a partition \<Rightarrow> 'a partition \<times> unit core_result)
    \<Rightarrow> 'a worker_state \<times> mgr_resp core_result" where
  "on_model_part st f =
    (case ws_model st of
       None \<Rightarrow> (st, Err (WorkerNotInitialized ''Worker model unavailable''))
     | Some m \<Rightarrow> on_part (WorkerNotInitialized ''Worker part unavailable'') st
         (\<lambda>p. apsnd (map_ok (\<lambda>_. MrEmpty)) (f m p)))"

definition mgr_handle ::
  "('a, 'b) node_env \<Rightarrow> (executor \<Rightarrow> leader_req \<times> caller \<Rightarrow> unit core_result) \<Rightarrow> 32 word \<Rightarrow> uuid
    \<Rightarrow> mgr_req \<Rightarrow> 'a worker_state \<Rightarrow> 'a worker_state \<times> mgr_resp core_result" where
  "mgr_handle env leader_reply now fresh req st =
    (case req of
       MgGetId \<Rightarrow> (st, Ok (MrGetId (ws_id st)))
     | MgGetConfig \<Rightarrow> (st, Ok (MrGetConfig (ws_config st)))
     | MgPullConfig c \<Rightarrow>
         (st\<lparr> ws_part := map_option (\<lambda>p. p\<lparr> pt_config := wc_partition c \<rparr>) (ws_part st),
              ws_config := c \<rparr>, Ok MrEmpty)
     | MgGetLeader \<Rightarrow> (st, Ok (MrGetLeader (ws_leader st)))
     | MgSetLeader l \<Rightarrow> (st\<lparr> ws_leader := l \<rparr>, Ok MrEmpty)
     | MgInsertServer i s \<Rightarrow> (st\<lparr> ws_servers := kv_insert i s (ws_servers st) \<rparr>, Ok MrEmpty)
     | MgGetBlockedWatch \<Rightarrow> (st, Ok (MrGetBlockedWatch (ws_blocked st)))
     | MgSetBlockedWatch b \<Rightarrow> (st\<lparr> ws_blocked := b \<rparr>, Ok MrEmpty)
     | MgGetClockWatch \<Rightarrow> (st, Ok (MrGetClockWatch (ws_clock st)))
     | MgSetClockWatch c \<Rightarrow> (st\<lparr> ws_clock := c \<rparr>, Ok MrEmpty)
     | MgGetServers \<Rightarrow> (st, Ok (MrGetServers (ws_servers st)))
     | MgGetEntity n \<Rightarrow> on_part no_part st (\<lambda>p. case get_entity now n p of
           (p', Ok e) \<Rightarrow> (p', Ok (MrEntity e))
         | (p', Err _) \<Rightarrow> (p', Err (FailedGettingEntityByName n))
         | (p', Panic) \<Rightarrow> (p', Panic))
     | MgGetEntities \<Rightarrow> on_part no_part st (\<lambda>p. (p, map_ok MrEntities (get_entities (ne_api env) p)))
     | MgGetSyncedBehaviorHandles \<Rightarrow>
         on_part no_part st (\<lambda>p. (p, Ok (MrGetSyncedBehaviorHandles (pt_behaviors p))))
     | MgGetUnsyncedBehaviorTx \<Rightarrow> on_part no_part st (\<lambda>p. (p, Ok (MrGetUnsyncedBehaviorTx (pt_unsynced p))))
     | MgGetMachineHandles \<Rightarrow> on_part no_part st (\<lambda>p. (p, Ok (MrGetMachineHandles (pt_machines p))))
     | MgMemorySize \<Rightarrow> on_part (LeaderNotInitialized ''Partition not available'') st (\<lambda>p. (p, Panic))
     | MgGetClock \<Rightarrow> (st, Panic)
     | MgProcessQuery q \<Rightarrow>
         on_part (WorkerNotInitialized ''node not available, was simulation model loaded onto the cluster?'') st
           (\<lambda>p. apsnd (map_ok MrProcessQuery) (process_query (ne_api env) (ne_uesc env) now q p))
     | MgSubscribe ts q ch \<Rightarrow>
         (st\<lparr> ws_subscriptions := ws_subscriptions st
             @ [\<lparr> sb_id = fresh, sb_triggers = ts, sb_query = q, sb_sender = ch \<rparr>] \<rparr>, Ok (MrSubscribe fresh))
     | MgUnsubscribe i \<Rightarrow>
         (st\<lparr> ws_subscriptions := filter (\<lambda>s. sb_id s \<noteq> i) (ws_subscriptions st) \<rparr>, Ok MrEmpty)
     | MgGetSubscriptions \<Rightarrow> (st, Ok (MrSubscriptions (ws_subscriptions st)))
     | MgGetModel \<Rightarrow> (st, map_ok MrModel (ok_or (WorkerNotInitialized ''model is not set'') (ws_model st)))
     | MgSetModel m \<Rightarrow> (st\<lparr> ws_model := Some m \<rparr>, Ok MrEmpty)
     | MgInitialize \<Rightarrow> initialize_part env st
     | MgSpawnMachine \<Rightarrow> (st, Panic)
     | MgShutdown \<Rightarrow> (st, mgr_shutdown leader_reply st)
     | MgAddEntity n e \<Rightarrow> on_model_part st (\<lambda>m. add_entity (ne_api env) (ne_load_lib env) m n e)
     | MgSpawnEntity n prefab \<Rightarrow>
         on_model_part st (\<lambda>m. spawn_entity (ne_api env) (ne_load_lib env) m n prefab [])
     | MgRemoveEntity n \<Rightarrow> on_part (WorkerNotInitialized ''Worker part unavailable'') st
         (\<lambda>p. apsnd (map_ok (\<lambda>_. MrEmpty)) (remove_entity (ne_api env) n p))
     | MgGetOtherWorkers \<Rightarrow> (st, Ok (MrGetOtherWorkers (ws_other_workers st)))
     | MgAddOtherWorker w \<Rightarrow>
         (st\<lparr> ws_other_workers := kv_insert (ow_id w) w (ws_other_workers st) \<rparr>, Ok MrEmpty)
     | MgGetListeners \<Rightarrow> (st, Ok (MrGetListeners (ws_listeners st)))
     | MgSetVars pairs \<Rightarrow>
         (case ws_part st of
            None \<Rightarrow> (st, Ok MrEmpty)
          | Some p \<Rightarrow> (case set_vars pairs p of (p', r) \<Rightarrow> (st\<lparr> ws_part := Some p' \<rparr>, map_ok (\<lambda>_. MrEmpty) r)))
     | MgGetVar addr \<Rightarrow> on_part (WorkerNotInitialized ''part not available'') st
         (\<lambda>p. apsnd (map_ok MrGetVar) (get_var now addr p))
     | MgAddBehavior t h \<Rightarrow> on_part (WorkerNotInitialized ''part not available'') st
         (\<lambda>p. (add_handle t h p, Ok MrEmpty))
     | MgSnapshot \<Rightarrow> (st, Ok (MrSnapshot (take_snapshot now st))))"

text \<open>The chore the manager runs when no request came for a second; a panic in it ends the task too.\<close>

definition mgr_chore :: "('a, 'b) node_env \<Rightarrow> 32 word \<Rightarrow> 'a worker_state \<Rightarrow> 'a worker_state \<times> unit core_result" where
  "mgr_chore env now st =
    (if cf_auto_archive_entities (wc_partition (ws_config st)) then
       (case ws_part st of
          None \<Rightarrow> (st, Ok ())
        | Some p \<Rightarrow> (case archive_entities (ne_api env) now p of
            (p', r) \<Rightarrow> (st\<lparr> ws_part := Some p' \<rparr>, if r = Panic then Panic else Ok ())))
     else (st, Ok ()))"

end
