(* ===== verification/ManagerFacts.thy ===== *)
theory ManagerFacts
  imports WorkerManagers
begin

text \<open>
  What the worker manager guarantees: the invariant of its state over every sequence of requests,
  the variables it serves as a refinement of a map, what initialization keeps and loses, and
  which requests can end its task.
\<close>

section \<open>Invariant\<close>

definition state_wf :: "'a worker_state \<Rightarrow> bool" where
  "state_wf st \<longleftrightarrow>
    (\<forall>p. ws_part st = Some p \<longrightarrow> part_wf p) \<and> kv_wf (ws_servers st) \<and> kv_wf (ws_other_workers st)
    \<and> (\<forall>i w. map_of (ws_other_workers st) i = Some w \<longrightarrow> ow_id w = i)"

lemma contents_keys: "map fst (contents p) = map fst (pt_entities p)"
  by (simp add: contents_def case_prod_beta comp_def)

lemma process_query_wf [wf_intros]:
  assumes "part_wf p" "process_query api uesc now q p = (p', r)"
  shows "part_wf p'"
proof -
  from process_query_frame [OF assms(2)] have c: "contents p' = contents p"
    and f: "p'\<lparr> pt_entities := [] \<rparr> = p\<lparr> pt_entities := [] \<rparr>" by auto
  from f have "pt_behaviors (p'\<lparr> pt_entities := [] \<rparr>) = pt_behaviors (p\<lparr> pt_entities := [] \<rparr>)" by (rule arg_cong)
  then have "pt_behaviors p' = pt_behaviors p" by simp
  with c assms(1) contents_keys [of p] contents_keys [of p'] show ?thesis
    by (simp add: part_wf_def kv_wf_def)
qed

lemma set_vars_wf [wf_intros]: "\<lbrakk> part_wf p; set_vars pairs p = (p', r) \<rbrakk> \<Longrightarrow> part_wf p'"
proof (induction pairs p arbitrary: p' rule: set_vars.induct)
  case (2 addr v pairs p)
  then show ?case
    by (auto simp: part_wf_def kv_wf_insert split: option.splits result.splits)
qed simp

lemma get_var_wf [wf_intros]: "\<lbrakk> part_wf p; get_var now addr p = (p', r) \<rbrakk> \<Longrightarrow> part_wf p'"
  by (auto simp: get_var_def dest: get_entity_wf split: prod.splits result.splits)

lemma add_handle_wf [wf_intros]: "part_wf p \<Longrightarrow> part_wf (add_handle t h p)"
  by (simp add: add_handle_def part_wf_def kv_push_wf)

lemma initialize_part_wf:
  assumes "state_wf st" "initialize_part env st = (st', r)"
  shows "state_wf st'"
  using assms partition_from_model_wf
  by (fastforce simp: initialize_part_def state_wf_def part_wf_def Let_def
      split: option.splits result.splits)

text \<open>A request to the partition keeps the invariant of the state when it keeps the partition's.\<close>

lemma on_part_wf:
  assumes "state_wf st" "on_part e st f = (st', r)"
    and "\<And>p p' r. \<lbrakk> part_wf p; f p = (p', r) \<rbrakk> \<Longrightarrow> part_wf p'"
  shows "state_wf st'"
  using assms by (force simp: on_part_def state_wf_def split: option.splits prod.splits)

lemma on_model_part_wf:
  assumes "state_wf st" "on_model_part st f = (st', r)"
    and "\<And>m p p' r. \<lbrakk> part_wf p; f m p = (p', r) \<rbrakk> \<Longrightarrow> part_wf p'"
  shows "state_wf st'"
proof (cases "ws_model st")
  case (Some m)
  have "part_wf p'" if "part_wf p" "apsnd (map_ok (\<lambda>_. MrEmpty)) (f m p) = (p', r)" for p p' r
    using assms(3) that by (cases "f m p") auto
  with on_part_wf [OF assms(1)] assms(2) Some show ?thesis by (fastforce simp: on_model_part_def)
qed (use assms in \<open>simp add: on_model_part_def\<close>)

lemma apsnd_wf:
  "\<lbrakk> \<And>p' r. g p = (p', r) \<Longrightarrow> part_wf p'; apsnd h (g p) = (p', r) \<rbrakk> \<Longrightarrow> part_wf p'"
  by (cases "g p") auto

lemma mgr_handle_wf:
  assumes "state_wf st" "mgr_handle env lr now fresh req st = (st', r)"
  shows "state_wf st'"
proof (cases req)
  case MgInitialize
  with assms initialize_part_wf show ?thesis by (auto simp: mgr_handle_def)
next
  case (MgProcessQuery q)
  with assms(2) show ?thesis unfolding mgr_handle_def
    by (auto elim!: on_part_wf [OF assms(1)] apsnd_wf [rotated] dest: process_query_wf)
next
  case (MgGetVar addr)
  with assms(2) show ?thesis unfolding mgr_handle_def
    by (auto elim!: on_part_wf [OF assms(1)] apsnd_wf [rotated] dest: get_var_wf)
next
  case (MgRemoveEntity n)
  with assms(2) show ?thesis unfolding mgr_handle_def
    by (auto elim!: on_part_wf [OF assms(1)] apsnd_wf [rotated] dest: remove_entity_wf)
next
  case (MgSpawnEntity n prefab)
  with assms(2) have "on_model_part st (\<lambda>m. spawn_entity (ne_api env) (ne_load_lib env) m n prefab []) = (st', r)"
    by (simp add: mgr_handle_def)
  then show ?thesis by (rule on_model_part_wf [OF assms(1)]) (rule spawn_entity_wf)
next
  case (MgAddEntity n e)
  with assms(2) have "on_model_part st (\<lambda>m. add_entity (ne_api env) (ne_load_lib env) m n e) = (st', r)"
    by (simp add: mgr_handle_def)
  then show ?thesis by (rule on_model_part_wf [OF assms(1)]) (rule add_entity_wf)
next
  case (MgGetEntity n)
  with assms(2) show ?thesis unfolding mgr_handle_def
    by (auto elim!: on_part_wf [OF assms(1)] dest: get_entity_wf split: prod.splits result.splits)
next
  case (MgSetVars pairs)
  with assms show ?thesis
    by (auto simp: mgr_handle_def state_wf_def dest: set_vars_wf split: option.splits prod.splits)
next
  case (MgPullConfig c)
  with assms show ?thesis by (auto simp: mgr_handle_def state_wf_def part_wf_def)
next
  case (MgInsertServer i s)
  with assms show ?thesis by (auto simp: mgr_handle_def state_wf_def kv_wf_insert)
next
  case (MgAddOtherWorker w)
  with assms show ?thesis
    by (auto simp: mgr_handle_def state_wf_def kv_wf_insert kv_simps split: if_splits)
next
  case (MgAddBehavior t h)
  with assms(2) show ?thesis unfolding mgr_handle_def
    by (auto elim!: on_part_wf [OF assms(1)] intro: add_handle_wf)
qed (use assms in \<open>auto simp: mgr_handle_def state_wf_def on_part_def split: option.splits\<close>)

lemma mgr_chore_wf: "\<lbrakk> state_wf st; mgr_chore env now st = (st', r) \<rbrakk> \<Longrightarrow> state_wf st'"
  by (auto simp: mgr_chore_def state_wf_def dest: archive_entities_wf split: option.splits prod.splits if_splits)

text \<open>The states the manager task passes through: it serves requests and runs its chore until one panics.\<close>

inductive mgr_reachable :: "('a, 'b) node_env \<Rightarrow> 'a worker_state \<Rightarrow> bool" for env where
  mgr_start: "worker_spawn env fresh config = Ok st \<Longrightarrow> mgr_reachable env st"
| mgr_request: "\<lbrakk> mgr_reachable env st; mgr_handle env lr now fresh req st = (st', r); r \<noteq> Panic \<rbrakk>
    \<Longrightarrow> mgr_reachable env st'"
| mgr_idle: "\<lbrakk> mgr_reachable env st; mgr_chore env now st = (st', Ok ()) \<rbrakk> \<Longrightarrow> mgr_reachable env st'"


section \<open>The variables of a worker as a map\<close>

type_synonym var_key = "string \<times> storage_index"

definition key_of :: "address \<Rightarrow> var_key" where
  "key_of a = (a_entity a, address_storage_index a)"

text \<open>The abstraction: which entities are in memory, and the value stored at each variable of theirs.\<close>

definition part_knows :: "'a partition \<Rightarrow> string \<Rightarrow> bool" where
  "part_knows p n \<longleftrightarrow> map_of (pt_entities p) n \<noteq> None"

definition in_memory :: "'a worker_state \<Rightarrow> string \<Rightarrow> bool" where
  "in_memory st n \<longleftrightarrow> (case ws_part st of None \<Rightarrow> False | Some p \<Rightarrow> part_knows p n)"

definition part_vars :: "'a partition \<Rightarrow> var_key \<Rightarrow> var option" where
  "part_vars p k = Option.bind (stored p (fst k)) (\<lambda>st. map_of st (snd k))"

definition worker_vars :: "'a worker_state \<Rightarrow> var_key \<Rightarrow> var option" where
  "worker_vars st k = Option.bind (ws_part st) (\<lambda>p. part_vars p k)"

text \<open>
  The specification of a batch of writes on the abstract state: unknown entities are passed over,
  an unknown variable of a known entity ends the batch.
\<close>

fun spec_set_vars ::
  "(string \<Rightarrow> bool) \<Rightarrow> (address \<times> var) list \<Rightarrow> (var_key \<Rightarrow> var option) \<Rightarrow> (var_key \<Rightarrow> var option) \<times> bool" where
  "spec_set_vars known [] m = (m, True)"
| "spec_set_vars known ((a, v) # pairs) m =
    (if \<not> known (a_entity a) then spec_set_vars known pairs m
     else if m (key_of a) = None then (m, False)
     else spec_set_vars known pairs (m(key_of a \<mapsto> v)))"

lemma set_vars_spec:
  "set_vars pairs p = (p', r) \<Longrightarrow>
    (part_vars p', r = Ok ()) = spec_set_vars (part_knows p) pairs (part_vars p)
    \<and> r \<noteq> Panic \<and> part_knows p' = part_knows p"
proof (induction pairs arbitrary: p)
  case (Cons av pairs)
  obtain a v where av: "av = (a, v)" by (cases av)
  show ?case
  proof (cases "map_of (pt_entities p) (a_entity a)")
    case None
    with Cons av show ?thesis by (simp add: part_knows_def [of p "a_entity a"])
  next
    case (Some e)
    let ?i = "address_storage_index a"
    have k: "part_knows p (a_entity a)" using Some by (simp add: part_knows_def)
    have m: "part_vars p (key_of a) = map_of (e_storage e) ?i"
      using Some by (simp add: part_vars_def stored_def key_of_def)
    show ?thesis
    proof (cases "map_of (e_storage e) ?i")
      case None
      with Cons.prems av Some k m show ?thesis
        by (auto simp: storage_set_from_var_def storage_get_var_mut_def to_local_def address_storage_index_def)
    next
      case st: (Some w)
      let ?p = "p\<lparr> pt_entities := kv_insert (a_entity a)
          (e\<lparr> e_storage := kv_insert ?i v (e_storage e) \<rparr>) (pt_entities p) \<rparr>"
      from Cons.prems av Some st have s: "set_vars pairs ?p = (p', r)"
        by (simp add: storage_set_from_var_def storage_get_var_mut_def to_local_def address_storage_index_def)
      have v: "part_vars ?p = (part_vars p)(key_of a \<mapsto> v)"
        using Some by (intro ext) (auto simp: part_vars_def stored_def key_of_def kv_simps)
      have d: "part_knows ?p = part_knows p"
        using Some by (intro ext) (simp add: part_knows_def kv_simps)
      have "spec_set_vars (part_knows p) ((a, v) # pairs) (part_vars p)
          = spec_set_vars (part_knows p) pairs ((part_vars p)(key_of a \<mapsto> v))"
        using k m st by simp
      with Cons.IH [OF s, unfolded v d] show ?thesis by (simp only: av simp_thms)
    qed
  qed
qed auto

lemma get_var_spec:
  assumes "get_var now a p = (p', r)"
  shows "r = (if part_knows p (a_entity a)
      then (case part_vars p (key_of a) of Some v \<Rightarrow> Ok v
          | None \<Rightarrow> Err (FailedGettingVarFromEntityStorage (address_storage_index a)))
      else Err (FailedGettingVar a))
    \<and> part_vars p' = part_vars p \<and> part_knows p' = part_knows p"
proof (cases "map_of (pt_entities p) (a_entity a)")
  case None
  with assms show ?thesis by (auto simp: get_var_def get_entity_def part_knows_def)
next
  case (Some e)
  with assms have p': "p' = p\<lparr> pt_entities := kv_insert (a_entity a) (touch now e) (pt_entities p) \<rparr>"
    and r: "r = storage_get_var (e_storage e) (address_storage_index a)"
    by (auto simp: get_var_def get_entity_def touch_def)
  have "part_vars p' = part_vars p" "part_knows p' = part_knows p"
    using Some by (intro ext, auto simp: p' part_vars_def part_knows_def stored_def touch_def kv_simps)+
  moreover have "part_vars p (key_of a) = map_of (e_storage e) (address_storage_index a)"
    using Some by (simp add: part_vars_def stored_def key_of_def)
  moreover have "part_knows p (a_entity a)" using Some by (simp add: part_knows_def)
  ultimately show ?thesis using r by (simp add: storage_get_var_def ok_or_def split: option.split)
qed

text \<open>
  The interface a script, a query client or another worker relies on: a service that answers
  requests and represents a map of variables, with the laws of reading and writing.
\<close>

locale var_service =
  fixes serve :: "mgr_req \<Rightarrow> 's \<Rightarrow> 's \<times> mgr_resp core_result"
    and vars :: "'s \<Rightarrow> var_key \<Rightarrow> var option"
    and known :: "'s \<Rightarrow> string \<Rightarrow> bool"
  assumes known_vars: "vars s k \<noteq> None \<Longrightarrow> known s (fst k)"
    and serve_set: "serve (MgSetVars pairs) s = (s', r) \<Longrightarrow>
      (vars s', r = Ok MrEmpty) = spec_set_vars (known s) pairs (vars s) \<and> known s' = known s"
    and serve_get: "serve (MgGetVar a) s = (s', r) \<Longrightarrow>
      vars s' = vars s \<and> known s' = known s \<and> (\<forall>v. r = Ok (MrGetVar v) \<longleftrightarrow> vars s (key_of a) = Some v)"
begin

lemma set_stored:
  assumes "vars s (key_of a) = Some w" "serve (MgSetVars [(a, v)]) s = (s', r)"
  shows "r = Ok MrEmpty \<and> vars s' = (vars s)(key_of a \<mapsto> v) \<and> known s' = known s"
proof -
  have "known s (a_entity a)" using known_vars [of s "key_of a"] assms(1) by (simp add: key_of_def)
  with serve_set [OF assms(2)] assms(1) show ?thesis by auto
qed

lemma set_get:
  assumes "vars s (key_of a) = Some w" "serve (MgSetVars [(a, v)]) s = (s', r)"
    "serve (MgGetVar b) s' = (s'', r')"
  shows "r' = Ok (MrGetVar u) \<longleftrightarrow> (if key_of b = key_of a then u = v else vars s (key_of b) = Some u)"
  using set_stored [OF assms(1,2)] serve_get [OF assms(3)] by auto

lemma unknown_set:
  assumes "\<not> known s (a_entity a)" "serve (MgSetVars [(a, v)]) s = (s', r)"
  shows "r = Ok MrEmpty \<and> vars s' = vars s"
  using serve_set [OF assms(2)] assms(1) by auto

end

lemma worker_vars_part: "ws_part st = Some p \<Longrightarrow> worker_vars st = part_vars p"
  by (rule ext) (simp add: worker_vars_def)

lemma in_memory_part: "ws_part st = Some p \<Longrightarrow> in_memory st = part_knows p"
  by (rule ext) (simp add: in_memory_def)

lemma worker_vars_update [simp]: "worker_vars (st\<lparr> ws_part := Some p \<rparr>) = part_vars p"
  by (rule worker_vars_part) simp

lemma in_memory_update [simp]: "in_memory (st\<lparr> ws_part := Some p \<rparr>) = part_knows p"
  by (rule in_memory_part) simp

lemma spec_set_vars_none: "(\<And>n. \<not> known n) \<Longrightarrow> spec_set_vars known pairs m = (m, True)"
  by (induction known pairs m rule: spec_set_vars.induct) auto

lemma mgr_set_vars:
  assumes "mgr_handle env lr now fresh (MgSetVars pairs) st = (st', r)"
  shows "(worker_vars st', r = Ok MrEmpty) = spec_set_vars (in_memory st) pairs (worker_vars st)
    \<and> in_memory st' = in_memory st"
proof (cases "ws_part st")
  case None
  then have "\<not> in_memory st n" for n by (simp add: in_memory_def)
  with assms None show ?thesis by (simp add: mgr_handle_def spec_set_vars_none)
next
  case (Some p)
  obtain p' q where s: "set_vars pairs p = (p', q)" by fastforce
  with assms Some have st': "st' = st\<lparr> ws_part := Some p' \<rparr>" "r = map_ok (\<lambda>_. MrEmpty) q"
    by (auto simp: mgr_handle_def)
  have "r = Ok MrEmpty \<longleftrightarrow> q = Ok ()" by (auto simp: st')
  with set_vars_spec [OF s] show ?thesis
    by (simp add: worker_vars_part [OF Some] in_memory_part [OF Some] st'(1))
qed

lemma mgr_get_var:
  assumes "mgr_handle env lr now fresh (MgGetVar a) st = (st', r)"
  shows "worker_vars st' = worker_vars st \<and> in_memory st' = in_memory st
    \<and> r = (case ws_part st of None \<Rightarrow> Err (WorkerNotInitialized ''part not available'')
        | Some p \<Rightarrow> if in_memory st (a_entity a) then
              (case worker_vars st (key_of a) of Some v \<Rightarrow> Ok (MrGetVar v)
              | None \<Rightarrow> Err (FailedGettingVarFromEntityStorage (address_storage_index a)))
            else Err (FailedGettingVar a))"
proof (cases "ws_part st")
  case None
  with assms show ?thesis by (simp add: mgr_handle_def on_part_def)
next
  case (Some p)
  obtain p' q where g: "get_var now a p = (p', q)" by fastforce
  with assms Some have "st' = st\<lparr> ws_part := Some p' \<rparr>" "r = map_ok MrGetVar q"
    by (auto simp: mgr_handle_def on_part_def)
  with get_var_spec [OF g] Some show ?thesis
    by (simp add: worker_vars_part [OF Some] in_memory_part [OF Some] split: option.split)
qed

lemma worker_vars_known: "worker_vars st k \<noteq> None \<Longrightarrow> in_memory st (fst k) \<and> ws_part st \<noteq> None"
  by (auto simp: worker_vars_def in_memory_def part_vars_def part_knows_def stored_def
      split: option.splits bind_splits)

interpretation manager_vars: var_service "mgr_handle env lr now fresh" worker_vars in_memory
  for env lr now fresh
proof unfold_locales
  fix st k
  show "worker_vars st k \<noteq> None \<Longrightarrow> in_memory st (fst k)" using worker_vars_known by blast
next
  fix pairs st st' r
  show "mgr_handle env lr now fresh (MgSetVars pairs) st = (st', r) \<Longrightarrow>
      (worker_vars st', r = Ok MrEmpty) = spec_set_vars (in_memory st) pairs (worker_vars st)
      \<and> in_memory st' = in_memory st" by (rule mgr_set_vars)
next
  fix a st st' r
  assume g: "mgr_handle env lr now fresh (MgGetVar a) st = (st', r)"
  show "worker_vars st' = worker_vars st \<and> in_memory st' = in_memory st
      \<and> (\<forall>v. r = Ok (MrGetVar v) \<longleftrightarrow> worker_vars st (key_of a) = Some v)"
  proof (cases "worker_vars st (key_of a)")
    case None
    with mgr_get_var [OF g] show ?thesis by (auto split: option.splits)
  next
    case (Some v)
    with worker_vars_known [of st "key_of a"] mgr_get_var [OF g] show ?thesis
      by (auto simp: key_of_def)
  qed
qed

text \<open>C4: through the manager the variables of the entities in memory behave as a map from entity,
  component and name to values.  A batch of writes has exactly the effect of the specified batch
  on that map and succeeds exactly when it does: unknown entities are passed over, an unknown
  variable of a known entity ends the batch with the writes before it kept.  A read returns the
  value of the map, fails where the map has none, and changes neither the map nor which entities
  are in memory.\<close>

theorem vars_refine:
  "(case mgr_handle env lr now fresh (MgSetVars pairs) st of
      (st', r) \<Rightarrow> (worker_vars st', r = Ok MrEmpty) = spec_set_vars (in_memory st) pairs (worker_vars st)
                \<and> in_memory st' = in_memory st)
   \<and> (case mgr_handle env lr now fresh (MgGetVar a) st of
      (st', r) \<Rightarrow> worker_vars st' = worker_vars st \<and> in_memory st' = in_memory st
                \<and> (\<forall>v. r = Ok (MrGetVar v) \<longleftrightarrow> worker_vars st (key_of a) = Some v))"
  by (intro conjI; split prod.split; intro allI impI)
    (blast dest: manager_vars.serve_set, blast dest: manager_vars.serve_get)

text \<open>After a stored variable was written, reading any variable gives the written value when the
  entity, component and name agree, whatever type the two addresses state, and the value from
  before otherwise; writing to an entity that is not in memory is acknowledged and does nothing.\<close>

lemma set_get_var:
  assumes "mgr_handle env lr now fresh (MgSetVars [(a, v)]) st = (st', r)"
    and "mgr_handle env lr now' fresh' (MgGetVar b) st' = (st'', r')"
  shows "(worker_vars st (key_of a) \<noteq> None \<longrightarrow>
      (r' = Ok (MrGetVar u) \<longleftrightarrow> (if key_of b = key_of a then u = v else worker_vars st (key_of b) = Some u)))
    \<and> (\<not> in_memory st (a_entity a) \<longrightarrow> r = Ok MrEmpty \<and> worker_vars st' = worker_vars st)"
proof -
  have "worker_vars st' = worker_vars st \<and> r = Ok MrEmpty" if "\<not> in_memory st (a_entity a)"
    using manager_vars.unknown_set [OF that assms(1)] by blast
  moreover have "r' = Ok (MrGetVar u) \<longleftrightarrow> (if key_of b = key_of a then u = v else worker_vars st (key_of b) = Some u)"
    if "worker_vars st (key_of a) = Some w" for w
    using manager_vars.set_stored [OF that assms(1)] manager_vars.serve_get [OF assms(2)] by auto
  ultimately show ?thesis by blast
qed

section \<open>A sample worker\<close>

definition list_env :: "((string, entity) kv, entity) node_env" where
  "list_env =
    \<lparr> ne_api = list_archive, ne_uesc = (\<lambda>_. False), ne_load_lib = (\<lambda>_ _. Ok ''lib''),
      ne_open = (\<lambda>_ _. Ok []) \<rparr>"

definition sample_entity :: entity where
  "sample_entity = empty_entity\<lparr> e_components := [''pos''], e_storage := [((''pos'', ''x''), VInt 1)] \<rparr>"

definition sample_worker :: "(string, entity) kv worker_state" where
  "sample_worker =
    \<lparr> ws_id = 5, ws_config = default_worker_config, ws_listeners = [], ws_model = Some default_model,
      ws_part = Some (sample_partition (Some [])\<lparr> pt_entities := [(''e'', sample_entity)] \<rparr>),
      ws_leader = default_leader_view, ws_servers = [], ws_other_workers = [], ws_blocked = False,
      ws_clock = 0, ws_subscriptions = [], ws_recent_signals = [] \<rparr>"

definition sample_addr :: address where
  "sample_addr = \<lparr> a_entity = ''e'', a_comp = ''pos'', a_type = TInt, a_var = ''x'' \<rparr>"


section \<open>Initialization and snapshots\<close>

text \<open>Initializing a worker with its model gives it a partition without entities, configured as
  the worker is, with the handles of the model's per-worker behaviors; an existing partition
  hands over its event channel, so the unsynced behaviors that hear an event afterwards are those
  of the old partition and none of those just spawned from the model.\<close>

lemma initialize_spec:
  assumes "mgr_handle env lr now fresh MgInitialize st = (st', Ok r)"
  shows "\<exists>m p q. ws_model st = Some m \<and> ws_part st' = Some p
    \<and> partition_from_model (ne_load_lib env) (ne_open env (ws_id st)) m (wc_partition (ws_config st)) = Ok q
    \<and> p\<lparr> pt_unsynced := pt_unsynced q \<rparr> = q
    \<and> pt_entities p = [] \<and> pt_config p = wc_partition (ws_config st)
    \<and> pt_unsynced p = (case ws_part st of Some old \<Rightarrow> pt_unsynced old | None \<Rightarrow> pt_unsynced q)
    \<and> st'\<lparr> ws_part := ws_part st \<rparr> = st"
proof -
  from assms have i: "initialize_part env st = (st', Ok r)" by (simp add: mgr_handle_def)
  then obtain m where m: "ws_model st = Some m" by (auto simp: initialize_part_def split: option.splits)
  with i obtain q where q: "partition_from_model (ne_load_lib env) (ne_open env (ws_id st)) m
      (wc_partition (ws_config st)) = Ok q" by (auto simp: initialize_part_def split: result.splits)
  from partition_from_model_wf [OF q] i m q show ?thesis
    by (cases "ws_part st") (auto simp: initialize_part_def)
qed

definition unsynced_model :: project where
  "unsynced_model = default_model\<lparr> md_behaviors :=
    [\<lparr> bh_name = ''b'', bh_triggers = [''step''], bh_targets = [PerWorker], bh_tracing = [],
       bh_inner = BLua False [] \<rparr>] \<rparr>"

text \<open>A snapshot of a worker changes nothing and holds its clock, its model (the default one
  when it has none) and exactly the entities in memory; an archived entity is listed by the
  worker and missing from the snapshot.\<close>

lemma snapshot_spec:
  "\<exists>sn. mgr_handle env lr now fresh MgSnapshot st = (st, Ok (MrSnapshot sn))
     \<and> sn_clock sn = ws_clock st
     \<and> sn_model sn = (case ws_model st of Some m \<Rightarrow> m | None \<Rightarrow> default_model)
     \<and> (map_of (sn_entities sn) n \<noteq> None \<longleftrightarrow> in_memory st n)"
  by (cases "ws_part st")
    (auto simp: mgr_handle_def take_snapshot_def in_memory_def part_knows_def)

text \<open>The listing, in contrast, joins the archived names.\<close>

lemma get_entities_all:
  assumes "ws_part st = Some p" "pt_archive p = Some a" "arc_keys (ne_api env) a = map Ok ks"
  shows "\<exists>ns. mgr_handle env lr now fresh MgGetEntities st = (st, Ok (MrEntities ns))
     \<and> set ns = {n. in_memory st n} \<union> set ks"
proof -
  have u: "res_map unwrap (map Ok ks) = (Ok ks :: string list core_result)" by (induction ks) auto
  have "st\<lparr> ws_part := Some p \<rparr> = st" using assms(1) by (cases st) simp
  moreover have "fst ` set (pt_entities p) = {n. in_memory st n}"
    using assms(1) by (auto simp: in_memory_def part_knows_def map_of_eq_None_iff)
  ultimately show ?thesis using assms
    by (simp add: mgr_handle_def on_part_def get_entities_def u)
qed

section \<open>Requests that end the manager\<close>

text \<open>The requests whose handling reaches code that can panic.\<close>

fun may_panic :: "mgr_req \<Rightarrow> bool" where
  "may_panic MgGetClock = True"
| "may_panic MgSpawnMachine = True"
| "may_panic MgMemorySize = True"
| "may_panic (MgProcessQuery _) = True"
| "may_panic MgGetEntities = True"
| "may_panic MgInitialize = True"
| "may_panic MgShutdown = True"
| "may_panic (MgSpawnEntity _ _) = True"
| "may_panic (MgAddEntity _ _) = True"
| "may_panic (MgRemoveEntity _) = True"
| "may_panic _ = False"

lemma build_product_unsupported:
  "l \<noteq> LVar \<Longrightarrow> build_product uesc DEntity l data = Panic"
  by (cases l) (simp_all add: build_product_def)

text \<open>Reads and writes of variables, entities' listing in memory, views, clocks, models,
  subscriptions, behaviors and snapshots never end the manager.  Asking an initialized worker for
  its memory size always does, and so does any query that selects its entities without failing
  and asks for a layout its description does not support.\<close>

lemma manager_panics:
  "(\<not> may_panic req \<longrightarrow> snd (mgr_handle env lr now fresh req st) \<noteq> Panic)
   \<and> (ws_part st \<noteq> None \<longrightarrow> snd (mgr_handle env lr now fresh MgMemorySize st) = Panic)
   \<and> (\<forall>p q sel arch. ws_part st = Some p \<longrightarrow> select_entities (ne_api env) (ne_uesc env) q p = Ok (sel, arch)
        \<longrightarrow> q_mappings q = [] \<longrightarrow> q_description q = DEntity \<longrightarrow> q_layout q \<noteq> LVar
        \<longrightarrow> snd (mgr_handle env lr now fresh (MgProcessQuery q) st) = Panic)"
proof (intro conjI)
  show "\<not> may_panic req \<longrightarrow> snd (mgr_handle env lr now fresh req st) \<noteq> Panic"
  proof (cases req)
    case (MgSetVars pairs)
    then show ?thesis
      by (auto simp: mgr_handle_def dest: set_vars_spec split: option.split prod.split)
        (metis map_ok.simps result.exhaust result.distinct(3,5) set_vars_spec)
  next
    case (MgGetVar a)
    with mgr_get_var [of env lr now fresh a st] show ?thesis
      by (cases "mgr_handle env lr now fresh (MgGetVar a) st") (auto split: option.split)
  next
    case (MgGetEntity n)
    then show ?thesis
      by (auto simp: mgr_handle_def on_part_def get_entity_def no_part_def split: option.split)
  qed (auto simp: mgr_handle_def on_part_def split: option.split, cases "ws_model st", auto)
next
  show "ws_part st \<noteq> None \<longrightarrow> snd (mgr_handle env lr now fresh MgMemorySize st) = Panic"
    by (auto simp: mgr_handle_def on_part_def)
next
  show "\<forall>p q sel arch. ws_part st = Some p \<longrightarrow> select_entities (ne_api env) (ne_uesc env) q p = Ok (sel, arch)
        \<longrightarrow> q_mappings q = [] \<longrightarrow> q_description q = DEntity \<longrightarrow> q_layout q \<noteq> LVar
        \<longrightarrow> snd (mgr_handle env lr now fresh (MgProcessQuery q) st) = Panic"
    by (auto simp: mgr_handle_def on_part_def process_query_def build_product_unsupported)
qed

end
