(* ===== verification/ManagerCalls.thy ===== *)
theory ManagerCalls
  imports ManagerFacts
begin

text \<open>
  The typed calls to the worker manager (\<open>ManagerExec\<close> of
  src/bigworlds/src/worker/manager.rs).  \<open>mgr\<close> sends a request to the manager task and awaits
  its reply; a response of another kind than the call expects is an error.
\<close>

type_synonym 'w manager = "mgr_req \<Rightarrow> ('w, mgr_resp) act"

definition expect_resp :: "(mgr_resp \<Rightarrow> 'x option) \<Rightarrow> ('w, mgr_resp) act \<Rightarrow> ('w, 'x) act" where
  "expect_resp sel m = act_bind m (\<lambda>r. act_of (ok_or (UnexpectedResponse (mgr_resp_name r)) (sel r)))"

definition expect_empty :: "('w, mgr_resp) act \<Rightarrow> ('w, unit) act" where
  "expect_empty m = expect_resp (\<lambda>r. case r of MrEmpty \<Rightarrow> Some () | _ \<Rightarrow> None) m"

definition get_id :: "'w manager \<Rightarrow> ('w, uuid) act" where
  "get_id mgr =
    expect_resp (\<lambda>r. case r of MrGetId x \<Rightarrow> Some x | _ \<Rightarrow> None) (mgr MgGetId)"

definition get_config :: "'w manager \<Rightarrow> ('w, worker_config) act" where
  "get_config mgr =
    expect_resp (\<lambda>r. case r of MrGetConfig x \<Rightarrow> Some x | _ \<Rightarrow> None) (mgr MgGetConfig)"

definition pull_config :: "'w manager \<Rightarrow> worker_config \<Rightarrow> ('w, unit) act" where
  "pull_config mgr c = expect_empty (mgr (MgPullConfig c))"

definition mgr_process_query :: "'w manager \<Rightarrow> query \<Rightarrow> ('w, query_product) act" where
  "mgr_process_query mgr q =
    expect_resp (\<lambda>r. case r of MrProcessQuery x \<Rightarrow> Some x | _ \<Rightarrow> None) (mgr (MgProcessQuery q))"

definition mgr_subscribe :: "'w manager \<Rightarrow> query_trigger list \<Rightarrow> query \<Rightarrow> nat \<Rightarrow> ('w, uuid) act" where
  "mgr_subscribe mgr ts q ch =
    expect_resp (\<lambda>r. case r of MrSubscribe x \<Rightarrow> Some x | _ \<Rightarrow> None) (mgr (MgSubscribe ts q ch))"

definition mgr_unsubscribe :: "'w manager \<Rightarrow> uuid \<Rightarrow> ('w, unit) act" where
  "mgr_unsubscribe mgr i = expect_empty (mgr (MgUnsubscribe i))"

definition get_leader :: "'w manager \<Rightarrow> ('w, leader_view) act" where
  "get_leader mgr =
    expect_resp (\<lambda>r. case r of MrGetLeader x \<Rightarrow> Some x | _ \<Rightarrow> None) (mgr MgGetLeader)"

definition set_leader :: "'w manager \<Rightarrow> leader_view \<Rightarrow> ('w, unit) act" where
  "set_leader mgr l = expect_empty (mgr (MgSetLeader l))"

definition get_other_workers :: "'w manager \<Rightarrow> ('w, (uuid, other_worker) kv) act" where
  "get_other_workers mgr =
    expect_resp (\<lambda>r. case r of MrGetOtherWorkers x \<Rightarrow> Some x | _ \<Rightarrow> None) (mgr MgGetOtherWorkers)"

definition add_other_worker :: "'w manager \<Rightarrow> other_worker \<Rightarrow> ('w, unit) act" where
  "add_other_worker mgr w = expect_empty (mgr (MgAddOtherWorker w))"

definition get_listeners :: "'w manager \<Rightarrow> ('w, listener list) act" where
  "get_listeners mgr =
    expect_resp (\<lambda>r. case r of MrGetListeners x \<Rightarrow> Some x | _ \<Rightarrow> None) (mgr MgGetListeners)"

definition get_model :: "'w manager \<Rightarrow> ('w, project) act" where
  "get_model mgr =
    expect_resp (\<lambda>r. case r of MrModel x \<Rightarrow> Some x | _ \<Rightarrow> None) (mgr MgGetModel)"

definition set_model :: "'w manager \<Rightarrow> project \<Rightarrow> ('w, unit) act" where
  "set_model mgr m = expect_empty (mgr (MgSetModel m))"

definition memory_size :: "'w manager \<Rightarrow> ('w, 64 word) act" where
  "memory_size mgr =
    expect_resp (\<lambda>r. case r of MrMemorySize x \<Rightarrow> Some x | _ \<Rightarrow> None) (mgr MgMemorySize)"

definition get_blocked_watch :: "'w manager \<Rightarrow> ('w, bool) act" where
  "get_blocked_watch mgr =
    expect_resp (\<lambda>r. case r of MrGetBlockedWatch x \<Rightarrow> Some x | _ \<Rightarrow> None) (mgr MgGetBlockedWatch)"

definition set_blocked_watch :: "'w manager \<Rightarrow> bool \<Rightarrow> ('w, unit) act" where
  "set_blocked_watch mgr b = expect_empty (mgr (MgSetBlockedWatch b))"

definition get_clock_watch :: "'w manager \<Rightarrow> ('w, 64 word) act" where
  "get_clock_watch mgr =
    expect_resp (\<lambda>r. case r of MrGetClockWatch x \<Rightarrow> Some x | _ \<Rightarrow> None) (mgr MgGetClockWatch)"

definition set_clock_watch :: "'w manager \<Rightarrow> 64 word \<Rightarrow> ('w, unit) act" where
  "set_clock_watch mgr c = expect_empty (mgr (MgSetClockWatch c))"

definition get_servers :: "'w manager \<Rightarrow> ('w, (uuid, server_view) kv) act" where
  "get_servers mgr =
    expect_resp (\<lambda>r. case r of MrGetServers x \<Rightarrow> Some x | _ \<Rightarrow> None) (mgr MgGetServers)"

definition insert_server :: "'w manager \<Rightarrow> uuid \<Rightarrow> server_view \<Rightarrow> ('w, unit) act" where
  "insert_server mgr i s = expect_empty (mgr (MgInsertServer i s))"

definition initialize_worker :: "'w manager \<Rightarrow> ('w, unit) act" where
  "initialize_worker mgr = expect_empty (mgr MgInitialize)"

definition get_synced_behavior_handles :: "'w manager \<Rightarrow> ('w, (behavior_target, behavior_handle list) kv) act" where
  "get_synced_behavior_handles mgr =
    expect_resp (\<lambda>r. case r of MrGetSyncedBehaviorHandles x \<Rightarrow> Some x | _ \<Rightarrow> None) (mgr MgGetSyncedBehaviorHandles)"

definition get_unsynced_behavior_tx :: "'w manager \<Rightarrow> ('w, string list list) act" where
  "get_unsynced_behavior_tx mgr =
    expect_resp (\<lambda>r. case r of MrGetUnsyncedBehaviorTx x \<Rightarrow> Some x | _ \<Rightarrow> None) (mgr MgGetUnsyncedBehaviorTx)"

definition get_machine_handles :: "'w manager \<Rightarrow> ('w, behavior_handle list) act" where
  "get_machine_handles mgr =
    expect_resp (\<lambda>r. case r of MrGetMachineHandles x \<Rightarrow> Some x | _ \<Rightarrow> None) (mgr MgGetMachineHandles)"

definition get_entity_from :: "'w manager \<Rightarrow> string \<Rightarrow> ('w, entity) act" where
  "get_entity_from mgr n =
    expect_resp (\<lambda>r. case r of MrEntity x \<Rightarrow> Some x | _ \<Rightarrow> None) (mgr (MgGetEntity n))"

definition list_entities :: "'w manager \<Rightarrow> ('w, string list) act" where
  "list_entities mgr =
    expect_resp (\<lambda>r. case r of MrEntities x \<Rightarrow> Some x | _ \<Rightarrow> None) (mgr MgGetEntities)"

definition get_subscriptions :: "'w manager \<Rightarrow> ('w, subscription list) act" where
  "get_subscriptions mgr =
    expect_resp (\<lambda>r. case r of MrSubscriptions x \<Rightarrow> Some x | _ \<Rightarrow> None) (mgr MgGetSubscriptions)"

definition mgr_get_var_of :: "'w manager \<Rightarrow> address \<Rightarrow> ('w, var) act" where
  "mgr_get_var_of mgr a =
    expect_resp (\<lambda>r. case r of MrGetVar x \<Rightarrow> Some x | _ \<Rightarrow> None) (mgr (MgGetVar a))"

definition mgr_snapshot :: "'w manager \<Rightarrow> ('w, snapshot) act" where
  "mgr_snapshot mgr =
    expect_resp (\<lambda>r. case r of MrSnapshot x \<Rightarrow> Some x | _ \<Rightarrow> None) (mgr MgSnapshot)"

definition set_vars_of :: "'w manager \<Rightarrow> (address \<times> var) list \<Rightarrow> ('w, unit) act" where
  "set_vars_of mgr pairs = act_bind (mgr (MgSetVars pairs)) (\<lambda>_. act_ret ())"

definition mgr_spawn_entity :: "'w manager \<Rightarrow> string \<Rightarrow> string option \<Rightarrow> ('w, unit) act" where
  "mgr_spawn_entity mgr n prefab = act_bind (mgr (MgSpawnEntity n prefab)) (\<lambda>_. act_ret ())"

definition mgr_remove_entity :: "'w manager \<Rightarrow> string \<Rightarrow> ('w, unit) act" where
  "mgr_remove_entity mgr n = act_bind (mgr (MgRemoveEntity n)) (\<lambda>_. act_ret ())"

definition mgr_add_entity :: "'w manager \<Rightarrow> string \<Rightarrow> entity \<Rightarrow> ('w, unit) act" where
  "mgr_add_entity mgr n e = act_bind (mgr (MgAddEntity n e)) (\<lambda>_. act_ret ())"

definition mgr_add_behavior :: "'w manager \<Rightarrow> behavior_target \<Rightarrow> behavior_handle \<Rightarrow> ('w, unit) act" where
  "mgr_add_behavior mgr t h = act_bind (mgr (MgAddBehavior t h)) (\<lambda>_. act_ret ())"

definition mgr_stop :: "'w manager \<Rightarrow> ('w, unit) act" where
  "mgr_stop mgr = act_bind (mgr MgShutdown) (\<lambda>_. act_ret ())"

text \<open>A manager call that gets the response it expects.\<close>

lemma expect_resp_Ok [act_simps]:
  "\<lbrakk> m w = (w', Ok r); sel r = Some x \<rbrakk> \<Longrightarrow> expect_resp sel m w = (w', Ok x)"
  by (simp add: expect_resp_def act_simps)

lemma expect_resp_Err [act_simps]: "m w = (w', Err e) \<Longrightarrow> expect_resp sel m w = (w', Err e)"
  by (simp add: expect_resp_def act_simps)

lemma expect_empty_Ok [act_simps]: "m w = (w', Ok MrEmpty) \<Longrightarrow> expect_empty m w = (w', Ok ())"
  by (simp add: expect_empty_def act_simps)

lemma expect_empty_Err [act_simps]: "m w = (w', Err e) \<Longrightarrow> expect_empty m w = (w', Err e)"
  by (simp add: expect_empty_def act_simps)

lemmas mgr_call_defs = get_id_def get_config_def pull_config_def mgr_process_query_def
  mgr_subscribe_def mgr_unsubscribe_def get_leader_def set_leader_def get_other_workers_def
  add_other_worker_def get_listeners_def get_model_def set_model_def memory_size_def
  get_blocked_watch_def set_blocked_watch_def get_clock_watch_def set_clock_watch_def
  get_servers_def insert_server_def initialize_worker_def get_synced_behavior_handles_def
  get_unsynced_behavior_tx_def get_machine_handles_def get_entity_from_def list_entities_def
  get_subscriptions_def mgr_get_var_of_def mgr_snapshot_def set_vars_of_def mgr_spawn_entity_def
  mgr_remove_entity_def mgr_add_entity_def mgr_add_behavior_def mgr_stop_def

end
