(* ===== verification/WorkerHandlers.thy ===== *)
theory WorkerHandlers
  imports ManagerCalls
begin

text \<open>
  The request handlers of a worker, from src/bigworlds/src/worker/mod.rs, and the executors they
  reach other participants through (src/bigworlds/src/worker/pov.rs,
  src/bigworlds/src/worker/exec.rs, src/bigworlds/src/leader/exec.rs).  The world is reached
  through \<open>'w io\<close>: the manager of the worker, connections to leaders, workers and servers,
  behavior tasks, the clock and the random choices.  Tasks awaited together run one after the
  other, in the order of the collection that lists them.
\<close>

section \<open>The world of a worker\<close>

datatype worker_local =
    WlConnectToLeader nat nat | WlIntroduceLeader nat | WlConnectToServer nat nat
  | WlIntroduceServer uuid nat | WlConnectToWorker nat nat | WlIntroduceWorker uuid nat
  | WlAddBehavior behavior_target behavior_handle | WlRequest worker_req | WlShutdown

datatype leader_local =
  LlConnectToWorker nat nat | LlConnectAndRegisterWorker nat | LlRequest leader_req | LlShutdown

datatype behavior_req = BEvent string | BShutdown

text \<open>
  \<open>io_introduce\<close> introduces this worker to a local server and returns the server's identifier,
  when that is what it answers.  A closed channel is an error of the call.
\<close>

record 'w io =
  io_mgr :: "'w manager"
  io_local_worker :: "nat \<Rightarrow> worker_local signal \<Rightarrow> ('w, worker_resp signal) act"
  io_remote_worker :: "nat \<Rightarrow> worker_req signal \<Rightarrow> ('w, worker_resp signal) act"
  io_local_leader :: "nat \<Rightarrow> leader_local signal \<Rightarrow> ('w, leader_resp signal) act"
  io_remote_leader :: "nat \<Rightarrow> leader_req signal \<Rightarrow> ('w, leader_resp signal) act"
  io_clock_changed :: "server_view \<Rightarrow> 64 word \<Rightarrow> call_context \<Rightarrow> ('w, unit) act"
  io_introduce :: "nat \<Rightarrow> nat \<Rightarrow> call_context \<Rightarrow> ('w, uuid option) act"
  io_behavior :: "behavior_handle \<Rightarrow> behavior_req signal \<Rightarrow> ('w, unit) act"
  io_broadcast :: "string \<Rightarrow> ('w, unit) act"
  io_notify :: "nat \<Rightarrow> worker_resp signal \<Rightarrow> ('w, unit) act"
  io_lua_spawn :: "string \<Rightarrow> string \<Rightarrow> string list \<Rightarrow> ('w, behavior_handle) act"
  io_connect :: "listener \<Rightarrow> ('w, nat) act"
  io_make_connection :: "listener \<Rightarrow> ('w, nat) act"
  io_self_ctl :: "worker_local signal \<Rightarrow> ('w, worker_resp signal core_result) act"
  io_spawn_leader :: "('w, listener) act"
  io_cancel :: "('w, unit) act"
  io_handle_connection :: "nat \<Rightarrow> ('w, unit) act"
  io_unblocked :: "('w, unit) act"
  io_now :: "('w, 64 word) act"
  io_fresh :: "('w, uuid) act"
  io_choose :: "nat \<Rightarrow> ('w, nat) act"
  io_remote_address :: "nat \<Rightarrow> string"
  io_debug_leader :: "leader_view \<Rightarrow> string"
  io_debug_context :: "call_context \<Rightarrow> string"
  io_show_error :: "error \<Rightarrow> string"

definition ignore :: "('w, 'a) act \<Rightarrow> ('w, unit) act" where
  "ignore m = act_bind (act_try m) (\<lambda>_. act_ret ())"

definition new_signal :: "'w io \<Rightarrow> 't \<Rightarrow> ('w, 't signal) act" where
  "new_signal io x =
    act_bind (io_fresh io) (\<lambda>i. act_bind (io_now io) (\<lambda>t. act_ret (signal_from i t x)))"

definition hop :: "'w io \<Rightarrow> participant \<Rightarrow> call_context \<Rightarrow> ('w, call_context) act" where
  "hop io p cx = act_bind (io_now io) (\<lambda>t. act_of (register_hop t p cx))"

definition reply :: "worker_resp \<Rightarrow> call_context \<Rightarrow> ('w, worker_resp signal) act" where
  "reply r cx = act_ret (signal_new r cx)"

text \<open>A failure behind a local channel becomes \<open>Error::Other\<close> of its text.\<close>

definition map_act_err :: "(error \<Rightarrow> error) \<Rightarrow> ('w, 'a) act \<Rightarrow> ('w, 'a) act" where
  "map_act_err f m w = apsnd (map_err f) (m w)"

definition worker_exec :: "'w io \<Rightarrow> executor \<Rightarrow> worker_req signal \<Rightarrow> ('w, worker_resp signal) act" where
  "worker_exec io e sig =
    (case e of
       Remote c \<Rightarrow> io_remote_worker io c sig
     | Local c \<Rightarrow> map_act_err (\<lambda>err. Other (io_show_error io err))
         (io_local_worker io c (signal_new (WlRequest (sg_payload sig)) (sg_ctx sig))))"

definition leader_exec :: "'w io \<Rightarrow> executor \<Rightarrow> leader_req signal \<Rightarrow> ('w, leader_resp signal) act" where
  "leader_exec io e sig =
    (case e of
       Remote c \<Rightarrow> io_remote_leader io c sig
     | Local c \<Rightarrow> map_act_err (\<lambda>err. Other (io_show_error io err))
         (io_local_leader io c (signal_new (LlRequest (sg_payload sig)) (sg_ctx sig))))"

definition other_worker_exec :: "'w io \<Rightarrow> other_worker \<Rightarrow> worker_req signal \<Rightarrow> ('w, worker_resp signal) act" where
  "other_worker_exec io w sig =
    (case ow_situation w of
       WsConnected e \<Rightarrow> worker_exec io e sig
     | _ \<Rightarrow> act_of (Err (WorkerNotConnected
         (''no direct connection available, ctx: '' @ io_debug_context io (sg_ctx sig)))))"

definition leader_not_connected :: "'w io \<Rightarrow> leader_view \<Rightarrow> error" where
  "leader_not_connected io l = LeaderNotConnected (io_debug_leader io l)"

section \<open>Reaching the leader and the other workers\<close>

fun first_untouched :: "call_context \<Rightarrow> (uuid, other_worker) kv \<Rightarrow> other_worker option" where
  "first_untouched cx [] = None"
| "first_untouched cx ((i, w) # ws) =
    (if went_through_worker i cx then first_untouched cx ws else Some w)"

definition unreachable_message :: string where
  "unreachable_message = ''worker: attempted indirect request to leader, but it's currently unreachable or not existent: ''"

definition send_to_leader ::
  "'w io \<Rightarrow> leader_req \<Rightarrow> call_context \<Rightarrow> ('w, leader_resp signal) act" where
  "send_to_leader io req cx =
    act_bind (get_id (io_mgr io)) (\<lambda>_.
    act_bind (get_leader (io_mgr io)) (\<lambda>l.
      let indirect = act_bind (get_other_workers (io_mgr io)) (\<lambda>ws.
            case first_untouched cx ws of
              None \<Rightarrow> act_of Panic
            | Some w \<Rightarrow> act_bind (other_worker_exec io w (signal_new (WLeaderProxy req) cx)) (\<lambda>sig.
                case sg_payload sig of
                  WrLeaderProxy r \<Rightarrow> act_ret (signal_new r (sg_ctx sig))
                | _ \<Rightarrow> act_of (Err (UnexpectedResponse []))));
          unreachable = act_of (Err (LeaderNotConnected (unreachable_message @ io_debug_leader io l)))
      in case lv_situation l of
           LsConnected e \<Rightarrow> leader_exec io e (signal_new req cx)
         | LsAware _ \<Rightarrow> indirect
         | LsUnaware \<Rightarrow> indirect
         | LsUnreachable \<Rightarrow> unreachable
         | LsElection \<Rightarrow> unreachable
         | LsOrphanedWaiting \<Rightarrow> unreachable))"

text \<open>One copy of a broadcast: a failed one is passed over.\<close>

definition broadcast_one ::
  "'w io \<Rightarrow> worker_req signal \<Rightarrow> worker_resp list \<times> call_context \<Rightarrow> uuid \<times> other_worker
    \<Rightarrow> ('w, worker_resp list \<times> call_context) act" where
  "broadcast_one io sig acc iw =
    (case acc of (resps, cx) \<Rightarrow>
     case ow_situation (snd iw) of
       WsConnected e \<Rightarrow>
         if went_through_worker (fst iw) (sg_ctx sig) then act_ret acc
         else act_bind (act_try (worker_exec io e sig)) (\<lambda>r.
           case r of
             Ok s \<Rightarrow> act_ret (resps @ [sg_payload s], merge_hops_unique (cx_hops (sg_ctx s)) cx)
           | _ \<Rightarrow> act_ret acc)
     | _ \<Rightarrow> act_ret acc)"

definition broadcast ::
  "'w io \<Rightarrow> worker_req signal \<Rightarrow> call_context \<Rightarrow> ('w, worker_resp list \<times> call_context) act" where
  "broadcast io sig cx =
    act_bind (get_other_workers (io_mgr io)) (\<lambda>ws.
    act_bind (act_fold (broadcast_one io sig) ([], cx) ws) (\<lambda>(resps, cx').
      if went_through_leader (sg_ctx sig) then act_ret (resps, cx')
      else act_bind (get_leader (io_mgr io)) (\<lambda>l.
        case lv_situation l of
          LsConnected e \<Rightarrow>
            act_bind (act_try (leader_exec io e
                (signal_new (LWorkerBroadcast (sg_payload sig)) (sg_ctx sig)))) (\<lambda>r.
              case r of
                Ok s \<Rightarrow> (case sg_payload s of
                    LrWorkerBroadcast rs \<Rightarrow> act_ret (resps @ rs, merge_hops_unique (cx_hops (sg_ctx s)) cx')
                  | _ \<Rightarrow> act_ret (resps, cx'))
              | _ \<Rightarrow> act_ret (resps, cx'))
        | _ \<Rightarrow> act_ret (resps, cx'))))"

section \<open>Queries\<close>

text \<open>A worker that sees no other worker asks the leader to query the rest, itself marked as passed.\<close>

definition query_leader ::
  "'w io \<Rightarrow> query \<Rightarrow> call_context \<Rightarrow> ('w, query_product \<times> call_context) act" where
  "query_leader io q cx =
    act_bind (get_id (io_mgr io)) (\<lambda>my_id.
    act_bind (io_now io) (\<lambda>t.
      if t < cx_initiated_at cx then act_of Panic
      else let cx' = cx\<lparr> cx_hops := cx_hops cx @
             [\<lparr> nh_observer = PWorker my_id, nh_delta = ucast (t - cx_initiated_at cx) \<rparr>] \<rparr> in
        act_bind (get_leader (io_mgr io)) (\<lambda>l.
          case lv_situation l of
            LsConnected e \<Rightarrow>
              act_bind (leader_exec io e (signal_new (LWorkerProxy (WProcessQuery q) None) cx')) (\<lambda>s.
                case sg_payload s of
                  LrWorkerProxy (WrQuery p) \<Rightarrow> act_bind (act_of (product_merge PEmpty p)) (\<lambda>p'. act_ret (p', cx'))
                | _ \<Rightarrow> act_ret (PEmpty, cx'))
          | _ \<Rightarrow> act_ret (PEmpty, cx'))))"

definition query_one ::
  "'w io \<Rightarrow> query \<Rightarrow> call_context \<Rightarrow> query_product \<Rightarrow> uuid \<times> other_worker \<Rightarrow> ('w, query_product) act" where
  "query_one io q cx p iw =
    act_bind (other_worker_exec io (snd iw) (signal_new (WProcessQuery q) cx)) (\<lambda>s.
      case sg_payload s of
        WrQuery p' \<Rightarrow> act_of (product_merge p p')
      | r \<Rightarrow> act_of (Err (UnexpectedResponse (worker_resp_name r))))"

text \<open>The local part is started before the remote ones and merged last.\<close>

definition worker_query ::
  "'w io \<Rightarrow> query \<Rightarrow> call_context \<Rightarrow> ('w, query_product \<times> call_context) act" where
  "worker_query io q cx =
    act_bind (get_id (io_mgr io)) (\<lambda>_.
      case q_scope q of
        Global \<Rightarrow>
          act_bind (get_other_workers (io_mgr io)) (\<lambda>ws.
          act_bind (if ws = [] \<and> \<not> went_through_leader cx then query_leader io q cx
                    else act_ret (PEmpty, cx)) (\<lambda>(p, cx').
          act_bind (act_try (mgr_process_query (io_mgr io) q)) (\<lambda>local.
          act_bind (act_fold (query_one io q cx') p ws) (\<lambda>p'.
          act_bind (act_of local) (\<lambda>lp.
          act_bind (act_of (product_merge p' lp)) (\<lambda>p''. act_ret (p'', cx')))))))
      | LocalWorker \<Rightarrow> act_bind (mgr_process_query (io_mgr io) q) (\<lambda>p. act_ret (p, cx))
      | _ \<Rightarrow> act_of Panic)"

section \<open>Events\<close>

definition triggered :: "string \<Rightarrow> behavior_handle \<Rightarrow> bool" where
  "triggered ev h \<longleftrightarrow> ev \<in> set (hd_triggers h)"

definition send_event :: "'w io \<Rightarrow> call_context \<Rightarrow> string \<Rightarrow> behavior_handle \<Rightarrow> ('w, unit) act" where
  "send_event io cx ev h = io_behavior io h (signal_new (BEvent ev) cx)"

text \<open>\<open>Step\<close>: the clock is advanced first; a failing machine ends the step, a failing behavior does not.\<close>

definition step_subscription ::
  "'w io \<Rightarrow> call_context \<Rightarrow> subscription \<Rightarrow> ('w, call_context) act" where
  "step_subscription io cx sub =
    (if StepEvent \<notin> set (sb_triggers sub) then act_ret cx
     else act_bind (worker_query io (sb_query sub) cx) (\<lambda>(p, cx').
          act_bind (new_signal io (WrQuery p)) (\<lambda>s.
          act_bind (ignore (io_notify io (sb_sender sub) s)) (\<lambda>_. act_ret cx'))))"

definition handle_step :: "'w io \<Rightarrow> call_context \<Rightarrow> ('w, worker_resp signal) act" where
  "handle_step io cx =
    act_bind (get_clock_watch (io_mgr io)) (\<lambda>clock.
      if clock = - 1 then act_of Panic
      else
        act_bind (set_clock_watch (io_mgr io) (clock + 1)) (\<lambda>_.
        act_bind (get_servers (io_mgr io)) (\<lambda>servers.
        act_bind (act_iter (\<lambda>(_, s). ignore (io_clock_changed io s (clock + 1) cx)) servers) (\<lambda>_.
        act_bind (get_unsynced_behavior_tx (io_mgr io)) (\<lambda>_.
        act_bind (ignore (io_broadcast io ''step'')) (\<lambda>_.
        act_bind (get_synced_behavior_handles (io_mgr io)) (\<lambda>hs.
        act_bind (act_iter (\<lambda>h. ignore (send_event io cx ''step'' h))
            (filter (triggered ''step'') (concat (map snd hs)))) (\<lambda>_.
        act_bind (get_machine_handles (io_mgr io)) (\<lambda>ms.
        act_bind (act_iter (send_event io cx ''step'') (filter (triggered ''step'') ms)) (\<lambda>_.
        act_bind (get_subscriptions (io_mgr io)) (\<lambda>subs.
        act_bind (act_fold (step_subscription io) cx subs) (\<lambda>cx'.
        reply WrStep cx'))))))))))))"

text \<open>
  \<open>Invoke\<close>: the inner loop over a subscription's triggers skips nothing, so every subscription is
  served for every event.
\<close>

definition event_subscription ::
  "'w io \<Rightarrow> call_context \<Rightarrow> subscription \<Rightarrow> ('w, unit) act" where
  "event_subscription io cx sub =
    act_bind (worker_query io (sb_query sub) cx) (\<lambda>(p, cx').
      ignore (io_notify io (sb_sender sub) (signal_new (WrQuery p) cx')))"

definition handle_invoke ::
  "'w io \<Rightarrow> string list \<Rightarrow> bool \<Rightarrow> call_context \<Rightarrow> ('w, worker_resp signal) act" where
  "handle_invoke io events global cx =
    act_bind (if global then act_bind (broadcast io (signal_new (WInvoke events global) cx) cx)
                (\<lambda>(_, cx'). act_ret cx')
              else act_ret cx) (\<lambda>cx.
    act_bind (get_unsynced_behavior_tx (io_mgr io)) (\<lambda>_.
    act_bind (act_iter (\<lambda>ev. ignore (io_broadcast io ev)) events) (\<lambda>_.
    act_bind (get_synced_behavior_handles (io_mgr io)) (\<lambda>hs.
    act_bind (get_machine_handles (io_mgr io)) (\<lambda>ms.
    act_bind (act_iter (\<lambda>h. act_iter (\<lambda>ev. ignore (send_event io cx ev h))
                (filter (\<lambda>ev. triggered ev h) events)) (concat (map snd hs) @ ms)) (\<lambda>_.
    act_bind (act_iter (\<lambda>ev. act_bind (get_subscriptions (io_mgr io))
                (act_iter (event_subscription io cx))) events) (\<lambda>_.
    reply WrEmpty cx)))))))"

section \<open>Models\<close>

text \<open>
  \<open>SetModel\<close> restarts the synced behaviors whose model of the same name changed: the old task is
  shut down and a new handle is added beside its handle.  Only Lua behaviors can be restarted.
\<close>

definition changed_behaviors :: "project \<Rightarrow> project \<Rightarrow> string list" where
  "changed_behaviors current new =
    map bh_name (filter (\<lambda>b. case find (\<lambda>b'. bh_name b' = bh_name b) (md_behaviors new) of
        Some b' \<Rightarrow> b \<noteq> b' | None \<Rightarrow> False) (md_behaviors current))"

definition respawn_behavior ::
  "'w io \<Rightarrow> project \<Rightarrow> string \<Rightarrow> call_context \<Rightarrow> behavior_handle \<Rightarrow> ('w, unit) act" where
  "respawn_behavior io new name cx h =
    act_bind (io_behavior io h (signal_new BShutdown cx)) (\<lambda>_.
      case find (\<lambda>b. bh_name b = name) (md_behaviors new) of
        None \<Rightarrow> act_ret ()
      | Some b \<Rightarrow>
          (case bh_inner b of
             BLua synced script \<Rightarrow>
               act_bind (io_lua_spawn io name script (bh_triggers b)) (\<lambda>h'.
                 mgr_add_behavior (io_mgr io) TargetWorker h')
           | _ \<Rightarrow> act_of Panic))"

definition handle_set_model :: "'w io \<Rightarrow> project \<Rightarrow> call_context \<Rightarrow> ('w, worker_resp signal) act" where
  "handle_set_model io new cx =
    act_bind (act_try (get_model (io_mgr io))) (\<lambda>r.
    act_bind
      (case r of
         Ok _ \<Rightarrow>
           act_bind (get_config (io_mgr io)) (\<lambda>config.
             if wc_behaviors_follow_model_changes config then
               act_bind (get_model (io_mgr io)) (\<lambda>current.
               act_bind (get_synced_behavior_handles (io_mgr io)) (\<lambda>hs.
                 act_iter (\<lambda>name. act_iter (respawn_behavior io new name cx)
                     (filter (\<lambda>h. hd_name h = name) (concat (map snd hs))))
                   (changed_behaviors current new)))
             else act_ret ())
       | _ \<Rightarrow> act_ret ()) (\<lambda>_.
    act_bind (set_model (io_mgr io) new) (\<lambda>_. reply WrEmpty cx)))"

text \<open>A request for the leader's model; \<open>none\<close> is the outcome without a direct connection.\<close>

definition with_leader ::
  "'w io \<Rightarrow> (executor \<Rightarrow> ('w, 'x) act) \<Rightarrow> (leader_view \<Rightarrow> ('w, 'x) act) \<Rightarrow> ('w, 'x) act" where
  "with_leader io f none =
    act_bind (get_leader (io_mgr io)) (\<lambda>l.
      case lv_situation l of LsConnected e \<Rightarrow> f e | _ \<Rightarrow> none l)"

definition not_connected :: "'w io \<Rightarrow> leader_view \<Rightarrow> ('w, 'x) act" where
  "not_connected io l = act_of (Err (leader_not_connected io l))"

definition handle_get_model :: "'w io \<Rightarrow> call_context \<Rightarrow> ('w, worker_resp signal) act" where
  "handle_get_model io cx =
    with_leader io
      (\<lambda>e. act_bind (leader_exec io e (signal_new LGetModel cx)) (\<lambda>s.
        case sg_payload s of
          LrModel m \<Rightarrow> reply (WrGetModel m) cx
        | r \<Rightarrow> act_of (Err (UnexpectedResponse (leader_resp_name r)))))
      (not_connected io)"

definition handle_replace_model :: "'w io \<Rightarrow> project \<Rightarrow> call_context \<Rightarrow> ('w, worker_resp signal) act" where
  "handle_replace_model io m cx =
    act_bind (get_id (io_mgr io)) (\<lambda>_.
    act_bind (send_to_leader io (LReplaceModel m) cx) (\<lambda>s. reply WrEmpty (sg_ctx s)))"

definition handle_merge_model :: "'w io \<Rightarrow> project \<Rightarrow> call_context \<Rightarrow> ('w, worker_resp signal) act" where
  "handle_merge_model io m cx =
    with_leader io
      (\<lambda>e. act_bind (leader_exec io e (signal_new (LMergeModel m) cx)) (\<lambda>s. reply WrEmpty (sg_ctx s)))
      (not_connected io)"

definition handle_clock :: "'w io \<Rightarrow> call_context \<Rightarrow> ('w, worker_resp signal) act" where
  "handle_clock io cx =
    with_leader io
      (\<lambda>e. act_bind (new_signal io LClock) (\<lambda>sig. act_bind (leader_exec io e sig) (\<lambda>s.
        case sg_payload s of LrClock c \<Rightarrow> reply (WrClock c) cx | _ \<Rightarrow> act_of Panic)))
      (not_connected io)"

definition handle_machine_logic :: "'w io \<Rightarrow> string \<Rightarrow> call_context \<Rightarrow> ('w, worker_resp signal) act" where
  "handle_machine_logic io name cx =
    with_leader io
      (\<lambda>e. act_bind (leader_exec io e (signal_new LGetModel cx)) (\<lambda>s.
        case sg_payload s of
          LrModel m \<Rightarrow>
            (case find (\<lambda>b. bh_name b = name) (md_behaviors m) of
               None \<Rightarrow> act_of Panic
             | Some b \<Rightarrow> (case bh_inner b of
                 BMachine script logic \<Rightarrow> reply (WrMachineLogic logic) cx | _ \<Rightarrow> act_of Panic))
        | _ \<Rightarrow> act_of Panic))
      (\<lambda>_. act_of Panic)"

section \<open>Migration\<close>

text \<open>\<open>timestamp() as u32\<close>\<close>

definition secs_of :: "64 word \<Rightarrow> 32 word" where
  "secs_of micros = ucast (micros div 1000000)"

definition cooling_down :: "32 word option \<Rightarrow> 32 word \<Rightarrow> entity \<Rightarrow> bool core_result" where
  "cooling_down cooldown now e =
    (case cooldown of
       None \<Rightarrow> Ok False
     | Some c \<Rightarrow> (case em_last_moved (e_meta e) of
         None \<Rightarrow> Ok False
       | Some t \<Rightarrow> if now < t then Panic else Ok (now - t \<le> c)))"

text \<open>
  Where an entity is sent: to a worker chosen at random, or through the leader when no worker is
  known.  Nothing is sent when there is no leader either.
\<close>

definition send_entity ::
  "'w io \<Rightarrow> call_context \<Rightarrow> string \<Rightarrow> entity \<Rightarrow> ('w, unit) act" where
  "send_entity io cx n e =
    act_bind (get_other_workers (io_mgr io)) (\<lambda>ws.
      if ws = [] then
        act_bind (get_leader (io_mgr io)) (\<lambda>l.
          case lv_situation l of
            LsConnected ex \<Rightarrow> act_bind
              (leader_exec io ex (signal_new (LWorkerProxy (WTakeEntity n e) None) cx)) (\<lambda>_. act_ret ())
          | _ \<Rightarrow> act_ret ())
      else
        act_bind (io_choose io (length ws)) (\<lambda>k.
          act_bind (other_worker_exec io (snd (ws ! (k mod length ws)))
              (signal_new (WTakeEntity n e) cx)) (\<lambda>_. act_ret ())))"

definition migrate_one ::
  "'w io \<Rightarrow> worker_config \<Rightarrow> call_context \<Rightarrow> string \<Rightarrow> ('w, unit) act" where
  "migrate_one io config cx n =
    act_bind (get_entity_from (io_mgr io) n) (\<lambda>e.
    act_bind (io_now io) (\<lambda>t.
    act_bind (act_of (cooling_down (wc_entity_migration_cooldown_secs config) (secs_of t) e)) (\<lambda>cooling.
      if cooling then act_ret ()
      else act_bind (send_entity io cx n e) (\<lambda>_. mgr_remove_entity (io_mgr io) n))))"

definition handle_migrate :: "'w io \<Rightarrow> call_context \<Rightarrow> ('w, worker_resp signal) act" where
  "handle_migrate io cx =
    act_bind (list_entities (io_mgr io)) (\<lambda>names.
    act_bind (get_config (io_mgr io)) (\<lambda>config.
    act_bind (act_iter (migrate_one io config cx) names) (\<lambda>_. reply WrEmpty cx)))"

section \<open>Connections\<close>

definition connected_worker :: "uuid \<Rightarrow> executor \<Rightarrow> other_worker" where
  "connected_worker i e = \<lparr> ow_id = i, ow_situation = WsConnected e, ow_listeners = [] \<rparr>"

definition handle_connect_to_leader :: "'w io \<Rightarrow> listener \<Rightarrow> call_context \<Rightarrow> ('w, worker_resp signal) act" where
  "handle_connect_to_leader io addr cx =
    act_bind (io_connect io addr) (\<lambda>c.
    act_bind (get_id (io_mgr io)) (\<lambda>my_id.
    act_bind (new_signal io (LIntroduceWorker my_id)) (\<lambda>sig.
    act_bind (io_remote_leader io c (originating_at (caller_from (PWorker my_id)) sig)) (\<lambda>s.
    act_bind
      (let connected = set_leader (io_mgr io) (leader_view_from (LsConnected (Remote c))) in
       case sg_payload s of
         LrModel m \<Rightarrow> act_bind connected (\<lambda>_. act_bind (set_model (io_mgr io) m)
           (\<lambda>_. initialize_worker (io_mgr io)))
       | LrEmpty \<Rightarrow> connected
       | _ \<Rightarrow> act_of Panic) (\<lambda>_.
    act_bind (ignore (io_handle_connection io c)) (\<lambda>_. reply WrEmpty cx))))))"

definition handle_connect_to_worker :: "'w io \<Rightarrow> listener \<Rightarrow> call_context \<Rightarrow> ('w, worker_resp signal) act" where
  "handle_connect_to_worker io addr cx =
    act_bind (map_act_err (\<lambda>e. NetworkError (io_show_error io e)) (io_make_connection io addr)) (\<lambda>c.
    act_bind (get_id (io_mgr io)) (\<lambda>my_id.
    act_bind (new_signal io (WIntroduceWorker my_id)) (\<lambda>sig.
    act_bind (io_remote_worker io c (originating_at (caller_from (PWorker my_id)) sig)) (\<lambda>s.
      case sg_payload s of
        WrIntroduceWorker i \<Rightarrow>
          act_bind (add_other_worker (io_mgr io) (connected_worker i (Remote c))) (\<lambda>_.
          act_bind (act_try (get_leader (io_mgr io))) (\<lambda>r.
            case r of
              Err (LeaderNotSelected _) \<Rightarrow> act_bind (get_other_workers (io_mgr io)) (\<lambda>_. act_of Panic)
            | _ \<Rightarrow> reply WrEmpty cx))
      | _ \<Rightarrow> act_of Panic))))"

definition handle_get_leader :: "'w io \<Rightarrow> call_context \<Rightarrow> ('w, worker_resp signal) act" where
  "handle_get_leader io cx =
    with_leader io
      (\<lambda>e. reply (WrGetLeader (case e of Remote c \<Rightarrow> Some (io_remote_address io c) | Local _ \<Rightarrow> None)) cx)
      (\<lambda>_. reply (WrGetLeader None) cx)"

definition handle_is_blocking :: "'w io \<Rightarrow> call_context \<Rightarrow> ('w, worker_resp signal) act" where
  "handle_is_blocking io cx =
    act_bind (get_blocked_watch (io_mgr io)) (\<lambda>blocked.
    act_bind (if blocked then io_unblocked io else act_ret ()) (\<lambda>_. reply (WrIsBlocking False) cx))"

definition handle_subscribe ::
  "'w io \<Rightarrow> query_trigger list \<Rightarrow> query \<Rightarrow> nat option \<Rightarrow> ('w, worker_resp signal) act" where
  "handle_subscribe io ts q multi =
    (case multi of
       Some ch \<Rightarrow> act_bind (mgr_subscribe (io_mgr io) ts q ch) (\<lambda>i. new_signal io (WrSubscribe i))
     | None \<Rightarrow> act_of (Err (Other ''handler wasn't provided with a `multi` sender'')))"

definition take_entity :: "'w io \<Rightarrow> string \<Rightarrow> entity \<Rightarrow> ('w, unit) act" where
  "take_entity io n e =
    act_bind (get_id (io_mgr io)) (\<lambda>_. act_bind (io_now io) (\<lambda>t.
      mgr_add_entity (io_mgr io) n (e\<lparr> e_meta := (e_meta e)\<lparr> em_last_moved := Some (secs_of t) \<rparr> \<rparr>)))"

section \<open>Requests\<close>

definition then_reply ::
  "('w, 'x) act \<Rightarrow> ('x \<Rightarrow> worker_resp) \<Rightarrow> call_context \<Rightarrow> ('w, worker_resp signal) act" where
  "then_reply m f cx = act_bind m (\<lambda>x. reply (f x) cx)"

definition handle_request ::
  "'w io \<Rightarrow> worker_req \<Rightarrow> call_context \<Rightarrow> nat option \<Rightarrow> ('w, worker_resp signal) act" where
  "handle_request io req cx multi =
    (let mgr = io_mgr io; done = (\<lambda>m. then_reply m (\<lambda>_. WrEmpty) cx) in
     case req of
       WPullConfig c \<Rightarrow> done (pull_config mgr c)
     | WConnectToLeader addr \<Rightarrow> handle_connect_to_leader io addr cx
     | WPing bytes \<Rightarrow> reply (WrPing bytes) cx
     | WMemorySize \<Rightarrow> then_reply (memory_size mgr) WrMemorySize cx
     | WIsBlocking wait \<Rightarrow> handle_is_blocking io cx
     | WStep \<Rightarrow> handle_step io cx
     | WInitialize \<Rightarrow>
         act_bind (set_clock_watch mgr 0) (\<lambda>_. act_bind (initialize_worker mgr) (\<lambda>_. new_signal io WrEmpty))
     | WGetModel \<Rightarrow> handle_get_model io cx
     | WReplaceModel m \<Rightarrow> handle_replace_model io m cx
     | WMergeModel m \<Rightarrow> handle_merge_model io m cx
     | WSetModel m \<Rightarrow> handle_set_model io m cx
     | WClock \<Rightarrow> handle_clock io cx
     | WSubscribe ts q \<Rightarrow> handle_subscribe io ts q multi
     | WUnsubscribe i \<Rightarrow> done (mgr_unsubscribe mgr i)
     | WProcessQuery q \<Rightarrow> act_bind (worker_query io q cx) (\<lambda>(p, cx'). reply (WrQuery p) cx')
     | WSetBlocking b \<Rightarrow> done (set_blocked_watch mgr b)
     | WTakeEntity n e \<Rightarrow> done (take_entity io n e)
     | WGetEntity n \<Rightarrow> then_reply (get_entity_from mgr n) WrEntity cx
     | WEntityList \<Rightarrow> then_reply (list_entities mgr) WrEntityList cx
     | WNewRequirements ram disk transfer \<Rightarrow> act_of Panic
     | WStatus \<Rightarrow> then_reply (get_id mgr) (\<lambda>i. WrStatus i 1 1) cx
     | WInvoke events global \<Rightarrow> handle_invoke io events global cx
     | WSpawnEntity n prefab \<Rightarrow> done (mgr_spawn_entity mgr n prefab)
     | WDespawnEntity n \<Rightarrow> done (mgr_remove_entity mgr n)
     | WConnectToWorker addr \<Rightarrow> handle_connect_to_worker io addr cx
     | WGetLeader \<Rightarrow> handle_get_leader io cx
     | WGetListeners \<Rightarrow> then_reply (get_listeners mgr) WrGetListeners cx
     | WSetVar a v \<Rightarrow> done (set_vars_of mgr [(a, v)])
     | WSetVars pairs \<Rightarrow> done (set_vars_of mgr pairs)
     | WGetVar a \<Rightarrow> then_reply (mgr_get_var_of mgr a) WrGetVar cx
     | WSpawnSingletonBehavior b \<Rightarrow> reply WrEmpty cx
     | WMigrateEntities \<Rightarrow> handle_migrate io cx
     | WAuthorize token \<Rightarrow> act_of Panic
     | WSnapshot \<Rightarrow> then_reply (mgr_snapshot mgr) WrSnapshot cx
     | WLeaderProxy r \<Rightarrow>
         act_bind (get_id mgr) (\<lambda>_. act_bind (send_to_leader io r cx)
           (\<lambda>s. reply (WrLeaderProxy (sg_payload s)) (sg_ctx s)))
     | WMachineLogic name \<Rightarrow> handle_machine_logic io name cx
     | WIntroduceWorker _ \<Rightarrow> act_of Panic
     | WIntroduceLeader _ _ \<Rightarrow> act_of Panic
     | WElection _ \<Rightarrow> act_of Panic)"

text \<open>Requests of tasks in the same runtime.\<close>

definition handle_local_request ::
  "'w io \<Rightarrow> worker_local \<Rightarrow> call_context \<Rightarrow> nat option \<Rightarrow> ('w, worker_resp signal) act" where
  "handle_local_request io req cx multi =
    (let mgr = io_mgr io in
     case req of
       WlConnectToLeader c back \<Rightarrow>
         act_bind (get_id mgr) (\<lambda>my_id.
         act_bind (io_local_leader io c (signal_new (LlConnectAndRegisterWorker back) cx)) (\<lambda>_.
         act_bind (set_leader mgr \<lparr> lv_situation = LsConnected (Local c), lv_listeners = [] \<rparr>) (\<lambda>_.
         reply (WrConnectToLeader my_id) cx)))
     | WlIntroduceLeader c \<Rightarrow>
         act_bind (get_id mgr) (\<lambda>_.
         act_bind (get_leader mgr) (\<lambda>l.
         act_bind (case lv_situation l of
             LsConnected _ \<Rightarrow> act_ret ()
           | _ \<Rightarrow> ignore (set_leader mgr (leader_view_from (LsConnected (Local c))))) (\<lambda>_.
         reply WrEmpty cx)))
     | WlConnectToServer c back \<Rightarrow>
         act_bind (io_introduce io c back cx) (\<lambda>r.
           case r of
             Some i \<Rightarrow> then_reply
               (insert_server mgr i \<lparr> sv_id = i, sv_exec = Local c, sv_listeners = [] \<rparr>) (\<lambda>_. WrEmpty) cx
           | None \<Rightarrow> act_of (Err (UnexpectedResponse [])))
     | WlIntroduceServer i c \<Rightarrow> then_reply
         (insert_server mgr i \<lparr> sv_id = i, sv_exec = Local c, sv_listeners = [] \<rparr>) (\<lambda>_. WrRegister i) cx
     | WlConnectToWorker out back \<Rightarrow>
         act_bind (get_id mgr) (\<lambda>my_id.
         act_bind (hop io (PWorker my_id) cx) (\<lambda>cx1.
         act_bind (io_local_worker io out (signal_new (WlIntroduceWorker my_id back) cx1)) (\<lambda>s.
           case sg_payload s of
             WrIntroduceWorker i \<Rightarrow>
               act_bind (hop io (PWorker my_id) (sg_ctx s)) (\<lambda>cx2.
                 then_reply (add_other_worker mgr (connected_worker i (Local out))) (\<lambda>_. WrEmpty) cx2)
           | r \<Rightarrow> act_of (Err (UnexpectedResponse (worker_resp_name r))))))
     | WlIntroduceWorker i back \<Rightarrow>
         act_bind (get_id mgr) (\<lambda>my_id.
         act_bind (hop io (PWorker my_id) cx) (\<lambda>cx1.
           then_reply (add_other_worker mgr (connected_worker i (Local back))) (\<lambda>_. WrIntroduceWorker my_id) cx1))
     | WlAddBehavior t h \<Rightarrow> then_reply (mgr_add_behavior mgr t h) (\<lambda>_. WrEmpty) cx
     | WlRequest r \<Rightarrow> handle_request io r cx multi
     | WlShutdown \<Rightarrow> then_reply (mgr_stop mgr) (\<lambda>_. WrEmpty) cx)"

text \<open>Requests from the network come with the connection, or only the address, of the caller.\<close>

datatype caller_link = LinkConnection nat | LinkAddress string

definition handle_net_request ::
  "'w io \<Rightarrow> worker_req \<Rightarrow> call_context \<Rightarrow> caller_link \<Rightarrow> ('w, worker_resp signal) act" where
  "handle_net_request io req cx link =
    (let mgr = io_mgr io;
         add = (\<lambda>i. case link of
           LinkConnection c \<Rightarrow> add_other_worker mgr (connected_worker i (Remote c))
         | LinkAddress _ \<Rightarrow> act_of Panic) in
     case req of
       WIntroduceWorker i \<Rightarrow>
         act_bind (add i) (\<lambda>_. then_reply (get_id mgr) WrIntroduceWorker cx)
     | WIntroduceLeader listeners view \<Rightarrow>
         act_bind (get_id mgr) (\<lambda>my_id.
           case link of
             LinkAddress _ \<Rightarrow> act_of Panic
           | LinkConnection c \<Rightarrow>
               act_bind (act_iter (\<lambda>(i, addrs). case addrs of
                   [] \<Rightarrow> act_ret ()
                 | addr # _ \<Rightarrow>
                     act_bind (map_act_err (\<lambda>e. NetworkError (io_show_error io e)) (io_make_connection io addr))
                       (\<lambda>c'. add_other_worker mgr (connected_worker i (Remote c')))) view) (\<lambda>_.
               then_reply (set_leader mgr (leader_view_from (LsConnected (Remote c))))
                 (\<lambda>_. WrIntroduceLeader my_id) cx))
     | WElection sender \<Rightarrow>
         act_bind (add sender) (\<lambda>_.
         act_bind (get_id mgr) (\<lambda>_.
           then_reply (set_leader mgr (leader_view_from LsElection)) (\<lambda>_. WrEmpty) cx))
     | _ \<Rightarrow> handle_request io req cx None)"

section \<open>Admission\<close>

text \<open>
  The calls seen so far with their counts.  Only the single-response local streams record a call;
  a known call is refused there when its delivery is limited and the count has reached the limit,
  and always on the other streams.  A recorded count is never raised.
\<close>

type_synonym seen_calls = "(uuid, 8 word \<times> 32 word) kv"

definition admit_local :: "call_context \<Rightarrow> seen_calls \<Rightarrow> seen_calls \<times> unit core_result" where
  "admit_local cx seen =
    (case map_of seen (cx_id cx) of
       Some (n, _) \<Rightarrow>
         (seen, case cx_delivery cx of
            Limited limit \<Rightarrow> if limit \<le> n then Err (AlreadyProcessedSignal (cx_id cx)) else Ok ()
          | Unlimited \<Rightarrow> Ok ())
     | None \<Rightarrow> (kv_insert (cx_id cx) (1, 0) seen, Ok ()))"

definition admit_other :: "call_context \<Rightarrow> seen_calls \<Rightarrow> unit core_result" where
  "admit_other cx seen =
    (if map_of seen (cx_id cx) \<noteq> None then Err (AlreadyProcessedSignal (cx_id cx)) else Ok ())"

definition serve_local ::
  "'w io \<Rightarrow> uuid \<Rightarrow> worker_local signal \<Rightarrow> seen_calls \<times> 'w
    \<Rightarrow> (seen_calls \<times> 'w) \<times> worker_resp signal core_result" where
  "serve_local io my_id sig sw =
    (case sw of (seen, w) \<Rightarrow>
     case admit_local (sg_ctx sig) seen of
       (seen', Ok _) \<Rightarrow>
         (case as_reply (act_bind (hop io (PWorker my_id) (sg_ctx sig))
                 (\<lambda>cx. handle_local_request io (sg_payload sig) cx None) w) of
            (w', r) \<Rightarrow> ((seen', w'), r))
     | (seen', Err e) \<Rightarrow> ((seen', w), Err e)
     | (seen', Panic) \<Rightarrow> ((seen', w), Panic))"

definition serve_local_multi ::
  "'w io \<Rightarrow> uuid \<Rightarrow> nat \<Rightarrow> worker_local signal \<Rightarrow> seen_calls \<times> 'w
    \<Rightarrow> 'w \<times> worker_resp signal core_result" where
  "serve_local_multi io my_id ch sig sw =
    (case sw of (seen, w) \<Rightarrow>
     as_reply (act_bind (act_of (admit_other (sg_ctx sig) seen)) (\<lambda>_.
       act_bind (hop io (PWorker my_id) (sg_ctx sig)) (\<lambda>cx.
       act_bind (handle_local_request io (sg_payload sig) cx (Some ch)) (\<lambda>s.
       act_bind (hop io (PWorker my_id) (sg_ctx s)) (\<lambda>cx'. act_ret (s\<lparr> sg_ctx := cx' \<rparr>))))) w))"

definition serve_behavior ::
  "'w io \<Rightarrow> nat option \<Rightarrow> worker_req signal \<Rightarrow> seen_calls \<times> 'w \<Rightarrow> 'w \<times> worker_resp signal core_result" where
  "serve_behavior io multi sig sw =
    (case sw of (seen, w) \<Rightarrow>
     as_reply (act_bind (act_of (admit_other (sg_ctx sig) seen)) (\<lambda>_.
       handle_request io (sg_payload sig) (sg_ctx sig) multi) w))"

definition serve_net ::
  "'w io \<Rightarrow> caller_link \<Rightarrow> worker_req signal \<Rightarrow> seen_calls \<times> 'w \<Rightarrow> 'w \<times> worker_resp signal core_result" where
  "serve_net io link sig sw =
    (case sw of (seen, w) \<Rightarrow>
     as_reply (act_bind (act_of (admit_other (sg_ctx sig) seen)) (\<lambda>_.
       handle_net_request io (sg_payload sig) (sg_ctx sig) link) w))"

section \<open>The leader watchdog\<close>

text \<open>
  Every second the worker asks a connected leader for its status.  When that fails it becomes
  orphaned, if it knows no other worker (the result: the addresses for the waiting task), or it
  starts an election.
\<close>

definition must :: "('w, 'x) act \<Rightarrow> ('w, 'x) act" where
  "must m w = apsnd unwrap (m w)"

definition election_request :: "'w io \<Rightarrow> uuid \<Rightarrow> other_worker \<Rightarrow> ('w, unit) act" where
  "election_request io my_id w =
    act_bind (new_signal io (WElection my_id)) (\<lambda>sig.
    act_bind (act_try (other_worker_exec io w (originating_at (caller_from (PWorker my_id)) sig))) (\<lambda>r.
      case r of
        Ok s \<Rightarrow> (case sg_payload s of WrEmpty \<Rightarrow> act_ret () | _ \<Rightarrow> act_of Panic)
      | _ \<Rightarrow> act_ret ()))"

definition watchdog_tick :: "'w io \<Rightarrow> uuid \<Rightarrow> ('w, listener list option) act" where
  "watchdog_tick io my_id =
    act_bind (must (get_leader (io_mgr io))) (\<lambda>l.
      case lv_situation l of
        LsConnected e \<Rightarrow>
          act_bind (new_signal io LStatus) (\<lambda>sig.
          act_bind (act_try (leader_exec io e sig)) (\<lambda>r.
            case r of
              Ok _ \<Rightarrow> act_ret None
            | _ \<Rightarrow>
                act_bind (must (get_other_workers (io_mgr io))) (\<lambda>ws.
                  if ws = [] then
                    act_bind (must (set_leader (io_mgr io) (l\<lparr> lv_situation := LsOrphanedWaiting \<rparr>))) (\<lambda>_.
                    act_ret (Some (lv_listeners l)))
                  else
                    act_bind (must (set_leader (io_mgr io) (l\<lparr> lv_situation := LsElection \<rparr>))) (\<lambda>_.
                    act_bind (must (get_other_workers (io_mgr io))) (\<lambda>ws.
                    act_bind (act_iter (\<lambda>(_, w). election_request io my_id w) ws) (\<lambda>_.
                    act_ret None))))))
      | _ \<Rightarrow> act_ret None)"

text \<open>The task of an orphaned worker, after its waiting period.\<close>

definition orphan_reconnect :: "'w io \<Rightarrow> listener list \<Rightarrow> ('w, bool) act" where
  "orphan_reconnect io addrs =
    (case addrs of
       [] \<Rightarrow> act_ret False
     | addr # _ \<Rightarrow>
         act_bind (new_signal io (WlRequest (WConnectToLeader addr))) (\<lambda>sig.
         act_bind (must (io_self_ctl io sig)) (\<lambda>r.
           case r of
             Ok s \<Rightarrow> (case sg_payload s of WrEmpty \<Rightarrow> act_ret True | _ \<Rightarrow> act_ret False)
           | _ \<Rightarrow> act_ret False)))"

definition orphan_fork :: "'w io \<Rightarrow> ('w, unit) act" where
  "orphan_fork io =
    act_bind (act_try (get_config (io_mgr io))) (\<lambda>r.
      case r of
        Ok c \<Rightarrow>
          if wc_orphan_fork c then
            act_bind (io_spawn_leader io) (\<lambda>addr.
            act_bind (new_signal io (WlRequest (WConnectToLeader addr))) (\<lambda>sig.
            act_bind (must (io_self_ctl io sig)) (\<lambda>r. act_bind (act_of (unwrap r)) (\<lambda>_. act_ret ()))))
          else io_cancel io
      | _ \<Rightarrow> io_cancel io)"

definition orphan_task :: "'w io \<Rightarrow> listener list \<Rightarrow> ('w, unit) act" where
  "orphan_task io addrs =
    act_bind (orphan_reconnect io addrs) (\<lambda>reconnected.
      if reconnected then act_ret ()
      else act_bind (must (get_leader (io_mgr io))) (\<lambda>l.
        case lv_situation l of
          LsElection \<Rightarrow> act_ret ()
        | LsConnected _ \<Rightarrow> act_ret ()
        | _ \<Rightarrow> orphan_fork io))"

end
