(* ===== verification/WorkerNodes.thy ===== *)
theory WorkerNodes
  imports WorkerHandlers
begin

text \<open>
  A worker on its own: its manager task, live or ended, and a record of every message its
  handlers send.  The other participants answer as a function of the messages sent so far.
  On this world the guarantees of the handlers are stated.
\<close>

section \<open>The world\<close>

datatype sent =
    ToLocalWorker nat "worker_local signal" | ToRemoteWorker nat "worker_req signal"
  | ToLocalLeader nat "leader_local signal" | ToRemoteLeader nat "leader_req signal"
  | ToServer server_view "64 word" | ToIntroduce nat nat
  | ToBehaviorTask behavior_handle behavior_req | ToUnsyncedTasks string
  | ToSubscriber nat worker_resp | ToListener listener | ToSelf worker_local

record 'a node =
  nd_state :: "'a worker_state"
  nd_alive :: bool
  nd_sent :: "sent list"

text \<open>The answers of the others; each is given the messages sent so far, the one to answer last.\<close>

record peers =
  pe_worker :: "sent list \<Rightarrow> worker_resp signal core_result"
  pe_leader :: "sent list \<Rightarrow> leader_resp signal core_result"
  pe_server :: "sent list \<Rightarrow> unit core_result"
  pe_introduce :: "sent list \<Rightarrow> uuid option core_result"
  pe_behavior :: "sent list \<Rightarrow> unit core_result"
  pe_connect :: "sent list \<Rightarrow> nat core_result"
  pe_time :: "sent list \<Rightarrow> 64 word"
  pe_fresh :: "sent list \<Rightarrow> uuid"
  pe_choose :: "sent list \<Rightarrow> nat \<Rightarrow> nat"

definition channel_closed :: error where
  "channel_closed = Other ''local executor failed sending, receiver dropped: channel closed''"

text \<open>A request that panics ends the manager; its sender sees the reply channel dropped.\<close>

definition node_mgr :: "('a, 'b) node_env \<Rightarrow> peers \<Rightarrow> 'a node manager" where
  "node_mgr env pe req w =
    (if nd_alive w then
       (case mgr_handle env (\<lambda>_ _. map_ok (\<lambda>_. ()) (pe_leader pe (nd_sent w)))
               (secs_of (pe_time pe (nd_sent w))) (pe_fresh pe (nd_sent w)) req (nd_state w) of
          (st, Panic) \<Rightarrow> (w\<lparr> nd_state := st, nd_alive := False \<rparr>, Err recv_error)
        | (st, r) \<Rightarrow> (w\<lparr> nd_state := st \<rparr>, r))
     else (w, Err channel_closed))"

definition post :: "sent \<Rightarrow> (sent list \<Rightarrow> 'x core_result) \<Rightarrow> ('a node, 'x) act" where
  "post m answer w = (let s = nd_sent w @ [m] in (w\<lparr> nd_sent := s \<rparr>, answer s))"

definition node_io :: "('a, 'b) node_env \<Rightarrow> peers \<Rightarrow> 'a node io" where
  "node_io env pe =
    \<lparr> io_mgr = node_mgr env pe,
      io_local_worker = (\<lambda>c s. post (ToLocalWorker c s) (pe_worker pe)),
      io_remote_worker = (\<lambda>c s. post (ToRemoteWorker c s) (pe_worker pe)),
      io_local_leader = (\<lambda>c s. post (ToLocalLeader c s) (pe_leader pe)),
      io_remote_leader = (\<lambda>c s. post (ToRemoteLeader c s) (pe_leader pe)),
      io_clock_changed = (\<lambda>s c cx. post (ToServer s c) (pe_server pe)),
      io_introduce = (\<lambda>c back cx. post (ToIntroduce c back) (pe_introduce pe)),
      io_behavior = (\<lambda>h s. post (ToBehaviorTask h (sg_payload s)) (pe_behavior pe)),
      io_broadcast = (\<lambda>ev. post (ToUnsyncedTasks ev) (\<lambda>_. Ok ())),
      io_notify = (\<lambda>ch s. post (ToSubscriber ch (sg_payload s)) (\<lambda>_. Ok ())),
      io_lua_spawn = (\<lambda>n script ts. act_ret \<lparr> hd_name = n, hd_triggers = ts \<rparr>),
      io_connect = (\<lambda>l. post (ToListener l) (pe_connect pe)),
      io_make_connection = (\<lambda>l. post (ToListener l) (pe_connect pe)),
      io_self_ctl = (\<lambda>s. post (ToSelf (sg_payload s)) (\<lambda>h. Ok (pe_worker pe h))),
      io_spawn_leader = act_of (Err Unknown),
      io_cancel = act_ret (),
      io_handle_connection = (\<lambda>c. act_ret ()),
      io_unblocked = (\<lambda>w. (w\<lparr> nd_state := (nd_state w)\<lparr> ws_blocked := False \<rparr> \<rparr>, Ok ())),
      io_now = (\<lambda>w. (w, Ok (pe_time pe (nd_sent w)))),
      io_fresh = (\<lambda>w. (w, Ok (pe_fresh pe (nd_sent w)))),
      io_choose = (\<lambda>n w. (w, Ok (pe_choose pe (nd_sent w) n))),
      io_remote_address = (\<lambda>c. show_nat c),
      io_debug_leader = (\<lambda>l. ''leader''),
      io_debug_context = (\<lambda>cx. ''ctx''),
      io_show_error = error_to_string (\<lambda>m _. m) \<rparr>"

section \<open>What an action keeps\<close>

text \<open>\<open>keeps P m\<close>: the action takes worlds with \<open>P\<close> to worlds with \<open>P\<close>, whatever its result.\<close>

definition keeps :: "('w \<Rightarrow> bool) \<Rightarrow> ('w, 'x) act \<Rightarrow> bool" where
  "keeps P m \<longleftrightarrow> (\<forall>w. P w \<longrightarrow> P (fst (m w)))"

named_theorems keeps_intros \<open>introduction rules for what actions keep\<close>

lemma keepsD: "\<lbrakk> keeps P m; P w; m w = (w', r) \<rbrakk> \<Longrightarrow> P w'"
  by (auto simp: keeps_def)

lemma keeps_ret [keeps_intros]: "keeps P (act_ret x)"
  by (simp add: keeps_def act_ret_def)

lemma keeps_of [keeps_intros]: "keeps P (act_of r)"
  by (simp add: keeps_def act_of_def)

lemma keeps_bind [keeps_intros]:
  assumes "keeps P m" "\<And>x. keeps P (f x)"
  shows "keeps P (act_bind m f)"
  using assms by (auto simp: keeps_def act_bind_def split: prod.split result.split)

lemma keeps_try [keeps_intros]: "keeps P m \<Longrightarrow> keeps P (act_try m)"
  by (auto simp: keeps_def act_try_def split: prod.split result.split)

lemma keeps_ignore [keeps_intros]: "keeps P m \<Longrightarrow> keeps P (ignore m)"
  by (simp add: ignore_def keeps_intros)

lemma keeps_must [keeps_intros]: "keeps P m \<Longrightarrow> keeps P (must m)"
  by (auto simp: keeps_def must_def)

lemma keeps_map_err [keeps_intros]: "keeps P m \<Longrightarrow> keeps P (map_act_err f m)"
  by (auto simp: keeps_def map_act_err_def)

lemma keeps_iter [keeps_intros]: "(\<And>x. x \<in> set xs \<Longrightarrow> keeps P (f x)) \<Longrightarrow> keeps P (act_iter f xs)"
  by (induction xs) (auto intro: keeps_intros)

lemma keeps_fold [keeps_intros]: "(\<And>s x. x \<in> set xs \<Longrightarrow> keeps P (f s x)) \<Longrightarrow> keeps P (act_fold f s xs)"
proof (induction xs arbitrary: s)
  case (Cons x xs)
  then show ?case by (auto intro!: keeps_bind)
qed (simp add: keeps_intros)

lemma keeps_expect [keeps_intros]: "keeps P m \<Longrightarrow> keeps P (expect_resp sel m)"
  by (simp add: expect_resp_def keeps_intros)

lemma keeps_expect_empty [keeps_intros]: "keeps P m \<Longrightarrow> keeps P (expect_empty m)"
  by (simp add: expect_empty_def keeps_intros)

lemma keeps_reply [keeps_intros]: "keeps P (reply r cx)"
  by (simp add: reply_def keeps_intros)

lemma keeps_then_reply [keeps_intros]: "keeps P m \<Longrightarrow> keeps P (then_reply m f cx)"
  by (simp add: then_reply_def keeps_intros)

lemma as_reply_fst [simp]: "fst (as_reply r) = fst r"
  by (auto simp: as_reply_def split: prod.split result.split)

section \<open>A manager that has ended\<close>

text \<open>On the worlds of \<open>P\<close> every call to the manager fails, and making a connection stays in \<open>P\<close>.\<close>

definition dead_on :: "('w \<Rightarrow> bool) \<Rightarrow> 'w io \<Rightarrow> bool" where
  "dead_on P io \<longleftrightarrow> (\<forall>req w. P w \<longrightarrow> (\<exists>e. io_mgr io req w = (w, Err e)))
    \<and> (\<forall>l. keeps P (io_connect io l)) \<and> (\<forall>l. keeps P (io_make_connection io l))"

definition fails_on :: "('w \<Rightarrow> bool) \<Rightarrow> ('w, 'x) act \<Rightarrow> bool" where
  "fails_on P m \<longleftrightarrow> (\<forall>w. P w \<longrightarrow> (\<forall>w' x. m w \<noteq> (w', Ok x)))"

lemma fails_first: "fails_on P m \<Longrightarrow> fails_on P (act_bind m f)"
  by (auto simp: fails_on_def act_bind_def split: prod.split result.split)

lemma fails_rest: "\<lbrakk> keeps P m; \<And>x. fails_on P (f x) \<rbrakk> \<Longrightarrow> fails_on P (act_bind m f)"
  unfolding fails_on_def keeps_def act_bind_def
  by (intro allI impI, split prod.split, auto split: result.split)

lemma fails_of: "(\<And>x. r \<noteq> Ok x) \<Longrightarrow> fails_on P (act_of r)"
  by (simp add: fails_on_def act_of_def)

lemma dead_mgr: "dead_on P io \<Longrightarrow> fails_on P (io_mgr io req)"
  unfolding dead_on_def fails_on_def by (metis prod.inject result.distinct(1))

lemma dead_expect: "dead_on P io \<Longrightarrow> fails_on P (expect_resp sel (io_mgr io req))"
  by (simp add: expect_resp_def fails_first dead_mgr)

lemma dead_empty: "dead_on P io \<Longrightarrow> fails_on P (expect_empty (io_mgr io req))"
  by (simp add: expect_empty_def dead_expect)

lemma dead_keeps: "dead_on P io \<Longrightarrow> keeps P (io_mgr io req)"
  unfolding dead_on_def keeps_def by (metis fst_conv)

text \<open>With an ended manager a worker still answers pings and acknowledges singleton behaviors, and
  nothing else.\<close>

lemma dead_handle_request:
  assumes "dead_on P io" "P w" "handle_request io req cx multi w = (w', Ok s)"
  shows "(\<exists>b. req = WPing b) \<or> (\<exists>b. req = WSpawnSingletonBehavior b)"
proof (rule ccontr)
  assume n: "\<not> ?thesis"
  note d = fails_first dead_expect [OF assms(1)] dead_empty [OF assms(1)] dead_mgr [OF assms(1)]
  have c: "keeps P (io_connect io l)" "keeps P (io_make_connection io l)" for l
    using assms(1) by (auto simp: dead_on_def)
  have "fails_on P (handle_request io req cx multi)"
  proof (cases req)
    case (WConnectToLeader l)
    show ?thesis unfolding WConnectToLeader
      by (simp add: handle_request_def handle_connect_to_leader_def mgr_call_defs)
        (rule fails_rest, rule c, rule d, rule d(2))
  next
    case (WConnectToWorker l)
    show ?thesis unfolding WConnectToWorker
      by (simp add: handle_request_def handle_connect_to_worker_def mgr_call_defs)
        (rule fails_rest, rule keeps_map_err, rule c, rule d, rule d(2))
  next
    case (WSubscribe ts q)
    then show ?thesis
      by (cases multi) (auto simp: handle_request_def handle_subscribe_def mgr_call_defs
          intro!: d fails_of)
  next
    case (WInvoke events global)
    then show ?thesis
      by (cases global) (auto simp: handle_request_def handle_invoke_def broadcast_def mgr_call_defs
          act_simps intro!: d)
  next
    case (WSetModel m)
    have k: "keeps P (case r of
         Ok _ \<Rightarrow>
           act_bind (get_config (io_mgr io)) (\<lambda>config.
             if wc_behaviors_follow_model_changes config then
               act_bind (get_model (io_mgr io)) (\<lambda>current.
               act_bind (get_synced_behavior_handles (io_mgr io)) (\<lambda>hs.
                 act_iter (\<lambda>name. act_iter (respawn_behavior io m name cx)
                     (filter (\<lambda>h. hd_name h = name) (concat (map snd hs))))
                   (changed_behaviors current m)))
             else act_ret ())
       | _ \<Rightarrow> act_ret ())" if "r = Panic \<or> (\<exists>e. r = Err e)" for r
      using that by (auto intro: keeps_intros)
    have t: "act_try (get_model (io_mgr io)) w = (w1, Ok r) \<Longrightarrow> w1 = w \<and> (r = Panic \<or> (\<exists>e. r = Err e))"
      if "P w" for w w1 r
      using that assms(1) unfolding dead_on_def
      by (auto simp: act_try_def get_model_def expect_resp_def act_bind_def split: prod.splits result.splits)
        (metis prod.inject result.distinct)+
    show ?thesis unfolding WSetModel fails_on_def
    proof (intro allI impI notI)
      fix w w' x assume "P w" and h: "handle_request io (WSetModel m) cx multi w = (w', Ok x)"
      then obtain w1 r where r: "act_try (get_model (io_mgr io)) w = (w1, Ok r)"
        by (auto simp: handle_request_def handle_set_model_def act_bind_Ok_iff)
      from t [OF \<open>P w\<close> r] have r': "w1 = w" "r = Panic \<or> (\<exists>e. r = Err e)" by auto
      have "fails_on P (act_bind (set_model (io_mgr io) m) (\<lambda>_. reply WrEmpty cx))"
        unfolding set_model_def by (rule d) (rule d)
      moreover have "\<exists>w2 x. act_bind (set_model (io_mgr io) m) (\<lambda>_. reply WrEmpty cx) w = (w2, Ok x)"
        using h r r' by (auto simp: handle_request_def handle_set_model_def act_bind_Ok_iff act_simps)
      ultimately show False using \<open>P w\<close> by (auto simp: fails_on_def)
    qed
  qed (use n in \<open>auto simp: handle_request_def mgr_call_defs then_reply_def with_leader_def Let_def
      handle_step_def handle_get_model_def handle_replace_model_def handle_merge_model_def
      handle_clock_def handle_machine_logic_def handle_migrate_def handle_get_leader_def
      handle_is_blocking_def worker_query_def take_entity_def send_to_leader_def
      intro!: d fails_of\<close>)
  with assms(2,3) show False by (simp add: fails_on_def)
qed

lemma post_keeps: "(\<And>w s. P w \<Longrightarrow> P (w\<lparr> nd_sent := s \<rparr>)) \<Longrightarrow> keeps P (post m answer)"
  by (simp add: keeps_def post_def Let_def)

lemma node_dead: "dead_on (\<lambda>w. \<not> nd_alive w) (node_io env pe)"
  by (auto simp: dead_on_def node_io_def node_mgr_def intro!: post_keeps)

text \<open>A memory size request to an initialized worker fails and ends its manager: from
  then on every request to the worker fails, except pings and the acknowledgement of singleton
  behaviors.\<close>

lemma memory_size_ends_worker:
  assumes "nd_alive w" and "ws_part (nd_state w) \<noteq> None"
    and "handle_request (node_io env pe) WMemorySize cx multi w = (w', r)"
  shows "r = Err recv_error \<and> \<not> nd_alive w' \<and> nd_state w' = nd_state w
    \<and> (\<forall>req cx' multi' w'' s. handle_request (node_io env pe) req cx' multi' w' = (w'', Ok s)
         \<longrightarrow> (\<exists>b. req = WPing b) \<or> (\<exists>b. req = WSpawnSingletonBehavior b))"
proof -
  obtain p where p: "ws_part (nd_state w) = Some p" using assms(2) by blast
  then have "(nd_state w)\<lparr> ws_part := Some p \<rparr> = nd_state w" by (cases "nd_state w") simp
  with assms(1,3) p have "w' = w\<lparr> nd_alive := False \<rparr>" "r = Err recv_error"
    by (auto simp: handle_request_def then_reply_def memory_size_def expect_resp_def act_bind_def
        node_io_def node_mgr_def mgr_handle_def on_part_def)
  moreover have "(\<exists>b. req = WPing b) \<or> (\<exists>b. req = WSpawnSingletonBehavior b)"
    if "handle_request (node_io env pe) req cx' multi' (w\<lparr> nd_alive := False \<rparr>) = (w'', Ok s)" for req cx' multi' w'' s
    by (rule dead_handle_request [OF node_dead _ that]) simp
  ultimately show ?thesis by simp
qed

definition silent_peers :: peers where
  "silent_peers =
    \<lparr> pe_worker = (\<lambda>_. Err recv_error), pe_leader = (\<lambda>_. Err recv_error), pe_server = (\<lambda>_. Ok ()),
      pe_introduce = (\<lambda>_. Ok None), pe_behavior = (\<lambda>_. Ok ()), pe_connect = (\<lambda>_. Ok 0),
      pe_time = (\<lambda>h. 20000000 + of_nat (length h)), pe_fresh = (\<lambda>h. 100 + of_nat (length h)),
      pe_choose = (\<lambda>_ _. 0) \<rparr>"

definition sample_node :: "(string, entity) kv node" where
  "sample_node = \<lparr> nd_state = sample_worker, nd_alive = True, nd_sent = [] \<rparr>"

end
