(* ===== verification/WorkerFacts.thy ===== *)
theory WorkerFacts
  imports WorkerNodes
begin

text \<open>
  What the request handlers of a worker guarantee and what they do not: steps, invocations and
  subscriptions, migration, the admission of calls, and the variables as scripts see them.
\<close>

section \<open>Manager calls on a live worker\<close>

lemma on_part_read:
  "ws_part st = Some p \<Longrightarrow> on_part e st (\<lambda>p. (p, f p)) = (st, f p)"
  by (simp add: on_part_def)

lemma node_mgr_live:
  assumes "nd_alive w" "mgr_handle env (\<lambda>_ _. map_ok (\<lambda>_. ()) (pe_leader pe (nd_sent w)))
      (secs_of (pe_time pe (nd_sent w))) (pe_fresh pe (nd_sent w)) req (nd_state w) = (st, r)" "r \<noteq> Panic"
  shows "node_mgr env pe req w = (w\<lparr> nd_state := st \<rparr>, r)"
  using assms by (cases r) (simp_all add: node_mgr_def)

lemma node_reads [act_simps]:
  assumes "nd_alive w"
  shows "get_id (node_mgr env pe) w = (w, Ok (ws_id (nd_state w)))"
    and "get_config (node_mgr env pe) w = (w, Ok (ws_config (nd_state w)))"
    and "get_leader (node_mgr env pe) w = (w, Ok (ws_leader (nd_state w)))"
    and "get_other_workers (node_mgr env pe) w = (w, Ok (ws_other_workers (nd_state w)))"
    and "get_servers (node_mgr env pe) w = (w, Ok (ws_servers (nd_state w)))"
    and "get_clock_watch (node_mgr env pe) w = (w, Ok (ws_clock (nd_state w)))"
    and "get_subscriptions (node_mgr env pe) w = (w, Ok (ws_subscriptions (nd_state w)))"
    and "set_clock_watch (node_mgr env pe) c w = (w\<lparr> nd_state := (nd_state w)\<lparr> ws_clock := c \<rparr> \<rparr>, Ok ())"
  using assms
  by (simp_all add: mgr_call_defs expect_empty_def expect_resp_def act_bind_def act_of_def
      node_mgr_def mgr_handle_def)

lemma node_part_reads [act_simps]:
  assumes "nd_alive w" "ws_part (nd_state w) = Some p"
  shows "get_unsynced_behavior_tx (node_mgr env pe) w = (w, Ok (pt_unsynced p))"
    and "get_synced_behavior_handles (node_mgr env pe) w = (w, Ok (pt_behaviors p))"
    and "get_machine_handles (node_mgr env pe) w = (w, Ok (pt_machines p))"
  using assms
  by (simp_all add: mgr_call_defs expect_resp_def act_bind_def act_of_def node_mgr_def mgr_handle_def
      on_part_read)

lemma node_io_simps [simp]:
  "io_mgr (node_io env pe) = node_mgr env pe"
  "io_clock_changed (node_io env pe) s c cx = post (ToServer s c) (pe_server pe)"
  "io_broadcast (node_io env pe) ev = post (ToUnsyncedTasks ev) (\<lambda>_. Ok ())"
  "io_notify (node_io env pe) ch sg = post (ToSubscriber ch (sg_payload sg)) (\<lambda>_. Ok ())"
  "io_behavior (node_io env pe) h s' = post (ToBehaviorTask h (sg_payload s')) (pe_behavior pe)"
  "io_now (node_io env pe) = (\<lambda>w. (w, Ok (pe_time pe (nd_sent w))))"
  "io_choose (node_io env pe) n = (\<lambda>w. (w, Ok (pe_choose pe (nd_sent w) n)))"
  "io_fresh (node_io env pe) = (\<lambda>w. (w, Ok (pe_fresh pe (nd_sent w))))"
  by (simp_all add: node_io_def)

lemma post_apply: "post m answer w = (w\<lparr> nd_sent := nd_sent w @ [m] \<rparr>, answer (nd_sent w @ [m]))"
  by (simp add: post_def Let_def)

lemma act_bind_pure: "act_bind (\<lambda>w. (w, Ok (f w))) g w = g (f w) w"
  by (simp add: act_bind_def)

lemma act_bind_of: "act_bind (act_of (Ok x)) g = g x"
  by (rule ext) (simp add: act_bind_def act_of_def)

lemma ignore_post:
  "(\<And>h. answer h \<noteq> Panic) \<Longrightarrow> ignore (post m answer) w = (w\<lparr> nd_sent := nd_sent w @ [m] \<rparr>, Ok ())"
  by (simp add: ignore_def act_bind_def act_try_def post_apply act_ret_def split: result.split)

text \<open>Messages posted one after the other whose answers are ignored, and up to the first failure.\<close>

lemma iter_ignore_post:
  assumes "\<And>h. answer h \<noteq> Panic"
  shows "act_iter (\<lambda>x. ignore (post (m x) answer)) xs w = (w\<lparr> nd_sent := nd_sent w @ map m xs \<rparr>, Ok ())"
proof (induction xs arbitrary: w)
  case Nil
  show ?case by (simp add: act_ret_def)
next
  case (Cons x xs)
  have "act_iter (\<lambda>x. ignore (post (m x) answer)) (x # xs) w
      = act_iter (\<lambda>x. ignore (post (m x) answer)) xs (w\<lparr> nd_sent := nd_sent w @ [m x] \<rparr>)"
    by (simp add: act_bind_Ok [OF ignore_post [OF assms]])
  then show ?case by (simp add: Cons.IH)
qed

lemma iter_post:
  assumes "act_iter (\<lambda>x. post (m x) answer) xs w = (w', r)" "\<And>h. answer h \<noteq> Panic"
  shows "\<exists>ys. prefix ys xs \<and> w' = w\<lparr> nd_sent := nd_sent w @ map m ys \<rparr>
    \<and> (r = Ok () \<and> ys = xs \<or> ys \<noteq> [] \<and> (\<exists>e. r = Err e \<and> answer (nd_sent w') = Err e))"
  using assms(1)
proof (induction xs arbitrary: w)
  case Nil
  then show ?case by (intro exI [of _ "[]"]) (auto simp: act_ret_def)
next
  case (Cons x xs)
  let ?w = "w\<lparr> nd_sent := nd_sent w @ [m x] \<rparr>"
  show ?case
  proof (cases "answer (nd_sent w @ [m x])")
    case (Ok u)
    then have "post (m x) answer w = (?w, Ok u)" by (simp add: post_apply)
    with Cons.prems have "act_iter (\<lambda>x. post (m x) answer) xs ?w = (w', r)"
      by (simp add: act_bind_Ok)
    from Cons.IH [OF this] obtain ys where "prefix ys xs" "w' = w\<lparr> nd_sent := nd_sent w @ map m (x # ys) \<rparr>"
      "r = Ok () \<and> ys = xs \<or> ys \<noteq> [] \<and> (\<exists>e. r = Err e \<and> answer (nd_sent w') = Err e)" by auto
    then show ?thesis by (intro exI [of _ "x # ys"]) auto
  next
    case (Err e)
    then have "post (m x) answer w = (?w, Err e)" by (simp add: post_apply)
    with Cons.prems have "w' = ?w" "r = Err e" by (simp_all add: act_bind_Err)
    with Err show ?thesis by (intro exI [of _ "[x]"]) auto
  qed (use assms(2) in blast)
qed

section \<open>Steps\<close>

definition step_messages :: "'a worker_state \<Rightarrow> 'a partition \<Rightarrow> sent list" where
  "step_messages st p =
    map (\<lambda>(_, s). ToServer s (ws_clock st + 1)) (ws_servers st) @ [ToUnsyncedTasks ''step'']
    @ map (\<lambda>h. ToBehaviorTask h (BEvent ''step''))
        (filter (triggered ''step'') (concat (map snd (pt_behaviors p))))"

lemma no_step_subscriptions:
  "\<forall>s \<in> set subs. StepEvent \<notin> set (sb_triggers s) \<Longrightarrow>
    act_fold (step_subscription io) cx subs w = (w, Ok cx)"
  by (induction subs) (auto simp: step_subscription_def act_bind_def act_ret_def)


section \<open>Invocations and subscriptions\<close>

definition notified :: "'a node \<Rightarrow> nat list" where
  "notified w = List.map_filter (\<lambda>m. case m of ToSubscriber ch _ \<Rightarrow> Some ch | _ \<Rightarrow> None) (nd_sent w)"

lemma notified_append:
  "notified (w\<lparr> nd_sent := nd_sent w @ [m] \<rparr>) =
    notified w @ (case m of ToSubscriber ch _ \<Rightarrow> [ch] | _ \<Rightarrow> [])"
  by (cases m) (simp_all add: notified_def List.map_filter_def)

text \<open>The subscriptions of the worker and the notifications sent so far.\<close>

definition subs_and_notes :: "subscription list \<Rightarrow> nat list \<Rightarrow> 'a node \<Rightarrow> bool" where
  "subs_and_notes subs ns w \<longleftrightarrow> ws_subscriptions (nd_state w) = subs \<and> notified w = ns"

lemma on_part_subs: "on_part e st f = (st', r) \<Longrightarrow> ws_subscriptions st' = ws_subscriptions st"
  by (auto simp: on_part_def split: option.splits prod.splits)

lemma keeps_node_mgr:
  assumes "\<And>st st' r lr now fresh. mgr_handle env lr now fresh req st = (st', r)
      \<Longrightarrow> ws_subscriptions st' = ws_subscriptions st"
  shows "keeps (subs_and_notes subs ns) (node_mgr env pe req)"
  using assms
  by (auto simp: keeps_def node_mgr_def subs_and_notes_def notified_def split: prod.split result.split)

lemma keeps_node_reads [keeps_intros]:
  "keeps (subs_and_notes subs ns) (node_mgr env pe MgGetId)"
  "keeps (subs_and_notes subs ns) (node_mgr env pe MgGetOtherWorkers)"
  "keeps (subs_and_notes subs ns) (node_mgr env pe MgGetLeader)"
  "keeps (subs_and_notes subs ns) (node_mgr env pe MgGetUnsyncedBehaviorTx)"
  "keeps (subs_and_notes subs ns) (node_mgr env pe MgGetSyncedBehaviorHandles)"
  "keeps (subs_and_notes subs ns) (node_mgr env pe MgGetMachineHandles)"
  "keeps (subs_and_notes subs ns) (node_mgr env pe (MgProcessQuery q))"
  by (rule keeps_node_mgr, auto simp: mgr_handle_def dest: on_part_subs)+

lemma keeps_post [keeps_intros]:
  "(\<And>ch r. m \<noteq> ToSubscriber ch r) \<Longrightarrow> keeps (subs_and_notes subs ns) (post m answer)"
  by (cases m) (auto simp: keeps_def post_apply subs_and_notes_def notified_append)

lemma keeps_pure [keeps_intros]: "keeps P (\<lambda>w. (w, f w))"
  by (simp add: keeps_def)

lemma keeps_execs [keeps_intros]:
  "keeps (subs_and_notes subs ns) (worker_exec (node_io env pe) e sg)"
  "keeps (subs_and_notes subs ns) (leader_exec (node_io env pe) e sg')"
  by (cases e; simp add: worker_exec_def leader_exec_def node_io_def keeps_intros)+

lemma keeps_other_worker [keeps_intros]:
  "keeps (subs_and_notes subs ns) (other_worker_exec (node_io env pe) ow sg)"
  by (auto simp: other_worker_exec_def intro: keeps_intros split: worker_situation.split)

lemma keeps_worker_query [keeps_intros]:
  "keeps (subs_and_notes subs ns) (worker_query (node_io env pe) q cx)"
proof -
  have l: "keeps (subs_and_notes subs ns) (query_leader (node_io env pe) q cx)"
    by (auto simp: query_leader_def mgr_call_defs Let_def intro!: keeps_intros
        split: leader_situation.split leader_resp_of.split worker_resp.split)
  have o: "keeps (subs_and_notes subs ns) (query_one (node_io env pe) q cx' p iw)" for cx' p iw
    by (auto simp: query_one_def intro!: keeps_intros split: worker_resp.split)
  show ?thesis
    by (auto simp: worker_query_def mgr_call_defs intro!: keeps_intros l o split: scope.split)
qed

lemma keeps_broadcast [keeps_intros]:
  "keeps (subs_and_notes subs ns) (broadcast (node_io env pe) sg cx)"
proof -
  have o: "keeps (subs_and_notes subs ns) (broadcast_one (node_io env pe) sg acc iw)" for acc iw
    by (auto simp: broadcast_one_def intro!: keeps_intros split: prod.split worker_situation.split result.split)
  show ?thesis
    by (auto simp: broadcast_def mgr_call_defs intro!: keeps_intros o
        split: leader_situation.split result.split leader_resp_of.split)
qed

lemma event_subscription_notifies:
  assumes "event_subscription (node_io env pe) cx sub w = (w', Ok u)" "subs_and_notes subs ns w"
  shows "subs_and_notes subs (ns @ [sb_sender sub]) w'"
proof -
  from assms(1) obtain w1 p cx' where q: "worker_query (node_io env pe) (sb_query sub) cx w = (w1, Ok (p, cx'))"
    and i: "ignore (post (ToSubscriber (sb_sender sub) (WrQuery p)) (\<lambda>_. Ok ())) w1 = (w', Ok u)"
    by (auto simp: event_subscription_def act_bind_Ok_iff signal_new_def)
  from keepsD [OF keeps_worker_query assms(2) q] have "subs_and_notes subs ns w1" .
  moreover have "w' = w1\<lparr> nd_sent := nd_sent w1 @ [ToSubscriber (sb_sender sub) (WrQuery p)] \<rparr>"
    using i by (subst (asm) ignore_post) auto
  ultimately show ?thesis by (simp add: subs_and_notes_def notified_append)
qed

lemma event_subscriptions_notify:
  "\<lbrakk> act_iter (event_subscription (node_io env pe) cx) ss w = (w', Ok u); subs_and_notes subs ns w \<rbrakk>
    \<Longrightarrow> subs_and_notes subs (ns @ map sb_sender ss) w'"
proof (induction ss arbitrary: w ns)
  case Nil
  then show ?case by (simp add: act_ret_def)
next
  case (Cons s ss)
  from Cons.prems(1) obtain w1 v where "event_subscription (node_io env pe) cx s w = (w1, Ok v)"
    "act_iter (event_subscription (node_io env pe) cx) ss w1 = (w', Ok u)"
    by (auto simp: act_bind_Ok_iff)
  with Cons.IH event_subscription_notifies Cons.prems(2) show ?case by fastforce
qed

lemma node_get_subscriptions:
  "get_subscriptions (node_mgr env pe) w = (w1, Ok ss) \<Longrightarrow> w1 = w \<and> ss = ws_subscriptions (nd_state w)"
  by (auto simp: get_subscriptions_def expect_resp_def act_bind_def act_of_def node_mgr_def mgr_handle_def
      split: if_splits)

lemma events_notify:
  "\<lbrakk> act_iter (\<lambda>ev. act_bind (get_subscriptions (node_mgr env pe))
        (act_iter (event_subscription (node_io env pe) cx))) events w = (w', Ok u);
     subs_and_notes subs ns w \<rbrakk>
    \<Longrightarrow> subs_and_notes subs (ns @ concat (map (\<lambda>_. map sb_sender subs) events)) w'"
proof (induction events arbitrary: w ns)
  case Nil
  then show ?case by (simp add: act_ret_def)
next
  case (Cons ev events)
  let ?f = "act_iter (event_subscription (node_io env pe) cx)"
  from Cons.prems(1) obtain w1 w2 v ss where g: "get_subscriptions (node_mgr env pe) w = (w1, Ok ss)"
    and e: "?f ss w1 = (w2, Ok v)"
    and r: "act_iter (\<lambda>ev. act_bind (get_subscriptions (node_mgr env pe)) ?f) events w2 = (w', Ok u)"
    by (auto simp: act_bind_Ok_iff)
  from node_get_subscriptions [OF g] Cons.prems(2) have "w1 = w" "ss = subs"
    by (auto simp: subs_and_notes_def)
  with event_subscriptions_notify [OF e] Cons.prems(2) have "subs_and_notes subs (ns @ map sb_sender subs) w2"
    by simp
  from Cons.IH [OF r this] show ?case by simp
qed

text \<open>An invocation that succeeds answers every subscription of the worker once for every
  event, in order, whatever triggers the subscription was made with.\<close>

lemma invoke_notifies_all:
  assumes "handle_request (node_io env pe) (WInvoke events global) cx multi w = (w', Ok s)"
  shows "notified w' = notified w @
    concat (map (\<lambda>_. map sb_sender (ws_subscriptions (nd_state w))) events)"
proof -
  let ?P = "subs_and_notes (ws_subscriptions (nd_state w)) (notified w)"
  let ?io = "node_io env pe"
  from assms obtain w1 cx1 w2 x2 w3 x3 w4 hs w5 ms w6 x6 w7 x7 where
    1: "(if global then act_bind (broadcast ?io (signal_new (WInvoke events global) cx) cx) (\<lambda>(_, cx'). act_ret cx')
         else act_ret cx) w = (w1, Ok cx1)"
    and 2: "get_unsynced_behavior_tx (node_mgr env pe) w1 = (w2, Ok x2)"
    and 3: "act_iter (\<lambda>ev. ignore (io_broadcast ?io ev)) events w2 = (w3, Ok x3)"
    and 4: "get_synced_behavior_handles (node_mgr env pe) w3 = (w4, Ok hs)"
    and 5: "get_machine_handles (node_mgr env pe) w4 = (w5, Ok ms)"
    and 6: "act_iter (\<lambda>h. act_iter (\<lambda>ev. ignore (send_event ?io cx1 ev h))
                (filter (\<lambda>ev. triggered ev h) events)) (concat (map snd hs) @ ms) w5 = (w6, Ok x6)"
    and 7: "act_iter (\<lambda>ev. act_bind (get_subscriptions (node_mgr env pe))
                (act_iter (event_subscription ?io cx1))) events w6 = (w7, Ok x7)"
    and 8: "w' = w7"
    by (auto simp: handle_request_def handle_invoke_def act_bind_Ok_iff reply_def act_ret_def)
  have 0: "?P w" by (simp add: subs_and_notes_def)
  have k1: "keeps ?P (if global then act_bind (broadcast ?io (signal_new (WInvoke events global) cx) cx)
      (\<lambda>(_, cx'). act_ret cx') else act_ret cx)" by (auto intro!: keeps_intros)
  have k2: "keeps ?P (get_unsynced_behavior_tx (node_mgr env pe))"
    "keeps ?P (get_synced_behavior_handles (node_mgr env pe))" "keeps ?P (get_machine_handles (node_mgr env pe))"
    by (auto simp: mgr_call_defs intro!: keeps_intros)
  have k3: "keeps ?P (act_iter (\<lambda>ev. ignore (io_broadcast ?io ev)) events)"
    by (auto intro!: keeps_intros)
  have k6: "keeps ?P (act_iter (\<lambda>h. act_iter (\<lambda>ev. ignore (send_event ?io cx1 ev h))
      (filter (\<lambda>ev. triggered ev h) events)) (concat (map snd hs) @ ms))"
    by (auto simp: send_event_def intro!: keeps_intros)
  note p1 = keepsD [OF k1 0 1]
  note p2 = keepsD [OF k2(1) p1 2]
  note p3 = keepsD [OF k3 p2 3]
  note p4 = keepsD [OF k2(2) p3 4]
  note p5 = keepsD [OF k2(3) p4 5]
  note p6 = keepsD [OF k6 p5 6]
  from events_notify [OF 7 p6] 8 show ?thesis by (simp add: subs_and_notes_def)
qed

definition subscribed_node :: "(string, entity) kv node" where
  "subscribed_node = sample_node\<lparr> nd_state := sample_worker\<lparr> ws_subscriptions :=
    [\<lparr> sb_id = 1, sb_triggers = [StepEvent], sb_query = with_scope default_query LocalWorker, sb_sender = 4 \<rparr>,
     \<lparr> sb_id = 2, sb_triggers = [TrEvent ''hit''], sb_query = with_scope default_query LocalWorker, sb_sender = 6 \<rparr>] \<rparr> \<rparr>"

text \<open>The first subscription asked for steps only.\<close>

definition step_node :: "(string, entity) kv node" where
  "step_node = sample_node\<lparr> nd_state := sample_worker\<lparr>
    ws_servers := [(3, \<lparr> sv_id = 3, sv_exec = Local 9, sv_listeners = [] \<rparr>)],
    ws_part := Some (sample_partition (Some [])\<lparr>
      pt_machines := [\<lparr> hd_name = ''m'', hd_triggers = [''step''] \<rparr>, \<lparr> hd_name = ''n'', hd_triggers = [] \<rparr>] \<rparr>) \<rparr> \<rparr>"


section \<open>Admission of calls\<close>

text \<open>The calls of a local stream in their order: each with its identifier and whether it is admitted.\<close>

fun admit_seq :: "seen_calls \<Rightarrow> call_context list \<Rightarrow> (uuid \<times> bool) list" where
  "admit_seq seen [] = []"
| "admit_seq seen (cx # cxs) =
    (case admit_local cx seen of (seen', r) \<Rightarrow> (cx_id cx, r = Ok ()) # admit_seq seen' cxs)"

definition admitted :: "uuid \<Rightarrow> (uuid \<times> bool) list \<Rightarrow> nat" where
  "admitted i xs = length (filter (\<lambda>(j, ok). j = i \<and> ok) xs)"

definition unlimited :: "delivery \<Rightarrow> bool" where
  "unlimited d \<longleftrightarrow> (case d of Unlimited \<Rightarrow> True | Limited n \<Rightarrow> 1 < n)"

abbreviation occurrences :: "uuid \<Rightarrow> call_context list \<Rightarrow> nat" where
  "occurrences i cxs \<equiv> length (filter (\<lambda>cx. cx_id cx = i) cxs)"

lemma admit_seq_count:
  assumes "\<forall>i n t. map_of seen i = Some (n, t) \<longrightarrow> n = 1"
    and "\<forall>cx \<in> set cxs. cx_id cx = i \<longrightarrow> cx_delivery cx = d"
  shows "admitted i (admit_seq seen cxs) =
    (if unlimited d then occurrences i cxs
     else if map_of seen i = None then min 1 (occurrences i cxs) else 0)"
  using assms
proof (induction cxs arbitrary: seen)
  case Nil
  show ?case by (simp add: admitted_def)
next
  case (Cons cx cxs)
  obtain seen' r where a: "admit_local cx seen = (seen', r)" by fastforce
  have one: "\<forall>i n t. map_of seen' i = Some (n, t) \<longrightarrow> n = 1"
    using a Cons.prems(1)
    by (auto simp: admit_local_def kv_simps split: option.splits if_splits) blast
  note IH = Cons.IH [OF one] 
  have ih: "admitted i (admit_seq seen' cxs) =
      (if unlimited d then occurrences i cxs
       else if map_of seen' i = None then min 1 (occurrences i cxs) else 0)"
    using IH Cons.prems(2) by simp
  have step: "admitted i (admit_seq seen (cx # cxs)) =
      (if cx_id cx = i \<and> r = Ok () then 1 else 0) + admitted i (admit_seq seen' cxs)"
    by (simp add: a admitted_def)
  show ?case
  proof (cases "cx_id cx = i")
    case False
    then have "map_of seen' i = map_of seen i"
      using a by (auto simp: admit_local_def kv_simps split: option.splits)
    with False step ih show ?thesis by simp
  next
    case True
    with Cons.prems(2) have d: "cx_delivery cx = d" by simp
    show ?thesis
    proof (cases "map_of seen i")
      case None
      with a True have "r = Ok ()" "map_of seen' i \<noteq> None" by (auto simp: admit_local_def kv_simps)
      with None True step ih show ?thesis by auto
    next
      case (Some nt)
      then obtain t where t: "map_of seen i = Some (1, t)" using Cons.prems(1) by (cases nt) auto
      with a True d have "seen' = seen" "r = Ok () \<longleftrightarrow> unlimited d"
        by (auto simp: admit_local_def unlimited_def not_le split: delivery.split if_splits)
      with t True step ih show ?thesis by simp
    qed
  qed
qed

text \<open>Of the calls with one identifier and one delivery that reach a fresh worker over its
  local streams, among any others, exactly the first is admitted when the delivery is limited to
  one (or to none), and every one is admitted when it is unlimited or limited to any number above
  one; on the other streams a recorded call is never admitted.\<close>

lemma admission_counts:
  assumes "\<forall>cx \<in> set cxs. cx_id cx = i \<longrightarrow> cx_delivery cx = d"
  shows "admitted i (admit_seq [] cxs) =
      (if unlimited d then occurrences i cxs else min 1 (occurrences i cxs))
    \<and> (\<forall>cx seen seen' r. admit_local cx seen = (seen', r) \<longrightarrow> admit_other cx seen' \<noteq> Ok ())"
proof -
  have "admit_other cx seen' \<noteq> Ok ()" if "admit_local cx seen = (seen', r)" for cx seen seen' r
    using that by (auto simp: admit_local_def admit_other_def kv_simps split: option.splits)
  with admit_seq_count [of "[]" cxs i d] assms show ?thesis by auto
qed

section \<open>Migration\<close>

lemma kv_remove_insert: "kv_remove k (kv_insert k v m) = kv_remove k m"
  by (induction k v m rule: kv_insert.induct) (auto simp: kv_remove_def)

lemma kv_remove_fresh: "k \<notin> fst ` set m \<Longrightarrow> kv_remove k m = m"
  by (force simp: kv_remove_def intro!: filter_True)

text \<open>A live worker with the given entities that knows no other worker and no leader.\<close>

definition isolated :: "(string, entity) kv \<Rightarrow> 'a node \<Rightarrow> bool" where
  "isolated es w \<longleftrightarrow> nd_alive w \<and> ws_other_workers (nd_state w) = []
    \<and> (\<forall>e. lv_situation (ws_leader (nd_state w)) \<noteq> LsConnected e)
    \<and> (\<exists>p. ws_part (nd_state w) = Some p \<and> pt_entities p = es)"

lemma send_entity_isolated: "isolated es w \<Longrightarrow> send_entity (node_io env pe) cx n e w = (w, Ok ())"
  by (auto simp: isolated_def send_entity_def act_bind_Ok node_reads act_ret_def split: leader_situation.split)

lemma migrate_one_isolated:
  assumes "isolated ((n, e) # es) w" "n \<notin> fst ` set es" "wc_entity_migration_cooldown_secs config = None"
  shows "\<exists>w'. migrate_one (node_io env pe) config cx n w = (w', Ok ()) \<and> isolated es w' \<and> nd_sent w' = nd_sent w"
proof -
  from assms(1) obtain p where p: "ws_part (nd_state w) = Some p" "pt_entities p = (n, e) # es" "nd_alive w"
    by (auto simp: isolated_def)
  let ?now = "secs_of (pe_time pe (nd_sent w))"
  let ?p = "p\<lparr> pt_entities := kv_insert n (touch ?now e) (pt_entities p) \<rparr>"
  let ?w = "w\<lparr> nd_state := (nd_state w)\<lparr> ws_part := Some ?p \<rparr> \<rparr>"
  have g: "get_entity_from (node_mgr env pe) n w = (?w, Ok (touch ?now e))"
    using p by (simp add: get_entity_from_def expect_resp_def act_bind_def act_of_def node_mgr_def
        mgr_handle_def on_part_def get_entity_def)
  have i: "isolated (pt_entities ?p) ?w" using assms(1) by (simp add: isolated_def)
  let ?p' = "?p\<lparr> pt_behaviors := filter (\<lambda>(t, _). t \<noteq> TargetEntity n) (pt_behaviors p),
      pt_entities := kv_remove n (pt_entities ?p) \<rparr>"
  let ?w' = "w\<lparr> nd_state := (nd_state w)\<lparr> ws_part := Some ?p' \<rparr> \<rparr>"
  have r: "mgr_remove_entity (node_mgr env pe) n ?w = (?w', Ok ())"
    using p by (simp add: mgr_remove_entity_def act_bind_def act_ret_def node_mgr_def mgr_handle_def
        on_part_def remove_entity_def Let_def)
  have "pt_entities ?p' = es"
    using p assms(2) kv_remove_fresh [of n es] by (simp add: kv_remove_def)
  with assms(1) have "isolated es ?w'" by (simp add: isolated_def)
  moreover have "migrate_one (node_io env pe) config cx n w = (?w', Ok ())"
    using g r send_entity_isolated [OF i, of env pe cx n "touch ?now e"] assms(3)
    by (simp add: migrate_one_def act_bind_Ok act_bind_pure act_bind_of cooling_down_def)
  ultimately show ?thesis by (intro exI [of _ ?w']) simp
qed

lemma migrate_all_isolated:
  assumes "wc_entity_migration_cooldown_secs config = None"
  shows "\<lbrakk> isolated es w; distinct (map fst es) \<rbrakk> \<Longrightarrow>
    \<exists>w'. act_iter (migrate_one (node_io env pe) config cx) (map fst es) w = (w', Ok ())
      \<and> isolated [] w' \<and> nd_sent w' = nd_sent w"
proof (induction es arbitrary: w)
  case Nil
  then show ?case by (simp add: act_ret_def)
next
  case (Cons ne es)
  obtain n e where ne: "ne = (n, e)" by (cases ne)
  from migrate_one_isolated [of n e es w config env pe cx] Cons.prems assms ne obtain w1 where
    w1: "migrate_one (node_io env pe) config cx n w = (w1, Ok ())" "isolated es w1" "nd_sent w1 = nd_sent w"
    by auto
  from Cons.IH [OF w1(2)] Cons.prems ne obtain w2 where
    "act_iter (migrate_one (node_io env pe) config cx) (map fst es) w1 = (w2, Ok ())"
    "isolated [] w2" "nd_sent w2 = nd_sent w1" by auto
  with w1 ne show ?case by (simp add: act_bind_Ok)
qed

text \<open>C39: asked to migrate its entities while it knows no other worker and no leader, a worker
  without a cooldown reports success, has sent no message and holds no entity any more: the
  entities are lost.\<close>

theorem migrate_loses:
  assumes "isolated es w" and "distinct (map fst es)"
    and "wc_entity_migration_cooldown_secs (ws_config (nd_state w)) = None"
    and "get_entities (ne_api env) p = Ok (map fst es)" and "ws_part (nd_state w) = Some p"
  shows "\<exists>w'. handle_request (node_io env pe) WMigrateEntities cx multi w = (w', Ok (signal_new WrEmpty cx))
    \<and> nd_sent w' = nd_sent w \<and> (\<forall>n. \<not> in_memory (nd_state w') n)"
proof -
  have live: "nd_alive w" using assms(1) by (simp add: isolated_def)
  have s: "(nd_state w)\<lparr> ws_part := Some p \<rparr> = nd_state w" using assms(5) by (cases "nd_state w") simp
  have l: "list_entities (node_mgr env pe) w = (w, Ok (map fst es))"
    using assms(4,5) live s
    by (simp add: list_entities_def expect_resp_def act_bind_def act_of_def node_mgr_def mgr_handle_def
        on_part_def)
  from migrate_all_isolated [OF assms(3,1,2)] obtain w' where w':
    "act_iter (migrate_one (node_io env pe) (ws_config (nd_state w)) cx) (map fst es) w = (w', Ok ())"
    "isolated [] w'" "nd_sent w' = nd_sent w" by blast
  have "handle_request (node_io env pe) WMigrateEntities cx multi w = (w', Ok (signal_new WrEmpty cx))"
    using l w'(1) live
    by (simp add: handle_request_def handle_migrate_def act_bind_Ok node_reads reply_def act_ret_def)
  moreover have "\<not> in_memory (nd_state w') n" for n
    using w'(2) by (auto simp: isolated_def in_memory_def part_knows_def)
  ultimately show ?thesis using w'(3) by blast
qed

definition lone_node :: "(string, entity) kv node" where
  "lone_node = sample_node\<lparr> nd_state := sample_worker\<lparr>
    ws_config := default_worker_config\<lparr> wc_entity_migration_cooldown_secs := None \<rparr> \<rparr> \<rparr>"

theorem migrate_loses_witness:
  "in_memory (nd_state lone_node) ''e''
   \<and> (\<exists>w'. handle_request (node_io list_env silent_peers) WMigrateEntities sample_context None lone_node
        = (w', Ok (signal_new WrEmpty sample_context)) \<and> \<not> in_memory (nd_state w') ''e'')"
proof -
  let ?p = "sample_partition (Some [])\<lparr> pt_entities := [(''e'', sample_entity)] \<rparr> :: (string, entity) kv partition"
  have "isolated [(''e'', sample_entity)] lone_node"
    by (simp add: isolated_def lone_node_def sample_node_def sample_worker_def default_leader_view_def)
  moreover have "wc_entity_migration_cooldown_secs (ws_config (nd_state lone_node)) = None"
    "ws_part (nd_state lone_node) = Some ?p"
    by (simp_all add: lone_node_def sample_node_def sample_worker_def)
  moreover have "get_entities (ne_api list_env) ?p = Ok (map fst [(''e'', sample_entity)])"
    by (simp add: get_entities_def sample_partition_def list_env_def list_archive_def)
  ultimately have "\<exists>w'. handle_request (node_io list_env silent_peers) WMigrateEntities sample_context None lone_node
        = (w', Ok (signal_new WrEmpty sample_context)) \<and> (\<forall>n. \<not> in_memory (nd_state w') n)"
    using migrate_loses [of "[(''e'', sample_entity)]" lone_node list_env ?p silent_peers sample_context None]
    by auto
  moreover have "in_memory (nd_state lone_node) ''e''"
    by (simp add: in_memory_def part_knows_def lone_node_def sample_node_def sample_worker_def)
  ultimately show ?thesis by blast
qed

end
