(* ===== verification/WorkerScripts.thy ===== *)
theory WorkerScripts
  imports WorkerFacts
begin

text \<open>
  Components together: a script machine whose worker is the request handler of
  src/bigworlds/src/worker/mod.rs on a live manager, and the leader watchdog of a worker over
  everything the worker can be asked.
\<close>

section \<open>Scripts on a worker\<close>

text \<open>A machine reaches its worker over the behavior stream.\<close>

definition machine_req :: "worker_request \<Rightarrow> worker_req" where
  "machine_req r =
    (case r of
       ReqInvoke evs global \<Rightarrow> WInvoke evs global
     | ReqSetVar a v \<Rightarrow> WSetVar a v
     | ReqGetVar a \<Rightarrow> WGetVar a
     | ReqSpawnEntity n prefab \<Rightarrow> WSpawnEntity n prefab
     | ReqMergeModel m \<Rightarrow> WMergeModel m
     | ReqMachineLogic n \<Rightarrow> WMachineLogic n)"

definition machine_resp :: "worker_resp \<Rightarrow> worker_response" where
  "machine_resp r =
    (case r of
       WrEmpty \<Rightarrow> RespEmpty | WrGetVar v \<Rightarrow> RespGetVar v | WrMachineLogic l \<Rightarrow> RespMachineLogic l
     | _ \<Rightarrow> RespOther (worker_resp_name r))"

definition node_ask :: "('a, 'b) node_env \<Rightarrow> peers \<Rightarrow> seen_calls \<Rightarrow> 'a node worker" where
  "node_ask env pe seen w req =
    (case act_bind (new_signal (node_io env pe) (machine_req req))
            (\<lambda>sig w. serve_behavior (node_io env pe) None (originating_at CallerBehavior sig) (seen, w)) w of
       (w', r) \<Rightarrow> (w', Ok (map_ok (\<lambda>s. machine_resp (sg_payload s)) r)))"

lemma node_ask_serve:
  assumes "map_of seen (pe_fresh pe (nd_sent w)) = None"
  shows "node_ask env pe seen w req =
    (case as_reply (handle_request (node_io env pe) (machine_req req)
        (context_new (pe_fresh pe (nd_sent w)) (pe_time pe (nd_sent w)) CallerBehavior) None w) of
       (w', r) \<Rightarrow> (w', Ok (map_ok (\<lambda>s. machine_resp (sg_payload s)) r)))"
  using assms
  by (simp add: node_ask_def new_signal_def act_bind_pure act_bind_def act_ret_def serve_behavior_def
      admit_other_def act_of_def signal_from_def originating_at_def context_new_def)

lemma node_ask_set:
  assumes "nd_alive w" "map_of seen (pe_fresh pe (nd_sent w)) = None"
    "node_mgr env pe (MgSetVars [(a, v)]) w = (w', Ok MrEmpty)"
  shows "node_ask env pe seen w (ReqSetVar a v) = (w', Ok (Ok RespEmpty))"
  using assms
  by (simp add: node_ask_serve machine_req_def handle_request_def then_reply_def set_vars_of_def
      act_bind_def act_ret_def reply_def as_reply_def machine_resp_def signal_new_def)

lemma node_ask_get:
  assumes "nd_alive w" "map_of seen (pe_fresh pe (nd_sent w)) = None"
    "node_mgr env pe (MgGetVar a) w = (w', r)"
    "r = Ok (MrGetVar v) \<or> r = Err e"
  shows "node_ask env pe seen w (ReqGetVar a) =
    (w', Ok (case r of Ok _ \<Rightarrow> Ok (RespGetVar v) | _ \<Rightarrow> Err e))"
  using assms
  by (auto simp: node_ask_serve machine_req_def handle_request_def then_reply_def mgr_get_var_of_def
      expect_resp_def act_of_def act_bind_def act_ret_def reply_def as_reply_def machine_resp_def signal_new_def)

text \<open>C1: a script that writes a variable stored on its worker succeeds, and a script read that
  follows gives the written value for the same entity, component and name and the value from
  before for every other stored variable, through the machine, the worker's handler and its
  manager.\<close>

theorem script_set_get:
  assumes "nd_alive (rn_world r)" and "\<And>h. map_of seen (pe_fresh pe h) = None"
    and "worker_vars (nd_state (rn_world r)) (key_of a) \<noteq> None"
    and "machine_set_var senv (node_ask env pe seen) a v r = (r1, q)"
    and "machine_get_var senv (node_ask env pe seen) b r1 = (r2, q')"
  shows "q = Ok () \<and> (q' = Ok x \<longleftrightarrow>
      (if key_of b = key_of a then x = v else worker_vars (nd_state (rn_world r)) (key_of b) = Some x))"
proof -
  let ?w = "rn_world r"
  let ?h = "\<lambda>w. mgr_handle env (\<lambda>_ _. map_ok (\<lambda>_. ()) (pe_leader pe (nd_sent w)))
      (secs_of (pe_time pe (nd_sent w))) (pe_fresh pe (nd_sent w))"
  obtain u where u: "worker_vars (nd_state ?w) (key_of a) = Some u" using assms(3) by blast
  obtain st p where s: "?h ?w (MgSetVars [(a, v)]) (nd_state ?w) = (st, p)" by fastforce
  from manager_vars.set_stored [OF u s] have p: "p = Ok MrEmpty"
    and st: "worker_vars st = (worker_vars (nd_state ?w))(key_of a \<mapsto> v)" by blast+
  let ?w1 = "?w\<lparr> nd_state := st \<rparr>"
  have "node_mgr env pe (MgSetVars [(a, v)]) ?w = (?w1, Ok MrEmpty)"
    using assms(1) s p by (simp add: node_mgr_def)
  from node_ask_set [OF assms(1,2) this] assms(4)
  have r1: "r1 = r\<lparr> rn_world := ?w1 \<rparr>" "q = Ok ()"
    by (auto simp: machine_set_var_def send_def)
  obtain st' g where g: "?h ?w1 (MgGetVar b) st = (st', g)" by fastforce
  from mgr_get_var [OF g] have shape: "(\<exists>y. g = Ok (MrGetVar y)) \<or> (\<exists>e. g = Err e)"
    by (auto split: option.splits if_splits)
  from manager_vars.serve_get [OF g] st
  have val: "g = Ok (MrGetVar y) \<longleftrightarrow>
      (if key_of b = key_of a then y = v else worker_vars (nd_state ?w) (key_of b) = Some y)" for y
    by auto
  have live: "nd_alive ?w1" using assms(1) by simp
  from shape obtain y e where ye: "g = Ok (MrGetVar y) \<or> g = Err e" by blast
  have "node_mgr env pe (MgGetVar b) ?w1 = (?w1\<lparr> nd_state := st' \<rparr>, g)"
    using live g ye by (auto simp: node_mgr_def)
  note ask = node_ask_get [OF live assms(2) this ye]
  show ?thesis
  proof (cases "\<exists>z. g = Ok z")
    case True
    with ye have gy: "g = Ok (MrGetVar y)" by auto
    with ask assms(5) r1 have "q' = Ok y"
      by (auto simp: machine_get_var_def send_def)
    moreover have "g = Ok (MrGetVar x) \<longleftrightarrow> x = y" using gy by auto
    ultimately show ?thesis using val [of x] r1(2) by auto
  next
    case False
    with ye have ge: "g = Err e" by auto
    with ask assms(5) r1 have "\<nexists>z. q' = Ok z"
      by (auto simp: machine_get_var_def send_def)
    with val [of x] ge r1(2) show ?thesis by auto
  qed
qed

definition node_run :: "(string, entity) kv node run" where
  "node_run = \<lparr> rn_world = sample_node, rn_machine = \<lparr> mc_behavior = None, mc_state = ''idle'' \<rparr>,
     rn_stack = [], rn_log = [], rn_spawned = [] \<rparr>"

theorem script_set_get_witness:
  "\<exists>r1 q r2. machine_set_var sample_env (node_ask list_env silent_peers []) sample_addr (VInt 9) node_run = (r1, q)
     \<and> q = Ok () \<and> machine_get_var sample_env (node_ask list_env silent_peers []) sample_addr r1 = (r2, Ok (VInt 9))"
proof -
  let ?ask = "node_ask list_env silent_peers []"
  obtain r1 q where s: "machine_set_var sample_env ?ask sample_addr (VInt 9) node_run = (r1, q)" by fastforce
  obtain r2 q' where g: "machine_get_var sample_env ?ask sample_addr r1 = (r2, q')" by fastforce
  have "worker_vars (nd_state (rn_world node_run)) (key_of sample_addr) \<noteq> None" "nd_alive (rn_world node_run)"
    by (simp_all add: node_run_def sample_node_def worker_vars_def part_vars_def stored_def sample_worker_def
        sample_partition_def sample_entity_def key_of_def sample_addr_def address_storage_index_def)
  with script_set_get [OF _ _ _ s g, of "VInt 9"] have "q = Ok () \<and> q' = Ok (VInt 9)" by auto
  with s g show ?thesis by auto
qed

section \<open>The leader's addresses\<close>

text \<open>No handler stores the addresses of the leader: every view of a leader it sets has none.\<close>

definition addressless :: "'a node \<Rightarrow> bool" where
  "addressless w \<longleftrightarrow> lv_listeners (ws_leader (nd_state w)) = []"

definition safe_req :: "mgr_req \<Rightarrow> bool" where
  "safe_req req \<longleftrightarrow> (case req of MgSetLeader l \<Rightarrow> lv_listeners l = [] | _ \<Rightarrow> True)"

text \<open>A world in which every message keeps \<open>P\<close>, the manager's safe requests included.\<close>

definition keeps_io :: "('w \<Rightarrow> bool) \<Rightarrow> 'w io \<Rightarrow> bool" where
  "keeps_io P io \<longleftrightarrow>
    (\<forall>req. safe_req req \<longrightarrow> keeps P (io_mgr io req))
    \<and> (\<forall>c s. keeps P (io_local_worker io c s)) \<and> (\<forall>c s. keeps P (io_remote_worker io c s))
    \<and> (\<forall>c s. keeps P (io_local_leader io c s)) \<and> (\<forall>c s. keeps P (io_remote_leader io c s))
    \<and> (\<forall>s c cx. keeps P (io_clock_changed io s c cx)) \<and> (\<forall>c b cx. keeps P (io_introduce io c b cx))
    \<and> (\<forall>h s. keeps P (io_behavior io h s)) \<and> (\<forall>ev. keeps P (io_broadcast io ev))
    \<and> (\<forall>c s. keeps P (io_notify io c s)) \<and> (\<forall>n s t. keeps P (io_lua_spawn io n s t))
    \<and> (\<forall>l. keeps P (io_connect io l)) \<and> (\<forall>l. keeps P (io_make_connection io l))
    \<and> (\<forall>c. keeps P (io_handle_connection io c)) \<and> keeps P (io_unblocked io)
    \<and> keeps P (io_now io) \<and> keeps P (io_fresh io) \<and> (\<forall>n. keeps P (io_choose io n))"

lemma keeps_ioD:
  assumes "keeps_io P io"
  shows "safe_req req \<Longrightarrow> keeps P (io_mgr io req)"
    and "keeps P (io_local_worker io c s)" "keeps P (io_remote_worker io c s')"
    and "keeps P (io_local_leader io c sl)" "keeps P (io_remote_leader io c sl')"
    and "keeps P (io_clock_changed io sv ck cx)" "keeps P (io_introduce io c b cx)"
    and "keeps P (io_behavior io h sb)" "keeps P (io_broadcast io ev)" "keeps P (io_notify io c sn)"
    and "keeps P (io_lua_spawn io n sc ts)" "keeps P (io_connect io l)" "keeps P (io_make_connection io l)"
    and "keeps P (io_handle_connection io c)" "keeps P (io_unblocked io)" "keeps P (io_now io)"
    and "keeps P (io_fresh io)" "keeps P (io_choose io m)"
  using assms by (simp_all add: keeps_io_def)

lemma keeps_io_execs:
  assumes "keeps_io P io"
  shows "keeps P (worker_exec io e s)" "keeps P (leader_exec io e sl)" "keeps P (other_worker_exec io ow s)"
    and "keeps P (new_signal io x)" "keeps P (hop io p cx)"
  using keeps_ioD [OF assms]
  by (auto simp: worker_exec_def leader_exec_def other_worker_exec_def new_signal_def hop_def
      intro!: keeps_intros split: executor.split worker_situation.split)

lemma keeps_send_to_leader: "keeps_io P io \<Longrightarrow> keeps P (send_to_leader io req cx)"
  by (auto simp: send_to_leader_def mgr_call_defs Let_def safe_req_def
      intro!: keeps_intros keeps_io_execs keeps_ioD(1)
      split: leader_situation.split option.split worker_resp.split)

lemma keeps_io_broadcast: "keeps_io P io \<Longrightarrow> keeps P (broadcast io s cx)"
  by (auto simp: broadcast_def broadcast_one_def mgr_call_defs safe_req_def
      intro!: keeps_intros keeps_io_execs keeps_ioD(1)
      split: leader_situation.split worker_situation.split result.split leader_resp_of.split)

lemma keeps_io_query: "keeps_io P io \<Longrightarrow> keeps P (worker_query io q cx)"
  by (auto simp: worker_query_def query_leader_def query_one_def mgr_call_defs Let_def safe_req_def
      intro!: keeps_intros keeps_io_execs keeps_ioD(1,16)
      split: scope.split leader_situation.split leader_resp_of.split worker_resp.split)

lemma keeps_io_step: "keeps_io P io \<Longrightarrow> keeps P (handle_step io cx)"
  by (auto simp: handle_step_def step_subscription_def send_event_def mgr_call_defs safe_req_def
      intro!: keeps_intros keeps_io_execs keeps_io_query keeps_ioD)

lemma keeps_io_invoke: "keeps_io P io \<Longrightarrow> keeps P (handle_invoke io evs g cx)"
  by (auto simp: handle_invoke_def event_subscription_def send_event_def mgr_call_defs safe_req_def
      intro!: keeps_intros keeps_io_execs keeps_io_query keeps_io_broadcast keeps_ioD)

lemma keeps_io_set_model: "keeps_io P io \<Longrightarrow> keeps P (handle_set_model io m cx)"
  by (auto simp: handle_set_model_def respawn_behavior_def mgr_call_defs safe_req_def
      intro!: keeps_intros keeps_io_execs keeps_ioD split: result.split option.split behavior_inner.split)

lemma keeps_with_leader:
  "\<lbrakk> keeps_io P io; \<And>e. keeps P (f e); \<And>l. keeps P (g l) \<rbrakk> \<Longrightarrow> keeps P (with_leader io f g)"
  by (auto simp: with_leader_def mgr_call_defs safe_req_def
      intro!: keeps_intros keeps_ioD split: leader_situation.split)

lemma keeps_io_model_requests:
  assumes "keeps_io P io"
  shows "keeps P (handle_get_model io cx)" "keeps P (handle_replace_model io m cx)"
    "keeps P (handle_merge_model io m cx)" "keeps P (handle_clock io cx)"
    "keeps P (handle_machine_logic io n cx)" "keeps P (handle_get_leader io cx)"
  using assms
  by (auto simp: handle_get_model_def handle_replace_model_def handle_merge_model_def handle_clock_def
      handle_machine_logic_def handle_get_leader_def not_connected_def mgr_call_defs safe_req_def
      intro!: keeps_with_leader keeps_intros keeps_io_execs keeps_send_to_leader keeps_ioD(1)
      split: leader_resp_of.split option.split behavior_inner.split)

lemma keeps_io_migrate: "keeps_io P io \<Longrightarrow> keeps P (handle_migrate io cx)"
  by (auto simp: handle_migrate_def migrate_one_def send_entity_def mgr_call_defs safe_req_def
      intro!: keeps_intros keeps_io_execs keeps_ioD split: leader_situation.split)

lemma keeps_io_connect:
  assumes "keeps_io P io"
  shows "keeps P (handle_connect_to_leader io addr cx)" "keeps P (handle_connect_to_worker io addr cx)"
  using assms
  by (auto simp: handle_connect_to_leader_def handle_connect_to_worker_def mgr_call_defs safe_req_def
      leader_view_from_def default_leader_view_def Let_def
      intro!: keeps_intros keeps_io_execs keeps_ioD split: leader_resp_of.split worker_resp.split result.split error.split)

lemma keeps_io_request: "keeps_io P io \<Longrightarrow> keeps P (handle_request io req cx multi)"
  by (cases req)
    (auto simp: handle_request_def handle_is_blocking_def handle_subscribe_def take_entity_def
      mgr_call_defs safe_req_def Let_def
      intro!: keeps_intros keeps_io_execs keeps_io_query keeps_io_step keeps_io_invoke keeps_io_set_model
        keeps_io_model_requests keeps_io_migrate keeps_io_connect keeps_send_to_leader keeps_ioD
      split: option.split)

lemma keeps_io_local_request: "keeps_io P io \<Longrightarrow> keeps P (handle_local_request io req cx multi)"
  by (cases req)
    (auto simp: handle_local_request_def mgr_call_defs safe_req_def Let_def
      leader_view_from_def default_leader_view_def
      intro!: keeps_intros keeps_io_execs keeps_io_request keeps_ioD
      split: leader_situation.split option.split worker_resp.split)

lemma keeps_io_net_request: "keeps_io P io \<Longrightarrow> keeps P (handle_net_request io req cx link)"
  by (cases req)
    (auto simp: handle_net_request_def mgr_call_defs safe_req_def Let_def
      leader_view_from_def default_leader_view_def
      intro!: keeps_intros keeps_io_execs keeps_io_request keeps_ioD
      split: caller_link.split list.split)

lemma mgr_handle_leader:
  "\<lbrakk> mgr_handle env lr now fresh req st = (st', r); safe_req req; lv_listeners (ws_leader st) = [] \<rbrakk>
    \<Longrightarrow> lv_listeners (ws_leader st') = []"
  by (cases req) (auto simp: mgr_handle_def safe_req_def on_part_def on_model_part_def initialize_part_def Let_def
      split: option.splits prod.splits result.splits)

lemma keeps_io_node: "keeps_io addressless (node_io env pe)"
proof -
  have "keeps addressless (node_mgr env pe req)" if "safe_req req" for req
    using that by (auto simp: keeps_def node_mgr_def addressless_def dest: mgr_handle_leader
        split: prod.split result.split)
  then show ?thesis
    by (auto simp: keeps_io_def node_io_def keeps_def post_def addressless_def Let_def act_ret_def)
qed

text \<open>\<open>yields P Q m\<close>: the action keeps \<open>P\<close>, and its result, if any, satisfies \<open>Q\<close>.\<close>

definition yields :: "('w \<Rightarrow> bool) \<Rightarrow> ('x \<Rightarrow> bool) \<Rightarrow> ('w, 'x) act \<Rightarrow> bool" where
  "yields P Q m \<longleftrightarrow> (\<forall>w. P w \<longrightarrow> P (fst (m w)) \<and> (\<forall>x. snd (m w) = Ok x \<longrightarrow> Q x))"

lemma yields_bind: "\<lbrakk> yields P Q m; \<And>x. Q x \<Longrightarrow> yields P R (f x) \<rbrakk> \<Longrightarrow> yields P R (act_bind m f)"
  unfolding yields_def act_bind_def by (auto split: prod.splits result.splits)

lemma yields_keeps: "keeps P m \<Longrightarrow> yields P (\<lambda>_. True) m"
  by (simp add: keeps_def yields_def)

lemma yields_then: "\<lbrakk> keeps P m; \<And>x. yields P R (f x) \<rbrakk> \<Longrightarrow> yields P R (act_bind m f)"
  by (rule yields_bind [OF yields_keeps])

lemma yields_ret: "Q x \<Longrightarrow> yields P Q (act_ret x)"
  by (simp add: yields_def act_ret_def)

lemma yields_must: "yields P Q m \<Longrightarrow> yields P Q (must m)"
proof -
  have "snd (must m w) = Ok x \<Longrightarrow> snd (m w) = Ok x" "fst (must m w) = fst (m w)" for w x
    by (cases "snd (m w)"; simp add: must_def unwrap_def)+
  then show "yields P Q m \<Longrightarrow> yields P Q (must m)" by (simp add: yields_def)
qed

lemma yields_leader: "yields addressless (\<lambda>l. lv_listeners l = []) (get_leader (io_mgr (node_io env pe)))"
  by (auto simp: yields_def get_leader_def expect_resp_def act_bind_def act_of_def node_io_def node_mgr_def
      mgr_handle_def addressless_def split: prod.splits result.splits)

lemma keeps_election: "keeps_io P io \<Longrightarrow> keeps P (election_request io i w)"
  by (auto simp: election_request_def intro!: keeps_intros keeps_io_execs
      split: result.split worker_resp.split)

lemma yields_watchdog:
  "yields addressless (\<lambda>r. r = None \<or> r = Some []) (watchdog_tick (node_io env pe) i)"
proof -
  note io = keeps_io_node [of env pe]
  have mgr: "keeps addressless (node_mgr env pe req)" if "safe_req req" for req
    using keeps_ioD(1) [OF io that] by (simp add: node_io_def)
  have set: "keeps addressless (set_leader (node_mgr env pe) (l\<lparr> lv_situation := x \<rparr>))"
    if "lv_listeners l = []" for l x
    unfolding set_leader_def using that by (intro keeps_intros mgr) (simp add: safe_req_def)
  have others: "keeps addressless (get_other_workers (node_mgr env pe))"
    unfolding get_other_workers_def by (intro keeps_intros mgr) (simp add: safe_req_def)
  show ?thesis
    unfolding watchdog_tick_def
    by (rule yields_bind [OF yields_must [OF yields_leader]])
      (auto intro!: yields_then yields_ret set others keeps_intros keeps_io_execs [OF io] keeps_election [OF io]
        split: leader_situation.split result.split)
qed

section \<open>Everything a worker can be asked\<close>

text \<open>
  A worker with the calls it has seen, from its start through any requests on its streams, any
  archiving and any rounds of its watchdog.
\<close>

inductive node_reachable ::
  "('a, 'b) node_env \<Rightarrow> peers \<Rightarrow> seen_calls \<times> 'a node \<Rightarrow> bool" for env pe where
  node_start: "worker_spawn env fresh config = Ok st
    \<Longrightarrow> node_reachable env pe ([], \<lparr> nd_state = st, nd_alive = True, nd_sent = [] \<rparr>)"
| node_local: "\<lbrakk> node_reachable env pe sw; serve_local (node_io env pe) i sig sw = (sw', r) \<rbrakk>
    \<Longrightarrow> node_reachable env pe sw'"
| node_multi: "\<lbrakk> node_reachable env pe (seen, w);
      serve_local_multi (node_io env pe) i ch sig (seen, w) = (w', r) \<rbrakk>
    \<Longrightarrow> node_reachable env pe (seen, w')"
| node_behavior: "\<lbrakk> node_reachable env pe (seen, w);
      serve_behavior (node_io env pe) multi bsig (seen, w) = (w', r) \<rbrakk>
    \<Longrightarrow> node_reachable env pe (seen, w')"
| node_net: "\<lbrakk> node_reachable env pe (seen, w); serve_net (node_io env pe) link bsig (seen, w) = (w', r) \<rbrakk>
    \<Longrightarrow> node_reachable env pe (seen, w')"
| node_idle: "\<lbrakk> node_reachable env pe (seen, w); mgr_chore env now (nd_state w) = (st, c) \<rbrakk>
    \<Longrightarrow> node_reachable env pe (seen, w\<lparr> nd_state := st, nd_alive := (c = Ok ()) \<rparr>)"
| node_watchdog: "\<lbrakk> node_reachable env pe (seen, w); watchdog_tick (node_io env pe) i w = (w', t) \<rbrakk>
    \<Longrightarrow> node_reachable env pe (seen, w')"
| node_orphan: "\<lbrakk> node_reachable env pe (seen, w); orphan_task (node_io env pe) addrs w = (w', o') \<rbrakk>
    \<Longrightarrow> node_reachable env pe (seen, w')"

lemma keeps_as_reply: "keeps P m \<Longrightarrow> P w \<Longrightarrow> as_reply (m w) = (w', r) \<Longrightarrow> P w'"
  using as_reply_fst [of "m w"] by (auto simp: keeps_def)

lemma keeps_io_serve:
  assumes "keeps_io P io"
  shows "\<lbrakk> serve_local io i sig (seen, w) = ((seen', w'), r); P w \<rbrakk> \<Longrightarrow> P w'"
    and "\<lbrakk> serve_local_multi io i ch sig (seen, w) = (w', r); P w \<rbrakk> \<Longrightarrow> P w'"
    and "\<lbrakk> serve_behavior io multi bsig (seen, w) = (w', r); P w \<rbrakk> \<Longrightarrow> P w'"
    and "\<lbrakk> serve_net io link bsig (seen, w) = (w', r); P w \<rbrakk> \<Longrightarrow> P w'"
proof -
  note k = keeps_io_execs [OF assms] keeps_io_local_request [OF assms] keeps_io_request [OF assms]
    keeps_io_net_request [OF assms]
  assume "serve_local io i sig (seen, w) = ((seen', w'), r)" "P w"
  then show "P w'"
    by (auto simp: serve_local_def split: prod.splits result.splits
        elim!: keeps_as_reply [rotated 2] intro!: keeps_intros k)
next
  note k = keeps_io_execs [OF assms] keeps_io_local_request [OF assms] keeps_io_request [OF assms]
    keeps_io_net_request [OF assms]
  show "\<lbrakk> serve_local_multi io i ch sig (seen, w) = (w', r); P w \<rbrakk> \<Longrightarrow> P w'"
    "\<lbrakk> serve_behavior io multi bsig (seen, w) = (w', r); P w \<rbrakk> \<Longrightarrow> P w'"
    "\<lbrakk> serve_net io link bsig (seen, w) = (w', r); P w \<rbrakk> \<Longrightarrow> P w'"
    unfolding serve_local_multi_def serve_behavior_def serve_net_def prod.case
    by (erule keeps_as_reply [rotated 2]; auto intro!: keeps_intros k)+
qed

lemma keeps_io_orphan:
  assumes "keeps_io P io" "keeps P (io_cancel io)" "keeps P (io_spawn_leader io)"
    and "\<And>s. keeps P (io_self_ctl io s)"
  shows "keeps P (orphan_task io addrs)"
  using assms
  by (auto simp: orphan_task_def orphan_reconnect_def orphan_fork_def get_leader_def get_config_def safe_req_def
      intro!: keeps_intros keeps_io_execs keeps_ioD(1)
      split: list.split result.split worker_resp.split leader_situation.split)

lemma node_reachable_addressless: "node_reachable env pe sw \<Longrightarrow> addressless (snd sw)"
proof (induction rule: node_reachable.induct)
  case (node_start fresh config st)
  then show ?case
    by (cases "partition_new (ne_open env fresh) (wc_partition config)")
      (auto simp: worker_spawn_def addressless_def default_leader_view_def)
next
  case (node_local sw i sig sw' r)
  then show ?case
    by (cases sw; cases sw') (auto elim: keeps_io_serve(1) [OF keeps_io_node, rotated])
next
  case (node_idle seen w now st c)
  then show ?case
    by (auto simp: mgr_chore_def addressless_def split: option.splits prod.splits if_splits)
next
  case (node_watchdog seen w i w' t)
  then show ?case
    using yields_watchdog [of env pe i] by (auto simp: yields_def)
next
  case (node_orphan seen w addrs w' o')
  have "keeps addressless (orphan_task (node_io env pe) addrs)"
    by (rule keeps_io_orphan [OF keeps_io_node])
      (auto simp: node_io_def addressless_def Let_def act_ret_def act_of_def keeps_def post_def)
  with node_orphan show ?case by (auto simp: keeps_def)
qed (auto elim: keeps_io_serve(2-) [OF keeps_io_node, rotated])

lemma watchdog_orphans:
  assumes "watchdog_tick io i w = (w', Ok (Some addrs))"
  shows "\<exists>l u. must (set_leader (io_mgr io) (l\<lparr> lv_situation := LsOrphanedWaiting \<rparr>)) u = (w', Ok ())"
proof -
  from assms obtain l w1 where l: "(case lv_situation l of
        LsConnected e \<Rightarrow>
          act_bind (new_signal io LStatus) (\<lambda>sig.
          act_bind (act_try (leader_exec io e sig)) (\<lambda>r.
            case r of
              Ok _ \<Rightarrow> act_ret None
            | _ \<Rightarrow>
                act_bind (must (get_other_workers (io_mgr io))) (\<lambda>ws.
                  if ws = [] then
                    act_bind (must (set_leader (io_mgr io) (l\<lparr> lv_situation := LsOrphanedWaiting \<rparr>))) (\<lambda>_.
                    act_ret (Some (lv_listeners l)))
                  else
                    act_bind (must (set_leader (io_mgr io) (l\<lparr> lv_situation := LsElection \<rparr>))) (\<lambda>_.
                    act_bind (must (get_other_workers (io_mgr io))) (\<lambda>ws.
                    act_bind (act_iter (\<lambda>(_, w). election_request io i w) ws) (\<lambda>_.
                    act_ret None))))))
      | _ \<Rightarrow> act_ret None) w1 = (w', Ok (Some addrs))"
    unfolding watchdog_tick_def act_bind_Ok_iff by blast
  then obtain e where "lv_situation l = LsConnected e"
    by (cases "lv_situation l") (auto simp: act_ret_def)
  with l show ?thesis
    by (auto simp: act_bind_Ok_iff act_ret_def split: result.splits if_splits) (metis result.exhaust)+
qed

text \<open>C24: the watchdog of a worker, whatever the worker has been asked since its start,
  hands no address to the task of an orphaned worker, so that task never tries to reach the leader
  it lost: it forks or stops without a single message when the leader is still missing.\<close>

theorem orphan_never_reconnects:
  assumes "node_reachable env pe (seen, w)"
    and "watchdog_tick (node_io env pe) i w = (w', Ok (Some addrs))"
  shows "addrs = [] \<and> lv_situation (ws_leader (nd_state w')) = LsOrphanedWaiting
    \<and> orphan_reconnect (node_io env pe) addrs w'' = (w'', Ok False)"
proof -
  let ?mgr = "io_mgr (node_io env pe)"
  have "addressless w" using node_reachable_addressless [OF assms(1)] by simp
  with yields_watchdog [of env pe i] assms(2) have a: "addrs = []" by (auto simp: yields_def)
  from watchdog_orphans [OF assms(2)] obtain l u where
    "must (set_leader ?mgr (l\<lparr> lv_situation := LsOrphanedWaiting \<rparr>)) u = (w', Ok ())"
    by blast
  then have "lv_situation (ws_leader (nd_state w')) = LsOrphanedWaiting"
    by (auto simp: must_def set_leader_def expect_empty_def expect_resp_def act_bind_def act_of_def
        node_io_def node_mgr_def mgr_handle_def split: if_splits)
  with a show ?thesis by (simp add: orphan_reconnect_def act_ret_def)
qed


definition orphan_node :: "(string, entity) kv node" where
  "orphan_node = (case worker_spawn list_env 5 default_worker_config of
     Ok st \<Rightarrow> snd (fst (serve_local (node_io list_env silent_peers) 5
       (signal_new (WlIntroduceLeader 3) sample_context)
       ([], \<lparr> nd_state = st, nd_alive = True, nd_sent = [] \<rparr>))))"

lemma orphan_node_reachable: "\<exists>seen. node_reachable list_env silent_peers (seen, orphan_node)"
proof -
  obtain st where st: "worker_spawn list_env 5 default_worker_config = Ok st"
    by (auto simp: worker_spawn_def list_env_def partition_new_def default_worker_config_def default_part_config_def)
  let ?r = "serve_local (node_io list_env silent_peers) 5 (signal_new (WlIntroduceLeader 3) sample_context)
       ([], \<lparr> nd_state = st, nd_alive = True, nd_sent = [] \<rparr>)"
  obtain seen w r where r: "?r = ((seen, w), r)" by (metis prod.exhaust)
  from node_local [OF node_start [OF st] r] st r show ?thesis by (auto simp: orphan_node_def)
qed

lemma orphan_node_tick:
  "\<exists>w' addrs. watchdog_tick (node_io list_env silent_peers) 5 orphan_node = (w', Ok (Some addrs))"
proof -
  obtain st where st: "worker_spawn list_env 5 default_worker_config = Ok st"
    "ws_leader st = default_leader_view" "ws_other_workers st = []" "ws_id st = 5"
    by (auto simp: worker_spawn_def list_env_def partition_new_def default_worker_config_def default_part_config_def)
  have o: "orphan_node = \<lparr> nd_state = st\<lparr> ws_leader := leader_view_from (LsConnected (Local 3)) \<rparr>,
      nd_alive = True, nd_sent = [] \<rparr>"
    using st by (simp add: orphan_node_def serve_local_def admit_local_def signal_new_def sample_context_def context_new_def Let_def
        total_transfer_time_micros_def
        hop_def act_bind_def act_of_def node_io_def silent_peers_def register_hop_def handle_local_request_def
        mgr_call_defs node_mgr_def mgr_handle_def expect_resp_def expect_empty_def ignore_def act_try_def
        act_ret_def reply_def as_reply_def default_leader_view_def)
  show ?thesis
    unfolding o using st by (simp add: watchdog_tick_def must_def mgr_call_defs node_mgr_def mgr_handle_def
        expect_resp_def expect_empty_def act_bind_def act_of_def act_try_def act_ret_def node_io_def silent_peers_def
        new_signal_def leader_exec_def map_act_err_def post_def leader_view_from_def Let_def)
qed

theorem orphan_never_reconnects_witness:
  "\<exists>seen w'. node_reachable list_env silent_peers (seen, orphan_node)
     \<and> watchdog_tick (node_io list_env silent_peers) 5 orphan_node = (w', Ok (Some []))
     \<and> lv_situation (ws_leader (nd_state w')) = LsOrphanedWaiting"
proof -
  obtain seen where n: "node_reachable list_env silent_peers (seen, orphan_node)"
    using orphan_node_reachable by blast
  obtain w' addrs where w: "watchdog_tick (node_io list_env silent_peers) 5 orphan_node = (w', Ok (Some addrs))"
    using orphan_node_tick by blast
  from orphan_never_reconnects [OF n w] n w show ?thesis by blast
qed

end
