(* ===== verification/ClientMessages.thy ===== *)
theory ClientMessages
  imports Messages
begin

text \<open>
  The protocol between clients and servers (src/bigworlds/src/rpc/msg), the requests servers
  exchange with their worker (src/bigworlds/src/rpc/server.rs), the configuration of a server
  (src/bigworlds/src/server/config.rs) and its views of clients and worker
  (src/bigworlds/src/server/pov.rs).
\<close>

section \<open>Data carried by messages\<close>

record status_response =
  sr_name :: string
  sr_description :: string
  sr_connected_clients :: "string list"
  sr_engine_version :: string
  sr_uptime :: "64 word"
  sr_clock :: "64 word"
  sr_worker :: string

record register_request =
  rr_name :: string
  rr_is_blocking :: bool
  rr_auth_token :: "string option"
  rr_encodings :: "encoding list"
  rr_transports :: "transport list"

record register_response =
  rg_client_id :: string
  rg_encoding :: encoding
  rg_transport :: transport
  rg_redirect_to :: "string option"

record advance_request =
  ar_step_count :: "32 word"
  ar_wait :: bool

record spawn_request =
  sq_entity_prefabs :: "string list"
  sq_entity_names :: "string list"

record spawn_response =
  sp_entity_names :: "string list"
  sp_error :: string

text \<open>All data by type.\<close>

record typed_pack =
  tp_strings :: "(address, string) kv"
  tp_ints :: "(address, 32 word) kv"
  tp_floats :: "(address, f32) kv"
  tp_bools :: "(address, bool) kv"
  tp_string_lists :: "(address, string list) kv"
  tp_int_lists :: "(address, 32 word list) kv"
  tp_float_lists :: "(address, f32 list) kv"
  tp_bool_lists :: "(address, bool list) kv"
  tp_string_grids :: "(address, string list list) kv"
  tp_int_grids :: "(address, 32 word list list) kv"
  tp_float_grids :: "(address, f32 list list) kv"
  tp_bool_grids :: "(address, bool list list) kv"

definition empty_pack :: typed_pack where
  "empty_pack =
    \<lparr> tp_strings = [], tp_ints = [], tp_floats = [], tp_bools = [], tp_string_lists = [], tp_int_lists = [],
      tp_float_lists = [], tp_bool_lists = [], tp_string_grids = [], tp_int_grids = [], tp_float_grids = [],
      tp_bool_grids = [] \<rparr>"

text \<open>Only the floats of a typed product are taken over.\<close>

definition pack_from_product :: "query_product \<Rightarrow> typed_pack" where
  "pack_from_product qp =
    (case qp of
       PAddressedTyped tm \<Rightarrow> empty_pack\<lparr> tp_floats := kv_extend [] (tm_floats tm) \<rparr>
     | _ \<Rightarrow> empty_pack)"

definition pack_add :: "address \<Rightarrow> string \<Rightarrow> typed_pack \<Rightarrow> typed_pack core_result" where
  "pack_add addr s p =
    (case a_type addr of
       TString \<Rightarrow> Ok (p\<lparr> tp_strings := kv_insert addr s (tp_strings p) \<rparr>)
     | TInt \<Rightarrow> (case parse_i32 s of
         Ok i \<Rightarrow> Ok (p\<lparr> tp_ints := kv_insert addr i (tp_ints p) \<rparr>) | _ \<Rightarrow> Panic)
     | TFloat \<Rightarrow> (case parse_float s of
         Ok f \<Rightarrow> Ok (p\<lparr> tp_floats := kv_insert addr f (tp_floats p) \<rparr>) | _ \<Rightarrow> Panic)
     | TBool \<Rightarrow> (case parse_bool s of
         Ok b \<Rightarrow> Ok (p\<lparr> tp_bools := kv_insert addr b (tp_bools p) \<rparr>) | _ \<Rightarrow> Panic)
     | _ \<Rightarrow> Ok p)"

datatype pull_data =
    PullTyped typed_pack
  | PullNativeVar "string \<times> string \<times> string" var
  | PullNativeVars "(string \<times> string \<times> string, var) kv"
  | PullAddressedVars "(address \<times> var) list"
  | PullVarOrdered "32 word" "var list"

section \<open>Messages\<close>

datatype (plugins only: code size) message =
    MsOK | MsDisconnect | MsErrorResponse string
  | MsPingRequest "8 word list" | MsPingResponse "8 word list"
  | MsEntityListRequest | MsEntityListResponse "string list"
  | MsRegisterClientRequest register_request | MsRegisterClientResponse register_response
  | MsStatusRequest string | MsStatusResponse status_response
  | MsAdvanceRequest advance_request | MsAdvanceResponse string
  | MsQueryRequest query | MsQueryResponse query_product
  | MsSubscribeRequest "query_trigger list" query | MsSubscribeResponse uuid | MsUnsubscribeRequest uuid
  | MsSpawnEntitiesRequest spawn_request | MsSpawnEntitiesResponse spawn_response
  | MsDataPullRequest pull_data | MsDataPullResponse string
  | MsTypedDataPullRequest typed_pack | MsTypedDataPullResponse string
  | MsExportSnapshotRequest string bool bool | MsExportSnapshotResponse string "8 word list"
  | MsUploadProjectArchiveRequest "8 word list" | MsUploadProjectArchiveResponse string
  | MsListScenariosRequest | MsListScenariosResponse "string list" string
  | MsLoadScenarioRequest string | MsLoadScenarioResponse string
  | MsInitializeRequest | MsInitializeResponse
  | MsInvokeRequest string
  | MsSnapshotRequest | MsSnapshotResponse snapshot

text \<open>\<open>debug\<close> is the derived rendering of a message.\<close>

definition message_ok :: "(message \<Rightarrow> string) \<Rightarrow> message \<Rightarrow> unit core_result" where
  "message_ok debug m =
    (case m of
       MsOK \<Rightarrow> Ok ()
     | MsErrorResponse e \<Rightarrow> Err (ErrorResponse e)
     | _ \<Rightarrow> Err (UnexpectedResponse (debug m)))"

definition snapshot_of_message :: "(message \<Rightarrow> string) \<Rightarrow> message \<Rightarrow> snapshot core_result" where
  "snapshot_of_message debug m =
    (case m of MsSnapshotResponse s \<Rightarrow> Ok s | _ \<Rightarrow> Err (UnexpectedResponse (debug m)))"

section \<open>Requests to a server from its worker and its controller\<close>

datatype (plugins only: code size) server_req =
    SConnectToWorker listener | SStatus | SMessage message | SRedirect | SClockChangedTo "64 word"

datatype (plugins only: code size) server_local =
    SlConnectToWorker nat nat | SlIntroduceWorker nat | SlRequest server_req

datatype (plugins only: code size) server_resp =
    SrEmpty | SrStatus "64 word" "32 word" | SrConnectToWorker uuid | SrIntroduceWorker uuid
  | SrMessage message | SrRedirect

section \<open>Configuration\<close>

text \<open>Durations are in microseconds.\<close>

record cache_config =
  cc_enabled :: bool
  cc_entry_ttl_ms :: "64 word"

definition default_cache_config :: cache_config where
  "default_cache_config = \<lparr> cc_enabled = False, cc_entry_ttl_ms = 2 \<rparr>"

record server_config =
  sc_listeners :: "listener list"
  sc_name :: string
  sc_description :: string
  sc_self_keepalive :: "nat option"
  sc_poll_wait :: nat
  sc_accept_delay :: nat
  sc_client_keepalive :: "nat option"
  sc_use_compression :: bool
  sc_require_auth :: bool
  sc_auth_pairs :: "(string \<times> string) list"
  sc_cache :: cache_config
  sc_transports :: "transport list"
  sc_encodings :: "encoding list"

text \<open>The transports and encodings of the features compiled in.\<close>

definition default_server_config :: "bool \<Rightarrow> bool \<Rightarrow> bool \<Rightarrow> server_config" where
  "default_server_config quic ws msgpack =
    \<lparr> sc_listeners = [], sc_name = [], sc_description = [], sc_self_keepalive = None, sc_poll_wait = 1000,
      sc_accept_delay = 200000, sc_client_keepalive = Some 4000000, sc_use_compression = False,
      sc_require_auth = False, sc_auth_pairs = [], sc_cache = default_cache_config,
      sc_transports = (if quic then [Quic] else []) @ (if ws then [WebSocket] else []),
      sc_encodings = [Bincode] @ (if msgpack then [MsgPack] else []) \<rparr>"

section \<open>Views\<close>

record client_view =
  cv_id :: uuid
  cv_name :: string
  cv_addr :: "string option"
  cv_encoding :: encoding
  cv_is_blocking :: bool
  cv_unblocked_until :: "64 word option"
  cv_keepalive :: "nat option"
  cv_auth_token :: "string option"
  cv_last_request :: "64 word"

record attached_worker =
  aw_exec :: executor
  aw_server_id :: uuid

section \<open>Responses of workers\<close>

definition resp_empty :: "(worker_resp \<Rightarrow> string) \<Rightarrow> worker_resp \<Rightarrow> unit core_result" where
  "resp_empty debug r = (case r of WrEmpty \<Rightarrow> Ok () | _ \<Rightarrow> Err (UnexpectedResponse (debug r)))"

definition resp_is_empty :: "worker_resp \<Rightarrow> bool" where
  "resp_is_empty r = (case resp_empty worker_resp_name r of Ok _ \<Rightarrow> True | _ \<Rightarrow> False)"

definition resp_snapshot :: "worker_resp \<Rightarrow> snapshot core_result" where
  "resp_snapshot r =
    (case r of WrSnapshot s \<Rightarrow> Ok s | _ \<Rightarrow> Err (UnexpectedResponse (worker_resp_name r)))"

definition resp_model :: "worker_resp \<Rightarrow> project core_result" where
  "resp_model r =
    (case r of WrGetModel m \<Rightarrow> Ok m | _ \<Rightarrow> Err (UnexpectedResponse (worker_resp_name r)))"

definition resp_var :: "worker_resp \<Rightarrow> var core_result" where
  "resp_var r =
    (case r of WrGetVar v \<Rightarrow> Ok v | _ \<Rightarrow> Err (UnexpectedResponse (worker_resp_name r)))"

definition resp_product :: "worker_resp \<Rightarrow> query_product core_result" where
  "resp_product r =
    (case r of WrQuery p \<Rightarrow> Ok p | _ \<Rightarrow> Err (UnexpectedResponse (worker_resp_name r)))"

end
