(* ===== verification/Servers.thy ===== *)
theory Servers
  imports ClientMessages WorkerNodes
begin

text \<open>
  A server, from src/bigworlds/src/server/mod.rs and src/bigworlds/src/server/turn.rs: it registers
  clients, passes their requests to one worker, and tells that worker whether a blocking client
  holds it back.  The worker and everything else outside is a state \<open>'n\<close> reached through
  \<open>'n server_io\<close>.  The lock of the server's state is held through every call it makes to its
  worker, so its state does not change meanwhile; the one call made without it is the
  introduction to a worker.
\<close>

section \<open>State\<close>

text \<open>
  The two watch channels are their values; of the one for blocking the number of changes is kept,
  since the monitor task waits for them.  The services, the cache and the statistics of a
  server are created and never read or written.
\<close>

record server_state =
  ss_id :: uuid
  ss_config :: server_config
  ss_worker :: "attached_worker option"
  ss_clients :: "(uuid, client_view) kv"
  ss_started_at :: "64 word"
  ss_clock :: "64 word"
  ss_blocked :: "8 word"
  ss_changes :: nat

definition server_spawn :: "uuid \<Rightarrow> 64 word \<Rightarrow> server_config \<Rightarrow> server_state" where
  "server_spawn fresh now config =
    \<lparr> ss_id = fresh, ss_config = config, ss_worker = None, ss_clients = [], ss_started_at = now,
      ss_clock = 0, ss_blocked = 0, ss_changes = 0 \<rparr>"

text \<open>
  \<open>si_ctl\<close> separates the failure of a local channel from the answer that came through it;
  \<open>si_stream\<close> gives the answers of a call with many, up to the end of the channel.
\<close>

record 'n server_io =
  si_local :: "nat \<Rightarrow> worker_local signal \<Rightarrow> ('n, worker_resp signal) act"
  si_remote :: "nat \<Rightarrow> worker_req signal \<Rightarrow> ('n, worker_resp signal) act"
  si_ctl :: "nat \<Rightarrow> worker_local signal \<Rightarrow> ('n, worker_resp signal core_result) act"
  si_stream :: "executor \<Rightarrow> worker_req signal \<Rightarrow> ('n, worker_resp signal core_result list) act"
  si_send :: "nat \<Rightarrow> message \<Rightarrow> ('n, unit) act"
  si_send_bytes :: "nat \<Rightarrow> 8 word list \<Rightarrow> ('n, unit) act"
  si_now :: "('n, 64 word) act"
  si_fresh :: "('n, uuid) act"
  si_uptime :: "64 word \<Rightarrow> ('n, 64 word) act"
  si_encode :: "message \<Rightarrow> encoding \<Rightarrow> 8 word list core_result"
  si_decode :: "8 word list \<Rightarrow> encoding \<Rightarrow> message core_result"
  si_remote_address :: "nat \<Rightarrow> string"
  si_version :: string
  si_show_error :: "error \<Rightarrow> string"
  si_debug_error :: "error \<Rightarrow> string"
  si_debug_resp :: "worker_resp \<Rightarrow> string"

record 'n server_node =
  sn_state :: server_state
  sn_net :: 'n

definition on_outside :: "('n, 'x) act \<Rightarrow> ('n server_node, 'x) act" where
  "on_outside m w = (case m (sn_net w) of (n, r) \<Rightarrow> (w\<lparr> sn_net := n \<rparr>, r))"

definition modify_server :: "(server_state \<Rightarrow> server_state) \<Rightarrow> ('n server_node, unit) act" where
  "modify_server f w = (w\<lparr> sn_state := f (sn_state w) \<rparr>, Ok ())"

definition read_server :: "(server_state \<Rightarrow> 'x) \<Rightarrow> ('n server_node, 'x) act" where
  "read_server f w = (w, Ok (f (sn_state w)))"

text \<open>The counter of blocking clients has eight bits, and its overflow panics.\<close>

definition raise_blocked :: "('n server_node, unit) act" where
  "raise_blocked w =
    (if ss_blocked (sn_state w) = - 1 then (w, Panic)
     else modify_server (\<lambda>s. s\<lparr> ss_blocked := ss_blocked s + 1, ss_changes := Suc (ss_changes s) \<rparr>) w)"

definition lower_blocked :: "('n server_node, unit) act" where
  "lower_blocked w =
    (if ss_blocked (sn_state w) = 0 then (w, Panic)
     else modify_server (\<lambda>s. s\<lparr> ss_blocked := ss_blocked s - 1, ss_changes := Suc (ss_changes s) \<rparr>) w)"

section \<open>Reaching the worker\<close>

definition server_signal :: "'n server_io \<Rightarrow> 't \<Rightarrow> ('n, 't signal) act" where
  "server_signal si x =
    act_bind (si_fresh si) (\<lambda>i. act_bind (si_now si) (\<lambda>t. act_ret (signal_from i t x)))"

definition attached_exec ::
  "'n server_io \<Rightarrow> attached_worker \<Rightarrow> worker_req signal \<Rightarrow> ('n, worker_resp signal) act" where
  "attached_exec si w sig =
    (case aw_exec w of
       Remote c \<Rightarrow> si_remote si c (originating_at (caller_from (PServer (aw_server_id w))) sig)
     | Local c \<Rightarrow> map_act_err (\<lambda>e. Other (si_show_error si e))
         (si_local si c (signal_new (WlRequest (sg_payload sig)) (sg_ctx sig))))"

definition attached_stream ::
  "'n server_io \<Rightarrow> attached_worker \<Rightarrow> worker_req signal \<Rightarrow> ('n, worker_resp signal core_result list) act" where
  "attached_stream si w sig =
    si_stream si (aw_exec w)
      (case aw_exec w of
         Remote _ \<Rightarrow> originating_at (caller_from (PServer (aw_server_id w))) sig
       | Local _ \<Rightarrow> sig)"

definition ask_worker ::
  "'n server_io \<Rightarrow> attached_worker \<Rightarrow> worker_req \<Rightarrow> ('n server_node, worker_resp signal) act" where
  "ask_worker si w req = on_outside (act_bind (server_signal si req) (attached_exec si w))"

text \<open>A request in the server's name.\<close>

definition ask_worker_as ::
  "'n server_io \<Rightarrow> uuid \<Rightarrow> attached_worker \<Rightarrow> worker_req \<Rightarrow> ('n server_node, worker_resp signal) act" where
  "ask_worker_as si i w req =
    on_outside (act_bind (server_signal si req)
      (\<lambda>sig. attached_exec si w (originating_at (caller_from (PServer i)) sig)))"

section \<open>Advancing\<close>

text \<open>
  A request to advance is answered at once or waits for the clock; a waiting one is woken by every
  change of the clock.
\<close>

datatype handled = Answer message | NoAnswer | Waiting uuid "64 word"

definition advance_start :: "advance_request \<Rightarrow> uuid \<Rightarrow> ('n server_node, handled) act" where
  "advance_start req i w =
    (let s = sn_state w in
     case map_of (ss_clients s) i of
       None \<Rightarrow> (w, Panic)
     | Some c \<Rightarrow>
         if \<not> cv_is_blocking c then (w, Err (Other ''Non-blocking client sent advance request''))
         else if ar_step_count req < 1
         then (w, Ok (Answer (MsAdvanceResponse
                (''invalid `step_count` value: '' @ show_nat (unat (ar_step_count req))))))
         else if unat (ss_clock s) + unat (ar_step_count req) \<ge> 2 ^ 64 then (w, Panic)
         else act_bind lower_blocked
                (\<lambda>_. act_ret (Waiting i (ss_clock s + ucast (ar_step_count req)))) w)"

definition advance_wake :: "64 word \<Rightarrow> ('n server_node, message option) act" where
  "advance_wake target w =
    (let now = ss_clock (sn_state w) in
     if now = target then act_bind raise_blocked (\<lambda>_. act_ret (Some (MsAdvanceResponse []))) w
     else if target < now then (w, Err (Other ''clock went too far compared to target''))
     else (w, Ok None))"

text \<open>A server that is shut down answers those that still wait.\<close>

definition advance_cancelled :: "message core_result" where
  "advance_cancelled = Err (Other ''connection closed before step advance could be processed'')"

section \<open>Registration\<close>

definition authorize ::
  "'n server_io \<Rightarrow> register_request \<Rightarrow> ('n server_node, unit) act" where
  "authorize si req =
    act_bind (read_server id) (\<lambda>s.
      if \<not> sc_require_auth (ss_config s) then act_ret ()
      else case rr_auth_token req of
        None \<Rightarrow> act_of (Err (Forbidden ''failed to provide valid auth''))
      | Some token \<Rightarrow>
          (case ss_worker s of
             None \<Rightarrow> act_of (Err (WorkerNotConnected []))
           | Some w \<Rightarrow>
               act_bind (ask_worker_as si (ss_id s) w (WAuthorize token)) (\<lambda>sig.
                 if resp_is_empty (sg_payload sig) then act_ret ()
                 else act_of (Err (Forbidden ''provided invalid auth'')))))"

definition client_new :: "uuid \<Rightarrow> register_request \<Rightarrow> string option \<Rightarrow> 64 word \<Rightarrow> client_view" where
  "client_new i req addr now =
    \<lparr> cv_id = i, cv_name = rr_name req, cv_addr = addr, cv_encoding = Bincode,
      cv_is_blocking = rr_is_blocking req,
      cv_unblocked_until = (if rr_is_blocking req then None else Some 0),
      cv_keepalive = None, cv_auth_token = None, cv_last_request = now \<rparr>"

definition register_client ::
  "'n server_io \<Rightarrow> uuid option \<Rightarrow> string option \<Rightarrow> register_request \<Rightarrow> ('n server_node, handled) act" where
  "register_client si known addr req =
    (if known \<noteq> None then act_of (Err (Other ''existing client attempted registration again''))
     else act_bind (authorize si req) (\<lambda>_.
       act_bind (on_outside (si_fresh si)) (\<lambda>i.
       act_bind (on_outside (si_now si)) (\<lambda>now.
       act_bind (if rr_is_blocking req then raise_blocked else act_ret ()) (\<lambda>_.
       act_bind (modify_server (\<lambda>s. s\<lparr> ss_clients :=
         kv_insert i (client_new i req addr now) (ss_clients s) \<rparr>)) (\<lambda>_.
       act_ret (Answer (MsRegisterClientResponse
         \<lparr> rg_client_id = uuid_to_string i, rg_encoding = Bincode, rg_transport = Quic,
           rg_redirect_to = None \<rparr>))))))))"

definition disconnect_client :: "uuid \<Rightarrow> ('n server_node, handled) act" where
  "disconnect_client i =
    act_bind (read_server id) (\<lambda>s.
    act_bind
      (case map_of (ss_clients s) i of
         Some c \<Rightarrow> if cv_is_blocking c \<and> ss_blocked s \<noteq> 0 then lower_blocked else act_ret ()
       | None \<Rightarrow> act_ret ()) (\<lambda>_.
    act_bind (modify_server (\<lambda>s. s\<lparr> ss_clients := kv_remove i (ss_clients s) \<rparr>)) (\<lambda>_.
    act_ret (Answer MsDisconnect))))"

end
