(* ===== verification/ServerHandlers.thy ===== *)
theory ServerHandlers
  imports Servers
begin

text \<open>
  The request handlers of a server, from src/bigworlds/src/server/mod.rs: messages of clients,
  requests of its worker and its controller, and the task that watches how many clients block.
\<close>

section \<open>Messages of a registered client\<close>

definition no_worker :: "('w, 'x) act" where
  "no_worker = act_of (Err (WorkerNotConnected []))"

text \<open>The identifier of a worker without hyphens.\<close>

definition uuid_simple :: "uuid \<Rightarrow> string" where
  "uuid_simple u = filter (\<lambda>c. c \<noteq> CHR ''-'') (uuid_to_string u)"

definition server_get_clock :: "'n server_io \<Rightarrow> ('n server_node, 64 word) act" where
  "server_get_clock si =
    act_bind (read_server ss_worker) (\<lambda>w.
      case w of
        None \<Rightarrow> no_worker
      | Some w \<Rightarrow> act_bind (ask_worker si w WClock) (\<lambda>sig.
          case sg_payload sig of
            WrClock c \<Rightarrow> act_ret c
          | r \<Rightarrow> act_of (Err (UnexpectedResponse (worker_resp_name r)))))"

definition status_request :: "'n server_io \<Rightarrow> ('n server_node, message) act" where
  "status_request si =
    act_bind (read_server id) (\<lambda>s.
      case ss_worker s of
        None \<Rightarrow> no_worker
      | Some w \<Rightarrow>
          act_bind (ask_worker si w WStatus) (\<lambda>sig.
            case sg_payload sig of
              WrStatus i since n \<Rightarrow>
                act_bind (on_outside (si_uptime si (ss_started_at s))) (\<lambda>up.
                act_bind (ask_worker si w WClock) (\<lambda>sig.
                  case sg_payload sig of
                    WrClock clock \<Rightarrow> act_ret (MsStatusResponse
                      \<lparr> sr_name = sc_name (ss_config s), sr_description = sc_description (ss_config s),
                        sr_connected_clients = map (\<lambda>(_, c). cv_name c) (ss_clients s),
                        sr_engine_version = si_version si, sr_uptime = up, sr_clock = clock,
                        sr_worker = uuid_simple i \<rparr>)
                  | _ \<Rightarrow> act_of (Err (Other ''wrong response type''))))
            | _ \<Rightarrow> act_of Panic))"

definition query_request :: "'n server_io \<Rightarrow> query \<Rightarrow> ('n server_node, handled) act" where
  "query_request si q =
    act_bind (read_server id) (\<lambda>s.
      case ss_worker s of
        None \<Rightarrow> act_of (Err Unknown)
      | Some w \<Rightarrow>
          act_bind (ask_worker_as si (ss_id s) w (WProcessQuery q)) (\<lambda>sig.
            case sg_payload sig of
              WrQuery p \<Rightarrow> act_ret (Answer (MsQueryResponse p))
            | _ \<Rightarrow> act_of (Err Unknown)))"

definition entity_list_request :: "'n server_io \<Rightarrow> ('n server_node, handled) act" where
  "entity_list_request si =
    act_bind (read_server ss_worker) (\<lambda>w.
      case w of
        None \<Rightarrow> act_of (Err Unknown)
      | Some w \<Rightarrow>
          act_bind (ask_worker si w WEntityList) (\<lambda>sig.
            case sg_payload sig of
              WrEntityList ns \<Rightarrow> act_ret (Answer (MsEntityListResponse ns))
            | _ \<Rightarrow> act_of (Err Unknown)))"

text \<open>Data other than addressed variables is acknowledged and not sent on.\<close>

definition data_pull_request :: "'n server_io \<Rightarrow> pull_data \<Rightarrow> ('n server_node, handled) act" where
  "data_pull_request si d =
    act_bind (read_server ss_worker) (\<lambda>w.
      case w of
        None \<Rightarrow> act_of (Err Unknown)
      | Some w \<Rightarrow>
          act_bind (case d of
              PullAddressedVars pairs \<Rightarrow> act_bind (ask_worker si w (WSetVars pairs)) (\<lambda>_. act_ret ())
            | _ \<Rightarrow> act_ret ()) (\<lambda>_.
          act_ret (Answer (MsDataPullResponse []))))"

text \<open>
  A subscription forwards what its worker answers to the stream of the client, encoded or not; a
  stream that is closed is noticed with the identifier of the subscription only.
\<close>

definition forward ::
  "'n server_io \<Rightarrow> nat option \<Rightarrow> nat option \<Rightarrow> worker_resp signal core_result \<Rightarrow> ('n server_node, unit) act" where
  "forward si stream bytes r =
    (let send = (\<lambda>msg must_arrive.
        let done = (\<lambda>m. if must_arrive then must (on_outside m) else ignore (on_outside m)) in
        case bytes of
          Some c \<Rightarrow> act_bind (act_of (si_encode si msg Bincode)) (\<lambda>b. done (si_send_bytes si c b))
        | None \<Rightarrow> (case stream of Some c \<Rightarrow> done (si_send si c msg) | None \<Rightarrow> act_ret ())) in
     case r of
       Ok sig \<Rightarrow>
         (case sg_payload sig of
            WrQuery p \<Rightarrow> send (MsQueryResponse p) False
          | WrSubscribe i \<Rightarrow> send (MsSubscribeResponse i) True
          | _ \<Rightarrow> act_of Panic)
     | _ \<Rightarrow> act_ret ())"

definition subscribe_request ::
  "'n server_io \<Rightarrow> nat option \<Rightarrow> nat option \<Rightarrow> query_trigger list \<Rightarrow> query \<Rightarrow> ('n server_node, handled) act" where
  "subscribe_request si stream bytes ts q =
    (if stream = None \<and> bytes = None then act_of (Err (Other ''streaming context unavailable''))
     else act_bind (read_server ss_worker) (\<lambda>w.
       case w of
         None \<Rightarrow> act_of Panic
       | Some w \<Rightarrow>
           act_bind (must (on_outside (act_bind (server_signal si (WSubscribe ts q)) (attached_stream si w)))) (\<lambda>rs.
           act_bind (act_iter (forward si stream bytes) rs) (\<lambda>_. act_ret NoAnswer))))"

definition acknowledged :: "'n server_io \<Rightarrow> worker_req \<Rightarrow> ('n server_node, handled) act" where
  "acknowledged si req =
    act_bind (read_server ss_worker) (\<lambda>w.
      case w of
        None \<Rightarrow> no_worker
      | Some w \<Rightarrow>
          act_bind (ask_worker si w req) (\<lambda>sig.
          act_bind (act_of (resp_empty (si_debug_resp si) (sg_payload sig))) (\<lambda>_.
          act_ret (Answer MsOK))))"

definition snapshot_request :: "'n server_io \<Rightarrow> ('n server_node, handled) act" where
  "snapshot_request si =
    act_bind (read_server id) (\<lambda>s.
      case ss_worker s of
        None \<Rightarrow> no_worker
      | Some w \<Rightarrow>
          act_bind (ask_worker_as si (ss_id s) w WSnapshot) (\<lambda>sig.
          act_bind (act_of (resp_snapshot (sg_payload sig))) (\<lambda>sn.
          act_ret (Answer (MsSnapshotResponse sn)))))"

definition handle_message ::
  "'n server_io \<Rightarrow> uuid option \<Rightarrow> string option \<Rightarrow> message \<Rightarrow> nat option \<Rightarrow> nat option
    \<Rightarrow> ('n server_node, handled) act" where
  "handle_message si known addr msg stream bytes =
    (case msg of
       MsRegisterClientRequest req \<Rightarrow> register_client si known addr req
     | _ \<Rightarrow>
         (case known of
            None \<Rightarrow> act_of (Err (Forbidden ''client not recognized''))
          | Some i \<Rightarrow>
              (case msg of
                 MsOK \<Rightarrow> act_ret (Answer MsOK)
               | MsDisconnect \<Rightarrow> disconnect_client i
               | MsStatusRequest _ \<Rightarrow> act_bind (status_request si) (\<lambda>m. act_ret (Answer m))
               | MsAdvanceRequest req \<Rightarrow> advance_start req i
               | MsQueryRequest q \<Rightarrow> query_request si q
               | MsEntityListRequest \<Rightarrow> entity_list_request si
               | MsPingRequest bs \<Rightarrow> act_ret (Answer (MsPingResponse bs))
               | MsDataPullRequest d \<Rightarrow> data_pull_request si d
               | MsSubscribeRequest ts q \<Rightarrow> subscribe_request si stream bytes ts q
               | MsUnsubscribeRequest sub \<Rightarrow> acknowledged si (WUnsubscribe sub)
               | MsInvokeRequest ev \<Rightarrow> acknowledged si (WInvoke [ev] True)
               | MsSnapshotRequest \<Rightarrow> snapshot_request si
               | _ \<Rightarrow> act_of Panic)))"

section \<open>The streams of clients\<close>

definition find_client ::
  "'n server_io \<Rightarrow> caller_link \<Rightarrow> server_state \<Rightarrow> encoding \<times> client_view option" where
  "find_client si link s =
    (let addr = (case link of LinkAddress a \<Rightarrow> a | LinkConnection c \<Rightarrow> si_remote_address si c) in
     case find (\<lambda>(_, c). cv_addr c = Some addr) (ss_clients s) of
       Some (_, c) \<Rightarrow> (cv_encoding c, Some c)
     | None \<Rightarrow> (Bincode, None))"

text \<open>A client of the local channel names itself.\<close>

definition serve_local_client ::
  "'n server_io \<Rightarrow> uuid option \<Rightarrow> message \<Rightarrow> 'n server_node \<Rightarrow> 'n server_node \<times> handled core_result" where
  "serve_local_client si known msg w =
    (case handle_message si known None msg None None w of
       (w', Err e) \<Rightarrow> (w', Ok (Answer (MsErrorResponse (si_show_error si e))))
     | r \<Rightarrow> r)"

definition serve_local_client_multi ::
  "'n server_io \<Rightarrow> uuid option \<Rightarrow> message \<Rightarrow> nat \<Rightarrow> 'n server_node \<Rightarrow> 'n server_node \<times> handled core_result" where
  "serve_local_client_multi si known msg stream w =
    (case handle_message si known None msg (Some stream) None w of
       (w', Err e) \<Rightarrow> (w', Ok (Answer (MsErrorResponse (si_debug_error si e))))
     | r \<Rightarrow> r)"

text \<open>A message of the web interfaces: a client on a connection is registered without address.\<close>

definition handle_client_message ::
  "'n server_io \<Rightarrow> caller_link \<Rightarrow> message \<Rightarrow> nat option \<Rightarrow> 'n server_node \<Rightarrow> 'n server_node \<times> handled core_result" where
  "handle_client_message si link msg stream w =
    (case handle_message si (map_option cv_id (snd (find_client si link (sn_state w))))
        (case link of LinkConnection _ \<Rightarrow> None | LinkAddress a \<Rightarrow> Some a) msg stream None w of
       (w', Err e) \<Rightarrow> (w', Ok (Answer (MsErrorResponse (si_debug_error si e))))
     | r \<Rightarrow> r)"

definition handle_client_bytes ::
  "'n server_io \<Rightarrow> caller_link \<Rightarrow> 8 word list \<Rightarrow> nat option \<Rightarrow> ('n server_node, handled) act" where
  "handle_client_bytes si link data bytes =
    act_bind (read_server (find_client si link)) (\<lambda>(enc, c).
    act_bind (act_of (si_decode si data enc)) (\<lambda>msg.
    handle_message si (map_option cv_id c)
      (Some (case link of LinkAddress a \<Rightarrow> a | LinkConnection k \<Rightarrow> si_remote_address si k)) msg None bytes))"

text \<open>
  What a client on the network is sent: the encoding is that of the client as it was before the
  message; an answer that waits is encoded when it comes.
\<close>

datatype sent_back = Reply "8 word list" | NoReply | ReplyLater uuid "64 word" encoding

definition encode_reply :: "'n server_io \<Rightarrow> encoding \<Rightarrow> message \<Rightarrow> sent_back core_result" where
  "encode_reply si enc msg = unwrap (map_ok Reply (si_encode si msg enc))"

definition serve_net_client ::
  "'n server_io \<Rightarrow> caller_link \<Rightarrow> 8 word list \<Rightarrow> nat option \<Rightarrow> 'n server_node \<Rightarrow> 'n server_node \<times> sent_back core_result" where
  "serve_net_client si link data bytes w =
    (let enc = fst (find_client si link (sn_state w)) in
     case handle_client_bytes si link data bytes w of
       (w', Ok (Answer msg)) \<Rightarrow> (w', encode_reply si enc msg)
     | (w', Ok NoAnswer) \<Rightarrow> (w', Ok NoReply)
     | (w', Ok (Waiting i target)) \<Rightarrow> (w', Ok (ReplyLater i target enc))
     | (w', Err e) \<Rightarrow> (w', encode_reply si enc (MsErrorResponse (si_debug_error si e)))
     | (w', Panic) \<Rightarrow> (w', Panic))"

section \<open>The worker and the controller\<close>

definition server_answer :: "server_resp \<Rightarrow> call_context \<Rightarrow> ('w, server_resp signal) act" where
  "server_answer r cx = act_ret (signal_new r cx)"

definition server_ctl_request ::
  "'n server_io \<Rightarrow> server_req \<Rightarrow> call_context \<Rightarrow> ('n server_node, server_resp signal) act" where
  "server_ctl_request si req cx =
    (case req of
       SStatus \<Rightarrow>
         act_bind (read_server id) (\<lambda>s.
         act_bind (on_outside (si_uptime si (ss_started_at s))) (\<lambda>up.
         server_answer (SrStatus up (of_nat (length (ss_clients s)))) cx))
     | _ \<Rightarrow> act_of Panic)"

definition server_local_ctl ::
  "'n server_io \<Rightarrow> server_local \<Rightarrow> call_context \<Rightarrow> ('n server_node, server_resp signal) act" where
  "server_local_ctl si req cx =
    (case req of
       SlConnectToWorker c back \<Rightarrow>
         act_bind (read_server ss_id) (\<lambda>i.
         act_bind (on_outside (act_bind (server_signal si (WlIntroduceServer i back)) (si_ctl si c))) (\<lambda>r.
         act_bind (act_of (map_err (\<lambda>e. FailedConnectingServerToWorker (si_show_error si e)) r)) (\<lambda>sig.
           case sg_payload sig of
             WrRegister j \<Rightarrow>
               act_bind (modify_server (\<lambda>s. s\<lparr> ss_worker := Some \<lparr> aw_exec = Local c, aw_server_id = j \<rparr> \<rparr>)) (\<lambda>_.
               server_answer (SrConnectToWorker j) cx)
           | _ \<Rightarrow> act_of (Err (UnexpectedResponse [])))))
     | SlRequest r \<Rightarrow> server_ctl_request si r cx
     | _ \<Rightarrow> act_of Panic)"

definition server_worker_request ::
  "server_req \<Rightarrow> call_context \<Rightarrow> ('n server_node, server_resp signal) act" where
  "server_worker_request req cx =
    (case req of
       SClockChangedTo c \<Rightarrow>
         act_bind (modify_server (\<lambda>s. s\<lparr> ss_clock := c \<rparr>)) (\<lambda>_. server_answer SrEmpty cx)
     | _ \<Rightarrow> act_of Panic)"

definition server_local_worker ::
  "server_local \<Rightarrow> call_context \<Rightarrow> ('n server_node, server_resp signal) act" where
  "server_local_worker req cx =
    (case req of
       SlIntroduceWorker c \<Rightarrow>
         act_bind (read_server ss_id) (\<lambda>i.
         act_bind (modify_server (\<lambda>s. s\<lparr> ss_worker := Some \<lparr> aw_exec = Local c, aw_server_id = i \<rparr> \<rparr>)) (\<lambda>_.
         server_answer (SrIntroduceWorker i) cx))
     | SlRequest r \<Rightarrow> server_worker_request r cx
     | _ \<Rightarrow> act_of Panic)"

section \<open>The monitor of blocking clients\<close>

text \<open>
  The task wakes when the counter has changed since it last looked.  It keeps the worker it knew
  when it started; only when that is none does it look again, after the change is consumed.
  \<open>free\<close> tells whether the lock of the state could be taken at once.
\<close>

record monitor =
  mn_seen :: nat
  mn_worker :: "attached_worker option"

definition monitor_start :: "server_state \<Rightarrow> monitor" where
  "monitor_start s = \<lparr> mn_seen = ss_changes s, mn_worker = ss_worker s \<rparr>"

definition monitor_step ::
  "'n server_io \<Rightarrow> bool \<Rightarrow> monitor \<Rightarrow> 'n server_node \<Rightarrow> 'n server_node \<times> monitor" where
  "monitor_step si free mn w =
    (let s = sn_state w; mn' = mn\<lparr> mn_seen := ss_changes s \<rparr> in
     if ss_changes s = mn_seen mn then (w, mn)
     else case mn_worker mn of
       Some x \<Rightarrow> (fst (ask_worker si x (WSetBlocking (ss_blocked s \<noteq> 0)) w), mn')
     | None \<Rightarrow> (w, if free then mn'\<lparr> mn_worker := ss_worker s \<rparr> else mn'))"

section \<open>Operations that no handler calls\<close>

definition initialize_services :: "server_state \<Rightarrow> server_state \<times> unit core_result" where
  "initialize_services s = (s, Panic)"

definition spawn_entities_request :: "spawn_request \<Rightarrow> uuid \<Rightarrow> server_state \<Rightarrow> server_state \<times> unit core_result" where
  "spawn_entities_request req i s =
    (s, if map_of (ss_clients s) i = None \<or> length (sq_entity_names req) < length (sq_entity_prefabs req)
        then Panic else Ok ())"

definition ping_request :: "8 word list \<Rightarrow> uuid \<Rightarrow> server_state \<Rightarrow> server_state \<times> unit core_result" where
  "ping_request bs i s = (s, if map_of (ss_clients s) i = None then Panic else Ok ())"

end
