(* ===== verification/Grpc.thy ===== *)
theory Grpc
  imports ServerHandlers
begin

text \<open>
  The gRPC face of a server, \<open>server/grpc/\<close>: the messages of \<open>protobuf/bigworlds.proto\<close>, the
  conversions between them and the program's own types, and the service that passes them to the
  server.  A field that protobuf leaves unset is None or a constructor of its own.
\<close>

section \<open>Double precision\<close>

text \<open>
  The casts between \<open>f32\<close> and \<open>f64\<close>.  Widening is exact; narrowing rounds the exact value,
  a count of \<open>2 ^ -1074\<close>.
\<close>

type_synonym f64 = "64 word"

definition f64_parts :: "bool \<Rightarrow> int \<Rightarrow> int \<Rightarrow> f64" where
  "f64_parts s e m = word_of_int ((if s then 2 ^ 63 else 0) + e * 2 ^ 52 + m)"

definition f64_of_f32 :: "f32 \<Rightarrow> f64" where
  "f64_of_f32 x =
    (case f32_classify x of
       FNan \<Rightarrow> f64_parts False 2047 (2 ^ 51)
     | FInf s \<Rightarrow> f64_parts s 2047 0
     | FFin s k \<Rightarrow>
         if k = 0 then f64_parts s 0 0
         else let b = bit_count k in
              f64_parts s (int b + 873) (k * 2 ^ 53 div 2 ^ b - 2 ^ 52))"

definition f64_classify :: "f64 \<Rightarrow> fclass" where
  "f64_classify x =
    (let b = uint x; s = (b div 2 ^ 63 = 1); e = (b div 2 ^ 52) mod 2048; m = b mod 2 ^ 52
     in if e = 2047 then (if m = 0 then FInf s else FNan)
        else if e = 0 then FFin s m
        else FFin s ((m + 2 ^ 52) * 2 ^ nat (e - 1)))"

definition f32_of_f64 :: "f64 \<Rightarrow> f32" where
  "f32_of_f64 x =
    (case f64_classify x of
       FNan \<Rightarrow> f32_nan
     | FInf s \<Rightarrow> word_of_int (f32_sign_bit s + 2139095040)
     | FFin s k \<Rightarrow> f32_round s k (2 ^ 1074))"

section \<open>Values and products\<close>

datatype proto_var =
    PvUnset | PvString string | PvInt "32 word" | PvFloat f32 | PvBool bool | PvByte "8 word list"
  | PvVec2 f32 f32 | PvVec3 f32 f32 f32
  | PvList "proto_var list" | PvGrid "proto_var list list" | PvMap "(string \<times> proto_var option) list"

datatype proto_product =
    PpUnset | PpVarList "proto_var list" | PpAddressed "(string \<times> proto_var option) list" | PpEmpty

fun var_to_proto :: "var \<Rightarrow> proto_var" where
  "var_to_proto (VString s) = PvString s"
| "var_to_proto (VInt i) = PvInt i"
| "var_to_proto (VFloat f) = PvFloat f"
| "var_to_proto (VBool b) = PvBool b"
| "var_to_proto (VByte b) = PvByte [b]"
| "var_to_proto (VVec2 x y) = PvVec2 x y"
| "var_to_proto (VVec3 x y z) = PvVec3 x y z"
| "var_to_proto (VList l) = PvList (map var_to_proto l)"
| "var_to_proto (VGrid g) = PvGrid (map (map var_to_proto) g)"
| "var_to_proto (VMap m) = PvMap (map (\<lambda>(k, v). (k, Some (var_to_proto v))) m)"

definition product_to_proto :: "query_product \<Rightarrow> proto_product" where
  "product_to_proto p =
    (case p of
       PVar vs \<Rightarrow> PpVarList (map var_to_proto vs)
     | PAddressedVar m \<Rightarrow>
         PpAddressed (map (\<lambda>(a, v). (address_to_string a, Some (var_to_proto v))) m)
     | _ \<Rightarrow> PpEmpty)"

fun var_of_proto :: "proto_var \<Rightarrow> var core_result" where
  "var_of_proto PvUnset = Err (FailedConversion ''Var has no value variant'')"
| "var_of_proto (PvString s) = Ok (VString s)"
| "var_of_proto (PvInt i) = Ok (VInt i)"
| "var_of_proto (PvFloat f) = Ok (VFloat f)"
| "var_of_proto (PvBool b) = Ok (VBool b)"
| "var_of_proto (PvByte bs) =
    (case bs of [b] \<Rightarrow> Ok (VByte b)
     | _ \<Rightarrow> Err (FailedConversion ''Byte value must have exactly one byte''))"
| "var_of_proto (PvVec2 x y) = Ok (VVec2 x y)"
| "var_of_proto (PvVec3 x y z) = Ok (VVec3 x y z)"
| "var_of_proto (PvList l) = map_ok VList (res_map var_of_proto l)"
| "var_of_proto (PvGrid g) = map_ok VGrid (res_map (res_map var_of_proto) g)"
| "var_of_proto (PvMap m) =
    map_ok (VMap \<circ> btree_of) (res_map (\<lambda>(k, v).
      case v of None \<Rightarrow> Err (FailedConversion ''Missing value in VarValueMapEntry'')
      | Some v \<Rightarrow> map_ok (Pair k) (var_of_proto v)) m)"

definition entry_of_proto ::
  "(address, var) kv \<Rightarrow> string \<times> proto_var option \<Rightarrow> (address, var) kv core_result" where
  "entry_of_proto m = (\<lambda>(a, v).
    res_bind (address_from_str a) (\<lambda>addr.
    res_bind (ok_or (FailedConversion ''Missing value in AddressedVarEntry'') v) (\<lambda>v.
    map_ok (\<lambda>x. kv_insert addr x m) (var_of_proto v))))"

definition product_of_proto :: "proto_product \<Rightarrow> query_product core_result" where
  "product_of_proto p =
    (case p of
       PpVarList vs \<Rightarrow> map_ok PVar (res_map var_of_proto vs)
     | PpAddressed es \<Rightarrow> map_ok PAddressedVar (res_foldl entry_of_proto [] es)
     | PpEmpty \<Rightarrow> Ok PEmpty
     | PpUnset \<Rightarrow> Err (FailedConversion ''QueryProduct has no data variant''))"

section \<open>Filters\<close>

type_synonym proto_distance = "string \<times> string \<times> string \<times> f64 \<times> f64 \<times> f64"

datatype proto_filter =
    PfUnset | PfAllComponents "string list" | PfSomeComponents "string list" | PfComponent string
  | PfName "string list" | PfId "string list" | PfVarRange string string string
  | PfAttrRange string string string | PfDistance proto_distance
  | PfDistanceMulti "proto_distance list" | PfNode int "32 word"

text \<open>An address that does not parse becomes the name of a variable of a default component.\<close>

definition address_or_default :: "string \<Rightarrow> address core_result" where
  "address_or_default s =
    (case address_from_str s of
       Err _ \<Rightarrow> Ok \<lparr> a_entity = ''default'', a_comp = ''default'', a_type = TString, a_var = s \<rparr>
     | r \<Rightarrow> r)"

definition local_address_or_default :: "string \<Rightarrow> local_address core_result" where
  "local_address_or_default s =
    (case local_address_from_str s of
       Err _ \<Rightarrow> Ok \<lparr> la_comp = ''default'', la_type = TString, la_var = s \<rparr>
     | r \<Rightarrow> r)"

definition point_of_proto ::
  "proto_distance \<Rightarrow> (address \<times> address \<times> address \<times> f32 \<times> f32 \<times> f32) core_result" where
  "point_of_proto = (\<lambda>(x, y, z, mx, my, mz).
    res_bind (address_or_default x) (\<lambda>ax.
    res_bind (address_or_default y) (\<lambda>ay.
    res_bind (address_or_default z) (\<lambda>az.
      Ok (ax, ay, az, f32_of_f64 mx, f32_of_f64 my, f32_of_f64 mz)))))"

definition point_to_proto :: "address \<times> address \<times> address \<times> f32 \<times> f32 \<times> f32 \<Rightarrow> proto_distance" where
  "point_to_proto = (\<lambda>(x, y, z, mx, my, mz).
    (address_to_string x, address_to_string y, address_to_string z,
     f64_of_f32 mx, f64_of_f32 my, f64_of_f32 mz))"

definition parse_ids :: "string list \<Rightarrow> 32 word list" where
  "parse_ids ss = concat (map (\<lambda>s. case parse_int 0 4294967295 s of
     Ok i \<Rightarrow> [word_of_int i] | _ \<Rightarrow> []) ss)"

definition filter_of_proto :: "proto_filter \<Rightarrow> query_filter core_result" where
  "filter_of_proto f =
    (case f of
       PfAllComponents cs \<Rightarrow> Ok (AllComponents cs)
     | PfSomeComponents cs \<Rightarrow> Ok (SomeComponents cs)
     | PfComponent c \<Rightarrow> Ok (FComponent c)
     | PfName ns \<Rightarrow> Ok (FName ns)
     | PfId ss \<Rightarrow> Ok (FId (parse_ids ss))
     | PfVarRange a lo hi \<Rightarrow>
         map_ok (\<lambda>l. VarRange l (VString lo) (VString hi)) (local_address_or_default a)
     | PfAttrRange a lo hi \<Rightarrow> Ok (AttrRange a (VString lo) (VString hi))
     | PfDistance d \<Rightarrow> map_ok (\<lambda>(x, y, z, mx, my, mz). Distance x y z mx my mz) (point_of_proto d)
     | PfDistanceMulti ds \<Rightarrow> map_ok DistanceMultiPoint (res_map point_of_proto ds)
     | PfNode t v \<Rightarrow>
         let n = (if v = 0 then None else Some v) in
         Ok (FNode (if t = 0 then NodeLocal n else if t = 1 then NodeRemote n else NodeLocal None))
     | PfUnset \<Rightarrow> Ok (FComponent ''default''))"

text \<open>\<open>uesc\<close> is the escape of text in the display of a value.\<close>

definition filter_to_proto :: "(string \<Rightarrow> bool) \<Rightarrow> query_filter \<Rightarrow> proto_filter" where
  "filter_to_proto uesc f =
    (case f of
       AllComponents cs \<Rightarrow> PfAllComponents cs
     | SomeComponents cs \<Rightarrow> PfSomeComponents cs
     | FComponent c \<Rightarrow> PfComponent c
     | FName ns \<Rightarrow> PfName ns
     | FId is \<Rightarrow> PfId (map (\<lambda>i. show_int (uint i)) is)
     | VarRange a lo hi \<Rightarrow>
         PfVarRange (local_address_to_string a) (var_to_string uesc lo) (var_to_string uesc hi)
     | AttrRange a lo hi \<Rightarrow> PfAttrRange a (var_to_string uesc lo) (var_to_string uesc hi)
     | Distance x y z mx my mz \<Rightarrow> PfDistance (point_to_proto (x, y, z, mx, my, mz))
     | DistanceMultiPoint ps \<Rightarrow> PfDistanceMulti (map point_to_proto ps)
     | FNode n \<Rightarrow>
         (case n of
            NodeLocal v \<Rightarrow> PfNode 0 (case v of Some v \<Rightarrow> v | None \<Rightarrow> 0)
          | NodeRemote v \<Rightarrow> PfNode 1 (case v of Some v \<Rightarrow> v | None \<Rightarrow> 0)))"

section \<open>Mappings\<close>

datatype proto_map =
    PmUnset | PmAll | PmSelectAddrs "string list" | PmComponents "string list" | PmComponent string
  | PmVar string string | PmVarName string | PmVarType string

definition simple_type_of :: "string \<Rightarrow> var_type" where
  "simple_type_of s =
    (if s = ''string'' then TString else if s = ''int'' then TInt
     else if s = ''float'' then TFloat else if s = ''bool'' then TBool
     else if s = ''byte'' then TByte else if s = ''vec2'' then TVec2
     else if s = ''vec3'' then TVec3 else if s = ''list'' then TList
     else if s = ''grid'' then TGrid else if s = ''map'' then TMap else TString)"

definition simple_type_name :: "var_type \<Rightarrow> string" where
  "simple_type_name t =
    (case t of
       TString \<Rightarrow> ''string'' | TInt \<Rightarrow> ''int'' | TFloat \<Rightarrow> ''float'' | TBool \<Rightarrow> ''bool''
     | TByte \<Rightarrow> ''byte'' | TVec2 \<Rightarrow> ''vec2'' | TVec3 \<Rightarrow> ''vec3'' | TList \<Rightarrow> ''list''
     | TGrid \<Rightarrow> ''grid'' | TMap \<Rightarrow> ''map'' | _ \<Rightarrow> ''string'')"

fun parse_addresses :: "string list \<Rightarrow> address list core_result" where
  "parse_addresses [] = Ok []"
| "parse_addresses (s # ss) =
    (case address_from_str s of
       Ok a \<Rightarrow> map_ok (Cons a) (parse_addresses ss)
     | Err _ \<Rightarrow> parse_addresses ss
     | Panic \<Rightarrow> Panic)"

definition map_of_proto :: "proto_map \<Rightarrow> query_map core_result" where
  "map_of_proto m =
    (case m of
       PmAll \<Rightarrow> Ok MAll
     | PmSelectAddrs ss \<Rightarrow> map_ok SelectAddrs (parse_addresses ss)
     | PmComponents cs \<Rightarrow> Ok (MComponents cs)
     | PmComponent c \<Rightarrow> Ok (MComponent c)
     | PmVar _ n \<Rightarrow> Ok (MVar n)
     | PmVarName n \<Rightarrow> Ok (MVar n)
     | PmVarType t \<Rightarrow> Ok (MVarType (simple_type_of t))
     | PmUnset \<Rightarrow> Ok MAll)"

definition map_to_proto :: "query_map \<Rightarrow> proto_map" where
  "map_to_proto m =
    (case m of
       MAll \<Rightarrow> PmAll
     | SelectAddrs as \<Rightarrow> PmSelectAddrs (map address_to_string as)
     | MComponents cs \<Rightarrow> PmComponents cs
     | MComponent c \<Rightarrow> PmComponent c
     | MVar n \<Rightarrow> PmVar [] n
     | MVarType t \<Rightarrow> PmVarType (simple_type_name t))"

section \<open>Requests and responses\<close>

record proto_query =
  pq_description :: int
  pq_layout :: int
  pq_filters :: "proto_filter list"
  pq_mappings :: "proto_map list"
  pq_scope :: int

record proto_register =
  pr_client_name :: string
  pr_is_blocking :: bool
  pr_auth_pair :: "(string \<times> string) option"
  pr_encodings :: "int list"
  pr_transports :: "int list"

record proto_registered =
  pd_client_id :: string
  pd_encoding :: int
  pd_transport :: int
  pd_redirect_to :: string

datatype proto_subscribed = PsSubscription string | PsProduct proto_product

definition description_of_proto :: "int \<Rightarrow> description" where
  "description_of_proto i =
    (if i = 0 then NativeDescribed else if i = 1 then Addressed else if i = 2 then DEntity
     else if i = 3 then EntityMany else if i = 4 then DComponent else if i = 5 then DVar
     else if i = 6 then ComponentVar else if i = 7 then Ordered else DNone)"

definition layout_of_proto :: "int \<Rightarrow> layout" where
  "layout_of_proto i = (if i = 0 then LVar else if i = 1 then LString else if i = 2 then LTyped else LString)"

definition scope_of_proto :: "int \<Rightarrow> scope" where
  "scope_of_proto i =
    (if i = 0 then Global else if i = 1 then LocalNode else if i = 2 then LocalWorker
     else if i = 3 then Edges 1 else if i = 4 then Workers 1
     else if i = 5 then STime 1000000000 else Global)"

text \<open>The archive mode and the limits of a query are the default ones: the proto has neither.\<close>

definition query_of_proto :: "proto_query \<Rightarrow> query core_result" where
  "query_of_proto q =
    res_bind (res_map filter_of_proto (pq_filters q)) (\<lambda>fs.
    res_bind (res_map map_of_proto (pq_mappings q)) (\<lambda>ms.
      Ok (default_query\<lparr> q_description := description_of_proto (pq_description q),
            q_layout := layout_of_proto (pq_layout q), q_filters := fs, q_mappings := ms,
            q_scope := scope_of_proto (pq_scope q) \<rparr>)))"

definition query_message :: "proto_query option \<Rightarrow> message core_result" where
  "query_message q = map_ok MsQueryRequest (case q of Some q \<Rightarrow> query_of_proto q | None \<Rightarrow> Ok default_query)"

definition query_answer :: "message \<Rightarrow> proto_product option" where
  "query_answer m = Some (case m of MsQueryResponse p \<Rightarrow> product_to_proto p | _ \<Rightarrow> PpEmpty)"

definition subscribe_message :: "query_trigger list \<times> proto_query option \<Rightarrow> message" where
  "subscribe_message r = MsSubscribeRequest [] default_query"

definition subscribe_answer :: "message \<Rightarrow> proto_subscribed core_result" where
  "subscribe_answer m =
    (case m of
       MsSubscribeResponse i \<Rightarrow> Ok (PsSubscription (uuid_to_string i))
     | MsQueryResponse p \<Rightarrow> Ok (PsProduct (product_to_proto p))
     | _ \<Rightarrow> Panic)"

definition encoding_of_proto :: "int \<Rightarrow> encoding option" where
  "encoding_of_proto i =
    (if i = 1 then Some Bincode else if i = 2 then Some MsgPack else if i = 3 then Some Json else None)"

definition transport_of_proto :: "int \<Rightarrow> transport option" where
  "transport_of_proto i =
    (if i = 1 then Some GrpcServer else if i = 2 then Some WebSocket else if i = 3 then Some Quic else None)"

definition register_message :: "proto_register \<Rightarrow> message" where
  "register_message r = MsRegisterClientRequest
    \<lparr> rr_name = pr_client_name r, rr_is_blocking = pr_is_blocking r,
      rr_auth_token = map_option (\<lambda>(u, p). u @ '':'' @ p) (pr_auth_pair r),
      rr_encodings = List.map_filter encoding_of_proto (pr_encodings r),
      rr_transports = List.map_filter transport_of_proto (pr_transports r) \<rparr>"

definition encoding_to_proto :: "encoding \<Rightarrow> int" where
  "encoding_to_proto e = (case e of Bincode \<Rightarrow> 1 | MsgPack \<Rightarrow> 2 | Json \<Rightarrow> 3)"

definition transport_to_proto :: "transport \<Rightarrow> int" where
  "transport_to_proto t =
    (case t of Quic \<Rightarrow> 0 | WebSocket \<Rightarrow> 2 | SecureWebSocket \<Rightarrow> 2 | HttpServer \<Rightarrow> 0 | GrpcServer \<Rightarrow> 1)"

definition register_answer :: "message \<Rightarrow> proto_registered" where
  "register_answer m =
    (case m of
       MsRegisterClientResponse r \<Rightarrow>
         \<lparr> pd_client_id = rg_client_id r, pd_encoding = encoding_to_proto (rg_encoding r),
           pd_transport = transport_to_proto (rg_transport r),
           pd_redirect_to = (case rg_redirect_to r of Some a \<Rightarrow> a | None \<Rightarrow> []) \<rparr>
     | _ \<Rightarrow> \<lparr> pd_client_id = [], pd_encoding = 3, pd_transport = 1, pd_redirect_to = [] \<rparr>)"

section \<open>The service\<close>

text \<open>
  A call of the service at an address: the request becomes a message, the server handles it, and
  its answer is converted back.  A message that the server does not answer fails the call's
  \<open>unwrap\<close>, as a panic in the conversion of the request does.
\<close>

definition grpc_call ::
  "'n server_io \<Rightarrow> string \<Rightarrow> message core_result \<Rightarrow> (message \<Rightarrow> 'r core_result) \<Rightarrow> nat option
   \<Rightarrow> ('n server_node, 'r) act" where
  "grpc_call si addr req answer stream w =
    (case req of
       Ok msg \<Rightarrow>
         (case handle_client_message si (LinkAddress addr) msg stream w of
            (w', Ok (Answer m)) \<Rightarrow> (w', answer m)
          | (w', _) \<Rightarrow> (w', Panic))
     | _ \<Rightarrow> (w, Panic))"

definition grpc_register ::
  "'n server_io \<Rightarrow> string \<Rightarrow> proto_register \<Rightarrow> ('n server_node, proto_registered) act" where
  "grpc_register si addr r = grpc_call si addr (Ok (register_message r)) (\<lambda>m. Ok (register_answer m)) None"

definition grpc_query ::
  "'n server_io \<Rightarrow> string \<Rightarrow> proto_query option \<Rightarrow> ('n server_node, proto_product option) act" where
  "grpc_query si addr q = grpc_call si addr (query_message q) (\<lambda>m. Ok (query_answer m)) None"

text \<open>
  The first answer on the stream of a subscription: none when the server has none, a panic of the
  task that converts the answers ends the stream.  \<open>stream\<close> is the channel of the others.
\<close>

definition grpc_subscribe ::
  "'n server_io \<Rightarrow> string \<Rightarrow> query_trigger list \<times> proto_query option \<Rightarrow> nat
   \<Rightarrow> 'n server_node \<Rightarrow> 'n server_node \<times> proto_subscribed option" where
  "grpc_subscribe si addr r stream w =
    (case handle_client_message si (LinkAddress addr) (subscribe_message r) (Some stream) w of
       (w', Ok (Answer m)) \<Rightarrow> (w', case subscribe_answer m of Ok x \<Rightarrow> Some x | _ \<Rightarrow> None)
     | (w', _) \<Rightarrow> (w', None))"

end
