(* ===== verification/GrpcClients.thy ===== *)
theory GrpcClients
  imports Grpc
begin

text \<open>
  The gRPC client of the viewer, \<open>clients/grpc-client/\<close>, in its native build.  Calls run in
  tasks behind a promise: a call of the client gives the task, running it gives the result.  The
  channel to a server and the clock are parameters, in one record; errors of the channel are texts.
\<close>

record ('c, 'e, 'w) channel_io =
  io_endpoint :: "string \<Rightarrow> (string, 'e) result"
  io_connect :: "'e \<Rightarrow> 'w \<Rightarrow> 'w \<times> (string, 'c) result"
  io_register :: "'c \<Rightarrow> proto_register \<Rightarrow> 'w \<Rightarrow> 'w \<times> (string, proto_registered) result"
  io_query :: "'c \<Rightarrow> proto_query option \<Rightarrow> 'w \<Rightarrow> 'w \<times> (string, proto_product option) result"
  io_now_ms :: "'w \<Rightarrow> int"
  io_show_product :: "proto_product option \<Rightarrow> string"

section \<open>State\<close>

datatype connection_status = CsDisconnected | CsConnecting | CsConnected string | CsError string

datatype proto_query_result =
    QrVarList "proto_var list" | QrAddressedVarMap "(string \<times> proto_var option) list"
  | QrEmpty | QrError string

datatype proto_query_status = QsSuccess | QsPartial | QsError | QsTimeout | QsNotFound

record query_info =
  qi_timestamp :: int
  qi_duration_ms :: int
  qi_result_count :: int
  qi_status :: proto_query_status
  qi_metadata :: "(string, string) kv"

datatype 'c connect_promise = Pending string | Ready "(string, 'c \<times> connection_status) result"

record 'c grpc_client =
  gl_client :: "'c option"
  gl_status :: connection_status
  gl_promise :: "'c connect_promise option"
  gl_url :: "string option"

definition grpc_client_new :: "'c grpc_client" where
  "grpc_client_new = \<lparr> gl_client = None, gl_status = CsDisconnected, gl_promise = None, gl_url = None \<rparr>"

definition connected :: "'c grpc_client \<Rightarrow> bool" where
  "connected cl = (case gl_status cl of CsConnected _ \<Rightarrow> True | _ \<Rightarrow> False)"

section \<open>Connecting\<close>

definition client_url :: "string \<Rightarrow> string" where
  "client_url url =
    (if prefix ''http://'' url then url else if prefix ''https://'' url then url else ''http://'' @ url)"

definition create_native_client ::
  "('c, 'e, 'w) channel_io \<Rightarrow> string \<Rightarrow> 'w \<Rightarrow> 'w \<times> (string, 'c) result" where
  "create_native_client io url w =
    (case map_err (\<lambda>e. ''Invalid URL: '' @ e) (io_endpoint io (client_url url)) of
       Ok ep \<Rightarrow> (case io_connect io ep w of (w', r) \<Rightarrow> (w', map_err (\<lambda>e. ''Failed to connect: '' @ e) r))
     | Err e \<Rightarrow> (w, Err e)
     | Panic \<Rightarrow> (w, Panic))"

definition viewer_request :: proto_register where
  "viewer_request =
    \<lparr> pr_client_name = ''egui-viewer'', pr_is_blocking = False, pr_auth_pair = None,
      pr_encodings = [3], pr_transports = [1] \<rparr>"

definition connect_task ::
  "('c, 'e, 'w) channel_io \<Rightarrow> string \<Rightarrow> 'w \<Rightarrow> 'w \<times> (string, 'c \<times> connection_status) result" where
  "connect_task io url w =
    (case create_native_client io url w of
       (w', Ok c) \<Rightarrow>
         (case io_register io c viewer_request w' of
            (w'', r) \<Rightarrow> (w'', map_ok (\<lambda>x. (c, CsConnected (pd_client_id x)))
              (map_err (\<lambda>e. ''Failed to register client: '' @ e) r)))
     | (w', Err e) \<Rightarrow> (w', Err (''Failed to create client: '' @ e))
     | (w', Panic) \<Rightarrow> (w', Panic))"

definition connect :: "string \<Rightarrow> 'c grpc_client \<Rightarrow> 'c grpc_client" where
  "connect url cl =
    (if gl_status cl = CsConnecting then cl
     else cl\<lparr> gl_status := CsConnecting, gl_url := Some url, gl_promise := Some (Pending url) \<rparr>)"

text \<open>The runtime runs the task of the promise to its end.\<close>

definition resolve ::
  "('c, 'e, 'w) channel_io \<Rightarrow> 'c grpc_client \<Rightarrow> 'w \<Rightarrow> 'w \<times> 'c grpc_client" where
  "resolve io cl w =
    (case gl_promise cl of
       Some (Pending url) \<Rightarrow>
         (case connect_task io url w of (w', r) \<Rightarrow> (w', cl\<lparr> gl_promise := Some (Ready r) \<rparr>))
     | _ \<Rightarrow> (w, cl))"

definition disconnect :: "'c grpc_client \<Rightarrow> 'c grpc_client" where
  "disconnect cl = cl\<lparr> gl_status := CsDisconnected, gl_client := None, gl_url := None, gl_promise := None \<rparr>"

text \<open>A promise whose task panicked panics when it is asked.\<close>

definition update :: "'c grpc_client \<Rightarrow> (string, 'c grpc_client) result" where
  "update cl =
    (case gl_promise cl of
       Some (Ready (Ok (c, status))) \<Rightarrow>
         Ok (cl\<lparr> gl_status := status,
                 gl_client := (case status of
                     CsConnected _ \<Rightarrow> if gl_url cl \<noteq> None then Some c else gl_client cl
                   | _ \<Rightarrow> gl_client cl),
                 gl_promise := None \<rparr>)
     | Some (Ready (Err e)) \<Rightarrow> Ok (cl\<lparr> gl_status := CsError e, gl_promise := None \<rparr>)
     | Some (Ready Panic) \<Rightarrow> Panic
     | _ \<Rightarrow> Ok cl)"

section \<open>Queries\<close>

definition parse_query_product ::
  "int \<Rightarrow> proto_product \<Rightarrow> (string, proto_query_result \<times> query_info) result" where
  "parse_query_product now p =
    (let info = \<lparr> qi_timestamp = now, qi_duration_ms = 0, qi_result_count = 0, qi_status = QsSuccess,
                 qi_metadata = [] \<rparr> in
     case p of
       PpVarList vs \<Rightarrow> Ok (QrVarList vs, info)
     | PpAddressed es \<Rightarrow> Ok (QrAddressedVarMap es, info)
     | PpEmpty \<Rightarrow> Ok (QrEmpty, info)
     | PpUnset \<Rightarrow> Err ''Query product has no data'')"

definition execute_query :: "'c grpc_client \<Rightarrow> proto_query \<Rightarrow> ('c \<times> proto_query) option" where
  "execute_query cl q =
    (if connected cl \<and> gl_url cl \<noteq> None then map_option (\<lambda>c. (c, q)) (gl_client cl) else None)"

definition query_task ::
  "('c, 'e, 'w) channel_io \<Rightarrow> 'c \<times> proto_query \<Rightarrow> 'w \<Rightarrow> 'w \<times> (string, proto_query_result \<times> query_info) result" where
  "query_task io = (\<lambda>(c, q) w.
    (case io_query io c (Some q) w of
       (w', Ok (Some p)) \<Rightarrow> (w', parse_query_product (io_now_ms io w') p)
     | (w', Ok None) \<Rightarrow> (w', Err ''No query product returned'')
     | (w', Err e) \<Rightarrow> (w', Err (''Query failed: '' @ e))
     | (w', Panic) \<Rightarrow> (w', Panic)))"

definition create_string_query :: "int \<Rightarrow> int \<Rightarrow> proto_query" where
  "create_string_query description scope =
    \<lparr> pq_description = description, pq_layout = 1, pq_filters = [], pq_mappings = [], pq_scope = scope \<rparr>"

definition create_entity_query :: "string \<Rightarrow> int \<Rightarrow> proto_query" where
  "create_entity_query name scope =
    \<lparr> pq_description = 2, pq_layout = 2, pq_filters = [PfName [name]], pq_mappings = [], pq_scope = scope \<rparr>"

definition create_component_query :: "string \<Rightarrow> int \<Rightarrow> proto_query" where
  "create_component_query name scope =
    \<lparr> pq_description = 4, pq_layout = 2, pq_filters = [PfComponent name], pq_mappings = [], pq_scope = scope \<rparr>"

section \<open>The status of the service\<close>

datatype 'c status_task = AskStored 'c | AskNew string | NotAsked

definition query_status :: "'c grpc_client \<Rightarrow> 'c status_task option" where
  "query_status cl =
    (if connected cl
     then Some (case gl_url cl of
            Some url \<Rightarrow> (case gl_client cl of Some c \<Rightarrow> AskStored c | None \<Rightarrow> AskNew url)
          | None \<Rightarrow> NotAsked)
     else None)"

definition ask_status ::
  "('c, 'e, 'w) channel_io \<Rightarrow> 'c \<Rightarrow> int \<Rightarrow> int \<Rightarrow> 'w \<Rightarrow> 'w \<times> (string, string) result" where
  "ask_status io c description layout w =
    (case io_query io c (Some \<lparr> pq_description = description, pq_layout = layout, pq_filters = [],
            pq_mappings = [PmAll], pq_scope = 0 \<rparr>) w of
       (w', Ok p) \<Rightarrow> (w', Ok (''BigWorlds backend is ready. Query product: '' @ io_show_product io p))
     | (w', Err e) \<Rightarrow>
         (w', if str_contains ''Service was not ready'' e
              then Ok ''BigWorlds backend is running but not ready to handle queries yet. Try again in a moment.''
              else Err (''Query failed: '' @ e))
     | (w', Panic) \<Rightarrow> (w', Panic))"

definition run_status ::
  "('c, 'e, 'w) channel_io \<Rightarrow> 'c status_task \<Rightarrow> 'w \<Rightarrow> 'w \<times> (string, string) result" where
  "run_status io t w =
    (case t of
       AskStored c \<Rightarrow> ask_status io c 1 0 w
     | AskNew url \<Rightarrow>
         (case create_native_client io url w of
            (w', Ok c) \<Rightarrow> ask_status io c 8 1 w'
          | (w', Err e) \<Rightarrow> (w', Err (''Failed to create client for status query: '' @ e))
          | (w', Panic) \<Rightarrow> (w', Panic))
     | NotAsked \<Rightarrow> (w, Ok ''BigWorlds backend is running and responding to queries''))"

section \<open>A channel to a server\<close>

text \<open>
  The channel of a client at an address to the service of the server there.  A call that panics in
  the service reaches the client as an error, whose text is a parameter.
\<close>

definition told :: "string \<Rightarrow> 'w \<times> 'r core_result \<Rightarrow> 'w \<times> (string, 'r) result" where
  "told failed = (\<lambda>(w, r). (w, case r of Ok x \<Rightarrow> Ok x | _ \<Rightarrow> Err failed))"

definition served_channel ::
  "'n server_io \<Rightarrow> string \<Rightarrow> string \<Rightarrow> ('n server_node \<Rightarrow> int) \<Rightarrow> (proto_product option \<Rightarrow> string)
   \<Rightarrow> (unit, string, 'n server_node) channel_io" where
  "served_channel si addr failed now show_product =
    \<lparr> io_endpoint = Ok, io_connect = (\<lambda>_ w. (w, Ok ())),
      io_register = (\<lambda>_ r w. told failed (grpc_register si addr r w)),
      io_query = (\<lambda>_ q w. told failed (grpc_query si addr q w)),
      io_now_ms = now, io_show_product = show_product \<rparr>"

end
