(* ===== verification/Leaders.thy ===== *)
theory Leaders
  imports WorkerNodes
begin

text \<open>
  The leader: its manager task (src/bigworlds/src/leader/manager.rs), its view of workers
  (src/bigworlds/src/leader/pov.rs) and its request handlers (src/bigworlds/src/leader/mod.rs).
  The workers and everything else outside is a state \<open>'n\<close> reached through \<open>'n workers_io\<close>.
  Tasks awaited together run one after the other.
\<close>

section \<open>State\<close>

record leader_state =
  ld_id :: uuid
  ld_config :: leader_config
  ld_workers :: "(uuid, leader_worker) kv"
  ld_workers_by_addr :: "(string, uuid) kv"
  ld_model :: "project option"
  ld_clock :: "64 word"
  ld_status :: leader_status

definition leader_spawn :: "uuid \<Rightarrow> 32 word \<Rightarrow> leader_config \<Rightarrow> leader_state" where
  "leader_spawn fresh now config =
    \<lparr> ld_id = fresh, ld_config = config, ld_workers = [], ld_workers_by_addr = [], ld_model = None,
      ld_clock = 0, ld_status = \<lparr> lst_started_at = now \<rparr> \<rparr>"

text \<open>
  \<open>li_ctl\<close> separates the failure of a local channel from the answer that came through it.
\<close>

record 'n workers_io =
  li_local :: "nat \<Rightarrow> worker_local signal \<Rightarrow> ('n, worker_resp signal) act"
  li_remote :: "nat \<Rightarrow> worker_req signal \<Rightarrow> ('n, worker_resp signal) act"
  li_ctl :: "nat \<Rightarrow> worker_local signal \<Rightarrow> ('n, worker_resp signal core_result) act"
  li_connect :: "listener \<Rightarrow> ('n, nat) act"
  li_now :: "('n, 64 word) act"
  li_fresh :: "('n, uuid) act"
  li_choose :: "nat \<Rightarrow> ('n, nat) act"
  li_show_error :: "error \<Rightarrow> string"
  li_show_caller :: "caller \<Rightarrow> string"

text \<open>The leader's world: its state, whether its manager task lives, and everything outside.\<close>

record 'n leader_node =
  ln_state :: leader_state
  ln_alive :: bool
  ln_net :: 'n

definition on_net :: "('n, 'x) act \<Rightarrow> ('n leader_node, 'x) act" where
  "on_net m w = (case m (ln_net w) of (n, r) \<Rightarrow> (w\<lparr> ln_net := n \<rparr>, r))"

definition modify_leader :: "(leader_state \<Rightarrow> leader_state) \<Rightarrow> ('n leader_node, unit) act" where
  "modify_leader f w = (w\<lparr> ln_state := f (ln_state w) \<rparr>, Ok ())"

section \<open>Reaching a worker\<close>

definition leader_signal :: "'n workers_io \<Rightarrow> 't \<Rightarrow> ('n, 't signal) act" where
  "leader_signal li x =
    act_bind (li_fresh li) (\<lambda>i. act_bind (li_now li) (\<lambda>t. act_ret (signal_from i t x)))"

definition reach_worker ::
  "'n workers_io \<Rightarrow> executor \<Rightarrow> worker_req signal \<Rightarrow> ('n, worker_resp signal) act" where
  "reach_worker li e sig =
    (case e of
       Remote c \<Rightarrow> li_remote li c sig
     | Local c \<Rightarrow> map_act_err (\<lambda>err. Other (li_show_error li err))
         (li_local li c (signal_new (WlRequest (sg_payload sig)) (sg_ctx sig))))"

text \<open>A request in the leader's name, where the connection is remote.\<close>

definition leader_worker_exec ::
  "'n workers_io \<Rightarrow> leader_worker \<Rightarrow> worker_req signal \<Rightarrow> ('n, worker_resp signal) act" where
  "leader_worker_exec li w sig =
    (case lw_exec w of
       Remote c \<Rightarrow> li_remote li c (originating_at (caller_from PLeader) sig)
     | Local c \<Rightarrow> map_act_err (\<lambda>err. Other (li_show_error li err))
         (li_local li c (signal_new (WlRequest (sg_payload sig)) (sg_ctx sig))))"

definition tell_worker ::
  "'n workers_io \<Rightarrow> worker_req \<Rightarrow> leader_worker \<Rightarrow> ('n, worker_resp signal) act" where
  "tell_worker li req x = act_bind (leader_signal li req) (leader_worker_exec li x)"

section \<open>The leader manager\<close>

datatype (plugins only: code size) lmgr_req =
    LmGetConfig | LmGetMeta | LmStatus | LmGetClock | LmSetClock "64 word" | LmIncrementClock
  | LmGetWorkers | LmAddWorker leader_worker | LmRemoveWorker uuid | LmWorkerCount | LmGetModel
  | LmPullModel project | LmSetModel project | LmMergeModel project | LmReorganizeEntities

datatype (plugins only: code size) lmgr_resp =
    LmrGetConfig leader_config | LmrGetMeta uuid | LmrStatus leader_status | LmrClock "64 word"
  | LmrWorkers "(uuid, leader_worker) kv" | LmrWorkerCount nat | LmrGetModel project | LmrEmpty

definition lmgr_resp_name :: "lmgr_resp \<Rightarrow> string" where
  "lmgr_resp_name r =
    (case r of
       LmrGetConfig _ \<Rightarrow> ''GetConfig'' | LmrGetMeta _ \<Rightarrow> ''GetMeta'' | LmrStatus _ \<Rightarrow> ''Status''
     | LmrClock _ \<Rightarrow> ''Clock'' | LmrWorkers _ \<Rightarrow> ''Workers'' | LmrWorkerCount _ \<Rightarrow> ''WorkerCount''
     | LmrGetModel _ \<Rightarrow> ''GetModel'' | LmrEmpty \<Rightarrow> ''Empty'')"

text \<open>The model is sent to one worker after the other; the first failure ends the round.\<close>

definition propagate :: "'n workers_io \<Rightarrow> project \<Rightarrow> ('n leader_node, unit) act" where
  "propagate li m w =
    act_iter (\<lambda>(_, x). act_bind (on_net (tell_worker li (WSetModel m) x)) (\<lambda>_. act_ret ()))
      (ld_workers (ln_state w)) w"

definition lmgr_handle :: "'n workers_io \<Rightarrow> lmgr_req \<Rightarrow> ('n leader_node, lmgr_resp) act" where
  "lmgr_handle li req w =
    (let st = ln_state w; done = (\<lambda>m. act_bind m (\<lambda>_. act_ret LmrEmpty) w) in
     case req of
       LmGetConfig \<Rightarrow> (w, Ok (LmrGetConfig (ld_config st)))
     | LmGetMeta \<Rightarrow> (w, Ok (LmrGetMeta (ld_id st)))
     | LmStatus \<Rightarrow> (w, Ok (LmrStatus (ld_status st)))
     | LmGetClock \<Rightarrow> (w, Ok (LmrClock (ld_clock st)))
     | LmSetClock c \<Rightarrow> done (modify_leader (\<lambda>st. st\<lparr> ld_clock := c \<rparr>))
     | LmIncrementClock \<Rightarrow>
         if ld_clock st = - 1 then (w, Panic)
         else (w\<lparr> ln_state := st\<lparr> ld_clock := ld_clock st + 1 \<rparr> \<rparr>, Ok (LmrClock (ld_clock st + 1)))
     | LmGetWorkers \<Rightarrow> (w, Ok (LmrWorkers (ld_workers st)))
     | LmAddWorker x \<Rightarrow>
         done (act_bind
           (case ld_model st of
              Some m \<Rightarrow> act_bind (on_net (tell_worker li (WSetModel m) x)) (\<lambda>_. act_ret ())
            | None \<Rightarrow> act_ret ()) (\<lambda>_.
           modify_leader (\<lambda>st. st\<lparr> ld_workers := kv_insert (lw_id x) x (ld_workers st) \<rparr>)))
     | LmRemoveWorker i \<Rightarrow> done (modify_leader (\<lambda>st. st\<lparr> ld_workers := kv_remove i (ld_workers st) \<rparr>))
     | LmWorkerCount \<Rightarrow> (w, Panic)
     | LmGetModel \<Rightarrow>
         (w, case ld_model st of
               Some m \<Rightarrow> Ok (LmrGetModel m)
             | None \<Rightarrow> Err (LeaderNotInitialized ''model not available''))
     | LmPullModel m \<Rightarrow>
         done (act_bind (modify_leader (\<lambda>st. st\<lparr> ld_model := Some m \<rparr>)) (\<lambda>_. propagate li m))
     | LmMergeModel new \<Rightarrow>
         (case ld_model st of
            None \<Rightarrow> (w, Ok LmrEmpty)
          | Some m \<Rightarrow>
              done (act_bind (act_of (model_merge m new)) (\<lambda>m'.
                act_bind (modify_leader (\<lambda>st. st\<lparr> ld_model := Some m' \<rparr>)) (\<lambda>_. propagate li m'))))
     | LmSetModel m \<Rightarrow>
         done (act_bind (modify_leader (\<lambda>st. st\<lparr> ld_model := Some m \<rparr>)) (\<lambda>_. propagate li m))
     | LmReorganizeEntities \<Rightarrow> (w, Ok LmrEmpty))"

text \<open>
  A call to the manager, with the outcome of the channel outside and the answer inside: a request
  that panics ends the task, and its sender sees the reply dropped.
\<close>

definition lmgr_raw :: "'n workers_io \<Rightarrow> lmgr_req \<Rightarrow> ('n leader_node, lmgr_resp core_result) act" where
  "lmgr_raw li req w =
    (if ln_alive w then
       (case lmgr_handle li req w of
          (w', Panic) \<Rightarrow> (w'\<lparr> ln_alive := False \<rparr>, Err recv_error)
        | (w', r) \<Rightarrow> (w', Ok r))
     else (w, Err channel_closed))"

definition lmgr :: "'n workers_io \<Rightarrow> lmgr_req \<Rightarrow> ('n leader_node, lmgr_resp) act" where
  "lmgr li req = act_bind (lmgr_raw li req) act_of"

definition lmgr_expect ::
  "'n workers_io \<Rightarrow> (lmgr_resp \<Rightarrow> string) \<Rightarrow> lmgr_req \<Rightarrow> (lmgr_resp \<Rightarrow> 'x option) \<Rightarrow> ('n leader_node, 'x) act" where
  "lmgr_expect li text req sel =
    act_bind (lmgr li req) (\<lambda>r. act_of (ok_or (UnexpectedResponse (text r)) (sel r)))"

definition is_empty_resp :: "lmgr_resp \<Rightarrow> unit option" where
  "is_empty_resp r = (case r of LmrEmpty \<Rightarrow> Some () | _ \<Rightarrow> None)"

definition leader_get_config :: "'n workers_io \<Rightarrow> ('n leader_node, leader_config) act" where
  "leader_get_config li =
    lmgr_expect li (\<lambda>_. []) LmGetConfig (\<lambda>r. case r of LmrGetConfig x \<Rightarrow> Some x | _ \<Rightarrow> None)"

definition leader_get_meta :: "'n workers_io \<Rightarrow> ('n leader_node, uuid) act" where
  "leader_get_meta li =
    lmgr_expect li (\<lambda>_. []) LmGetMeta (\<lambda>r. case r of LmrGetMeta x \<Rightarrow> Some x | _ \<Rightarrow> None)"

definition leader_get_status :: "'n workers_io \<Rightarrow> ('n leader_node, leader_status) act" where
  "leader_get_status li =
    lmgr_expect li (\<lambda>_. []) LmStatus (\<lambda>r. case r of LmrStatus x \<Rightarrow> Some x | _ \<Rightarrow> None)"

definition leader_get_clock :: "'n workers_io \<Rightarrow> ('n leader_node, 64 word) act" where
  "leader_get_clock li =
    lmgr_expect li (\<lambda>_. []) LmGetClock (\<lambda>r. case r of LmrClock x \<Rightarrow> Some x | _ \<Rightarrow> None)"

text \<open>\<open>debug\<close> is the derived rendering of a manager response.\<close>

definition leader_set_clock ::
  "'n workers_io \<Rightarrow> (lmgr_resp \<Rightarrow> string) \<Rightarrow> 64 word \<Rightarrow> ('n leader_node, unit) act" where
  "leader_set_clock li debug c = lmgr_expect li debug (LmSetClock c) is_empty_resp"

definition leader_get_workers :: "'n workers_io \<Rightarrow> ('n leader_node, (uuid, leader_worker) kv) act" where
  "leader_get_workers li =
    lmgr_expect li lmgr_resp_name LmGetWorkers (\<lambda>r. case r of LmrWorkers x \<Rightarrow> Some x | _ \<Rightarrow> None)"

definition no_random_worker :: error where
  "no_random_worker = Other ''leader: manager: failed selecting random worker''"

definition pick :: "'n workers_io \<Rightarrow> 'x list \<Rightarrow> ('n leader_node, 'x option) act" where
  "pick li xs =
    (if xs = [] then act_ret None
     else act_bind (on_net (li_choose li (length xs))) (\<lambda>k. act_ret (Some (xs ! (k mod length xs)))))"

definition get_random_worker :: "'n workers_io \<Rightarrow> ('n leader_node, leader_worker) act" where
  "get_random_worker li =
    act_bind (leader_get_workers li) (\<lambda>ws.
    act_bind (pick li (map snd ws)) (\<lambda>x. act_of (ok_or no_random_worker x)))"

definition leader_add_worker :: "'n workers_io \<Rightarrow> leader_worker \<Rightarrow> ('n leader_node, unit) act" where
  "leader_add_worker li x = lmgr_expect li lmgr_resp_name (LmAddWorker x) is_empty_resp"

definition leader_remove_worker :: "'n workers_io \<Rightarrow> uuid \<Rightarrow> ('n leader_node, unit) act" where
  "leader_remove_worker li i = lmgr_expect li lmgr_resp_name (LmRemoveWorker i) is_empty_resp"

definition leader_replace_model :: "'n workers_io \<Rightarrow> project \<Rightarrow> ('n leader_node, unit) act" where
  "leader_replace_model li m = lmgr_expect li lmgr_resp_name (LmPullModel m) is_empty_resp"

definition leader_merge_model :: "'n workers_io \<Rightarrow> project \<Rightarrow> ('n leader_node, unit) act" where
  "leader_merge_model li m =
    act_bind (lmgr li (LmMergeModel m)) (\<lambda>r. case r of LmrEmpty \<Rightarrow> act_ret () | _ \<Rightarrow> act_of Panic)"

definition leader_get_model :: "'n workers_io \<Rightarrow> ('n leader_node, project) act" where
  "leader_get_model li =
    lmgr_expect li lmgr_resp_name LmGetModel (\<lambda>r. case r of LmrGetModel x \<Rightarrow> Some x | _ \<Rightarrow> None)"

definition leader_set_model :: "'n workers_io \<Rightarrow> project \<Rightarrow> ('n leader_node, unit) act" where
  "leader_set_model li m = lmgr_expect li lmgr_resp_name (LmSetModel m) is_empty_resp"

definition leader_reorganize :: "'n workers_io \<Rightarrow> ('n leader_node, unit) act" where
  "leader_reorganize li = lmgr_expect li lmgr_resp_name LmReorganizeEntities is_empty_resp"

end
