(* ===== verification/LeaderHandlers.thy ===== *)
theory LeaderHandlers
  imports Leaders
begin

text \<open>
  The request handlers of the leader, from src/bigworlds/src/leader/mod.rs: requests of local
  workers, of the controller of the task and of the network, the cluster step and the
  initialization of a cluster.
\<close>

definition answer :: "leader_resp \<Rightarrow> call_context \<Rightarrow> ('w, leader_resp signal) act" where
  "answer r cx = act_ret (signal_new r cx)"

definition then_answer ::
  "('w, 'x) act \<Rightarrow> ('x \<Rightarrow> leader_resp) \<Rightarrow> call_context \<Rightarrow> ('w, leader_resp signal) act" where
  "then_answer m f cx = act_bind m (\<lambda>x. answer (f x) cx)"

section \<open>Reaching several workers\<close>

text \<open>
  Removal: workers are asked in turn until one answers \<open>Empty\<close>; every other outcome is passed over.
\<close>

fun remove_from :: "'n workers_io \<Rightarrow> string \<Rightarrow> (uuid, leader_worker) kv \<Rightarrow> ('n leader_node, unit) act" where
  "remove_from li name [] = act_ret ()"
| "remove_from li name ((i, x) # ws) =
    act_bind (act_try (on_net (tell_worker li (WDespawnEntity name) x))) (\<lambda>r.
      case r of
        Ok s \<Rightarrow> (case sg_payload s of WrEmpty \<Rightarrow> act_ret () | _ \<Rightarrow> remove_from li name ws)
      | _ \<Rightarrow> remove_from li name ws)"

definition listeners_of ::
  "'n workers_io \<Rightarrow> (uuid, listener list) kv \<Rightarrow> uuid \<times> leader_worker
    \<Rightarrow> ('n leader_node, (uuid, listener list) kv) act" where
  "listeners_of li acc iw =
    act_bind (on_net (tell_worker li WGetListeners (snd iw))) (\<lambda>s.
      case sg_payload s of
        WrGetListeners ls \<Rightarrow> act_ret (kv_insert (fst iw) ls acc)
      | _ \<Rightarrow> act_ret acc)"

text \<open>
  A broadcast goes to every worker the call has not passed; the hops an answer adds beyond those
  known are appended, so workers reached behind one worker are skipped later.
\<close>

definition broadcast_to ::
  "'n workers_io \<Rightarrow> worker_req \<Rightarrow> worker_resp list \<times> call_context \<Rightarrow> uuid \<times> leader_worker
    \<Rightarrow> ('n leader_node, worker_resp list \<times> call_context) act" where
  "broadcast_to li req acc iw =
    (case acc of (resps, cx) \<Rightarrow>
     if went_through_worker (fst iw) cx then act_ret acc
     else act_bind (act_try (on_net (reach_worker li (lw_exec (snd iw)) (signal_new req cx)))) (\<lambda>r.
       case r of
         Ok s \<Rightarrow> act_ret (resps @ [sg_payload s],
           cx\<lparr> cx_hops := cx_hops cx @ drop (length (cx_hops cx)) (cx_hops (sg_ctx s)) \<rparr>)
       | _ \<Rightarrow> act_ret acc))"

definition worker_broadcast ::
  "'n workers_io \<Rightarrow> worker_req \<Rightarrow> call_context \<Rightarrow> ('n leader_node, leader_resp signal) act" where
  "worker_broadcast li req cx =
    act_bind (on_net (li_now li)) (\<lambda>t.
    act_bind (act_of (register_hop t PLeader cx)) (\<lambda>cx.
    act_bind (leader_get_workers li) (\<lambda>ws.
    act_bind (act_fold (broadcast_to li req) ([], cx) ws) (\<lambda>(resps, cx).
    answer (LrWorkerBroadcast resps) cx))))"

definition query_worker ::
  "'n workers_io \<Rightarrow> query \<Rightarrow> query_product \<Rightarrow> uuid \<times> leader_worker \<Rightarrow> ('n leader_node, query_product) act" where
  "query_worker li q p iw =
    act_bind (on_net (leader_signal li (WProcessQuery q))) (\<lambda>sig.
    act_bind (on_net (leader_worker_exec li (snd iw) (originating_at (caller_from PLeader) sig))) (\<lambda>s.
      case sg_payload s of WrQuery p' \<Rightarrow> act_of (product_merge p p') | _ \<Rightarrow> act_of Panic))"

text \<open>Only global queries and entities to take are proxied.\<close>

definition worker_proxy ::
  "'n workers_io \<Rightarrow> worker_req \<Rightarrow> call_context \<Rightarrow> ('n leader_node, leader_resp signal) act" where
  "worker_proxy li req cx =
    (case req of
       WProcessQuery q \<Rightarrow>
         (case q_scope q of
            Global \<Rightarrow>
              act_bind (leader_get_workers li) (\<lambda>ws.
              then_answer (act_fold (query_worker li q) PEmpty
                  (filter (\<lambda>(i, _). i \<notin> set (worker_observers cx)) ws))
                (\<lambda>p. LrWorkerProxy (WrQuery p)) cx)
          | _ \<Rightarrow> act_of Panic)
     | WTakeEntity n e \<Rightarrow>
         act_bind (leader_get_workers li) (\<lambda>ws.
         act_bind (pick li (map snd (filter (\<lambda>(i, _). \<not> went_through_worker i cx) ws))) (\<lambda>x.
           case x of
             None \<Rightarrow> act_of Panic
           | Some x \<Rightarrow> act_bind (on_net (leader_worker_exec li x (signal_new (WTakeEntity n e) cx)))
               (\<lambda>s. answer (LrWorkerProxy (sg_payload s)) (sg_ctx s))))
     | _ \<Rightarrow> act_of Panic)"

text \<open>The worker introduced to is registered after it has answered.\<close>

definition connect_to_worker ::
  "'n workers_io \<Rightarrow> listener \<Rightarrow> call_context \<Rightarrow> ('n leader_node, leader_resp signal) act" where
  "connect_to_worker li addr cx =
    act_bind (on_net (li_connect li addr)) (\<lambda>c.
    act_bind (leader_get_workers li) (\<lambda>ws.
    act_bind (leader_get_config li) (\<lambda>config.
    act_bind (on_net (leader_signal li (WIntroduceLeader (lc_listeners config)
        (map (\<lambda>(_, x). (lw_id x, lw_listeners x)) ws)))) (\<lambda>sig.
    act_bind (on_net (li_remote li c sig)) (\<lambda>s.
      case sg_payload s of
        WrIntroduceLeader i \<Rightarrow>
          then_answer (leader_add_worker li
            \<lparr> lw_id = i, lw_entities = [], lw_exec = Remote c, lw_listeners = [addr] \<rparr>) (\<lambda>_. LrEmpty) cx
      | r \<Rightarrow> act_of (Err (UnexpectedResponse (worker_resp_name r))))))))"

section \<open>Requests\<close>

definition leader_handle ::
  "'n workers_io \<Rightarrow> (lmgr_resp \<Rightarrow> string) \<Rightarrow> leader_req \<Rightarrow> call_context
    \<Rightarrow> ('n leader_node, leader_resp signal) act" where
  "leader_handle li debug req cx =
    (case req of
       LStatus \<Rightarrow> then_answer (leader_get_status li) LrStatus cx
     | LConnectToWorker addr \<Rightarrow> connect_to_worker li addr cx
     | LDisconnectWorker \<Rightarrow> then_answer (leader_remove_worker li (caller_id (cx_origin cx))) (\<lambda>_. LrEmpty) cx
     | LReplaceModel m \<Rightarrow> act_of Panic
     | LMergeModel m \<Rightarrow> then_answer (leader_merge_model li m) (\<lambda>_. LrEmpty) cx
     | LInitialize scenario \<Rightarrow> act_of Panic
     | LStep \<Rightarrow> act_of Panic
     | LPing bytes \<Rightarrow> act_of Panic
     | LClock \<Rightarrow> then_answer (leader_get_clock li) LrClock cx
     | LGetModel \<Rightarrow> then_answer (leader_get_model li) LrModel cx
     | LReadyUntil c \<Rightarrow> act_of Panic
     | LSpawnEntity n prefab \<Rightarrow>
         act_bind (get_random_worker li) (\<lambda>x.
         then_answer (on_net (tell_worker li (WSpawnEntity n prefab) x)) (\<lambda>_. LrEmpty) cx)
     | LRemoveEntity n \<Rightarrow>
         act_bind (leader_get_workers li) (\<lambda>ws. then_answer (remove_from li n ws) (\<lambda>_. LrEmpty) cx)
     | LGetWorkers \<Rightarrow>
         act_bind (leader_get_workers li) (\<lambda>ws. then_answer (act_fold (listeners_of li) [] ws) LrGetWorkers cx)
     | LIntroduceWorker i \<Rightarrow> act_of Panic
     | LWorkerBroadcast r \<Rightarrow> worker_broadcast li r cx
     | LWorkerProxy r i \<Rightarrow> worker_proxy li r cx
     | LReorganizeEntities shuffle \<Rightarrow>
         act_bind (leader_get_workers li) (\<lambda>ws.
         then_answer (act_iter (\<lambda>(_, x). act_bind (on_net
             (leader_worker_exec li x (signal_new WMigrateEntities cx))) (\<lambda>_. act_ret ())) ws) (\<lambda>_. LrEmpty) cx)
     | LLoadSnapshot sn \<Rightarrow>
         act_bind (leader_set_model li (sn_model sn)) (\<lambda>_.
         then_answer (leader_set_clock li debug (sn_clock sn)) (\<lambda>_. LrEmpty) cx))"

definition leader_worker_request ::
  "'n workers_io \<Rightarrow> (lmgr_resp \<Rightarrow> string) \<Rightarrow> leader_req \<Rightarrow> call_context
    \<Rightarrow> ('n leader_node, leader_resp signal) act" where
  "leader_worker_request li debug req cx =
    (case req of
       LReplaceModel m \<Rightarrow>
         act_bind (on_net (li_now li)) (\<lambda>t.
         act_bind (act_of (register_hop t PLeader cx)) (\<lambda>cx.
         then_answer (leader_replace_model li m) (\<lambda>_. LrEmpty) cx))
     | LPing bytes \<Rightarrow> answer (LrPing bytes) cx
     | LGetModel \<Rightarrow> then_answer (leader_get_model li) LrModel cx
     | LReadyUntil c \<Rightarrow> act_of Panic
     | _ \<Rightarrow> leader_handle li debug req cx)"

text \<open>
  A local worker registers itself under the observer of its last hop; a failure to add it is not
  reported.
\<close>

definition leader_local_worker ::
  "'n workers_io \<Rightarrow> (lmgr_resp \<Rightarrow> string) \<Rightarrow> leader_local \<Rightarrow> call_context
    \<Rightarrow> ('n leader_node, leader_resp signal) act" where
  "leader_local_worker li debug req cx =
    (case req of
       LlConnectAndRegisterWorker c \<Rightarrow>
         (case last_observer cx of
            Some (PWorker i) \<Rightarrow>
              act_bind (leader_get_meta li) (\<lambda>_.
              act_bind (lmgr li LmGetWorkers) (\<lambda>r.
                case r of
                  LmrWorkers _ \<Rightarrow>
                    act_bind (must (lmgr_raw li (LmAddWorker (leader_worker_new i (Local c))))) (\<lambda>_.
                    answer LrEmpty cx)
                | _ \<Rightarrow> act_of Panic))
          | _ \<Rightarrow> act_of (Err (Other (''Last observer is not a worker: '' @ li_show_caller li (cx_origin cx)))))
     | LlRequest r \<Rightarrow> leader_worker_request li debug r cx
     | _ \<Rightarrow> act_of Panic)"

section \<open>The controller\<close>

text \<open>
  A step of the cluster: every worker is asked whether it blocks, then to step, whatever the
  answers; the clock of the leader advances when all have been asked.
\<close>

definition process_step :: "'n workers_io \<Rightarrow> ('n leader_node, unit) act" where
  "process_step li =
    act_bind (leader_get_workers li) (\<lambda>ws.
      if ws = [] then act_of (Err NoAvailableWorkers)
      else
        act_bind (act_iter (\<lambda>(_, x). ignore (on_net (tell_worker li (WIsBlocking True) x))) ws) (\<lambda>_.
        act_bind (act_iter (\<lambda>(_, x). ignore (on_net (tell_worker li WStep x))) ws) (\<lambda>_.
        act_bind (lmgr_raw li LmIncrementClock) (\<lambda>_. act_ret ()))))"

definition spawn_initial ::
  "'n workers_io \<Rightarrow> (uuid, leader_worker) kv \<Rightarrow> entity_model \<Rightarrow> ('n leader_node, unit) act" where
  "spawn_initial li ws e =
    act_bind (pick li (map snd ws)) (\<lambda>x.
      case x of
        Some x \<Rightarrow> act_bind (on_net (tell_worker li (WSpawnEntity (em_name e) (em_prefab e)) x)) (\<lambda>_. act_ret ())
      | None \<Rightarrow> act_of Panic)"

definition spawn_singleton :: "'n workers_io \<Rightarrow> logic behavior \<Rightarrow> ('n leader_node, unit) act" where
  "spawn_singleton li b =
    (if GlobalSingleton \<in> set (bh_targets b) then
       act_bind (get_random_worker li) (\<lambda>x.
       act_bind (on_net (tell_worker li (WSpawnSingletonBehavior b) x)) (\<lambda>_. act_ret ()))
     else act_ret ())"

definition initialize_cluster :: "'n workers_io \<Rightarrow> project \<Rightarrow> ('n leader_node, unit) act" where
  "initialize_cluster li m =
    act_bind (leader_get_workers li) (\<lambda>_.
    act_bind (leader_set_model li m) (\<lambda>_.
    act_bind (leader_get_workers li) (\<lambda>ws.
    act_bind (act_iter (\<lambda>(_, x). act_bind (on_net (tell_worker li WInitialize x)) (\<lambda>_. act_ret ())) ws) (\<lambda>_.
    act_bind (act_iter (spawn_initial li ws) (md_entities m)) (\<lambda>_.
    act_iter (spawn_singleton li) (md_behaviors m))))))"

definition leader_controller ::
  "'n workers_io \<Rightarrow> (lmgr_resp \<Rightarrow> string) \<Rightarrow> leader_req \<Rightarrow> call_context
    \<Rightarrow> ('n leader_node, leader_resp signal) act" where
  "leader_controller li debug req cx =
    (case req of
       LReplaceModel m \<Rightarrow> then_answer (leader_replace_model li m) (\<lambda>_. LrEmpty) cx
     | LInitialize scenario \<Rightarrow>
         act_bind (leader_get_model li) (\<lambda>m. then_answer (initialize_cluster li m) (\<lambda>_. LrEmpty) cx)
     | LStep \<Rightarrow> then_answer (process_step li) (\<lambda>_. LrEmpty) cx
     | _ \<Rightarrow> leader_handle li debug req cx)"

definition leader_local_controller ::
  "'n workers_io \<Rightarrow> (lmgr_resp \<Rightarrow> string) \<Rightarrow> leader_local \<Rightarrow> call_context
    \<Rightarrow> ('n leader_node, leader_resp signal) act" where
  "leader_local_controller li debug req cx =
    (case req of
       LlConnectToWorker c back \<Rightarrow>
         act_bind (on_net (li_ctl li c (signal_new (WlIntroduceLeader back) cx))) (\<lambda>r.
           case r of
             Ok s \<Rightarrow> answer LrEmpty (sg_ctx s)
           | Err e \<Rightarrow> act_of (Err (FailedConnectingLeaderToWorker (li_show_error li e)))
           | Panic \<Rightarrow> act_of Panic)
     | LlRequest r \<Rightarrow> leader_controller li debug r cx
     | LlConnectAndRegisterWorker c \<Rightarrow> act_of Panic
     | LlShutdown \<Rightarrow> answer LrEmpty cx)"

section \<open>The network\<close>

text \<open>A worker that introduces itself is given the model, when there is one.\<close>

definition leader_net_request ::
  "'n workers_io \<Rightarrow> (lmgr_resp \<Rightarrow> string) \<Rightarrow> caller_link \<Rightarrow> leader_req \<Rightarrow> call_context
    \<Rightarrow> ('n leader_node, leader_resp signal) act" where
  "leader_net_request li debug link req cx =
    (case req of
       LIntroduceWorker i \<Rightarrow>
         (case link of
            LinkAddress _ \<Rightarrow> act_of Panic
          | LinkConnection c \<Rightarrow>
              act_bind (leader_add_worker li
                \<lparr> lw_id = i, lw_entities = [], lw_exec = Remote c, lw_listeners = [] \<rparr>) (\<lambda>_.
              act_bind (act_try (leader_get_model li)) (\<lambda>r.
                case r of
                  Ok _ \<Rightarrow> then_answer (leader_get_model li) LrModel cx
                | _ \<Rightarrow> answer LrEmpty cx)))
     | _ \<Rightarrow> leader_handle li debug req cx)"

text \<open>
  The three streams of the task.  The set of seen signals is built anew for every signal and never
  filled, so none is ever refused.
\<close>

datatype leader_source = FromController leader_local | FromWorker leader_local | FromNet caller_link leader_req

definition leader_serve ::
  "'n workers_io \<Rightarrow> (lmgr_resp \<Rightarrow> string) \<Rightarrow> leader_source \<Rightarrow> call_context
    \<Rightarrow> 'n leader_node \<Rightarrow> 'n leader_node \<times> leader_resp signal core_result" where
  "leader_serve li debug src cx w =
    as_reply (case src of
       FromController r \<Rightarrow> leader_local_controller li debug r cx w
     | FromWorker r \<Rightarrow> leader_local_worker li debug r cx w
     | FromNet link r \<Rightarrow> leader_net_request li debug link r cx w)"

text \<open>
  A tick of the auto-step task.  The channel delivers the outcome of the step inside its own, and only
  the latter is looked at: a step that fails counts as processed, one that panics ends the task.
\<close>

definition autostep_tick ::
  "'n workers_io \<Rightarrow> (lmgr_resp \<Rightarrow> string) \<Rightarrow> call_context \<Rightarrow> 'n leader_node \<Rightarrow> 'n leader_node \<times> bool" where
  "autostep_tick li debug cx w =
    (case leader_local_controller li debug (LlRequest LStep) cx w of
       (w', Panic) \<Rightarrow> (w', False)
     | (w', _) \<Rightarrow> (w', True))"

end
