(* ===== verification/LeaderFacts.thy ===== *)
theory LeaderFacts
  imports LeaderHandlers
begin

text \<open>
  What the leader guarantees on its own, whatever the workers answer: the invariant of its
  registry, and what the registration of a worker reports.
\<close>

section \<open>The registry\<close>

definition leader_wf :: "leader_state \<Rightarrow> bool" where
  "leader_wf st \<longleftrightarrow> kv_wf (ld_workers st) \<and> (\<forall>(i, x) \<in> set (ld_workers st). lw_id x = i)"

text \<open>A predicate of the state only, as one of the leader's world.\<close>

definition in_state :: "(leader_state \<Rightarrow> bool) \<Rightarrow> 'n leader_node \<Rightarrow> bool" where
  "in_state Q w \<longleftrightarrow> Q (ln_state w)"

lemma keeps_on_net [keeps_intros]: "keeps (in_state Q) (on_net m)"
  by (auto simp: keeps_def in_state_def on_net_def split: prod.split)

lemma keeps_modify: "(\<And>st. Q st \<Longrightarrow> Q (f st)) \<Longrightarrow> keeps (in_state Q) (modify_leader f)"
  by (simp add: keeps_def in_state_def modify_leader_def)

lemma keeps_propagate [keeps_intros]: "keeps (in_state Q) (propagate li m)"
proof -
  have "keeps (in_state Q) (act_iter (\<lambda>(_, x). act_bind (on_net (tell_worker li (WSetModel m) x)) (\<lambda>_. act_ret ())) ws)"
    for ws :: "(uuid, leader_worker) kv"
    by (auto intro!: keeps_intros)
  then show ?thesis by (simp add: keeps_def propagate_def)
qed

lemma keeps_pick [keeps_intros]: "keeps (in_state Q) (pick li xs)"
  by (auto simp: pick_def intro!: keeps_intros)

lemma set_kv_insert: "set (kv_insert k v m) \<subseteq> insert (k, v) (set m)"
  by (induction k v m rule: kv_insert.induct) auto

lemma leader_wf_insert:
  "leader_wf st \<Longrightarrow> leader_wf (st\<lparr> ld_workers := kv_insert (lw_id x) x (ld_workers st) \<rparr>)"
  using set_kv_insert [of "lw_id x" x "ld_workers st"] by (fastforce simp: leader_wf_def intro: kv_wf_insert)

lemma leader_wf_remove: "leader_wf st \<Longrightarrow> leader_wf (st\<lparr> ld_workers := kv_remove i (ld_workers st) \<rparr>)"
  by (auto simp: leader_wf_def kv_remove_def intro: kv_wf_filter)

lemma leader_wf_other [simp]:
  "leader_wf (st\<lparr> ld_model := m \<rparr>) \<longleftrightarrow> leader_wf st" "leader_wf (st\<lparr> ld_clock := c \<rparr>) \<longleftrightarrow> leader_wf st"
  by (simp_all add: leader_wf_def)

lemma keeps_act: "keeps P m \<Longrightarrow> P w \<Longrightarrow> P (fst (m w))"
  by (simp add: keeps_def)

lemma lmgr_handle_wf: "keeps (in_state leader_wf) (lmgr_handle li req)"
  unfolding keeps_def
proof (intro allI impI)
  fix w :: "'a leader_node" assume w: "in_state leader_wf w"
  note k = keeps_act [where P = "in_state leader_wf" and w = w, OF _ w]
  show "in_state leader_wf (fst (lmgr_handle li req w))"
  proof (cases req)
    case (LmAddWorker x)
    then show ?thesis
      by (auto simp: lmgr_handle_def w intro!: k keeps_intros keeps_modify leader_wf_insert split: option.split)
  next
    case (LmSetClock x)
    then show ?thesis
      by (auto simp: lmgr_handle_def w intro!: k keeps_intros keeps_modify  split: option.split)
  next
    case (LmRemoveWorker x)
    then show ?thesis
      by (auto simp: lmgr_handle_def w intro!: k keeps_intros keeps_modify leader_wf_remove split: option.split)
  next
    case (LmPullModel x)
    then show ?thesis
      by (auto simp: lmgr_handle_def w intro!: k keeps_intros keeps_modify  split: option.split)
  next
    case (LmSetModel x)
    then show ?thesis
      by (auto simp: lmgr_handle_def w intro!: k keeps_intros keeps_modify  split: option.split)
  next
    case (LmMergeModel x)
    then show ?thesis
      by (auto simp: lmgr_handle_def w intro!: k keeps_intros keeps_modify  split: option.split)
  qed (use w in \<open>simp_all add: lmgr_handle_def Let_def in_state_def\<close>)
qed

lemma keeps_lmgr_raw [keeps_intros]: "keeps (in_state leader_wf) (lmgr_raw li req)"
  unfolding keeps_def
proof (intro allI impI)
  fix w :: "'a leader_node" assume "in_state leader_wf w"
  then have "in_state leader_wf (fst (lmgr_handle li req w))"
    using lmgr_handle_wf by (rule keeps_act [rotated])
  then show "in_state leader_wf (fst (lmgr_raw li req w))"
    using \<open>in_state leader_wf w\<close>
    by (cases "lmgr_handle li req w") (auto simp: lmgr_raw_def in_state_def split: result.split)
qed

lemma keeps_lmgr [keeps_intros]: "keeps (in_state leader_wf) (lmgr li req)"
  by (simp add: lmgr_def keeps_intros)

lemma keeps_lmgr_expect [keeps_intros]: "keeps (in_state leader_wf) (lmgr_expect li text req sel)"
  by (simp add: lmgr_expect_def keeps_intros)

lemmas leader_call_defs = leader_get_config_def leader_get_meta_def leader_get_status_def
  leader_get_clock_def leader_set_clock_def leader_get_workers_def get_random_worker_def
  leader_add_worker_def leader_remove_worker_def leader_replace_model_def leader_merge_model_def
  leader_get_model_def leader_set_model_def leader_reorganize_def

lemma keeps_answer [keeps_intros]: "keeps P (answer r cx)"
  by (simp add: answer_def keeps_intros)

lemma keeps_then_answer [keeps_intros]: "keeps P m \<Longrightarrow> keeps P (then_answer m f cx)"
  by (simp add: then_answer_def keeps_intros)

lemma keeps_remove_from [keeps_intros]: "keeps (in_state Q) (remove_from li n ws)"
  by (induction li n ws rule: remove_from.induct)
    (auto intro!: keeps_intros split: result.split worker_resp.split)

lemma keeps_leader_handle: "keeps (in_state leader_wf) (leader_handle li debug req cx)"
  by (cases req)
    (auto simp: leader_handle_def leader_call_defs connect_to_worker_def listeners_of_def worker_broadcast_def
      broadcast_to_def worker_proxy_def query_worker_def
      intro!: keeps_intros split: lmgr_resp.split worker_resp.split worker_req.split scope.split result.split option.split)

lemma keeps_leader_sources:
  "keeps (in_state leader_wf) (leader_local_controller li debug r cx)"
  "keeps (in_state leader_wf) (leader_local_worker li debug r cx)"
  "keeps (in_state leader_wf) (leader_net_request li debug link q cx)"
proof -
  note h = keeps_leader_handle
  have s: "keeps (in_state leader_wf) (spawn_initial li ws e)" "keeps (in_state leader_wf) (spawn_singleton li b)" for ws e b
    by (auto simp: spawn_initial_def spawn_singleton_def leader_call_defs intro!: keeps_intros split: option.split)
  have c: "keeps (in_state leader_wf) (leader_controller li debug q cx)" for q cx
    by (cases q) (auto simp: leader_controller_def process_step_def initialize_cluster_def leader_call_defs
        intro!: keeps_intros h s)
  show "keeps (in_state leader_wf) (leader_local_controller li debug r cx)"
    by (cases r) (auto simp: leader_local_controller_def intro!: keeps_intros c split: result.split)
  have w: "keeps (in_state leader_wf) (leader_worker_request li debug q cx)" for q cx
    by (cases q) (auto simp: leader_worker_request_def leader_call_defs intro!: keeps_intros h)
  show "keeps (in_state leader_wf) (leader_local_worker li debug r cx)"
    by (cases r) (auto simp: leader_local_worker_def leader_call_defs intro!: keeps_intros w
        split: option.split participant.split lmgr_resp.split)
  show "keeps (in_state leader_wf) (leader_net_request li debug link q cx)"
    by (cases q) (auto simp: leader_net_request_def leader_call_defs intro!: keeps_intros h
        split: caller_link.split result.split)
qed

text \<open>A leader from its start through any requests, with workers that answer in any way.\<close>

inductive leader_reachable ::
  "'n workers_io \<Rightarrow> (lmgr_resp \<Rightarrow> string) \<Rightarrow> 'n leader_node \<Rightarrow> bool" for li debug where
  leader_start: "leader_reachable li debug
    \<lparr> ln_state = leader_spawn fresh now config, ln_alive = True, ln_net = n \<rparr>"
| leader_request: "\<lbrakk> leader_reachable li debug w; leader_serve li debug src cx w = (w', r) \<rbrakk>
    \<Longrightarrow> leader_reachable li debug w'"
| leader_outside: "leader_reachable li debug w \<Longrightarrow> leader_reachable li debug (w\<lparr> ln_net := n \<rparr>)"

text \<open>C22: whatever is asked of a leader and whatever its workers answer, its registry
  has one entry per worker, under the worker's own identifier.\<close>

theorem leader_reachable_wf: "leader_reachable li debug w \<Longrightarrow> leader_wf (ln_state w)"
proof (induction rule: leader_reachable.induct)
  case (leader_start fresh now config n)
  then show ?case by (simp add: leader_wf_def leader_spawn_def kv_wf_def)
next
  case (leader_request w src cx w' r)
  then have "in_state leader_wf w" by (simp add: in_state_def)
  moreover have "w' = fst (case src of
       FromController r \<Rightarrow> leader_local_controller li debug r cx w
     | FromWorker r \<Rightarrow> leader_local_worker li debug r cx w
     | FromNet link r \<Rightarrow> leader_net_request li debug link r cx w)"
    using leader_request.hyps(2) as_reply_fst by (metis fst_conv leader_serve_def)
  ultimately have "in_state leader_wf w'"
    by (cases src) (simp_all add: keeps_act keeps_leader_sources)
  then show ?case by (simp add: in_state_def)
qed simp


definition silent_workers :: "unit workers_io" where
  "silent_workers =
    \<lparr> li_local = (\<lambda>_ _. act_of (Err recv_error)), li_remote = (\<lambda>_ _. act_of (Err recv_error)),
      li_ctl = (\<lambda>_ _. act_of (Err recv_error)), li_connect = (\<lambda>_. act_ret 0), li_now = act_ret 5,
      li_fresh = act_ret 7, li_choose = (\<lambda>_. act_ret 0), li_show_error = (\<lambda>_. []), li_show_caller = (\<lambda>_. []) \<rparr>"

definition fresh_leader :: "unit leader_node" where
  "fresh_leader = \<lparr> ln_state = leader_spawn 1 0 default_leader_config, ln_alive = True, ln_net = () \<rparr>"

theorem leader_reachable_wf_witness:
  "\<exists>w r. leader_serve silent_workers (\<lambda>_. []) (FromNet (LinkConnection 3) (LIntroduceWorker 9))
       (context_new 7 5 CallerUnknown) fresh_leader = (w, r)
     \<and> map fst (ld_workers (ln_state w)) = [9] \<and> leader_wf (ln_state w)"
proof -
  let ?s = "leader_serve silent_workers (\<lambda>_. []) (FromNet (LinkConnection 3) (LIntroduceWorker 9))
    (context_new 7 5 CallerUnknown) fresh_leader"
  have s: "?s = (fst ?s, snd ?s)" by simp
  have "leader_reachable silent_workers (\<lambda>_. []) fresh_leader" unfolding fresh_leader_def by (rule leader_start)
  from leader_reachable_wf [OF leader_request [OF this s]] have "leader_wf (ln_state (fst ?s))" .
  moreover have "map fst (ld_workers (ln_state (fst ?s))) = [9]" by code_simp
  ultimately show ?thesis by (metis s)
qed

section \<open>Registration\<close>

text \<open>A local worker that registers is told that it succeeded although the leader could
  not send it the model and so did not add it; after an answer the worker is registered exactly when the
  leader had no model or the worker took it.\<close>

lemma registration_answer:
  assumes "ln_alive w" and "last_observer cx = Some (PWorker i)" and "x = leader_worker_new i (Local c)"
    and "told = (case ld_model (ln_state w) of
           None \<Rightarrow> (w, Ok ())
         | Some m \<Rightarrow> act_bind (on_net (tell_worker li (WSetModel m) x)) (\<lambda>_. act_ret ()) w)"
    and "snd told \<noteq> Panic"
  shows "leader_local_worker li debug (LlConnectAndRegisterWorker c) cx w =
    ((fst told)\<lparr> ln_state := (ln_state w)\<lparr> ld_workers :=
        (if snd told = Ok () then kv_insert i x (ld_workers (ln_state w)) else ld_workers (ln_state w)) \<rparr> \<rparr>,
     Ok (signal_new LrEmpty cx))"
proof -
  have meta: "leader_get_meta li w = (w, Ok (ld_id (ln_state w)))"
    "lmgr li LmGetWorkers w = (w, Ok (LmrWorkers (ld_workers (ln_state w))))"
    using assms(1) by (simp_all add: leader_get_meta_def lmgr_expect_def lmgr_def lmgr_raw_def lmgr_handle_def
        act_bind_def act_of_def)
  have id: "lw_id x = i" by (simp add: assms(3) leader_worker_new_def)
  obtain w1 q where t: "told = (w1, q)" by fastforce
  have st: "ln_state w1 = ln_state w \<and> ln_alive w1 = ln_alive w"
    using assms(4) t by (auto simp: on_net_def act_bind_def act_ret_def split: option.splits prod.splits result.splits)
  have "act_bind (case ld_model (ln_state w) of
           Some m \<Rightarrow> act_bind (on_net (tell_worker li (WSetModel m) x)) (\<lambda>_. act_ret ())
         | None \<Rightarrow> act_ret ()) f w = act_bind (\<lambda>_. (w1, q)) f w" for f :: "unit \<Rightarrow> ('a leader_node, unit) act"
    using assms(4) t by (cases "ld_model (ln_state w)") (auto simp: act_bind_def [of _ f] act_ret_def)
  then have "lmgr_handle li (LmAddWorker x) w =
      (w1\<lparr> ln_state := (ln_state w)\<lparr> ld_workers :=
         (if q = Ok () then kv_insert i x (ld_workers (ln_state w)) else ld_workers (ln_state w)) \<rparr> \<rparr>,
       map_ok (\<lambda>_. LmrEmpty) q)"
    using t st id assms(5) by (cases q) (simp_all add: lmgr_handle_def act_simps modify_leader_def)
  then have "lmgr_raw li (LmAddWorker x) w =
      (w1\<lparr> ln_state := (ln_state w)\<lparr> ld_workers :=
         (if q = Ok () then kv_insert i x (ld_workers (ln_state w)) else ld_workers (ln_state w)) \<rparr> \<rparr>,
       Ok (map_ok (\<lambda>_. LmrEmpty) q))"
    using assms(1,5) t by (cases q) (simp_all add: lmgr_raw_def)
  then have "must (lmgr_raw li (LmAddWorker x)) w = (w1\<lparr> ln_state := (ln_state w)\<lparr> ld_workers :=
         (if q = Ok () then kv_insert i x (ld_workers (ln_state w)) else ld_workers (ln_state w)) \<rparr> \<rparr>,
       Ok (map_ok (\<lambda>_. LmrEmpty) q))" by (simp add: must_def)
  with meta assms(2,3) t show ?thesis
    by (simp add: leader_local_worker_def act_simps answer_def)
qed

end
