(* ===== verification/Clusters.thy ===== *)
theory Clusters
  imports LeaderFacts WorkerFacts
begin

text \<open>
  A leader with its workers: the request handlers of src/bigworlds/src/leader/mod.rs on a net of
  workers that serve requests as src/bigworlds/src/worker/mod.rs does.  A connection number, of a
  local channel or of a network connection, leads to one worker.
\<close>

section \<open>The net\<close>

record 'a net =
  nt_workers :: "(nat, seen_calls \<times> 'a node) kv"
  nt_calls :: nat

text \<open>
  The identifier and time of the \<open>k\<close>-th call, the random choices, the connections made, and what
  the other participants answer to each worker.
\<close>

record net_env =
  ne_fresh :: "nat \<Rightarrow> uuid"
  ne_time :: "nat \<Rightarrow> 64 word"
  ne_choose :: "nat \<Rightarrow> nat"
  ne_connect :: "listener \<Rightarrow> nat core_result"
  ne_peers :: "nat \<Rightarrow> peers"

definition at_worker ::
  "nat \<Rightarrow> (seen_calls \<times> 'a node \<Rightarrow> (seen_calls \<times> 'a node) \<times> worker_resp signal core_result)
    \<Rightarrow> ('a net, worker_resp signal) act" where
  "at_worker c f n =
    (case map_of (nt_workers n) c of
       None \<Rightarrow> (n, Err channel_closed)
     | Some sw \<Rightarrow> (case f sw of (sw', r) \<Rightarrow> (n\<lparr> nt_workers := kv_insert c sw' (nt_workers n) \<rparr>, r)))"

definition serve_local_at ::
  "('a, 'b) node_env \<Rightarrow> net_env \<Rightarrow> nat \<Rightarrow> worker_local signal \<Rightarrow> ('a net, worker_resp signal) act" where
  "serve_local_at env ce c sig = at_worker c (\<lambda>(seen, w).
    serve_local (node_io env (ne_peers ce c)) (ws_id (nd_state w)) sig (seen, w))"

definition serve_net_at ::
  "('a, 'b) node_env \<Rightarrow> net_env \<Rightarrow> nat \<Rightarrow> worker_req signal \<Rightarrow> ('a net, worker_resp signal) act" where
  "serve_net_at env ce c sig = at_worker c (\<lambda>(seen, w).
    case serve_net (node_io env (ne_peers ce c)) (LinkConnection c) sig (seen, w) of
      (w', r) \<Rightarrow> ((seen, w'), r))"

definition net_io :: "('a, 'b) node_env \<Rightarrow> net_env \<Rightarrow> 'a net workers_io" where
  "net_io env ce =
    \<lparr> li_local = serve_local_at env ce, li_remote = serve_net_at env ce,
      li_ctl = (\<lambda>c sig. act_try (serve_local_at env ce c sig)),
      li_connect = (\<lambda>l. act_of (ne_connect ce l)),
      li_now = (\<lambda>n. (n, Ok (ne_time ce (nt_calls n)))),
      li_fresh = (\<lambda>n. (n\<lparr> nt_calls := Suc (nt_calls n) \<rparr>, Ok (ne_fresh ce (nt_calls n)))),
      li_choose = (\<lambda>k n. (n, Ok (ne_choose ce (nt_calls n)))),
      li_show_error = error_to_string (\<lambda>m _. m), li_show_caller = (\<lambda>c. ''caller'') \<rparr>"

fun conn :: "executor \<Rightarrow> nat" where
  "conn (Local c) = c" | "conn (Remote c) = c"

definition node_at :: "'a net \<Rightarrow> nat \<Rightarrow> 'a node option" where
  "node_at n c = map_option snd (map_of (nt_workers n) c)"

section \<open>One request to one worker\<close>

text \<open>Requests that the network handler passes to the common one.\<close>

definition common_req :: "worker_req \<Rightarrow> bool" where
  "common_req req \<longleftrightarrow> (case req of
     WIntroduceWorker _ \<Rightarrow> False | WIntroduceLeader _ _ \<Rightarrow> False | WElection _ \<Rightarrow> False | _ \<Rightarrow> True)"

text \<open>
  The worker behind a connection is live and admits the leader's calls: on a network connection
  it has seen none of them, on a local channel its clock is not behind the leader's.
\<close>

definition reachable_at :: "net_env \<Rightarrow> 'a net \<Rightarrow> executor \<Rightarrow> bool" where
  "reachable_at ce n e \<longleftrightarrow>
    (\<exists>seen w. map_of (nt_workers n) (conn e) = Some (seen, w) \<and> nd_alive w
      \<and> (case e of
           Remote c \<Rightarrow> (\<forall>k. map_of seen (ne_fresh ce k) = None)
         | Local c \<Rightarrow> (\<forall>k h. ne_time ce k \<le> pe_time (ne_peers ce c) h)))"

definition exec_at ::
  "('a, 'b) node_env \<Rightarrow> net_env \<Rightarrow> executor \<Rightarrow> worker_req signal \<Rightarrow> ('a net, worker_resp signal) act" where
  "exec_at env ce e sig =
    (case e of
       Remote c \<Rightarrow> serve_net_at env ce c sig
     | Local c \<Rightarrow> serve_local_at env ce c (signal_new (WlRequest (sg_payload sig)) (sg_ctx sig)))"

text \<open>A fresh call of a participant on the net.\<close>

definition fresh_call :: "net_env \<Rightarrow> call_context \<Rightarrow> bool" where
  "fresh_call ce cx \<longleftrightarrow> cx_hops cx = [] \<and> cx_delivery cx = Unlimited \<and> (\<exists>k. cx_id cx = ne_fresh ce k) \<and> (\<exists>k. cx_initiated_at cx = ne_time ce k)"

lemma fresh_call_signal [simp]:
  "fresh_call ce (sg_ctx (signal_from (ne_fresh ce k) (ne_time ce l) x))"
  "sg_payload (signal_from i t x) = x" "sg_payload (originating_at c s) = sg_payload s"
  "fresh_call ce (sg_ctx (originating_at c s)) = fresh_call ce (sg_ctx s)"
  by (auto simp: fresh_call_def signal_from_def originating_at_def context_new_def)

lemma exec_at_net:
  assumes "reachable_at ce n e" "common_req (sg_payload sig)" "node_at n (conn e) = Some w"
    and "fresh_call ce (sg_ctx sig)" "exec_at env ce e sig n = (n', r)"
  shows "\<exists>cx w' r'. handle_request (node_io env (ne_peers ce (conn e))) (sg_payload sig) cx None w = (w', r')
    \<and> node_at n' = (node_at n)(conn e \<mapsto> w') \<and> r = snd (as_reply (w', r'))
    \<and> (nd_alive w' \<longrightarrow> reachable_at ce n' e)
    \<and> (\<forall>e'. conn e' \<noteq> conn e \<longrightarrow> reachable_at ce n' e' = reachable_at ce n e')
    \<and> cx_initiated_at cx = cx_initiated_at (sg_ctx sig)"
proof -
  let ?c = "conn e" and ?cx = "sg_ctx sig"
  let ?io = "node_io env (ne_peers ce ?c)"
  obtain seen where m: "map_of (nt_workers n) ?c = Some (seen, w)" and live: "nd_alive w"
    and adm: "case e of Remote c \<Rightarrow> (\<forall>k. map_of seen (ne_fresh ce k) = None)
           | Local c \<Rightarrow> (\<forall>k h. ne_time ce k \<le> pe_time (ne_peers ce c) h)"
    using assms(1,3) by (auto simp: reachable_at_def node_at_def)
  have put: "node_at (n\<lparr> nt_workers := kv_insert ?c sw (nt_workers n) \<rparr>) = (node_at n)(?c \<mapsto> snd sw)"
    for sw :: "seen_calls \<times> 'a node"
    by (rule ext) (simp add: node_at_def kv_simps)
  have other: "reachable_at ce (n\<lparr> nt_workers := kv_insert ?c sw (nt_workers n) \<rparr>) e' = reachable_at ce n e'"
    if "conn e' \<noteq> ?c" for e' and sw :: "seen_calls \<times> 'a node"
    using that by (simp add: reachable_at_def kv_simps)
  have "\<exists>seen' cx w' r'. handle_request ?io (sg_payload sig) cx None w = (w', r')
    \<and> n' = n\<lparr> nt_workers := kv_insert ?c (seen', w') (nt_workers n) \<rparr> \<and> r = snd (as_reply (w', r'))
    \<and> (case e of Remote c \<Rightarrow> seen' = seen | Local c \<Rightarrow> True) \<and> cx_initiated_at cx = cx_initiated_at ?cx"
  proof (cases e)
    case (Remote c)
    obtain w' r' where h: "handle_request ?io (sg_payload sig) ?cx None w = (w', r')" by fastforce
    have "serve_net ?io (LinkConnection c) sig (seen, w) = as_reply (w', r')"
      using adm Remote h assms(2,4)
      by (auto simp: serve_net_def admit_other_def fresh_call_def act_bind_def act_of_def handle_net_request_def
          common_req_def split: worker_req.splits)
    with assms(5) Remote m have "n' = n\<lparr> nt_workers := kv_insert ?c (seen, w') (nt_workers n) \<rparr>" "r = snd (as_reply (w', r'))"
      by (auto simp: exec_at_def serve_net_at_def at_worker_def as_reply_def split: result.splits)
    with h Remote show ?thesis by auto
  next
    case (Local c)
    let ?now = "pe_time (ne_peers ce c) (nd_sent w)"
    obtain seen' where a: "admit_local ?cx seen = (seen', Ok ())"
      using assms(4) by (cases "map_of seen (cx_id ?cx)") (auto simp: admit_local_def fresh_call_def)
    have "\<not> ?now < cx_initiated_at ?cx" using adm Local assms(4) by (auto simp: fresh_call_def not_less)
    then obtain cx where hop: "register_hop ?now (PWorker (ws_id (nd_state w))) ?cx = Ok cx"
      "cx_initiated_at cx = cx_initiated_at ?cx"
      using assms(4)
      by (auto simp: register_hop_def fresh_call_def total_transfer_time_micros_def Let_def)
    obtain w' r' where h: "handle_request ?io (sg_payload sig) cx None w = (w', r')" by fastforce
    have "serve_local ?io (ws_id (nd_state w)) (signal_new (WlRequest (sg_payload sig)) ?cx) (seen, w)
        = ((seen', w'), snd (as_reply (w', r')))"
      using a hop h Local
      by (auto simp: serve_local_def signal_new_def act_bind_def act_of_def handle_local_request_def hop_def
          as_reply_def split: result.splits)
    with assms(5) Local m h hop(2) show ?thesis
      by (intro exI [of _ seen'] exI [of _ cx] exI [of _ w'] exI [of _ r'])
        (simp add: exec_at_def serve_local_at_def at_worker_def)
  qed
  then obtain seen' cx w' r' where h: "handle_request ?io (sg_payload sig) cx None w = (w', r')"
    and n': "n' = n\<lparr> nt_workers := kv_insert ?c (seen', w') (nt_workers n) \<rparr>" "r = snd (as_reply (w', r'))"
    and seen': "case e of Remote c \<Rightarrow> seen' = seen | Local c \<Rightarrow> True"
    and at: "cx_initiated_at cx = cx_initiated_at ?cx" by blast
  have "nd_alive w' \<longrightarrow> reachable_at ce n' e"
    using adm seen' by (cases e) (auto simp: n' reachable_at_def kv_simps)
  with h n' put other at show ?thesis by (intro exI [of _ cx] exI [of _ w'] exI [of _ r']) auto
qed

lemma reachable_calls [simp]: "reachable_at ce (n\<lparr> nt_calls := k \<rparr>) e = reachable_at ce n e"
  "node_at (n\<lparr> nt_calls := k \<rparr>) = node_at n"
  by (auto simp: reachable_at_def node_at_def)

lemma tell_worker_net:
  assumes "reachable_at ce n (lw_exec x)" "common_req req" "node_at n (conn (lw_exec x)) = Some w"
    and "tell_worker (net_io env ce) req x n = (n', r)"
  shows "\<exists>cx w' r'. handle_request (node_io env (ne_peers ce (conn (lw_exec x)))) req cx None w = (w', r')
    \<and> node_at n' = (node_at n)(conn (lw_exec x) \<mapsto> w')
    \<and> (nd_alive w' \<longrightarrow> reachable_at ce n' (lw_exec x))
    \<and> (\<forall>e. conn e \<noteq> conn (lw_exec x) \<longrightarrow> reachable_at ce n' e = reachable_at ce n e)
    \<and> r \<noteq> Panic \<and> ((\<exists>s. r = Ok s) \<longleftrightarrow> (\<exists>s. r' = Ok s))
    \<and> (\<forall>s s'. r = Ok s \<longrightarrow> r' = Ok s' \<longrightarrow> s = s')"
proof -
  let ?n = "n\<lparr> nt_calls := Suc (nt_calls n) \<rparr>"
  let ?sig = "signal_from (ne_fresh ce (nt_calls n)) (ne_time ce (Suc (nt_calls n))) req"
  let ?s = "case lw_exec x of Remote _ \<Rightarrow> originating_at (caller_from PLeader) ?sig | Local _ \<Rightarrow> ?sig"
  obtain q where q: "exec_at env ce (lw_exec x) ?s ?n = (n', q)"
    and r: "\<exists>f. r = (case lw_exec x of Remote _ \<Rightarrow> q | Local _ \<Rightarrow> map_err f q)"
    using assms(4)
    by (cases "lw_exec x") (auto simp: tell_worker_def leader_signal_def leader_worker_exec_def act_bind_def
        act_ret_def net_io_def exec_at_def map_act_err_def apsnd_def map_prod_def split: prod.splits)
  have "sg_payload ?s = req" "fresh_call ce (sg_ctx ?s)" by (simp_all split: executor.split)
  with exec_at_net [OF _ _ _ _ q] assms(1-3) obtain cx w' r' where
    "handle_request (node_io env (ne_peers ce (conn (lw_exec x)))) req cx None w = (w', r')"
    "node_at n' = (node_at n)(conn (lw_exec x) \<mapsto> w')" "q = snd (as_reply (w', r'))"
    "nd_alive w' \<longrightarrow> reachable_at ce n' (lw_exec x)"
    "\<forall>e. conn e \<noteq> conn (lw_exec x) \<longrightarrow> reachable_at ce n' e = reachable_at ce n e" by auto
  with r show ?thesis
    by (intro exI [of _ cx] exI [of _ w'] exI [of _ r'])
      (auto simp: as_reply_def split: result.splits executor.splits)
qed

lemma as_reply_not_Panic [simp]: "snd (as_reply r) \<noteq> Panic"
  by (auto simp: as_reply_def split: prod.split result.split)

lemma at_worker_not_Panic: "(\<And>sw. snd (f sw) \<noteq> Panic) \<Longrightarrow> snd (at_worker c f n) \<noteq> Panic"
  by (auto simp: at_worker_def split: option.split prod.split) (metis snd_conv)

lemma serve_not_Panic:
  "snd (serve_local io i sig sw) \<noteq> Panic" "snd (serve_net io link sig' sw) \<noteq> Panic"
proof -
  have "snd (admit_local cx seen) \<noteq> Panic" for cx seen
    by (auto simp: admit_local_def split: option.split delivery.split)
  then show "snd (serve_local io i sig sw) \<noteq> Panic"
    by (auto simp: serve_local_def split: prod.split result.split) (metis as_reply_not_Panic snd_conv)+
qed (simp add: serve_net_def split: prod.split)

lemma tell_not_Panic: "snd (tell_worker (net_io env ce) req x n) \<noteq> Panic"
proof -
  have l: "snd (serve_local_at env ce c sig n) \<noteq> Panic" for c sig n
    unfolding serve_local_at_def by (rule at_worker_not_Panic) (simp add: serve_not_Panic split: prod.split)
  have r: "snd (serve_net_at env ce c sig n) \<noteq> Panic" for c sig n
    unfolding serve_net_at_def
    by (rule at_worker_not_Panic) (auto simp: serve_not_Panic split: prod.split, metis serve_not_Panic(2) snd_conv)
  have m: "map_err f r \<noteq> Panic" if "r \<noteq> Panic" for f and r :: "'x core_result"
    using that by (cases r) auto
  show ?thesis
    by (cases "lw_exec x")
      (auto simp: tell_worker_def leader_signal_def act_bind_def act_ret_def net_io_def leader_worker_exec_def
        map_act_err_def intro!: m l r)
qed

section \<open>One request to all workers\<close>

definition conns :: "(uuid, leader_worker) kv \<Rightarrow> nat list" where
  "conns ws = map (\<lambda>(_, x). conn (lw_exec x)) ws"

text \<open>
  The leader asks its workers one after the other; each is asked once, when no two share a
  connection, and its handler takes its node from \<open>w\<close> to \<open>w'\<close> with \<open>E w w'\<close>.  With
  \<open>strict\<close> the round ends at the first failure.
\<close>

definition ask_one ::
  "bool \<Rightarrow> 'n workers_io \<Rightarrow> worker_req \<Rightarrow> uuid \<times> leader_worker \<Rightarrow> ('n leader_node, unit) act" where
  "ask_one strict li req ix =
    (if strict then act_bind (on_net (tell_worker li req (snd ix))) (\<lambda>_. act_ret ())
     else ignore (on_net (tell_worker li req (snd ix))))"

definition asked :: "net_env \<Rightarrow> ('a node \<Rightarrow> 'a node \<Rightarrow> bool) \<Rightarrow> 'a net \<Rightarrow> 'a net \<Rightarrow> leader_worker \<Rightarrow> bool" where
  "asked ce E n n' x \<longleftrightarrow>
    (\<exists>w w'. node_at n (conn (lw_exec x)) = Some w \<and> node_at n' (conn (lw_exec x)) = Some w' \<and> E w w'
      \<and> (nd_alive w' \<longrightarrow> reachable_at ce n' (lw_exec x)))"

lemma ask_one_net:
  assumes "ask_one strict (net_io env ce) req (i, x) lw = (lw', Ok ())" "common_req req"
    and "reachable_at ce (ln_net lw) (lw_exec x)"
    and E: "\<And>cx w w' r. \<lbrakk> node_at (ln_net lw) (conn (lw_exec x)) = Some w; nd_alive w;
        handle_request (node_io env (ne_peers ce (conn (lw_exec x)))) req cx None w = (w', r);
        strict \<Longrightarrow> \<exists>s. r = Ok s \<rbrakk> \<Longrightarrow> E w w'"
  shows "asked ce E (ln_net lw) (ln_net lw') x \<and> ln_state lw' = ln_state lw \<and> ln_alive lw' = ln_alive lw
    \<and> (\<forall>c. c \<noteq> conn (lw_exec x) \<longrightarrow> node_at (ln_net lw') c = node_at (ln_net lw) c)
    \<and> (\<forall>e. conn e \<noteq> conn (lw_exec x) \<longrightarrow> reachable_at ce (ln_net lw') e = reachable_at ce (ln_net lw) e)"
proof -
  obtain n' r where t: "tell_worker (net_io env ce) req x (ln_net lw) = (n', r)" by fastforce
  then have on: "on_net (tell_worker (net_io env ce) req x) lw = (lw\<lparr> ln_net := n' \<rparr>, r)" by (simp add: on_net_def)
  with assms(1) have lw': "lw' = lw\<lparr> ln_net := n' \<rparr>" and ok: "strict \<Longrightarrow> \<exists>s. r = Ok s"
    by (auto simp: ask_one_def ignore_def act_bind_def act_try_def act_ret_def split: if_splits result.splits)
  obtain w where w: "node_at (ln_net lw) (conn (lw_exec x)) = Some w" "nd_alive w"
    using assms(3) by (auto simp: reachable_at_def node_at_def)
  from tell_worker_net [OF assms(3,2) w(1) t] obtain cx w' r' where
    h: "handle_request (node_io env (ne_peers ce (conn (lw_exec x)))) req cx None w = (w', r')"
    and n': "node_at n' = (node_at (ln_net lw))(conn (lw_exec x) \<mapsto> w')"
    "nd_alive w' \<longrightarrow> reachable_at ce n' (lw_exec x)"
    "\<forall>e. conn e \<noteq> conn (lw_exec x) \<longrightarrow> reachable_at ce n' e = reachable_at ce (ln_net lw) e"
    and r: "(\<exists>s. r = Ok s) \<longleftrightarrow> (\<exists>s. r' = Ok s)" by blast
  from E [OF w h] r ok have "E w w'" by blast
  with w n' show ?thesis by (auto simp: asked_def lw')
qed

lemma ask_ignored: "\<exists>lw'. act_iter (ask_one False (net_io env ce) req) ws lw = (lw', Ok ())"
proof (induction ws arbitrary: lw)
  case (Cons ix ws)
  obtain n' r where t: "tell_worker (net_io env ce) req (snd ix) (ln_net lw) = (n', r)" by fastforce
  with tell_not_Panic [of env ce req "snd ix" "ln_net lw"] have "r \<noteq> Panic" by simp
  with t have "ask_one False (net_io env ce) req ix lw = (lw\<lparr> ln_net := n' \<rparr>, Ok ())"
    by (cases r) (simp_all add: ask_one_def ignore_def on_net_def act_bind_def act_try_def act_ret_def)
  with Cons.IH show ?case by (simp add: act_simps)
qed (simp add: act_ret_def)

lemma ask_all_net:
  assumes "act_iter (ask_one strict (net_io env ce) req) ws lw = (lw', Ok ())" "common_req req"
    and "distinct (conns ws)" "\<forall>(i, x) \<in> set ws. reachable_at ce (ln_net lw) (lw_exec x)"
    and E: "\<And>x cx w w' r. \<lbrakk> x \<in> snd ` set ws; node_at (ln_net lw) (conn (lw_exec x)) = Some w; nd_alive w;
        handle_request (node_io env (ne_peers ce (conn (lw_exec x)))) req cx None w = (w', r);
        strict \<Longrightarrow> \<exists>s. r = Ok s \<rbrakk> \<Longrightarrow> E w w'"
  shows "(\<forall>x \<in> snd ` set ws. asked ce E (ln_net lw) (ln_net lw') x)
    \<and> ln_state lw' = ln_state lw \<and> ln_alive lw' = ln_alive lw
    \<and> (\<forall>c. c \<notin> set (conns ws) \<longrightarrow> node_at (ln_net lw') c = node_at (ln_net lw) c)
    \<and> (\<forall>e. conn e \<notin> set (conns ws) \<longrightarrow> reachable_at ce (ln_net lw') e = reachable_at ce (ln_net lw) e)"
  using assms(1,3-)
proof (induction ws arbitrary: lw)
  case (Cons ix ws)
  obtain i x where ix: "ix = (i, x)" by fastforce
  from Cons.prems(1) obtain lw1 where one: "ask_one strict (net_io env ce) req (i, x) lw = (lw1, Ok ())"
    and rest: "act_iter (ask_one strict (net_io env ce) req) ws lw1 = (lw', Ok ())"
    by (auto simp: ix act_bind_Ok_iff)
  have "reachable_at ce (ln_net lw) (lw_exec x)" using Cons.prems(3) ix by auto
  then have one: "asked ce E (ln_net lw) (ln_net lw1) x \<and> ln_state lw1 = ln_state lw \<and> ln_alive lw1 = ln_alive lw
    \<and> (\<forall>c. c \<noteq> conn (lw_exec x) \<longrightarrow> node_at (ln_net lw1) c = node_at (ln_net lw) c)
    \<and> (\<forall>e. conn e \<noteq> conn (lw_exec x) \<longrightarrow> reachable_at ce (ln_net lw1) e = reachable_at ce (ln_net lw) e)"
    by (rule ask_one_net [OF one assms(2)]) (rule Cons.prems(4), simp_all add: ix)
  have far: "conn (lw_exec y) \<noteq> conn (lw_exec x)" if "(j, y) \<in> set ws" for j y
    using Cons.prems(2) that by (force simp: ix conns_def)
  have "\<forall>(j, y) \<in> set ws. reachable_at ce (ln_net lw1) (lw_exec y)"
    using Cons.prems(3) one far by (auto simp: ix)
  moreover have "distinct (conns ws)" using Cons.prems(2) by (simp add: conns_def)
  moreover have "E w w'" if "y \<in> snd ` set ws" "node_at (ln_net lw1) (conn (lw_exec y)) = Some w" "nd_alive w"
    "handle_request (node_io env (ne_peers ce (conn (lw_exec y)))) req cx None w = (w', r)" "strict \<Longrightarrow> \<exists>s. r = Ok s"
    for y cx w w' r
    using Cons.prems(4) [of y w cx w' r] that one far by (auto simp: ix)
  ultimately have IH: "(\<forall>x \<in> snd ` set ws. asked ce E (ln_net lw1) (ln_net lw') x)
    \<and> ln_state lw' = ln_state lw1 \<and> ln_alive lw' = ln_alive lw1
    \<and> (\<forall>c. c \<notin> set (conns ws) \<longrightarrow> node_at (ln_net lw') c = node_at (ln_net lw1) c)
    \<and> (\<forall>e. conn e \<notin> set (conns ws) \<longrightarrow> reachable_at ce (ln_net lw') e = reachable_at ce (ln_net lw1) e)"
    by (intro Cons.IH [OF rest]) auto
  have x: "conn (lw_exec x) \<notin> set (conns ws)" using Cons.prems(2) by (simp add: ix conns_def)
  have "asked ce E (ln_net lw) (ln_net lw') x" using one IH x by (auto simp: asked_def)
  moreover have "asked ce E (ln_net lw) (ln_net lw') y" if "(j, y) \<in> set ws" for j y
    using IH one far [OF that] that by (force simp: asked_def)
  ultimately show ?case using IH one by (auto simp: ix conns_def)
qed (simp_all add: conns_def act_ret_def)

end
