(* ===== verification/ClusterFacts.thy ===== *)
theory ClusterFacts
  imports Clusters
begin

text \<open>
  What a leader and its workers guarantee together: the clocks of a cluster, the spread of a
  model, the removal of an entity and the registration of a worker.
\<close>

section \<open>Steps\<close>

definition clock_is :: "64 word \<Rightarrow> 'a node \<Rightarrow> bool" where
  "clock_is c w \<longleftrightarrow> ws_clock (nd_state w) = c"

lemma mgr_handle_clock:
  "\<lbrakk> mgr_handle env lr now fresh req st = (st', r); \<And>c. req \<noteq> MgSetClockWatch c \<rbrakk> \<Longrightarrow> ws_clock st' = ws_clock st"
  by (cases req) (auto simp: mgr_handle_def on_part_def on_model_part_def initialize_part_def Let_def
      split: option.splits prod.splits result.splits)

lemma keeps_clock_mgr: "(\<And>k. req \<noteq> MgSetClockWatch k) \<Longrightarrow> keeps (clock_is c) (node_mgr env pe req)"
  by (auto simp: keeps_def node_mgr_def clock_is_def dest: mgr_handle_clock split: prod.split result.split)

lemma keeps_clock_post: "keeps (clock_is c) (post m f)"
  by (simp add: keeps_def post_apply clock_is_def)

lemma keeps_clock_execs:
  "keeps (clock_is c) (worker_exec (node_io env pe) e sg)"
  "keeps (clock_is c) (leader_exec (node_io env pe) e sg')"
  "keeps (clock_is c) (other_worker_exec (node_io env pe) ow sg)"
  by (auto simp: worker_exec_def leader_exec_def other_worker_exec_def node_io_def
      intro!: keeps_intros keeps_clock_post split: executor.split worker_situation.split)

lemma keeps_clock_query: "keeps (clock_is c) (worker_query (node_io env pe) q cx)"
  by (auto simp: worker_query_def query_leader_def query_one_def mgr_call_defs Let_def
      intro!: keeps_intros keeps_clock_mgr keeps_clock_execs
      split: scope.split leader_situation.split leader_resp_of.split worker_resp.split)

lemma clock_is_bind:
  "\<lbrakk> m w = (w1, Ok x); clock_is c (fst (f x w1)) \<rbrakk> \<Longrightarrow> clock_is c (fst (act_bind m f w))"
  by (simp add: act_simps)

lemma clock_is_keeps: "\<lbrakk> clock_is c w; keeps (clock_is c) m \<rbrakk> \<Longrightarrow> clock_is c (fst (m w))"
  by (simp add: keeps_def)

lemma node_unblocked: "io_unblocked (node_io env pe) w = (w\<lparr> nd_state := (nd_state w)\<lparr> ws_blocked := False \<rparr> \<rparr>, Ok ())"
  by (simp add: node_io_def)

lemma node_step_clock:
  assumes "handle_request (node_io env pe) WStep cx multi w = (w', r)" "nd_alive w" "ws_clock (nd_state w) \<noteq> - 1"
  shows "ws_clock (nd_state w') = ws_clock (nd_state w) + 1"
proof -
  have "clock_is (ws_clock (nd_state w) + 1) (fst (handle_step (node_io env pe) cx w))"
    unfolding handle_step_def node_io_simps
    apply (rule clock_is_bind, rule node_reads(6), rule assms(2))
    apply (simp only: assms(3) if_False)
    apply (rule clock_is_bind, rule node_reads(8), rule assms(2))
    apply (rule clock_is_keeps, simp add: clock_is_def)
    apply (auto simp: step_subscription_def send_event_def new_signal_def mgr_call_defs
        intro!: keeps_intros keeps_clock_mgr keeps_clock_post keeps_clock_query)
    done
  with assms(1) show ?thesis by (simp add: handle_request_def clock_is_def)
qed

lemma node_blocking:
  assumes "handle_request (node_io env pe) (WIsBlocking b) cx multi w = (w', r)" "nd_alive w"
  shows "nd_alive w' \<and> ws_clock (nd_state w') = ws_clock (nd_state w)"
  using assms
  by (auto simp: handle_request_def handle_is_blocking_def get_blocked_watch_def expect_resp_def node_mgr_def
      mgr_handle_def act_bind_def act_of_def act_ret_def reply_def node_unblocked split: if_splits)

definition clock_at :: "'a net \<Rightarrow> executor \<Rightarrow> 64 word option" where
  "clock_at n e = map_option (\<lambda>w. ws_clock (nd_state w)) (node_at n (conn e))"


text \<open>A leader with a remote and a local worker, and their world.\<close>

definition sample_net_env :: net_env where
  "sample_net_env = \<lparr> ne_fresh = (\<lambda>k. 7), ne_time = (\<lambda>k. 5), ne_choose = (\<lambda>k. 0), ne_connect = (\<lambda>l. Ok 0),
     ne_peers = (\<lambda>c. silent_peers\<lparr> pe_time := (\<lambda>h. 5) \<rparr>) \<rparr>"

definition sample_cluster :: "(string, entity) kv net leader_node" where
  "sample_cluster =
    \<lparr> ln_state = (leader_spawn 1 0 default_leader_config)\<lparr>
        ld_workers := [(5, leader_worker_new 5 (Remote 0)), (6, leader_worker_new 6 (Local 3))],
        ld_model := Some default_model \<rparr>,
      ln_alive = True,
      ln_net = \<lparr> nt_workers = [(0, [], sample_node), (3, [], sample_node)], nt_calls = 0 \<rparr> \<rparr>"

lemma sample_cluster_simps [simp]:
  "ln_alive sample_cluster" "ld_clock (ln_state sample_cluster) = 0"
  "ld_workers (ln_state sample_cluster) = [(5, leader_worker_new 5 (Remote 0)), (6, leader_worker_new 6 (Local 3))]"
  "lw_exec (leader_worker_new i e) = e"
  "node_at (ln_net sample_cluster) 0 = Some sample_node" "node_at (ln_net sample_cluster) 3 = Some sample_node"
  by (simp_all add: sample_cluster_def leader_spawn_def leader_worker_new_def node_at_def)

lemma sample_conns [simp]:
  "conns [(5, leader_worker_new 5 (Remote 0)), (6, leader_worker_new 6 (Local 3))] = [0, 3]"
  by (simp add: conns_def)

lemma sample_reachable:
  "\<forall>(i, x) \<in> set (ld_workers (ln_state sample_cluster)). reachable_at sample_net_env (ln_net sample_cluster) (lw_exec x)"
proof -
  show ?thesis
    by (simp add: sample_cluster_def leader_spawn_def leader_worker_new_def reachable_at_def sample_net_env_def
        sample_node_def silent_peers_def)
qed


section \<open>The spread of a model\<close>

lemma set_model_Ok:
  assumes "handle_request (node_io env pe) (WSetModel m) cx multi w = (w', r)" "\<exists>s. r = Ok s"
  shows "ws_model (nd_state w') = Some m"
proof -
  from assms obtain w1 where "set_model (io_mgr (node_io env pe)) m w1 = (w', Ok ())"
    by (auto simp: handle_request_def handle_set_model_def act_bind_Ok_iff reply_def act_ret_def)
  then show ?thesis
    by (auto simp: set_model_def expect_empty_def expect_resp_def act_bind_Ok_iff node_io_simps node_mgr_def
        mgr_handle_def act_of_def split: if_splits)
qed

lemma propagate_ask:
  "propagate li m w = act_iter (ask_one True li (WSetModel m)) (ld_workers (ln_state w)) w"
proof -
  have "(\<lambda>(i, x). act_bind (on_net (tell_worker li (WSetModel m) x)) (\<lambda>_. act_ret ())) = ask_one True li (WSetModel m)"
    by (auto simp: ask_one_def)
  then show ?thesis by (simp add: propagate_def)
qed

lemma keeps_lua_spawn: "keeps P (io_lua_spawn (node_io env pe) n s t)"
  by (simp add: node_io_def keeps_ret)

lemma keeps_clock_set_model: "keeps (clock_is c) (handle_set_model (node_io env pe) m cx)"
  by (auto simp: handle_set_model_def respawn_behavior_def new_signal_def mgr_call_defs node_io_simps Let_def
      intro!: keeps_intros keeps_clock_mgr keeps_clock_post keeps_clock_execs keeps_lua_spawn
      split: behavior_inner.split option.split result.split)

lemma set_model_keeps_clock:
  assumes "handle_request (node_io env pe) (WSetModel m) cx multi w = (w', r)"
  shows "ws_clock (nd_state w') = ws_clock (nd_state w)"
  using keepsD [OF keeps_clock_set_model, of "ws_clock (nd_state w)" w] assms
  by (simp add: handle_request_def clock_is_def)

lemma leader_set_model_net:
  assumes "ln_alive w" and "ws = ld_workers (ln_state w)" and "distinct (conns ws)"
    and "\<forall>(i, x) \<in> set ws. reachable_at ce (ln_net w) (lw_exec x)"
    and "leader_set_model (net_io env ce) m w = (w', r)"
  shows "ld_model (ln_state w') = Some m
    \<and> (r = Ok () \<longrightarrow> ln_alive w' \<and> ln_state w' = (ln_state w)\<lparr> ld_model := Some m \<rparr>
        \<and> (\<forall>x \<in> snd ` set ws. asked ce
              (\<lambda>v v'. ws_model (nd_state v') = Some m \<and> ws_clock (nd_state v') = ws_clock (nd_state v))
              (ln_net w) (ln_net w') x))"
proof -
  let ?io = "net_io env ce" and ?w = "w\<lparr> ln_state := (ln_state w)\<lparr> ld_model := Some m \<rparr> \<rparr>"
  obtain w1 q where q: "act_iter (ask_one True ?io (WSetModel m)) ws ?w = (w1, q)" by fastforce
  have h: "lmgr_handle ?io (LmSetModel m) w = (w1, map_ok (\<lambda>_. LmrEmpty) q)"
    using q assms(2) by (cases q) (simp_all add: lmgr_handle_def modify_leader_def propagate_ask act_simps)
  have "keeps (in_state (\<lambda>st. ld_model st = Some m)) (act_iter (ask_one True ?io (WSetModel m)) ws)"
    by (auto simp: ask_one_def intro!: keeps_intros)
  from keepsD [OF this _ q] have w1: "ld_model (ln_state w1) = Some m" by (simp add: in_state_def)
  have raw: "leader_set_model ?io m w = (w1\<lparr> ln_alive := (ln_alive w1 \<and> q \<noteq> Panic) \<rparr>,
      case q of Ok _ \<Rightarrow> Ok () | Err e \<Rightarrow> Err e | Panic \<Rightarrow> Err recv_error)"
    using h assms(1)
    by (cases q) (simp_all add: leader_set_model_def lmgr_expect_def lmgr_def lmgr_raw_def act_bind_def act_of_def
        is_empty_resp_def)
  let ?E = "\<lambda>v v'. ws_model (nd_state v') = Some m \<and> ws_clock (nd_state v') = ws_clock (nd_state v)"
  have "(\<forall>x \<in> snd ` set ws. asked ce ?E (ln_net ?w) (ln_net w1) x) \<and> ln_state w1 = ln_state ?w \<and> ln_alive w1 = ln_alive ?w"
    if "q = Ok ()"
  proof -
    have r: "\<forall>(i, x) \<in> set ws. reachable_at ce (ln_net ?w) (lw_exec x)" using assms(4) by simp
    have "?E v v'" if "handle_request (node_io env (ne_peers ce (conn (lw_exec x)))) (WSetModel m) cx None v = (v', s)"
      "\<exists>y. s = Ok y" for x cx v v' s
      using set_model_Ok [OF that] set_model_keeps_clock [OF that(1)] by simp
    then show ?thesis
      using ask_all_net [OF q [unfolded that] _ assms(3) r, where E = ?E] by (simp add: common_req_def) blast
  qed
  with raw w1 assms(1,5) show ?thesis by (cases q) auto
qed

text \<open>C8: a leader that is told to set a model has it afterwards, whatever the workers
  answer; and when it reports success, every registered worker has it too.\<close>

theorem model_spread:
  assumes "ln_alive w" and "ws = ld_workers (ln_state w)" and "distinct (conns ws)"
    and "\<forall>(i, x) \<in> set ws. reachable_at ce (ln_net w) (lw_exec x)"
    and "leader_set_model (net_io env ce) m w = (w', r)"
  shows "ld_model (ln_state w') = Some m
    \<and> (r = Ok () \<longrightarrow> (\<forall>(i, x) \<in> set ws. \<exists>v. node_at (ln_net w') (conn (lw_exec x)) = Some v
         \<and> ws_model (nd_state v) = Some m))"
  using leader_set_model_net [OF assms] by (force simp: asked_def)

theorem model_spread_witness:
  "\<exists>w' v. leader_set_model (net_io list_env sample_net_env) unsynced_model sample_cluster = (w', Ok ())
     \<and> node_at (ln_net w') 3 = Some v \<and> ws_model (nd_state v) = Some unsynced_model"
proof -
  let ?p = "leader_set_model (net_io list_env sample_net_env) unsynced_model sample_cluster"
  have "(case snd ?p of Ok _ \<Rightarrow> True | _ \<Rightarrow> False)" by code_simp
  then have p: "?p = (fst ?p, Ok ())" by (cases ?p) (auto split: result.splits)
  from model_spread [OF _ refl _ sample_reachable p] p show ?thesis by (cases ?p) auto
qed

section \<open>Removal\<close>

lemma remove_absent_request:
  assumes "nd_alive v" "ws_part (nd_state v) = Some p" "map_of (pt_entities p) n = None"
    and "pt_archive p = Some a" "arc_remove (ne_api env) a n = Ok a'"
    and "handle_request (node_io env pe) (WDespawnEntity n) cx multi v = (v', r)"
  shows "r = Ok (signal_new WrEmpty cx)"
proof -
  have "snd (remove_entity (ne_api env) n p) = Ok ()" using assms(3-5) by (rule remove_unknown_entity)
  then obtain p' where "remove_entity (ne_api env) n p = (p', Ok ())" by (metis prod.collapse)
  with assms(1,2,6) show ?thesis
    by (auto simp: handle_request_def then_reply_def mgr_remove_entity_def expect_empty_def expect_resp_def
        act_bind_def act_of_def act_ret_def reply_def node_io_simps node_mgr_def mgr_handle_def on_part_def)
qed

text \<open>C37: a request to remove an entity stops at the first worker with an archive that
  does not hold the entity in memory, since removing an absent key from the archive succeeds: the
  leader reports success, and no other worker has been asked.\<close>

theorem remove_stops_early:
  assumes "ln_alive w" and "ld_workers (ln_state w) = (i, x) # ws"
    and "reachable_at ce (ln_net w) (lw_exec x)" and "node_at (ln_net w) (conn (lw_exec x)) = Some v"
    and "nd_alive v" and "ws_part (nd_state v) = Some p" and "map_of (pt_entities p) n = None"
    and "pt_archive p = Some a" and "arc_remove (ne_api env) a n = Ok a'"
    and "leader_handle (net_io env ce) debug (LRemoveEntity n) cx w = (w', r)"
  shows "r = Ok (signal_new LrEmpty cx) \<and> ln_state w' = ln_state w
    \<and> (\<forall>c. c \<noteq> conn (lw_exec x) \<longrightarrow> node_at (ln_net w') c = node_at (ln_net w) c)"
proof -
  let ?io = "net_io env ce"
  obtain n' q where t: "tell_worker ?io (WDespawnEntity n) x (ln_net w) = (n', q)" by fastforce
  have "common_req (WDespawnEntity n)" by (simp add: common_req_def)
  from tell_worker_net [OF assms(3) this assms(4) t] obtain cx' v' r' where
    h: "handle_request (node_io env (ne_peers ce (conn (lw_exec x)))) (WDespawnEntity n) cx' None v = (v', r')"
    and n': "node_at n' = (node_at (ln_net w))(conn (lw_exec x) \<mapsto> v')"
    and q: "(\<exists>s. q = Ok s) \<longleftrightarrow> (\<exists>s. r' = Ok s)" "\<forall>s s'. q = Ok s \<longrightarrow> r' = Ok s' \<longrightarrow> s = s'" by blast
  from remove_absent_request [OF assms(5-9) h] q have "q = Ok (signal_new WrEmpty cx')" by metis
  with t have on: "on_net (tell_worker ?io (WDespawnEntity n) x) w = (w\<lparr> ln_net := n' \<rparr>, Ok (signal_new WrEmpty cx'))"
    by (simp add: on_net_def)
  have "leader_get_workers ?io w = (w, Ok ((i, x) # ws))"
    using assms(1,2) by (simp add: leader_get_workers_def lmgr_expect_def lmgr_def lmgr_raw_def lmgr_handle_def
        act_bind_def act_of_def)
  with on assms(10) have "w' = w\<lparr> ln_net := n' \<rparr>" "r = Ok (signal_new LrEmpty cx)"
    by (simp_all add: leader_handle_def then_answer_def answer_def act_simps signal_new_def)
  with n' show ?thesis by simp
qed


definition empty_part :: "(string, entity) kv partition" where
  "empty_part = (sample_partition (Some []))\<lparr> pt_entities := [] \<rparr>"

definition emptied_cluster :: "(string, entity) kv net leader_node" where
  "emptied_cluster = sample_cluster\<lparr> ln_net :=
     \<lparr> nt_workers =
         [(0, [], sample_node\<lparr> nd_state := sample_worker\<lparr> ws_part := Some empty_part \<rparr> \<rparr>),
          (3, [], sample_node)], nt_calls = 0 \<rparr> \<rparr>"

theorem remove_stops_early_witness:
  "\<exists>w' v. leader_handle (net_io list_env sample_net_env) (\<lambda>_. []) (LRemoveEntity ''e'') sample_context emptied_cluster
       = (w', Ok (signal_new LrEmpty sample_context))
     \<and> node_at (ln_net w') 3 = Some v \<and> in_memory (nd_state v) ''e''"
proof -
  let ?h = "leader_handle (net_io list_env sample_net_env) (\<lambda>_. []) (LRemoveEntity ''e'') sample_context emptied_cluster"
  let ?v = "sample_node\<lparr> nd_state := sample_worker\<lparr> ws_part := Some empty_part \<rparr> \<rparr>"
  have w: "ln_alive emptied_cluster"
    "ld_workers (ln_state emptied_cluster) = (5, leader_worker_new 5 (Remote 0)) # [(6, leader_worker_new 6 (Local 3))]"
    "reachable_at sample_net_env (ln_net emptied_cluster) (lw_exec (leader_worker_new 5 (Remote 0)))"
    "node_at (ln_net emptied_cluster) (conn (lw_exec (leader_worker_new 5 (Remote 0)))) = Some ?v"
    "node_at (ln_net emptied_cluster) 3 = Some sample_node"
    by (simp_all add: emptied_cluster_def reachable_at_def node_at_def sample_node_def)
  have v: "nd_alive ?v" "ws_part (nd_state ?v) = Some empty_part"
    "map_of (pt_entities empty_part) ''e'' = None" "pt_archive empty_part = Some []"
    "arc_remove (ne_api list_env) [] ''e'' = Ok []"
    by (simp_all add: sample_node_def empty_part_def sample_partition_def list_env_def list_archive_def kv_remove_def)
  have "in_memory (nd_state sample_node) ''e''"
    by (simp add: in_memory_def part_knows_def sample_node_def sample_worker_def)
  with remove_stops_early [OF w(1-4) v, of "\<lambda>_. []" sample_context "fst ?h" "snd ?h"] w(5) show ?thesis
    by (cases ?h) auto
qed

end
