(* ===== verification/ServerFacts.thy ===== *)
theory ServerFacts
  imports ServerHandlers
begin

text \<open>
  What a server guarantees on its own, whatever its worker answers: its registry of clients, and
  the account of blocking clients that its counter is meant to keep.
\<close>

section \<open>What handlers do to the state\<close>

definition state_is :: "server_state \<Rightarrow> 'n server_node \<Rightarrow> bool" where
  "state_is s w \<longleftrightarrow> sn_state w = s"

lemma keeps_outside [keeps_intros]: "keeps (state_is s) (on_outside m)"
  by (auto simp: keeps_def state_is_def on_outside_def split: prod.split)

lemma keeps_read [keeps_intros]: "keeps P (read_server f)"
  by (simp add: keeps_def read_server_def)

lemma keeps_ask [keeps_intros]:
  "keeps (state_is s) (ask_worker si w req)" "keeps (state_is s) (ask_worker_as si i w req)"
  by (simp_all add: ask_worker_def ask_worker_as_def keeps_intros)

lemma keeps_no_worker [keeps_intros]: "keeps P no_worker"
  by (simp add: no_worker_def keeps_intros)

lemma keeps_requests [keeps_intros]:
  "keeps (state_is s) (status_request si)" "keeps (state_is s) (query_request si q)"
  "keeps (state_is s) (entity_list_request si)" "keeps (state_is s) (data_pull_request si d)"
  "keeps (state_is s) (acknowledged si req)" "keeps (state_is s) (snapshot_request si)"
  "keeps (state_is s) (authorize si rr)"
  by (auto simp: status_request_def query_request_def entity_list_request_def data_pull_request_def
      acknowledged_def snapshot_request_def authorize_def
      intro!: keeps_intros split: option.split worker_resp.split pull_data.split)

lemma keeps_forward [keeps_intros]: "keeps (state_is s) (forward si stream bytes r)"
  by (auto simp: forward_def Let_def intro!: keeps_intros split: result.split worker_resp.split option.split)

lemma keeps_subscribe [keeps_intros]: "keeps (state_is s) (subscribe_request si stream bytes ts q)"
  by (auto simp: subscribe_request_def intro!: keeps_intros split: option.split)

text \<open>A client that registers, one that leaves, and one that agrees to advance.\<close>

definition registered :: "uuid \<Rightarrow> client_view \<Rightarrow> server_state \<Rightarrow> server_state" where
  "registered i c s =
    (if cv_is_blocking c then s\<lparr> ss_blocked := ss_blocked s + 1, ss_changes := Suc (ss_changes s) \<rparr> else s)
      \<lparr> ss_clients := kv_insert i c (ss_clients s) \<rparr>"

definition blocks :: "server_state \<Rightarrow> uuid \<Rightarrow> bool" where
  "blocks s i \<longleftrightarrow> (\<exists>c. map_of (ss_clients s) i = Some c \<and> cv_is_blocking c)"

definition released :: "server_state \<Rightarrow> server_state" where
  "released s = s\<lparr> ss_blocked := ss_blocked s - 1, ss_changes := Suc (ss_changes s) \<rparr>"

definition departed :: "uuid \<Rightarrow> server_state \<Rightarrow> server_state" where
  "departed i s =
    (if blocks s i \<and> ss_blocked s \<noteq> 0 then released s else s)\<lparr> ss_clients := kv_remove i (ss_clients s) \<rparr>"

text \<open>The outside never hands out the identifier of a client twice.\<close>

definition new_ids :: "'n server_io \<Rightarrow> server_state \<Rightarrow> bool" where
  "new_ids si s \<longleftrightarrow> (\<forall>n n' i. si_fresh si n = (n', Ok i) \<longrightarrow> i \<notin> set (map fst (ss_clients s)))"

lemma register_effect:
  assumes "register_client si known addr req w = (w', r)"
  shows "(sn_state w' = sn_state w \<and> (\<forall>i t. r \<noteq> Ok (Waiting i t)))
    \<or> (\<exists>i c. sn_state w' = registered i c (sn_state w) \<and> cv_id c = i \<and> cv_is_blocking c = rr_is_blocking req
        \<and> (cv_is_blocking c \<longrightarrow> ss_blocked (sn_state w) \<noteq> - 1)
        \<and> (\<exists>n n'. si_fresh si n = (n', Ok i)) \<and> (\<exists>m. r = Ok (Answer m)))"
proof -
  obtain w1 q where a: "authorize si req w = (w1, q)" by fastforce
  have w1: "sn_state w1 = sn_state w"
    using keepsD [OF keeps_requests(7) _ a, of "sn_state w"] by (simp add: state_is_def)
  show ?thesis
  proof (cases "known = None \<and> q = Ok ()")
    case True
    obtain n2 f where f: "si_fresh si (sn_net w1) = (n2, f)" by fastforce
    show ?thesis
    proof (cases f)
      case (Ok i)
      obtain n3 g where g: "si_now si n2 = (n3, g)" by fastforce
      show ?thesis
      proof (cases g)
        case (Ok now)
        let ?c = "client_new i req addr now"
        have c: "cv_id ?c = i" "cv_is_blocking ?c = rr_is_blocking req" by (simp_all add: client_new_def)
        show ?thesis
        proof (cases "rr_is_blocking req \<and> ss_blocked (sn_state w) = - 1")
          case False
          then have "sn_state w' = registered i ?c (sn_state w) \<and> (\<exists>m. r = Ok (Answer m))"
            using assms True a f g Ok \<open>f = Ok i\<close> w1 c
            by (auto simp: register_client_def act_simps on_outside_def raise_blocked_def modify_server_def
                registered_def split: if_splits)
          with False c f \<open>f = Ok i\<close> show ?thesis by metis
        qed (use assms True a f g Ok \<open>f = Ok i\<close> w1 in
            \<open>auto simp: register_client_def act_simps on_outside_def raise_blocked_def\<close>)
      qed (use assms True a f g \<open>f = Ok i\<close> w1 in \<open>auto simp: register_client_def act_simps on_outside_def\<close>)
    qed (use assms True a f w1 in \<open>auto simp: register_client_def act_simps on_outside_def\<close>)
  next
    case False
    with assms a w1 show ?thesis
      by (cases q) (auto simp: register_client_def act_simps split: if_splits)
  qed
qed

lemma disconnect_effect:
  assumes "disconnect_client i w = (w', r)"
  shows "sn_state w' = departed i (sn_state w) \<and> r = Ok (Answer MsDisconnect)"
  using assms
  by (cases "map_of (ss_clients (sn_state w)) i")
    (auto simp: disconnect_client_def act_simps read_server_def modify_server_def lower_blocked_def departed_def
      released_def blocks_def split: if_splits)

lemma advance_effect:
  assumes "advance_start req i w = (w', r)"
  shows "(sn_state w' = sn_state w \<and> (\<forall>j t. r \<noteq> Ok (Waiting j t)))
    \<or> (\<exists>t. sn_state w' = released (sn_state w) \<and> r = Ok (Waiting i t) \<and> blocks (sn_state w) i
        \<and> ss_blocked (sn_state w) \<noteq> 0)"
  using assms
  by (auto simp: advance_start_def Let_def act_simps lower_blocked_def modify_server_def released_def blocks_def
      act_bind_def act_ret_def split: option.splits if_splits)

text \<open>Every other message is answered at once and leaves the state as it is.\<close>

definition settles :: "('w, handled) act \<Rightarrow> bool" where
  "settles m \<longleftrightarrow> (\<forall>w w' i t. m w \<noteq> (w', Ok (Waiting i t)))"

named_theorems settles_intros \<open>introduction rules for actions that are answered at once\<close>

lemma settles_bind [settles_intros]: "(\<And>x. settles (f x)) \<Longrightarrow> settles (act_bind m f)"
  by (auto simp: settles_def act_bind_Ok_iff)

lemma settles_of [settles_intros]: "(\<And>i t. r \<noteq> Ok (Waiting i t)) \<Longrightarrow> settles (act_of r)"
  by (auto simp: settles_def act_of_def)

lemma settles_ret [settles_intros]: "(\<And>i t. r \<noteq> Waiting i t) \<Longrightarrow> settles (act_ret r)"
  by (auto simp: settles_def act_ret_def)

lemma settles_requests [settles_intros]:
  "settles no_worker" "settles (query_request si q)" "settles (entity_list_request si)"
  "settles (data_pull_request si d)" "settles (acknowledged si req)" "settles (snapshot_request si)"
  "settles (subscribe_request si stream bytes ts q)"
  by (auto simp: no_worker_def query_request_def entity_list_request_def data_pull_request_def
      acknowledged_def snapshot_request_def subscribe_request_def
      intro!: settles_intros split: option.split worker_resp.split)

definition unmoved :: "('n server_node, handled) act \<Rightarrow> bool" where
  "unmoved m \<longleftrightarrow> settles m \<and> (\<forall>s. keeps (state_is s) m)"

lemma unmoved_effect: "\<lbrakk> unmoved m; m w = (w', r) \<rbrakk> \<Longrightarrow> sn_state w' = sn_state w \<and> (\<forall>i t. r \<noteq> Ok (Waiting i t))"
  using keepsD [of "state_is (sn_state w)" m w w' r] by (auto simp: unmoved_def settles_def state_is_def)

lemma message_unmoved:
  assumes "\<forall>req. msg \<noteq> MsRegisterClientRequest req" "known \<noteq> None \<longrightarrow> (\<forall>req. msg \<noteq> MsAdvanceRequest req)"
    "known \<noteq> None \<longrightarrow> msg \<noteq> MsDisconnect"
  shows "unmoved (handle_message si known addr msg stream bytes)"
proof (cases known)
  case None
  with assms(1) show ?thesis
    by (cases msg) (simp_all add: handle_message_def unmoved_def keeps_intros settles_intros)
next
  case (Some i)
  with assms show ?thesis
    by (cases msg) (simp_all add: handle_message_def unmoved_def keeps_intros settles_intros)
qed

lemma message_effect:
  assumes "handle_message si known addr msg stream bytes w = (w', r)"
  shows "(sn_state w' = sn_state w \<and> (\<forall>j t. r \<noteq> Ok (Waiting j t)) \<and> \<not> (msg = MsDisconnect \<and> known \<noteq> None))
    \<or> (\<exists>i c. sn_state w' = registered i c (sn_state w) \<and> cv_id c = i
        \<and> (cv_is_blocking c \<longrightarrow> ss_blocked (sn_state w) \<noteq> - 1)
        \<and> (\<exists>n n'. si_fresh si n = (n', Ok i)) \<and> (\<exists>m. r = Ok (Answer m)) \<and> (\<exists>req. msg = MsRegisterClientRequest req))
    \<or> (\<exists>i. known = Some i \<and> msg = MsDisconnect \<and> sn_state w' = departed i (sn_state w) \<and> r = Ok (Answer MsDisconnect))
    \<or> (\<exists>i t. sn_state w' = released (sn_state w) \<and> r = Ok (Waiting i t) \<and> blocks (sn_state w) i
        \<and> ss_blocked (sn_state w) \<noteq> 0 \<and> msg \<noteq> MsDisconnect)"
proof -
  consider req where "msg = MsRegisterClientRequest req"
    | i where "known = Some i" "msg = MsDisconnect"
    | i req where "known = Some i" "msg = MsAdvanceRequest req"
    | "\<forall>req. msg \<noteq> MsRegisterClientRequest req" "known \<noteq> None \<longrightarrow> (\<forall>req. msg \<noteq> MsAdvanceRequest req)"
      "known \<noteq> None \<longrightarrow> msg \<noteq> MsDisconnect"
    by (cases known; cases msg) auto
  then show ?thesis
  proof cases
    case 1
    with assms have "register_client si known addr req w = (w', r)" by (simp add: handle_message_def)
    from register_effect [OF this] show ?thesis
    proof (elim disjE exE conjE)
      fix i c n n' m
      assume "sn_state w' = registered i c (sn_state w)" "cv_id c = i" "si_fresh si n = (n', Ok i)" "r = Ok (Answer m)"
        "cv_is_blocking c \<longrightarrow> ss_blocked (sn_state w) \<noteq> - 1"
      with 1 show ?thesis by (intro disjI2 disjI1 exI [of _ i] exI [of _ c]) auto
    qed (use 1 in simp)
  next
    case 2
    with assms disconnect_effect [of i w w' r] show ?thesis by (simp add: handle_message_def)
  next
    case 3
    with assms have "advance_start req i w = (w', r)" by (simp add: handle_message_def)
    from advance_effect [OF this] 3 show ?thesis by auto
  next
    case 4
    from unmoved_effect [OF message_unmoved assms] 4 show ?thesis by blast
  qed
qed

section \<open>The account of blocking clients\<close>

definition server_wf :: "server_state \<Rightarrow> bool" where
  "server_wf s \<longleftrightarrow> kv_wf (ss_clients s) \<and> (\<forall>(i, c) \<in> set (ss_clients s). cv_id c = i)"

definition blockers :: "server_state \<Rightarrow> nat" where
  "blockers s = length (filter (\<lambda>(_, c). cv_is_blocking c) (ss_clients s))"

lemma unat_up: "(x :: 8 word) \<noteq> - 1 \<Longrightarrow> unat (x + 1) = Suc (unat x)"
  using unatSuc [of x] by (metis add.commute add_eq_0_iff)

lemma unat_down: "(x :: 8 word) \<noteq> 0 \<Longrightarrow> Suc (unat (x - 1)) = unat x"
  by (simp add: unat_minus_one unat_gt_0)

lemma registered_account:
  assumes "server_wf s" "cv_id c = i" "i \<notin> set (map fst (ss_clients s))" "cv_is_blocking c \<longrightarrow> ss_blocked s \<noteq> - 1"
  shows "server_wf (registered i c s) \<and> unat (ss_blocked (registered i c s)) + blockers s
    = unat (ss_blocked s) + blockers (registered i c s)"
  using assms by (auto simp: registered_def server_wf_def blockers_def kv_insert_fresh kv_wf_def unat_up)

lemma kv_remove_absent: "i \<notin> set (map fst m) \<Longrightarrow> kv_remove i m = m"
  by (induction m) (auto simp: kv_remove_def)

lemma in_keys: "(k, v) \<in> set m \<Longrightarrow> k \<in> fst ` set m"
  by force

lemma remove_count:
  assumes "kv_wf m"
  shows "length (filter Q m) = length (filter Q (kv_remove i m))
    + (case map_of m i of Some c \<Rightarrow> if Q (i, c) then 1 else 0 | None \<Rightarrow> 0)"
  using assms
proof (induction m)
  case (Cons x m)
  then show ?case
    using kv_remove_absent [of i m]
    by (cases x) (auto simp: kv_wf_def kv_remove_def map_of_eq_None_iff dest: in_keys split: option.splits)
qed (simp add: kv_remove_def)

lemma departed_account:
  assumes "server_wf s"
  shows "server_wf (departed i s) \<and> unat (ss_blocked (departed i s)) + blockers s
    = unat (ss_blocked s) + blockers (departed i s) + (if blocks s i \<and> ss_blocked s = 0 then 1 else 0)"
proof -
  have wf: "server_wf (departed i s)"
    using assms by (auto simp: departed_def server_wf_def released_def kv_wf_filter kv_remove_def)
  have "blockers s = blockers (departed i s) + (if blocks s i then 1 else 0)"
    using assms remove_count [of "ss_clients s" "\<lambda>(_, c). cv_is_blocking c" i]
    by (auto simp: server_wf_def blockers_def departed_def released_def blocks_def split: option.splits)
  with wf show ?thesis by (auto simp: departed_def released_def dest: unat_down)
qed

lemma released_account:
  "server_wf s \<Longrightarrow> ss_blocked s \<noteq> 0 \<Longrightarrow>
    server_wf (released s) \<and> Suc (unat (ss_blocked (released s))) = unat (ss_blocked s) \<and> blockers (released s) = blockers s"
  by (simp add: released_def server_wf_def blockers_def unat_down)

text \<open>
  A server from its start, with the advance requests that wait.  \<open>l\<close> counts the blocking clients
  that left while the counter was zero, \<open>o\<close> the waiting requests that ended without raising it.
\<close>

inductive server_run ::
  "'n server_io \<Rightarrow> 'n server_node \<Rightarrow> (uuid \<times> 64 word) list \<Rightarrow> nat \<Rightarrow> nat \<Rightarrow> bool" for si where
  run_start: "server_run si \<lparr> sn_state = server_spawn fresh now config, sn_net = n \<rparr> [] 0 0"
| run_message: "\<lbrakk> server_run si w ps l k;
      (\<exists>req. msg = MsRegisterClientRequest req) \<longrightarrow> new_ids si (sn_state w);
      handle_message si known addr msg stream bytes w = (w', r);
      ps' = (case r of Ok (Waiting i t) \<Rightarrow> (i, t) # ps | _ \<Rightarrow> ps);
      l' = (if msg = MsDisconnect \<and> ss_blocked (sn_state w) = 0 \<and> (\<exists>i. known = Some i \<and> blocks (sn_state w) i)
            then Suc l else l) \<rbrakk> \<Longrightarrow> server_run si w' ps' l' k"
| run_wake: "\<lbrakk> server_run si w ps l k; (i, t) \<in> set ps; advance_wake t w = (w', r) \<rbrakk> \<Longrightarrow>
      server_run si w' (if r = Ok None then ps else remove1 (i, t) ps) l
        (case r of Ok _ \<Rightarrow> k | _ \<Rightarrow> Suc k)"
| run_worker: "\<lbrakk> server_run si w ps l k; server_local_worker req cx w = (w', r) \<rbrakk> \<Longrightarrow> server_run si w' ps l k"
| run_controller: "\<lbrakk> server_run si w ps l k; server_local_ctl si req cx w = (w', r) \<rbrakk> \<Longrightarrow> server_run si w' ps l k"
| run_outside: "server_run si w ps l k \<Longrightarrow> server_run si (w\<lparr> sn_net := n \<rparr>) ps l k"

text \<open>Requests of the worker and the controller leave clients and counter alone.\<close>

definition same_clients :: "server_state \<Rightarrow> 'n server_node \<Rightarrow> bool" where
  "same_clients s w \<longleftrightarrow> ss_clients (sn_state w) = ss_clients s \<and> ss_blocked (sn_state w) = ss_blocked s"

lemma keeps_clients [keeps_intros]:
  "(\<And>s. ss_clients (f s) = ss_clients s \<and> ss_blocked (f s) = ss_blocked s) \<Longrightarrow> keeps (same_clients s) (modify_server f)"
  "keeps (same_clients s) (on_outside m)" "keeps (same_clients s) (server_answer r cx)"
  by (auto simp: keeps_def same_clients_def modify_server_def on_outside_def server_answer_def act_ret_def
      split: prod.split)

lemma keeps_worker_side:
  "keeps (same_clients s) (server_local_worker req cx)" "keeps (same_clients s) (server_local_ctl si req cx)"
  by (auto simp: server_local_worker_def server_worker_request_def server_local_ctl_def server_ctl_request_def
      intro!: keeps_intros split: server_local.split server_req.split worker_resp.split)

text \<open>C11: in every run of a server its registry is well-formed, and its counter is the number of
  blocking clients less the requests to advance that wait, with two leaks: a blocking client that leaves
  while the counter is zero adds one to it for good, and a waiting request that ends because the clock
  went past its target takes one off.\<close>

theorem blocked_account:
  "server_run si w ps l k \<Longrightarrow> server_wf (sn_state w) \<and>
    unat (ss_blocked (sn_state w)) + length ps + k = blockers (sn_state w) + l"
proof (induction rule: server_run.induct)
  case (run_start fresh now config n)
  then show ?case by (simp add: server_spawn_def server_wf_def blockers_def)
next
  case (run_message w ps l k msg known addr stream bytes w' r ps' l')
  note IH = run_message.IH and step = run_message.hyps
  from message_effect [OF step(3)] show ?case
  proof (elim disjE exE conjE)
    assume "sn_state w' = sn_state w" "\<forall>j t. r \<noteq> Ok (Waiting j t)" "\<not> (msg = MsDisconnect \<and> known \<noteq> None)"
    with IH step(4,5) show ?case by (auto split: result.splits handled.splits)
  next
    fix i c n n' m req
    assume a: "sn_state w' = registered i c (sn_state w)" "cv_id c = i"
      "cv_is_blocking c \<longrightarrow> ss_blocked (sn_state w) \<noteq> - 1" "si_fresh si n = (n', Ok i)" "r = Ok (Answer m)"
      "msg = MsRegisterClientRequest req"
    have "i \<notin> set (map fst (ss_clients (sn_state w)))" using step(2) a(4,6) unfolding new_ids_def by blast
    from registered_account [OF _ a(2) this a(3)] IH a(1,5,6) step(4,5) show ?case by simp
  next
    fix i assume a: "known = Some i" "msg = MsDisconnect" "sn_state w' = departed i (sn_state w)" "r = Ok (Answer MsDisconnect)"
    from departed_account [of "sn_state w" i] IH a step(4,5) show ?case by (auto split: if_splits)
  next
    fix i t assume a: "sn_state w' = released (sn_state w)" "r = Ok (Waiting i t)" "ss_blocked (sn_state w) \<noteq> 0" "msg \<noteq> MsDisconnect"
    from released_account [of "sn_state w"] IH a step(4,5) show ?case by simp
  qed
next
  case (run_wake w ps l k i t w' r)
  let ?s = "sn_state w"
  have len: "length (remove1 (i, t) ps) + 1 = length ps"
    using run_wake.hyps(2) by (simp add: length_remove1) (metis Suc_pred length_pos_if_in_set)
  have wf: "server_wf (s\<lparr> ss_blocked := b, ss_changes := c \<rparr>) = server_wf s"
    "blockers (s\<lparr> ss_blocked := b, ss_changes := c \<rparr>) = blockers s" for s b c
    by (simp_all add: server_wf_def blockers_def)
  consider "ss_clock ?s = t" "ss_blocked ?s = - 1" | "ss_clock ?s = t" "ss_blocked ?s \<noteq> - 1"
    | "t < ss_clock ?s" | "ss_clock ?s < t" by fastforce
  then show ?case
  proof cases
    case 1
    with run_wake.hyps(3) have "w' = w" "r = Panic" by (simp_all add: advance_wake_def raise_blocked_def act_simps)
    with run_wake.IH len show ?thesis by simp
  next
    case 2
    with run_wake.hyps(3) have "w' = w\<lparr> sn_state := ?s\<lparr> ss_blocked := ss_blocked ?s + 1, ss_changes := Suc (ss_changes ?s) \<rparr> \<rparr>"
      "r = Ok (Some (MsAdvanceResponse []))"
      by (simp_all add: advance_wake_def raise_blocked_def modify_server_def act_simps)
    with run_wake.IH len 2 show ?thesis by (simp add: wf unat_up)
  next
    case 3
    with run_wake.hyps(3) have "w' = w" "\<exists>e. r = Err e"
      by (auto simp: advance_wake_def Let_def split: if_splits)
    with run_wake.IH len show ?thesis by auto
  next
    case 4
    with run_wake.hyps(3) have "w' = w" "r = Ok None"
      by (auto simp: advance_wake_def Let_def split: if_splits)
    with run_wake.IH show ?thesis by simp
  qed
next
  case (run_worker w ps l k req cx w' r)
  from keepsD [OF keeps_worker_side(1) _ run_worker.hyps(2), of "sn_state w"] run_worker.IH show ?case
    by (simp add: same_clients_def server_wf_def blockers_def)
next
  case (run_controller w ps l k req cx w' r)
  from keepsD [OF keeps_worker_side(2) _ run_controller.hyps(2), of "sn_state w"] run_controller.IH show ?case
    by (simp add: same_clients_def server_wf_def blockers_def)
qed simp

text \<open>A server with a worker that answers nothing, a blocking client that agrees to one step and leaves,
  and the clock that then reaches its target.\<close>

definition silent_server :: "nat server_io" where
  "silent_server =
    \<lparr> si_local = (\<lambda>_ _. act_of (Err recv_error)), si_remote = (\<lambda>_ _. act_of (Err recv_error)),
      si_ctl = (\<lambda>_ _. act_of (Err recv_error)), si_stream = (\<lambda>_ _. act_of (Err recv_error)),
      si_send = (\<lambda>_ _. act_ret ()), si_send_bytes = (\<lambda>_ _. act_ret ()), si_now = act_ret 5,
      si_fresh = (\<lambda>n. (Suc n, Ok 7)), si_uptime = (\<lambda>_. act_ret 0),
      si_encode = (\<lambda>_ _. Ok []), si_decode = (\<lambda>_ _. Ok MsOK), si_remote_address = show_nat, si_version = [],
      si_show_error = (\<lambda>_. []), si_debug_error = (\<lambda>_. []), si_debug_resp = (\<lambda>_. []) \<rparr>"

definition fresh_server :: "nat server_node" where
  "fresh_server = \<lparr> sn_state = server_spawn 1 0 (default_server_config True False False), sn_net = 0 \<rparr>"

definition blocking_request :: register_request where
  "blocking_request = \<lparr> rr_name = ''c'', rr_is_blocking = True, rr_auth_token = None, rr_encodings = [], rr_transports = [] \<rparr>"

definition one_step :: advance_request where
  "one_step = \<lparr> ar_step_count = 1, ar_wait = False \<rparr>"

definition the_client :: client_view where
  "the_client = client_new 7 blocking_request None 5"

text \<open>The state of the server after each of the five events.\<close>

definition server_at :: "(uuid, client_view) kv \<Rightarrow> 64 word \<Rightarrow> 8 word \<Rightarrow> nat \<Rightarrow> nat server_node" where
  "server_at cs c b k = fresh_server\<lparr> sn_state := (sn_state fresh_server)\<lparr> ss_clients := cs, ss_clock := c,
     ss_blocked := b, ss_changes := k \<rparr>, sn_net := 1 \<rparr>"

lemma sample_events:
  "\<exists>m. handle_message silent_server None None (MsRegisterClientRequest blocking_request) None None fresh_server
     = (server_at [(7, the_client)] 0 1 1, Ok (Answer m))"
  "handle_message silent_server (Some 7) None (MsAdvanceRequest one_step) None None (server_at [(7, the_client)] 0 1 1)
     = (server_at [(7, the_client)] 0 0 2, Ok (Waiting 7 1))"
  "handle_message silent_server (Some 7) None MsDisconnect None None (server_at [(7, the_client)] 0 0 2)
     = (server_at [] 0 0 2, Ok (Answer MsDisconnect))"
  "server_local_worker (SlRequest (SClockChangedTo 1)) cx (server_at [] 0 0 2) = (server_at [] 1 0 2, Ok (signal_new SrEmpty cx))"
  "advance_wake 1 (server_at [] 1 0 2) = (server_at [] 1 1 3, Ok (Some (MsAdvanceResponse [])))"
  by (simp_all add: handle_message_def register_client_def authorize_def read_server_def act_simps on_outside_def
      silent_server_def raise_blocked_def lower_blocked_def modify_server_def fresh_server_def server_spawn_def
      server_at_def blocking_request_def default_server_config_def the_client_def client_new_def advance_start_def
      one_step_def Let_def disconnect_client_def server_local_worker_def server_worker_request_def server_answer_def
      advance_wake_def kv_remove_def)

theorem blocked_account_witness:
  "server_run silent_server (server_at [] 1 1 3) [] 1 0 \<and> ss_clients (sn_state (server_at [] 1 1 3)) = []
    \<and> unat (ss_blocked (sn_state (server_at [] 1 1 3))) = 1"
proof -
  have f: "ss_clients (sn_state (server_at cs c b k)) = cs" "ss_blocked (sn_state (server_at cs c b k)) = b" for cs c b k
    by (simp_all add: server_at_def)
  have "server_run silent_server fresh_server [] 0 0" unfolding fresh_server_def by (rule run_start)
  moreover obtain m where "handle_message silent_server None None (MsRegisterClientRequest blocking_request) None None fresh_server
     = (server_at [(7, the_client)] 0 1 1, Ok (Answer m))" using sample_events(1) by blast
  moreover have "new_ids silent_server (sn_state fresh_server)" by (simp add: new_ids_def fresh_server_def server_spawn_def)
  ultimately have "server_run silent_server (server_at [(7, the_client)] 0 1 1) [] 0 0"
    by - (rule run_message, assumption, simp, assumption, simp_all)
  then have "server_run silent_server (server_at [(7, the_client)] 0 0 2) [(7, 1)] 0 0"
    by (rule run_message [OF _ _ sample_events(2)]) simp_all
  then have "server_run silent_server (server_at [] 0 0 2) [(7, 1)] 1 0"
    by (rule run_message [OF _ _ sample_events(3)])
      (simp_all add: f blocks_def the_client_def client_new_def blocking_request_def)
  then have "server_run silent_server (server_at [] 1 0 2) [(7, 1)] 1 0"
    by (rule run_worker [OF _ sample_events(4)])
  from run_wake [OF this _ sample_events(5), of 7] have r: "server_run silent_server (server_at [] 1 1 3) [] 1 0" by simp
  from blocked_account [OF r] r f show ?thesis by (simp add: blockers_def)
qed

section \<open>Agreeing for others\<close>

text \<open>C38: a blocking client can let the cluster go on by itself, by asking to advance as often as
  there are blocking clients: each request lowers the counter that stands for all of them.\<close>

theorem advance_for_others:
  assumes "blocks (sn_state w) i" and "0 < ar_step_count req"
    and "unat (ss_clock (sn_state w)) + unat (ar_step_count req) < 2 ^ 64"
    and "n \<le> unat (ss_blocked (sn_state w))"
  shows "\<exists>w'. act_iter (\<lambda>_. act_bind (advance_start req i) (\<lambda>_. act_ret ())) (replicate n ()) w = (w', Ok ())
    \<and> unat (ss_blocked (sn_state w')) = unat (ss_blocked (sn_state w)) - n
    \<and> ss_clients (sn_state w') = ss_clients (sn_state w) \<and> sn_net w' = sn_net w"
  using assms
proof (induction n arbitrary: w)
  case (Suc n)
  let ?s = "sn_state w" and ?w = "w\<lparr> sn_state := released (sn_state w) \<rparr>"
  have b: "ss_blocked ?s \<noteq> 0" using Suc.prems(4) by auto
  have step: "advance_start req i w = (?w, Ok (Waiting i (ss_clock ?s + ucast (ar_step_count req))))"
    using Suc.prems(1-3) b
    by (auto simp: advance_start_def blocks_def Let_def act_simps lower_blocked_def modify_server_def released_def
        word_less_nat_alt not_le)
  have s: "blocks (sn_state ?w) i" "ss_clock (sn_state ?w) = ss_clock ?s" "ss_clients (sn_state ?w) = ss_clients ?s"
    "Suc (unat (ss_blocked (sn_state ?w))) = unat (ss_blocked ?s)"
    using Suc.prems(1) b by (simp_all add: released_def blocks_def unat_down)
  have "n \<le> unat (ss_blocked (sn_state ?w))" using s(4) Suc.prems(4) by simp
  from Suc.IH [OF s(1) Suc.prems(2) _ this] s(2) Suc.prems(3) obtain w' where
    "act_iter (\<lambda>_. act_bind (advance_start req i) (\<lambda>_. act_ret ())) (replicate n ()) ?w = (w', Ok ())"
    "unat (ss_blocked (sn_state w')) = unat (ss_blocked (sn_state ?w)) - n"
    "ss_clients (sn_state w') = ss_clients (sn_state ?w)" "sn_net w' = sn_net ?w" by auto
  moreover have "act_bind (advance_start req i) (\<lambda>_. act_ret ()) w = (?w, Ok ())"
    using step by (simp add: act_bind_def act_ret_def)
  ultimately show ?case using s by (intro exI [of _ w']) (auto simp: act_bind_Ok)
qed (simp add: act_ret_def)

theorem advance_for_others_witness:
  "\<exists>w'. act_iter (\<lambda>_. act_bind (advance_start one_step 7) (\<lambda>_. act_ret ())) (replicate 2 ())
       (server_at [(7, the_client), (8, the_client\<lparr> cv_id := 8 \<rparr>)] 0 2 2) = (w', Ok ())
     \<and> unat (ss_blocked (sn_state w')) = 0"
proof -
  let ?w = "server_at [(7, the_client), (8, the_client\<lparr> cv_id := 8 \<rparr>)] 0 2 2"
  have "blocks (sn_state ?w) 7" "0 < ar_step_count one_step"
    "unat (ss_clock (sn_state ?w)) + unat (ar_step_count one_step) < 2 ^ 64" "2 \<le> unat (ss_blocked (sn_state ?w))"
    by (simp_all add: server_at_def blocks_def the_client_def client_new_def blocking_request_def one_step_def)
  from advance_for_others [OF this] show ?thesis by (auto simp: server_at_def)
qed

end
