(* ===== verification/ServedWorkers.thy ===== *)
theory ServedWorkers
  imports ClusterFacts ServerFacts
begin

text \<open>
  A server attached to a modelled worker: what registration with authorization, the monitor of
  blocking clients and the data clients send come to.
\<close>

section \<open>A server on the net\<close>

text \<open>The codec, the streams of clients and the texts are those of \<open>base\<close>.\<close>

definition server_net_io ::
  "('a, 'b) node_env \<Rightarrow> net_env \<Rightarrow> 'a net server_io \<Rightarrow> 'a net server_io" where
  "server_net_io env ce base = base
    \<lparr> si_local := serve_local_at env ce, si_remote := serve_net_at env ce,
      si_ctl := (\<lambda>c sig. act_try (serve_local_at env ce c sig)),
      si_now := (\<lambda>n. (n, Ok (ne_time ce (nt_calls n)))),
      si_fresh := (\<lambda>n. (n\<lparr> nt_calls := Suc (nt_calls n) \<rparr>, Ok (ne_fresh ce (nt_calls n)))) \<rparr>"

lemma ask_worker_net:
  assumes "reachable_at ce (sn_net w) (aw_exec x)" "common_req req" "node_at (sn_net w) (conn (aw_exec x)) = Some v"
    and "ask_worker (server_net_io env ce base) x req w = (w', r)"
  shows "\<exists>cx v' r'. handle_request (node_io env (ne_peers ce (conn (aw_exec x)))) req cx None v = (v', r')
    \<and> sn_state w' = sn_state w
    \<and> node_at (sn_net w') = (node_at (sn_net w))(conn (aw_exec x) \<mapsto> v')
    \<and> (nd_alive v' \<longrightarrow> reachable_at ce (sn_net w') (aw_exec x))
    \<and> (\<forall>s'. r' = Ok s' \<longrightarrow> r = Ok s') \<and> ((\<forall>s'. r' \<noteq> Ok s') \<longrightarrow> (\<exists>e. r = Err e))"
proof -
  let ?n = "(sn_net w)\<lparr> nt_calls := Suc (nt_calls (sn_net w)) \<rparr>" and ?e = "aw_exec x"
  let ?sig = "signal_from (ne_fresh ce (nt_calls (sn_net w))) (ne_time ce (Suc (nt_calls (sn_net w)))) req"
  let ?s = "case ?e of Remote _ \<Rightarrow> originating_at (caller_from (PServer (aw_server_id x))) ?sig | Local _ \<Rightarrow> ?sig"
  obtain n' q where q: "exec_at env ce ?e ?s ?n = (n', q)" by fastforce
  have w': "w' = w\<lparr> sn_net := n' \<rparr>" and r: "\<exists>f. r = (case ?e of Remote _ \<Rightarrow> q | Local _ \<Rightarrow> map_err f q)"
    using assms(4) q
    by (cases ?e; auto simp: ask_worker_def server_signal_def attached_exec_def act_bind_def on_outside_def
        act_ret_def server_net_io_def exec_at_def map_act_err_def apsnd_def map_prod_def split: prod.splits)+
  have "sg_payload ?s = req" "fresh_call ce (sg_ctx ?s)" by (simp_all split: executor.split)
  with exec_at_net [OF _ _ _ _ q] assms(1-3) obtain cx v' r' where
    "handle_request (node_io env (ne_peers ce (conn ?e))) req cx None v = (v', r')"
    "node_at n' = (node_at (sn_net w))(conn ?e \<mapsto> v')" "q = snd (as_reply (v', r'))"
    "nd_alive v' \<longrightarrow> reachable_at ce n' ?e" by auto
  with r w' show ?thesis
    by (intro exI [of _ cx] exI [of _ v'] exI [of _ r'])
      (auto simp: as_reply_def split: result.splits executor.splits)
qed

section \<open>Authorization\<close>

lemma authorize_unanswered:
  "serve_local_at env ce c (signal_new (WlRequest (WAuthorize token)) cx) n \<noteq> (n', Ok s)"
  "sg_payload sig = WAuthorize token \<Longrightarrow> serve_net_at env ce c sig n \<noteq> (n', Ok s)"
proof -
  have h: "handle_request io (WAuthorize token) cx multi w = (w, Panic)" for io :: "'w io" and cx multi w
    by (simp add: handle_request_def act_of_def)
  show "serve_local_at env ce c (signal_new (WlRequest (WAuthorize token)) cx) n \<noteq> (n', Ok s)"
    by (auto simp: serve_local_at_def at_worker_def serve_local_def signal_new_def handle_local_request_def h
        act_bind_def as_reply_def split: option.splits prod.splits result.splits)
  show "sg_payload sig = WAuthorize token \<Longrightarrow> serve_net_at env ce c sig n \<noteq> (n', Ok s)"
    by (auto simp: serve_net_at_def at_worker_def serve_net_def handle_net_request_def h
        act_bind_def as_reply_def split: option.splits prod.splits result.splits)
qed

text \<open>C27: a server that requires authorization registers nobody: its worker does not implement the
  check, so every request to register fails, with a token as without, and changes nothing.\<close>

theorem auth_locks_out:
  assumes "sc_require_auth (ss_config (sn_state w))"
    and "handle_message (server_net_io env ce base) known addr (MsRegisterClientRequest req) stream bytes w = (w', r)"
  shows "sn_state w' = sn_state w \<and> (\<forall>a. r \<noteq> Ok a)"
proof -
  let ?si = "server_net_io env ce base"
  have "ask_worker_as ?si i x (WAuthorize token) v \<noteq> (v', Ok a)" for i x token v v' a
    by (cases "aw_exec x")
      (auto simp: ask_worker_as_def on_outside_def server_signal_def attached_exec_def act_bind_def act_ret_def
        server_net_io_def map_act_err_def apsnd_def map_prod_def originating_at_def signal_from_def
        authorize_unanswered split: prod.splits result.splits)
  then have "authorize ?si req v \<noteq> (v', Ok ())" if "sn_state v = sn_state w" for v v'
    using that assms(1)
    by (auto simp: authorize_def read_server_def act_simps act_of_def act_bind_Ok_iff split: option.splits)
  then have r: "\<forall>a. r \<noteq> Ok a"
    using assms(2) by (auto simp: handle_message_def register_client_def act_of_def act_bind_Ok_iff split: if_splits)
  from register_effect [of ?si known addr req w w' r] assms(2) r show ?thesis
    by (auto simp: handle_message_def)
qed

definition strict_server :: "'a net \<Rightarrow> 'a net server_node" where
  "strict_server n =
    \<lparr> sn_state = (server_spawn 1 0 (default_server_config True False False\<lparr> sc_require_auth := True \<rparr>))
        \<lparr> ss_worker := Some \<lparr> aw_exec = Local 3, aw_server_id = 1 \<rparr> \<rparr>, sn_net = n \<rparr>"

definition idle_io :: "(string, entity) kv net server_io" where
  "idle_io =
    \<lparr> si_local = (\<lambda>_ _. act_of (Err recv_error)), si_remote = (\<lambda>_ _. act_of (Err recv_error)),
      si_ctl = (\<lambda>_ _. act_of (Err recv_error)), si_stream = (\<lambda>_ _. act_of (Err recv_error)),
      si_send = (\<lambda>_ _. act_ret ()), si_send_bytes = (\<lambda>_ _. act_ret ()), si_now = act_ret 5,
      si_fresh = act_ret 7, si_uptime = (\<lambda>_. act_ret 0),
      si_encode = (\<lambda>_ _. Ok []), si_decode = (\<lambda>_ _. Ok MsOK), si_remote_address = show_nat, si_version = [],
      si_show_error = (\<lambda>_. []), si_debug_error = (\<lambda>_. []), si_debug_resp = (\<lambda>_. []) \<rparr>"

theorem auth_locks_out_witness:
  "\<exists>w' r. handle_message (server_net_io list_env sample_net_env idle_io) None None
       (MsRegisterClientRequest (blocking_request\<lparr> rr_auth_token := Some ''secret'' \<rparr>)) None None
       (strict_server (ln_net sample_cluster)) = (w', r) \<and> ss_clients (sn_state w') = [] \<and> (\<forall>a. r \<noteq> Ok a)"
proof -
  let ?h = "handle_message (server_net_io list_env sample_net_env idle_io) None None
       (MsRegisterClientRequest (blocking_request\<lparr> rr_auth_token := Some ''secret'' \<rparr>)) None None
       (strict_server (ln_net sample_cluster))"
  have "sc_require_auth (ss_config (sn_state (strict_server (ln_net sample_cluster))))"
    by (simp add: strict_server_def server_spawn_def)
  from auth_locks_out [OF this prod.collapse [symmetric]] have
    "sn_state (fst ?h) = sn_state (strict_server (ln_net sample_cluster)) \<and> (\<forall>a. snd ?h \<noteq> Ok a)" .
  moreover have "ss_clients (sn_state (strict_server (ln_net sample_cluster))) = []"
    by (simp add: strict_server_def server_spawn_def)
  ultimately show ?thesis by (metis prod.collapse)
qed

section \<open>The monitor\<close>

lemma set_blocking_request:
  assumes "handle_request (node_io env pe) (WSetBlocking b) cx multi v = (v', r)" "nd_alive v"
  shows "v' = v\<lparr> nd_state := (nd_state v)\<lparr> ws_blocked := b \<rparr> \<rparr> \<and> (\<exists>s. r = Ok s)"
  using assms
  by (auto simp: handle_request_def then_reply_def set_blocked_watch_def expect_empty_def expect_resp_def act_bind_def
      act_of_def act_ret_def reply_def node_io_simps node_mgr_def mgr_handle_def)

text \<open>C26: once it knows a worker, the monitor brings it up to date with one step after any number of
  changes: the worker then holds back exactly when the counter of its server is not zero, and
  nothing else of it has changed.\<close>

theorem monitor_tells:
  assumes "mn_worker mn = Some x" and "ss_changes (sn_state w) \<noteq> mn_seen mn"
    and "reachable_at ce (sn_net w) (aw_exec x)" and "node_at (sn_net w) (conn (aw_exec x)) = Some v"
    and "nd_alive v" and "monitor_step (server_net_io env ce base) free mn w = (w', mn')"
  shows "sn_state w' = sn_state w \<and> mn_seen mn' = ss_changes (sn_state w)
    \<and> node_at (sn_net w') = (node_at (sn_net w))(conn (aw_exec x) \<mapsto>
        v\<lparr> nd_state := (nd_state v)\<lparr> ws_blocked := (ss_blocked (sn_state w) \<noteq> 0) \<rparr> \<rparr>)"
proof -
  let ?b = "ss_blocked (sn_state w) \<noteq> 0"
  have "common_req (WSetBlocking ?b)" by (simp add: common_req_def)
  obtain w1 q where q: "ask_worker (server_net_io env ce base) x (WSetBlocking ?b) w = (w1, q)" by fastforce
  with assms(1,2,6) have w': "w' = w1" "mn' = mn\<lparr> mn_seen := ss_changes (sn_state w) \<rparr>"
    by (simp_all add: monitor_step_def Let_def)
  from ask_worker_net [OF assms(3) \<open>common_req _\<close> assms(4) q] obtain cx v' r' where
    h: "handle_request (node_io env (ne_peers ce (conn (aw_exec x)))) (WSetBlocking ?b) cx None v = (v', r')"
    and "sn_state w1 = sn_state w" "node_at (sn_net w1) = (node_at (sn_net w))(conn (aw_exec x) \<mapsto> v')" by blast
  with set_blocking_request [OF h assms(5)] w' show ?thesis by simp
qed

text \<open>A monitor that started before its server had a worker takes note of the first change
  without telling anyone: the first blocking client counts, and the worker goes on as before.\<close>

lemma first_block_unheard:
  assumes "mn_worker mn = None" and "mn_seen mn = ss_changes (sn_state w)"
    and "\<not> sc_require_auth (ss_config (sn_state w))" and "rr_is_blocking req"
    and "handle_message (server_net_io env ce base) None addr (MsRegisterClientRequest req) stream bytes w = (w1, Ok a)"
    and "monitor_step (server_net_io env ce base) True mn w1 = (w2, mn')"
  shows "ss_blocked (sn_state w2) = ss_blocked (sn_state w) + 1 \<and> node_at (sn_net w2) = node_at (sn_net w)
    \<and> mn_worker mn' = ss_worker (sn_state w)
    \<and> monitor_step (server_net_io env ce base) free mn' w2 = (w2, mn')"
  using assms
  by (auto simp: handle_message_def register_client_def authorize_def read_server_def act_simps on_outside_def
      server_net_io_def act_bind_Ok_iff raise_blocked_def modify_server_def act_ret_def monitor_step_def Let_def
      split: if_splits)

definition open_server :: "(string, entity) kv net server_node" where
  "open_server = (strict_server (ln_net sample_cluster))\<lparr> sn_state :=
     (sn_state (strict_server (ln_net sample_cluster)))\<lparr> ss_config := default_server_config True False False \<rparr> \<rparr>"

definition server_monitor :: monitor where
  "server_monitor = \<lparr> mn_seen = 0, mn_worker = None \<rparr>"

text \<open>The monitor of such a server after it has looked at its worker, and a second blocking client.\<close>

theorem monitor_tells_witness:
  "\<exists>w'. fst (monitor_step (server_net_io list_env sample_net_env idle_io) True
         (server_monitor\<lparr> mn_worker := Some \<lparr> aw_exec = Local 3, aw_server_id = 1 \<rparr> \<rparr>)
         (open_server\<lparr> sn_state := (sn_state open_server)\<lparr> ss_blocked := 2, ss_changes := 2 \<rparr> \<rparr>)) = w'
     \<and> node_at (sn_net w') 3 = Some (sample_node\<lparr> nd_state := sample_worker\<lparr> ws_blocked := True \<rparr> \<rparr>)"
proof -
  let ?x = "\<lparr> aw_exec = Local 3, aw_server_id = 1 \<rparr>" and ?si = "server_net_io list_env sample_net_env idle_io"
  let ?mn = "server_monitor\<lparr> mn_worker := Some ?x \<rparr>"
    and ?w = "open_server\<lparr> sn_state := (sn_state open_server)\<lparr> ss_blocked := 2, ss_changes := 2 \<rparr> \<rparr>"
  have n: "sn_net ?w = ln_net sample_cluster" by (simp add: open_server_def strict_server_def)
  have r: "reachable_at sample_net_env (sn_net ?w) (aw_exec ?x)"
    using bspec [OF sample_reachable, of "(6, leader_worker_new 6 (Local 3))"] n by simp
  have v: "node_at (sn_net ?w) (conn (aw_exec ?x)) = Some sample_node" "nd_alive sample_node"
    by (simp_all add: n sample_node_def)
  have mn: "mn_worker ?mn = Some ?x" "ss_changes (sn_state ?w) \<noteq> mn_seen ?mn"
    by (simp_all add: server_monitor_def)
  from monitor_tells [OF mn r v prod.collapse [symmetric], of list_env idle_io True] show ?thesis
    by (simp add: sample_node_def)
qed

section \<open>The data of clients\<close>

lemma set_vars_request:
  assumes "handle_request (node_io env pe) (WSetVars pairs) cx multi v = (v', r)" "nd_alive v"
  shows "(worker_vars (nd_state v'), \<exists>s. r = Ok s) = spec_set_vars (in_memory (nd_state v)) pairs (worker_vars (nd_state v))"
proof -
  obtain st q where m: "mgr_handle env (\<lambda>_ _. map_ok (\<lambda>_. ()) (pe_leader pe (nd_sent v)))
      (secs_of (pe_time pe (nd_sent v))) (pe_fresh pe (nd_sent v)) (MgSetVars pairs) (nd_state v) = (st, q)" by fastforce
  have q: "(\<exists>x. q = Ok x) \<longleftrightarrow> q = Ok MrEmpty"
    using m by (auto simp: mgr_handle_def split: option.splits prod.splits result.splits)
  have "nd_state v' = st \<and> ((\<exists>s. r = Ok s) \<longleftrightarrow> (\<exists>x. q = Ok x))"
    using assms m
    by (cases q) (auto simp: handle_request_def then_reply_def set_vars_of_def act_bind_def act_ret_def reply_def
        node_io_simps node_mgr_def)
  with mgr_set_vars [OF m] q show ?thesis by simp
qed

text \<open>C12: addressed variables a client sends have, on a reachable worker, exactly the effect of the
  specified batch of writes, and are acknowledged exactly when it succeeds; data of any other kind is
  acknowledged and changes nothing.\<close>

theorem client_data_spec:
  assumes "ss_worker (sn_state w) = Some x" and "reachable_at ce (sn_net w) (aw_exec x)"
    and "node_at (sn_net w) (conn (aw_exec x)) = Some v" and "nd_alive v"
    and "handle_message (server_net_io env ce base) (Some i) addr (MsDataPullRequest d) stream bytes w = (w', r)"
  shows "case d of
      PullAddressedVars pairs \<Rightarrow> (\<exists>v'. node_at (sn_net w') = (node_at (sn_net w))(conn (aw_exec x) \<mapsto> v')
        \<and> (worker_vars (nd_state v'), r = Ok (Answer (MsDataPullResponse [])))
          = spec_set_vars (in_memory (nd_state v)) pairs (worker_vars (nd_state v)))
    | _ \<Rightarrow> w' = w \<and> r = Ok (Answer (MsDataPullResponse []))"
proof (cases "\<exists>pairs. d = PullAddressedVars pairs")
  case True
  then obtain pairs where d: "d = PullAddressedVars pairs" by blast
  obtain w1 q where q: "ask_worker (server_net_io env ce base) x (WSetVars pairs) w = (w1, q)" by fastforce
  have "common_req (WSetVars pairs)" by (simp add: common_req_def)
  from ask_worker_net [OF assms(2) this assms(3) q] obtain cx v' r' where
    h: "handle_request (node_io env (ne_peers ce (conn (aw_exec x)))) (WSetVars pairs) cx None v = (v', r')"
    and n: "node_at (sn_net w1) = (node_at (sn_net w))(conn (aw_exec x) \<mapsto> v')"
    and ok: "\<forall>s'. r' = Ok s' \<longrightarrow> q = Ok s'" "(\<forall>s'. r' \<noteq> Ok s') \<longrightarrow> (\<exists>e. q = Err e)" by blast
  have "w' = w1" "r = Ok (Answer (MsDataPullResponse [])) \<longleftrightarrow> (\<exists>s. r' = Ok s)"
    using assms(1,5) d q ok
    by (cases q; auto simp: handle_message_def data_pull_request_def read_server_def act_bind_def act_ret_def)+
  with set_vars_request [OF h assms(4)] n d show ?thesis by auto
next
  case False
  with assms(1,5) show ?thesis
    by (cases d) (auto simp: handle_message_def data_pull_request_def read_server_def act_bind_def act_ret_def)
qed

theorem client_data_spec_witness:
  "\<exists>w' r v'. handle_message (server_net_io list_env sample_net_env idle_io) (Some 7) None
       (MsDataPullRequest (PullAddressedVars [(sample_addr, VInt 9)])) None None open_server = (w', r)
     \<and> r = Ok (Answer (MsDataPullResponse [])) \<and> node_at (sn_net w') 3 = Some v'
     \<and> worker_vars (nd_state v') (key_of sample_addr) = Some (VInt 9)"
proof -
  let ?x = "\<lparr> aw_exec = Local 3, aw_server_id = 1 \<rparr>" and ?d = "PullAddressedVars [(sample_addr, VInt 9)]"
  have n: "sn_net open_server = ln_net sample_cluster" "ss_worker (sn_state open_server) = Some ?x"
    by (simp_all add: open_server_def strict_server_def server_spawn_def)
  have r: "reachable_at sample_net_env (sn_net open_server) (aw_exec ?x)"
    using bspec [OF sample_reachable, of "(6, leader_worker_new 6 (Local 3))"] n by simp
  have v: "node_at (sn_net open_server) (conn (aw_exec ?x)) = Some sample_node" "nd_alive sample_node"
    by (simp_all add: n sample_node_def)
  have "spec_set_vars (in_memory (nd_state sample_node)) [(sample_addr, VInt 9)] (worker_vars (nd_state sample_node))
      = ((worker_vars (nd_state sample_node))(key_of sample_addr \<mapsto> VInt 9), True)"
    by (simp add: sample_node_def sample_worker_def in_memory_def part_knows_def worker_vars_def part_vars_def stored_def
        sample_entity_def key_of_def sample_addr_def address_storage_index_def)
  moreover obtain w' r' where h: "handle_message (server_net_io list_env sample_net_env idle_io) (Some 7) None
       (MsDataPullRequest ?d) None None open_server = (w', r')" by fastforce
  moreover note client_data_spec [OF n(2) r v h, unfolded pull_data.case]
  ultimately show ?thesis by (metis conn.simps(1) attached_worker.select_convs(1) fun_upd_same prod.inject)
qed

end
