(* ===== verification/GrpcFacts.thy ===== *)
theory GrpcFacts
  imports GrpcClients ServedWorkers
begin

text \<open>
  What survives the gRPC messages of a server, and what a client of it is not told.
\<close>

section \<open>Values\<close>

text \<open>A value as the program builds it: every map is in the order of its keys.\<close>

fun var_sorted :: "var \<Rightarrow> bool" where
  "var_sorted (VList l) \<longleftrightarrow> (\<forall>v \<in> set l. var_sorted v)"
| "var_sorted (VGrid g) \<longleftrightarrow> (\<forall>l \<in> set g. \<forall>v \<in> set l. var_sorted v)"
| "var_sorted (VMap m) \<longleftrightarrow> sorted_wrt (<) (map fst m) \<and> (\<forall>(k, v) \<in> set m. var_sorted v)"
| "var_sorted _ \<longleftrightarrow> True"

lemma btree_insert_last: "\<forall>k' \<in> set (map fst m). k' < k \<Longrightarrow> btree_insert k v m = m @ [(k, v)]"
  by (induction k v m rule: btree_insert.induct) auto

lemma btree_of_sorted: "sorted_wrt (<) (map fst m) \<Longrightarrow> btree_of m = m"
proof -
  have "sorted_wrt (<) (map fst (m @ xs)) \<Longrightarrow> foldl (\<lambda>m (k, v). btree_insert k v m) m xs = m @ xs"
    for m xs :: "('a \<times> 'b) list"
  proof (induction xs arbitrary: m)
    case (Cons x xs)
    obtain k v where x: "x = (k, v)" by fastforce
    from Cons.prems have "\<forall>k' \<in> set (map fst m). k' < k" by (auto simp: x sorted_wrt_append)
    with Cons.IH [of "m @ [(k, v)]"] Cons.prems show ?case by (simp add: x btree_insert_last)
  qed simp
  from this [of "[]" m] show "sorted_wrt (<) (map fst m) \<Longrightarrow> btree_of m = m" by (simp add: btree_of_def)
qed

lemma res_map_map_Ok: "(\<And>x. x \<in> set xs \<Longrightarrow> f (g x) = Ok x) \<Longrightarrow> res_map f (map g xs) = Ok xs"
  by (induction xs) auto

lemma var_proto_roundtrip: "var_sorted v \<Longrightarrow> var_of_proto (var_to_proto v) = Ok v"
proof (induction v rule: var_sorted.induct)
  case (1 l)
  then show ?case by (simp add: res_map_map_Ok)
next
  case (2 g)
  then show ?case by (simp add: res_map_map_Ok)
next
  case (3 m)
  then have "res_map (\<lambda>(k, v). case v of None \<Rightarrow> Err (FailedConversion ''Missing value in VarValueMapEntry'')
      | Some v \<Rightarrow> map_ok (Pair k) (var_of_proto v)) (map (\<lambda>(k, v). (k, Some (var_to_proto v))) m) = Ok m"
    by (intro res_map_map_Ok) auto
  with 3 show ?case by (simp add: btree_of_sorted)
qed simp_all

lemma entries_of_proto:
  assumes "kv_wf (done @ m)" "\<forall>(a, v) \<in> set m. address_ok a \<and> var_sorted v"
  shows "res_foldl entry_of_proto done (map (\<lambda>(a, v). (address_to_string a, Some (var_to_proto v))) m)
    = Ok (done @ m)"
  using assms
proof (induction m arbitrary: "done")
  case (Cons x m)
  obtain a v where x: "x = (a, v)" by fastforce
  have fresh: "kv_insert a v done = done @ [(a, v)]"
    using Cons.prems(1) by (intro kv_insert_fresh) (auto simp: x kv_wf_def)
  from Cons.IH [of "done @ [(a, v)]"] Cons.prems fresh show ?case
    by (simp add: x entry_of_proto_def addr_codec.parse_print var_proto_roundtrip)
qed simp

text \<open>What has a message: values in any number, each address once and printable.\<close>

definition sendable :: "query_product \<Rightarrow> bool" where
  "sendable p \<longleftrightarrow>
    (case p of
       PVar vs \<Rightarrow> list_all var_sorted vs
     | PAddressedVar m \<Rightarrow> kv_wf m \<and> list_all (\<lambda>(a, v). address_ok a \<and> var_sorted v) m
     | _ \<Rightarrow> True)"


definition sample_product :: query_product where
  "sample_product = PAddressedVar
     [(\<lparr> a_entity = ''e'', a_comp = ''c'', a_type = TMap, a_var = ''v'' \<rparr>,
       VMap [(''a'', VList [VByte 3, VInt (- 1)]), (''b'', VGrid [[VBool True]])])]"


section \<open>Filters and mappings\<close>

lemma parse_ids_show: "parse_ids (map (\<lambda>i. show_int (uint i)) is) = is"
proof (induction "is")
  case (Cons i "is")
  have "uint i < 2 ^ 32" by (rule less_le_trans [OF uint_lt2p]) simp
  then have "parse_int 0 4294967295 (show_int (uint i)) = Ok (uint i)"
    by (intro parse_show_nonneg) simp_all
  with Cons show ?case by (simp add: parse_ids_def)
qed (simp add: parse_ids_def)

lemma parse_addresses_shown: "list_all address_ok as \<Longrightarrow> parse_addresses (map address_to_string as) = Ok as"
  by (induction "as") (simp_all add: addr_codec.parse_print)

lemma simple_type_roundtrip:
  "t \<in> {TString, TInt, TFloat, TBool, TByte, TVec2, TVec3, TList, TGrid, TMap} \<Longrightarrow> simple_type_of (simple_type_name t) = t"
  by (auto simp: simple_type_of_def simple_type_name_def)

text \<open>
  What a filter without distances becomes on its way: the bounds of a range are text, and the node
  zero is no node.
\<close>

definition filter_received :: "(string \<Rightarrow> bool) \<Rightarrow> query_filter \<Rightarrow> query_filter" where
  "filter_received uesc f =
    (case f of
       VarRange a lo hi \<Rightarrow> VarRange a (VString (var_to_string uesc lo)) (VString (var_to_string uesc hi))
     | AttrRange a lo hi \<Rightarrow> AttrRange a (VString (var_to_string uesc lo)) (VString (var_to_string uesc hi))
     | FNode (NodeLocal v) \<Rightarrow> FNode (NodeLocal (if v = Some 0 then None else v))
     | FNode (NodeRemote v) \<Rightarrow> FNode (NodeRemote (if v = Some 0 then None else v))
     | _ \<Rightarrow> f)"

definition filter_sendable :: "query_filter \<Rightarrow> bool" where
  "filter_sendable f \<longleftrightarrow>
    (case f of VarRange a _ _ \<Rightarrow> local_address_ok a | Distance _ _ _ _ _ _ \<Rightarrow> False
     | DistanceMultiPoint _ \<Rightarrow> False | _ \<Rightarrow> True)"

definition map_sendable :: "query_map \<Rightarrow> bool" where
  "map_sendable m \<longleftrightarrow>
    (case m of
       SelectAddrs as \<Rightarrow> list_all address_ok as
     | MVarType t \<Rightarrow> t \<in> {TString, TInt, TFloat, TBool, TByte, TVec2, TVec3, TList, TGrid, TMap}
     | _ \<Rightarrow> True)"

lemma filter_proto_roundtrip:
  "filter_sendable f \<Longrightarrow> filter_of_proto (filter_to_proto uesc f) = Ok (filter_received uesc f)"
  by (auto simp: filter_sendable_def filter_to_proto_def filter_of_proto_def filter_received_def
      parse_ids_show local_address_or_default_def local_codec.parse_print
      split: query_filter.splits node_filter.splits option.splits)

lemma map_proto_roundtrip: "map_sendable m \<Longrightarrow> map_of_proto (map_to_proto m) = Ok m"
  by (auto simp: map_sendable_def map_to_proto_def map_of_proto_def parse_addresses_shown
      simple_type_roundtrip split: query_map.splits)



section \<open>What a client is told\<close>

lemma not_registered:
  assumes "\<forall>c \<in> set (map snd (ss_clients (sn_state w))). cv_addr c \<noteq> Some addr"
  shows "find_client si (LinkAddress addr) (sn_state w) = (Bincode, None)"
proof -
  have "find (\<lambda>(_, c). cv_addr c = Some addr) (ss_clients (sn_state w)) = None"
    using assms by (auto simp: find_None_iff)
  then show ?thesis by (simp add: find_client_def)
qed

text \<open>What a server refuses looks like a success on its gRPC face.  A query
  from an address that is not registered is answered with the empty product, and a registration
  without credentials at a server that requires them with a registration of the empty identifier;
  the server is left as it was.\<close>

lemma grpc_hides_errors:
  assumes "\<forall>c \<in> set (map snd (ss_clients (sn_state w))). cv_addr c \<noteq> Some addr"
  shows "query_message q = Ok m \<Longrightarrow> grpc_query si addr q w = (w, Ok (Some PpEmpty))"
    and "\<lbrakk> sc_require_auth (ss_config (sn_state w)); pr_auth_pair r = None \<rbrakk> \<Longrightarrow>
      grpc_register si addr r w
        = (w, Ok \<lparr> pd_client_id = [], pd_encoding = 3, pd_transport = 1, pd_redirect_to = [] \<rparr>)"
  by (auto simp: grpc_query_def grpc_register_def grpc_call_def handle_client_message_def
      not_registered [OF assms] handle_message_def query_message_def query_answer_def register_message_def
      register_answer_def register_client_def authorize_def read_server_def act_simps act_of_def)

section \<open>The client of the viewer\<close>

text \<open>C16: the viewer takes a refusal for a connection.  It sends no
  credentials; a server that requires them refuses it and stays as it was, and after the next update
  the viewer is connected, with the empty identifier, and every query it then makes succeeds with
  the empty result.\<close>

theorem refused_viewer_connected:
  assumes "sc_require_auth (ss_config (sn_state w))"
    and "\<forall>c \<in> set (map snd (ss_clients (sn_state w))). cv_addr c \<noteq> Some addr"
    and "gl_status cl \<noteq> CsConnecting"
  shows "\<exists>cl1 cl2. resolve (served_channel si addr failed now shown) (connect url cl) w = (w, cl1)
    \<and> update cl1 = Ok cl2 \<and> gl_status cl2 = CsConnected []
    \<and> (\<forall>q m. query_message (Some q) = Ok m \<longrightarrow>
         (\<exists>t info. execute_query cl2 q = Some t
           \<and> query_task (served_channel si addr failed now shown) t w = (w, Ok (QrEmpty, info))
           \<and> qi_status info = QsSuccess))"
proof -
  let ?io = "served_channel si addr failed now shown"
  have "pr_auth_pair viewer_request = None" by (simp add: viewer_request_def)
  from grpc_hides_errors(2) [OF assms(2) assms(1) this]
  have "connect_task ?io url w = (w, Ok ((), CsConnected []))"
    by (simp add: connect_task_def create_native_client_def served_channel_def told_def)
  then have "resolve ?io (connect url cl) w = (w, (connect url cl)\<lparr> gl_promise := Some (Ready (Ok ((), CsConnected []))) \<rparr>)"
    using assms(3) by (simp add: resolve_def connect_def)
  moreover have "query_task ?io ((), q) w = (w, parse_query_product (now w) PpEmpty)"
    if "query_message (Some q) = Ok m" for q m
    using grpc_hides_errors(1) [OF assms(2) that, of si]
    by (simp add: query_task_def served_channel_def told_def)
  ultimately show ?thesis
    using assms(3)
    by (auto simp: update_def connect_def execute_query_def connected_def parse_query_product_def)
qed

theorem refused_viewer_connected_witness:
  "\<exists>cl1 cl2. resolve (served_channel (server_net_io list_env sample_net_env idle_io) ''a'' [] (\<lambda>_. 0) (\<lambda>_. []))
       (connect ''localhost:9000'' grpc_client_new) (strict_server (ln_net sample_cluster))
     = (strict_server (ln_net sample_cluster), cl1) \<and> update cl1 = Ok cl2 \<and> gl_status cl2 = CsConnected []"
proof -
  have "sc_require_auth (ss_config (sn_state (strict_server (ln_net sample_cluster))))"
    "\<forall>c \<in> set (map snd (ss_clients (sn_state (strict_server (ln_net sample_cluster))))). cv_addr c \<noteq> Some ''a''"
    "gl_status (grpc_client_new :: unit grpc_client) \<noteq> CsConnecting"
    by (simp_all add: strict_server_def server_spawn_def grpc_client_new_def)
  from refused_viewer_connected [OF this] show ?thesis by blast
qed

end
