(* ===== verification/Scripts.thy ===== *)
theory Scripts
  imports Commands
begin

text \<open>
  The script processor, \<open>machine/script\<close>: \<open>parser.rs\<close> cuts a text into instructions,
  \<open>preprocessor.rs\<close> runs the directives, and \<open>Logic::from_script\<close> hands the commands that are
  left to \<open>logic_of_prototypes\<close>.  The parser takes \<open>len()\<close>, a number of bytes, as the bound of
  an index into \<open>chars()\<close>; text is kept as UTF-8 bytes, so that mix of units is in the model.
  \<open>shlex::split\<close> is a parameter, and so is the read of a file.
\<close>

section \<open>Text as the standard library reads it\<close>

text \<open>\<open>char::is_whitespace\<close>, \<open>trim\<close>, \<open>trim_end\<close> and \<open>lines\<close>.\<close>

definition is_whitespace :: "string \<Rightarrow> bool" where
  "is_whitespace c = (let n = codepoint c in
     9 \<le> n \<and> n \<le> 13 \<or> n = 32 \<or> n = 133 \<or> n = 160 \<or> n = 5760 \<or> 8192 \<le> n \<and> n \<le> 8202
     \<or> n = 8232 \<or> n = 8233 \<or> n = 8239 \<or> n = 8287 \<or> n = 12288)"

definition trim_start :: "string \<Rightarrow> string" where
  "trim_start s = concat (dropWhile is_whitespace (utf8_chars s))"

definition trim_end :: "string \<Rightarrow> string" where
  "trim_end s = concat (rev (dropWhile is_whitespace (rev (utf8_chars s))))"

definition str_trim :: "string \<Rightarrow> string" where
  "str_trim s = trim_end (trim_start s)"

definition strip_cr :: "string \<Rightarrow> string" where
  "strip_cr l = (if l \<noteq> [] \<and> last l = CHR 0x0D then butlast l else l)"

definition str_lines :: "string \<Rightarrow> string list" where
  "str_lines s =
    (let ps = split_on (CHR 0x0A) s in
     map strip_cr (butlast ps) @ (if last ps = [] then [] else [last ps]))"

text \<open>
  \<open>chars()[i]\<close> and a slice \<open>s[a..b]\<close>: the first counts characters, the second bytes and needs
  both ends on the boundary of a character.
\<close>

definition char_at :: "string \<Rightarrow> nat \<Rightarrow> string machine_result" where
  "char_at s i = (let cs = utf8_chars s in if i < length cs then Ok (cs ! i) else Panic)"

definition is_char_boundary :: "string \<Rightarrow> nat \<Rightarrow> bool" where
  "is_char_boundary s i =
    (i = 0 \<or> i = length s \<or> i < length s \<and> \<not> is_continuation (s ! i))"

definition str_slice :: "string \<Rightarrow> nat \<Rightarrow> nat \<Rightarrow> string machine_result" where
  "str_slice s a b =
    (if a \<le> b \<and> is_char_boundary s a \<and> is_char_boundary s b then Ok (take (b - a) (drop a s))
     else Panic)"

definition slice_from :: "string \<Rightarrow> nat \<Rightarrow> string machine_result" where
  "slice_from s a = str_slice s a (length s)"

section \<open>Instructions\<close>

record directive_prototype =
  dp_name :: "string option"
  dp_arguments :: "string list option"

datatype instruction_type = IDirective directive_prototype | ICommand command_prototype | INone

record instruction =
  in_location :: location_info
  in_type :: instruction_type

section \<open>Values\<close>

text \<open>
  \<open>parse_next_value\<close>: the locals of its loop, one iteration on a character (True when it
  breaks), the loop over \<open>index..end_index\<close>, and the value read off at the end.
\<close>

record value_flags =
  allow_quotes :: bool
  allow_control :: bool
  stop_on_equals :: bool

record value_scan =
  vs_argument :: string
  vs_index :: nat
  vs_in_argument :: bool
  vs_using_quotes :: bool
  vs_in_control :: bool
  vs_found_end :: bool
  vs_variable_prefix :: bool

definition scan_start :: "nat \<Rightarrow> value_scan" where
  "scan_start i =
    \<lparr> vs_argument = [], vs_index = i, vs_in_argument = False, vs_using_quotes = False,
      vs_in_control = False, vs_found_end = False, vs_variable_prefix = False \<rparr>"

definition push_text :: "string \<Rightarrow> value_scan \<Rightarrow> value_scan" where
  "push_text t s = s\<lparr> vs_argument := vs_argument s @ t \<rparr>"

definition control_char ::
  "location_info \<Rightarrow> string \<Rightarrow> value_scan \<Rightarrow> (bool \<times> value_scan) machine_result" where
  "control_char loc c s =
    (let esc = (\<lambda>t. Ok (False, (push_text t s)\<lparr> vs_in_control := False \<rparr>)) in
     if vs_variable_prefix s
     then (if c = ''{''
           then Ok (False, (push_text [CHR 0x5C, CHR ''$'', CHR 0x7B] s)
                     \<lparr> vs_in_control := False, vs_variable_prefix := False \<rparr>)
           else Err (machine_err loc ControlWithoutValidValue))
     else if c = [CHR 0x5C] \<or> c = [CHR 0x22] then esc c
     else if c = ''n'' then esc [CHR 0x0A]
     else if c = ''r'' then esc [CHR 0x0D]
     else if c = ''t'' then esc [CHR 0x09]
     else if c = ''$'' then Ok (False, s\<lparr> vs_variable_prefix := True \<rparr>)
     else Err (machine_err loc ControlWithoutValidValue))"

definition argument_char ::
  "location_info \<Rightarrow> value_flags \<Rightarrow> nat \<Rightarrow> string \<Rightarrow> value_scan
   \<Rightarrow> (bool \<times> value_scan) machine_result" where
  "argument_char loc f end_index c s =
    (if vs_in_control s then control_char loc c s
     else if c = [CHR 0x5C]
     then Ok (False, if allow_control f
                     then s\<lparr> vs_in_control := True, vs_variable_prefix := False \<rparr> else s)
     else if vs_using_quotes s \<and> c = [CHR 0x22] then Ok (True, s\<lparr> vs_found_end := True \<rparr>)
     else if \<not> vs_using_quotes s \<and> (c = '' '' \<or> c = ''#'' \<or> stop_on_equals f \<and> c = ''='')
     then Ok (True, s\<lparr> vs_index := (if c = '' '' \<or> c = ''='' then vs_index s - 1
                                    else if c = ''#'' then end_index else vs_index s),
                       vs_found_end := True \<rparr>)
     else Ok (False, push_text c s))"

definition first_char ::
  "location_info \<Rightarrow> value_flags \<Rightarrow> nat \<Rightarrow> string \<Rightarrow> value_scan
   \<Rightarrow> (bool \<times> value_scan) machine_result" where
  "first_char loc f end_index c s =
    (if c = ''#'' then Ok (True, s\<lparr> vs_index := end_index \<rparr>)
     else if c \<noteq> '' ''
     then (let s1 = s\<lparr> vs_in_argument := True \<rparr> in
           if c = [CHR 0x22]
           then (if allow_quotes f then Ok (False, s1\<lparr> vs_using_quotes := True \<rparr>)
                 else Err (machine_err loc InvalidQuotesLocation))
           else if c = [CHR 0x5C]
           then Ok (False, if allow_control f then s1\<lparr> vs_in_control := True \<rparr> else s1)
           else Ok (False, push_text c s1))
     else Ok (False, s))"

definition value_char ::
  "location_info \<Rightarrow> value_flags \<Rightarrow> nat \<Rightarrow> string \<Rightarrow> value_scan
   \<Rightarrow> (bool \<times> value_scan) machine_result" where
  "value_char loc f end_index c s =
    (if vs_in_argument s then argument_char loc f end_index c s
     else first_char loc f end_index c s)"

fun value_loop ::
  "location_info \<Rightarrow> value_flags \<Rightarrow> string \<Rightarrow> nat \<Rightarrow> value_scan \<Rightarrow> value_scan machine_result"
where
  "value_loop loc f text 0 s = Ok s"
| "value_loop loc f text (Suc n) s =
    res_bind (char_at text (vs_index s)) (\<lambda>c.
    res_bind (value_char loc f (length text) c (s\<lparr> vs_index := vs_index s + 1 \<rparr>)) (\<lambda>(stop, s').
      if stop then Ok s' else value_loop loc f text n s'))"

definition scan_value ::
  "location_info \<Rightarrow> value_scan \<Rightarrow> (nat \<times> string option) machine_result" where
  "scan_value loc s =
    (if vs_in_argument s \<and> \<not> vs_found_end s \<and> (vs_in_control s \<or> vs_using_quotes s)
     then Err (machine_err loc (if vs_in_control s then ControlWithoutValidValue
                                else MissingEndQuotes))
     else if vs_argument s = []
     then Ok (vs_index s, if vs_using_quotes s then Some (vs_argument s) else None)
     else Ok (vs_index s, Some (vs_argument s)))"

definition parse_next_value ::
  "location_info \<Rightarrow> string \<Rightarrow> nat \<Rightarrow> value_flags \<Rightarrow> (nat \<times> string option) machine_result" where
  "parse_next_value loc text start_index f =
    (if length text \<le> start_index then Ok (start_index, None)
     else res_bind (value_loop loc f text (length text - start_index) (scan_start start_index))
            (scan_value loc))"

definition plain_value :: value_flags where
  "plain_value = \<lparr> allow_quotes = False, allow_control = False, stop_on_equals = False \<rparr>"

definition parse_next_argument ::
  "location_info \<Rightarrow> string \<Rightarrow> nat \<Rightarrow> (nat \<times> string option) machine_result" where
  "parse_next_argument loc text start_index =
    parse_next_value loc text start_index
      \<lparr> allow_quotes = True, allow_control = True, stop_on_equals = False \<rparr>"

text \<open>
  \<open>parse_arguments\<close>, which nothing calls since the arguments are read by \<open>shlex\<close>.  Its loop has
  no bound of its own, hence the option: None is a run that does not end.
\<close>

partial_function (option) parse_arguments ::
  "location_info \<Rightarrow> string \<Rightarrow> string list \<Rightarrow> nat \<Rightarrow> string list option machine_result option"
where
  "parse_arguments loc text arguments index =
    (case parse_next_argument loc text index of
       Panic \<Rightarrow> Some Panic
     | Err e \<Rightarrow> Some (Err e)
     | Ok (next_index, argument) \<Rightarrow>
         (case argument of
            None \<Rightarrow> Some (Ok (if arguments = [] then None else Some arguments))
          | Some a \<Rightarrow> parse_arguments loc text (arguments @ [a]) next_index))"

definition parse_arguments_posix ::
  "(string \<Rightarrow> string list option) \<Rightarrow> string \<Rightarrow> nat \<Rightarrow> location_info \<Rightarrow> string list machine_result"
where
  "parse_arguments_posix shlex text start_index loc =
    res_bind (slice_from text start_index) (\<lambda>rest.
      ok_or (machine_err loc MissingEndQuotes) (shlex rest))"

section \<open>Commands and directives\<close>

text \<open>
  \<open>find_tag\<close> looks for \<open>@label\<close> in front of the command; its loop ends at the first character
  that is not a space.
\<close>

definition tag_value ::
  "location_info \<Rightarrow> string \<Rightarrow> nat \<Rightarrow> (nat \<times> string option) machine_result" where
  "tag_value loc text index =
    res_bind (parse_next_value loc text index plain_value) (\<lambda>(next_index, val).
      case val of
        None \<Rightarrow> Ok (next_index, None)
      | Some label \<Rightarrow>
          if label = [] then Err (machine_err loc EmptyTag)
          else Ok (next_index, Some (CHR 0x40 # label)))"

fun tag_loop ::
  "location_info \<Rightarrow> string \<Rightarrow> nat \<Rightarrow> nat \<Rightarrow> (nat \<times> string option) machine_result" where
  "tag_loop loc text 0 index = Ok (index, None)"
| "tag_loop loc text (Suc n) index =
    res_bind (char_at text index) (\<lambda>c.
      if c = [CHR 0x40] then tag_value loc text (index + 1)
      else if c \<noteq> '' '' then Ok (index, None)
      else tag_loop loc text n (index + 1))"

definition find_tag ::
  "location_info \<Rightarrow> string \<Rightarrow> nat \<Rightarrow> (nat \<times> string option) machine_result" where
  "find_tag loc text start_index =
    (if length text \<le> start_index then Ok (start_index, None)
     else tag_loop loc text (length text - start_index) start_index)"

text \<open>
  \<open>find_output_and_command\<close>: the first value is the output variable when the next character
  that is not a space is an equals sign, and the name of the command otherwise.
\<close>

fun equals_loop :: "string \<Rightarrow> nat \<Rightarrow> nat \<Rightarrow> (bool \<times> nat) machine_result" where
  "equals_loop text 0 index = Ok (False, index)"
| "equals_loop text (Suc n) index =
    res_bind (char_at text index) (\<lambda>c.
      if c \<noteq> '' '' then Ok (c = ''='', index + 1) else equals_loop text n (index + 1))"

definition find_output_and_command ::
  "location_info \<Rightarrow> string \<Rightarrow> nat \<Rightarrow> command_prototype
   \<Rightarrow> (nat \<times> command_prototype) machine_result" where
  "find_output_and_command loc text start_index p =
    res_bind (parse_next_value loc text start_index (plain_value\<lparr> stop_on_equals := True \<rparr>))
      (\<lambda>(next_index, val).
        case val of
          None \<Rightarrow> Ok (next_index, p)
        | Some v \<Rightarrow>
            res_bind (equals_loop text (length text - next_index) next_index) (\<lambda>(found, index).
              let p1 = (if found then p\<lparr> cp_output := Some v \<rparr> else p) in
              if cp_output p1 \<noteq> None
              then res_bind (parse_next_value loc text index plain_value) (\<lambda>(next_index', val').
                     case val' of
                       None \<Rightarrow> Ok (index, p1)
                     | Some n \<Rightarrow> Ok (next_index', p1\<lparr> cp_name := Some n \<rparr>))
              else Ok (next_index, p1\<lparr> cp_name := Some v \<rparr>)))"

definition empty_prototype :: command_prototype where
  "empty_prototype = \<lparr> cp_name = None, cp_arguments = None, cp_output = None \<rparr>"

definition parse_command ::
  "(string \<Rightarrow> string list option) \<Rightarrow> string \<Rightarrow> nat \<Rightarrow> location_info \<Rightarrow> instruction machine_result"
where
  "parse_command shlex text start_index loc =
    (if text = [] then Ok \<lparr> in_location = loc, in_type = INone \<rparr>
     else
       res_bind (find_tag loc text start_index) (\<lambda>(index, tag).
       let loc1 = (case tag of Some v \<Rightarrow> loc\<lparr> l_tag := Some (tl v) \<rparr> | None \<Rightarrow> loc) in
       res_bind (find_output_and_command loc1 text index empty_prototype) (\<lambda>(index', p).
       res_bind (parse_arguments_posix shlex text index' loc1) (\<lambda>args.
         Ok \<lparr> in_location = loc1,
              in_type = (if l_tag loc1 = None \<and> cp_output p = None \<and> cp_name p = None then INone
                         else ICommand (p\<lparr> cp_arguments := Some args \<rparr>)) \<rparr>))))"

text \<open>\<open>parse_directive\<close>: the name runs to the first space behind it.\<close>

fun directive_loop :: "string \<Rightarrow> nat \<Rightarrow> nat \<Rightarrow> string \<Rightarrow> (nat \<times> string) machine_result" where
  "directive_loop text 0 index name = Ok (length text, name)"
| "directive_loop text (Suc n) index name =
    res_bind (char_at text index) (\<lambda>c.
      if c = '' ''
      then (if name \<noteq> [] then Ok (index, name) else directive_loop text n (index + 1) name)
      else directive_loop text n (index + 1) (name @ c))"

definition parse_directive ::
  "(string \<Rightarrow> string list option) \<Rightarrow> string \<Rightarrow> nat \<Rightarrow> location_info \<Rightarrow> instruction machine_result"
where
  "parse_directive shlex text start_index loc =
    (if text = [] then Err (machine_err loc NoDirectivePresent)
     else
       res_bind (directive_loop text (length text - start_index) start_index [])
         (\<lambda>(directive_end_index, directive).
         if directive = [] then Err (machine_err loc NoDirectivePresent)
         else res_bind (parse_arguments_posix shlex text directive_end_index loc) (\<lambda>args.
           Ok \<lparr> in_location = loc,
                in_type = IDirective \<lparr> dp_name = Some directive, dp_arguments = Some args \<rparr> \<rparr>)))"

definition parse_line ::
  "(string \<Rightarrow> string list option) \<Rightarrow> string \<Rightarrow> location_info \<Rightarrow> instruction machine_result" where
  "parse_line shlex line loc =
    (let t = str_trim line in
     if t = [] \<or> prefix ''#'' t then Ok \<lparr> in_location = loc, in_type = INone \<rparr>
     else if prefix ''!'' t then parse_directive shlex t 1 loc
     else parse_command shlex t 0 loc)"

section \<open>Scripts\<close>

text \<open>
  \<open>parse_script\<close>: the multi-line text held back and the line it started on, the line counter
  and the instructions so far.  What is held back at the end of the text is never parsed.
\<close>

record script_scan =
  ss_instructions :: "instruction list"
  ss_multiline :: "string option"
  ss_multiline_line :: nat
  ss_line_number :: nat

definition push_instruction :: "instruction \<Rightarrow> script_scan \<Rightarrow> script_scan" where
  "push_instruction i s = s\<lparr> ss_instructions := ss_instructions s @ [i] \<rparr>"

definition parse_into ::
  "(string \<Rightarrow> string list option) \<Rightarrow> location_info \<Rightarrow> script_scan \<Rightarrow> string
   \<Rightarrow> script_scan machine_result" where
  "parse_into shlex loc s line =
    res_bind (parse_line shlex line loc) (\<lambda>i. Ok (push_instruction i s))"

definition parse_whole_line ::
  "(string \<Rightarrow> string list option) \<Rightarrow> location_info \<Rightarrow> string \<Rightarrow> script_scan
   \<Rightarrow> script_scan machine_result" where
  "parse_whole_line shlex loc line s =
    (if prefix ''#'' line then Ok s
     else if CHR 0x3B \<in> set line
     then res_foldl (parse_into shlex loc) s
            (filter (\<lambda>l. l \<noteq> []) (map str_trim (split_on (CHR 0x3B) line)))
     else parse_into shlex loc s line)"

definition script_line ::
  "(string \<Rightarrow> string list option) \<Rightarrow> location_info \<Rightarrow> script_scan \<Rightarrow> string
   \<Rightarrow> script_scan machine_result" where
  "script_line shlex loc s raw =
    (let n = ss_line_number s;
         s1 = s\<lparr> ss_line_number := n + 1 \<rparr>;
         line = (case ss_multiline s of Some m \<Rightarrow> m @ str_trim raw | None \<Rightarrow> str_trim raw) in
     if suffix [CHR 0x5C] (trim_end line)
     then res_bind (str_slice line 0 (length line - 1)) (\<lambda>held.
            Ok (s1\<lparr> ss_multiline_line := (if ss_multiline s = None then n
                                          else ss_multiline_line s),
                    ss_multiline := Some held \<rparr>))
     else if ss_multiline s \<noteq> None
     then parse_whole_line shlex (loc\<lparr> l_source_line := Some (ss_multiline_line s) \<rparr>) line
            (s1\<lparr> ss_multiline := None, ss_multiline_line := 0 \<rparr>)
     else parse_whole_line shlex (loc\<lparr> l_source_line := Some n \<rparr>) line s1)"

definition script_start :: script_scan where
  "script_start =
    \<lparr> ss_instructions = [], ss_multiline = None, ss_multiline_line = 0, ss_line_number = 1 \<rparr>"

definition parse_script ::
  "(string \<Rightarrow> string list option) \<Rightarrow> string \<Rightarrow> location_info \<Rightarrow> instruction list machine_result"
where
  "parse_script shlex text loc =
    map_ok ss_instructions (res_foldl (script_line shlex loc) script_start (str_lines text))"

text \<open>\<open>parse_script_at\<close>: \<open>read\<close> is \<open>util::read_text_file\<close> on the file system, None its error.\<close>

definition parse_script_at ::
  "(string \<Rightarrow> string list option) \<Rightarrow> (string \<Rightarrow> string option) \<Rightarrow> string \<Rightarrow> string
   \<Rightarrow> instruction list machine_result" where
  "parse_script_at shlex read path project =
    (let loc = with_source empty_location project path;
         full = (if project = [] \<or> project = ''/'' then path else project @ ''/'' @ path) in
     res_bind (ok_or (machine_err loc (ErrorReadingFile path)) (read full)) (\<lambda>text.
       parse_script shlex text loc))"

section \<open>The preprocessor\<close>

definition is_directive :: "instruction \<Rightarrow> bool" where
  "is_directive i = (case in_type i of IDirective _ \<Rightarrow> True | _ \<Rightarrow> False)"

definition eliminate_empty :: "instruction list \<Rightarrow> instruction list" where
  "eliminate_empty is = filter (\<lambda>i. in_type i \<noteq> INone) is"

definition eliminate_directives :: "instruction list \<Rightarrow> instruction list" where
  "eliminate_directives is = filter (\<lambda>i. \<not> is_directive i) is"

definition is_include :: "instruction \<Rightarrow> bool" where
  "is_include i =
    (case in_type i of IDirective d \<Rightarrow> dp_name d = Some ''include'' | _ \<Rightarrow> False)"

text \<open>
  The parts of a Unix \<open>Path\<close>, and the two queries \<open>run_includes\<close> unwraps: \<open>parent\<close> is None for
  an empty path and for the root, \<open>file_name\<close> is None unless the last part is a name.
\<close>

datatype path_component = RootDir | CurDir | ParentDir | NormalName string

definition path_components :: "string \<Rightarrow> path_component list" where
  "path_components p =
    (let parts = split_on (CHR ''/'') p in
     (if prefix ''/'' p then [RootDir] else if hd parts = ''.'' then [CurDir] else []) @
     map (\<lambda>c. if c = ''..'' then ParentDir else NormalName c)
       (filter (\<lambda>c. c \<noteq> [] \<and> c \<noteq> ''.'') parts))"

definition has_parent :: "string \<Rightarrow> bool" where
  "has_parent p = (path_components p \<noteq> [] \<and> last (path_components p) \<noteq> RootDir)"

definition has_file_name :: "string \<Rightarrow> bool" where
  "has_file_name p =
    (path_components p \<noteq> []
     \<and> (case last (path_components p) of NormalName _ \<Rightarrow> True | _ \<Rightarrow> False))"

text \<open>
  One turn of \<open>run_includes\<close>: the last include directive is removed and, as the parse of the
  named files is commented out, nothing takes its place.
\<close>

definition last_include :: "instruction list \<Rightarrow> nat option" where
  "last_include is =
    foldl (\<lambda>next (n, i). if is_include i then Some n else next) None (enumerate 0 is)"

definition include_effect :: "instruction \<Rightarrow> unit machine_result" where
  "include_effect i =
    res_bind (expect (l_source (in_location i))) (\<lambda>src.
      if \<not> has_parent src then Panic
      else case in_type i of
             IDirective d \<Rightarrow>
               (case dp_arguments d of
                  Some args \<Rightarrow> if args \<noteq> [] \<and> \<not> has_file_name src then Panic else Ok ()
                | None \<Rightarrow> Ok ())
           | _ \<Rightarrow> Ok ())"

lemma last_include_bound: "last_include is = Some n \<Longrightarrow> n < length is \<and> is_include (is ! n)"
proof (induction "is" arbitrary: n rule: rev_induct)
  case (snoc i "is")
  then show ?case
    by (auto simp: last_include_def enumerate_append_eq nth_append split: if_splits)
qed (simp add: last_include_def)

function run_includes :: "instruction list \<Rightarrow> instruction list machine_result" where
  "run_includes is =
    (case last_include is of
       None \<Rightarrow> Ok is
     | Some n \<Rightarrow>
         res_bind (include_effect (is ! n)) (\<lambda>_. run_includes (take n is @ drop (Suc n) is)))"
  by pat_completeness auto
termination
  by (relation "measure length") (auto dest: last_include_bound)

declare run_includes.simps [simp del]

text \<open>\<open>run_conditionals\<close>: inside the \<open>if\<close> part, inside the \<open>else\<close> part, and what is kept.\<close>

definition directive_err :: "instruction \<Rightarrow> string \<Rightarrow> ('a) machine_result" where
  "directive_err i msg = Err (machine_err (in_location i) (ErrorProcessingDirective msg))"

definition conditional_step ::
  "bool \<times> bool \<times> instruction list \<Rightarrow> instruction \<Rightarrow> (bool \<times> bool \<times> instruction list) machine_result"
where
  "conditional_step = (\<lambda>(in_if, in_else, out) i.
    (case in_type i of
       ICommand _ \<Rightarrow> Ok (in_if, in_else, if \<not> in_if \<and> \<not> in_else then out @ [i] else out)
     | INone \<Rightarrow> Ok (in_if, in_else, out)
     | IDirective d \<Rightarrow>
         res_bind (expect (dp_name d)) (\<lambda>name.
           if name = ''if''
           then (if in_if then directive_err i ''nested `if` directives not supported''
                 else if in_else then directive_err i ''cannot place `if` inside `else` block''
                 else Ok (True, in_else, out))
           else if name = ''else''
           then (if in_if then Ok (False, True, out)
                 else if in_else then directive_err i ''nested `else` directives are not allowed''
                 else directive_err i ''`else` must be declared inside `if` block'')
           else if name = ''endif''
           then (if in_if then Ok (False, in_else, out)
                 else if in_else then Ok (in_if, False, out)
                 else directive_err i ''`endif` without preceding `if`'')
           else Ok (in_if, in_else, if in_if then out else out @ [i]))))"

definition run_conditionals :: "instruction list \<Rightarrow> instruction list machine_result" where
  "run_conditionals is =
    map_ok (\<lambda>(_, _, out). out) (res_foldl conditional_step (False, False, []) is)"

text \<open>
  \<open>run_print\<close>: one turn of its loop gives the new text, or None where it breaks.  The position
  of the space is relative to the dollar sign but used as a position in the whole text.
\<close>

definition print_step ::
  "location_info \<Rightarrow> (string \<times> string) list \<Rightarrow> string \<Rightarrow> string option machine_result" where
  "print_step loc data s =
    (let no_data = (\<lambda>k. Err (machine_err loc (ErrorProcessingDirective (''no data: '' @ k)))) in
     case find_sub [CHR ''$'', CHR 0x7B] s of
       Some st \<Rightarrow>
         (case find_sub [CHR 0x7D] s of
            Some en \<Rightarrow>
              res_bind (str_slice s (st + 2) en) (\<lambda>k.
              res_bind (slice_from s (en + 1)) (\<lambda>rest.
                Ok (Some (take st s @ (case map_of data k of Some v \<Rightarrow> v | None \<Rightarrow> ''ERROR'') @ rest))))
          | None \<Rightarrow> Ok None)
     | None \<Rightarrow>
         (case find_sub ''$'' s of
            None \<Rightarrow> Ok None
          | Some st \<Rightarrow>
              (case find_sub '' '' (drop st s) of
                 Some en \<Rightarrow>
                   res_bind (str_slice s (st + 1) en) (\<lambda>k.
                     case map_of data k of
                       None \<Rightarrow> no_data k
                     | Some v \<Rightarrow> res_bind (slice_from s en) (\<lambda>rest. Ok (Some (take st s @ v @ rest))))
               | None \<Rightarrow>
                   res_bind (slice_from s (st + 1)) (\<lambda>k.
                     case map_of data k of
                       None \<Rightarrow> no_data k
                     | Some v \<Rightarrow> Ok (Some (take st s @ v))))))"

partial_function (option) print_loop ::
  "location_info \<Rightarrow> (string \<times> string) list \<Rightarrow> string \<Rightarrow> string machine_result option" where
  "print_loop loc data s =
    (case print_step loc data s of
       Panic \<Rightarrow> Some Panic
     | Err e \<Rightarrow> Some (Err e)
     | Ok t \<Rightarrow> (case t of None \<Rightarrow> Some (Ok s) | Some s' \<Rightarrow> print_loop loc data s'))"

definition run_print ::
  "directive_prototype \<Rightarrow> (string \<times> string) list \<Rightarrow> location_info \<Rightarrow> unit machine_result option"
where
  "run_print d data loc =
    (case dp_arguments d of
       Some (a # _) \<Rightarrow> map_option (map_ok (\<lambda>_. ())) (print_loop loc data a)
     | _ \<Rightarrow> Some Panic)"

fun run_remaining ::
  "(string \<times> string) list \<Rightarrow> instruction list \<Rightarrow> unit machine_result option" where
  "run_remaining data [] = Some (Ok ())"
| "run_remaining data (i # is) =
    (case in_type i of
       IDirective d \<Rightarrow>
         (case dp_name d of
            None \<Rightarrow> Some Panic
          | Some name \<Rightarrow>
              if name = ''print''
              then (case run_print d data (in_location i) of
                      None \<Rightarrow> None
                    | Some r \<Rightarrow>
                        (case r of Ok _ \<Rightarrow> run_remaining data is
                         | Err e \<Rightarrow> Some (Err e) | Panic \<Rightarrow> Some Panic))
              else run_remaining data is)
     | _ \<Rightarrow> run_remaining data is)"

definition preprocess ::
  "(string \<times> string) list \<Rightarrow> instruction list \<Rightarrow> instruction list machine_result option" where
  "preprocess data is =
    (case res_bind (run_includes (eliminate_empty is)) run_conditionals of
       Ok kept \<Rightarrow>
         map_option (map_ok (\<lambda>_. eliminate_directives kept)) (run_remaining data kept)
     | Err e \<Rightarrow> Some (Err e)
     | Panic \<Rightarrow> Some Panic)"

section \<open>The logic of a script\<close>

text \<open>
  \<open>Logic::from_script\<close>: the errors of the parser and of the preprocessor are unwrapped, those
  of the commands are returned.  The preprocessor is given no data.
\<close>

fun command_prototypes :: "instruction list \<Rightarrow> (command_prototype \<times> location_info) list" where
  "command_prototypes [] = []"
| "command_prototypes (i # is) =
    (case in_type i of
       ICommand p \<Rightarrow> (p, in_location i) # command_prototypes is
     | _ \<Rightarrow> command_prototypes is)"

definition from_script ::
  "(string \<Rightarrow> string list option) \<Rightarrow> script_env \<Rightarrow> string \<Rightarrow> string option
   \<Rightarrow> logic core_result option" where
  "from_script shlex env text path =
    (case parse_script shlex text empty_location of
       Ok is \<Rightarrow>
         map_option (\<lambda>r. res_bind (unwrap r) (\<lambda>kept.
             logic_of_prototypes env path (command_prototypes kept)))
           (preprocess [] is)
     | _ \<Rightarrow> Some Panic)"

end
