(* ===== verification/Loading.thy ===== *)
theory Loading
  imports Scripts
begin

text \<open>
  How a model is read from its files: \<open>model/intermediate.rs\<close> follows the includes of the manifest
  and merges what it finds, \<open>model/mod.rs\<close> and \<open>model/behavior.rs\<close> turn the result into a model.
  The virtual file system, the file system of the machine, the TOML reader and \<open>cargo\<close> are
  parameters, in one record; the crate has its default features (\<open>machine\<close>, \<open>behavior_lua\<close>,
  \<open>behavior_dynlib\<close>, \<open>behavior_wasm\<close>) and the target is Linux.
\<close>

section \<open>Paths\<close>

text \<open>
  \<open>Path\<close> on Unix.  The components are read from the back: empty parts and parts \<open>.\<close> are
  passed over down to \<open>body_start\<close>, the root or a leading \<open>.\<close>.
\<close>

definition leading_dot :: "string \<Rightarrow> bool" where
  "leading_dot p \<longleftrightarrow> p = ''.'' \<or> prefix ''./'' p"

definition body_start :: "string \<Rightarrow> nat" where
  "body_start p = (if prefix ''/'' p \<or> leading_dot p then 1 else 0)"

definition back_piece :: "nat \<Rightarrow> string \<Rightarrow> string" where
  "back_piece start p = rev (takeWhile (\<lambda>c. c \<noteq> CHR ''/'') (rev (drop start p)))"

definition drop_piece :: "nat \<Rightarrow> string \<Rightarrow> string" where
  "drop_piece start p =
    take (length p - length (back_piece start p) - (if CHR ''/'' \<in> set (drop start p) then 1 else 0)) p"

function trim_back :: "nat \<Rightarrow> string \<Rightarrow> string" where
  "trim_back start p =
    (if length p \<le> start then p
     else if back_piece start p = [] \<or> back_piece start p = ''.''
     then trim_back start (drop_piece start p) else p)"
  by pat_completeness auto

lemma drop_piece_shorter:
  assumes "start < length p" shows "length (drop_piece start p) < length p"
proof (cases "CHR ''/'' \<in> set (drop start p)")
  case True
  then show ?thesis using assms by (simp add: drop_piece_def)
next
  case False
  then have "takeWhile (\<lambda>c. c \<noteq> CHR ''/'') (rev (drop start p)) = rev (drop start p)"
    unfolding takeWhile_eq_all_conv set_rev by blast
  then have "back_piece start p = drop start p" unfolding back_piece_def by (metis rev_rev_ident)
  then show ?thesis using assms by (simp add: drop_piece_def)
qed

termination trim_back
  by (relation "measure (\<lambda>(start, p). length p)") (auto intro: drop_piece_shorter)

declare trim_back.simps [simp del]

definition path_parent :: "string \<Rightarrow> string option" where
  "path_parent p =
    (let start = body_start p; q = trim_back start p in
     if start < length q then Some (trim_back start (drop_piece start q))
     else if leading_dot p then Some [] else None)"

definition path_file_name :: "string \<Rightarrow> string option" where
  "path_file_name p =
    (let start = body_start p; q = trim_back start p; n = back_piece start q in
     if start < length q \<and> n \<noteq> ''..'' then Some n else None)"

text \<open>\<open>extension\<close>: behind the last dot of the name, when something stands in front of it.\<close>

definition path_extension :: "string \<Rightarrow> string option" where
  "path_extension p =
    (case path_file_name p of
       None \<Rightarrow> None
     | Some n \<Rightarrow>
         let parts = split_on (CHR ''.'') n in
         if length parts < 2 \<or> join_on (CHR ''.'') (butlast parts) = [] then None
         else Some (last parts))"

definition path_join :: "string \<Rightarrow> string \<Rightarrow> string" where
  "path_join p q =
    (if prefix ''/'' q then q
     else if p = [] \<or> last p = CHR ''/'' then p @ q else p @ CHR ''/'' # q)"

section \<open>The intermediate model\<close>

record im_meta =
  mt_name :: "string option"
  mt_description :: "string option"
  mt_author :: "string option"
  mt_includes :: "string list"

record im_dependency =
  dep_path :: "string option"
  dep_git :: "string option"
  dep_version :: "string option"

record 'n im_scenario =
  is_name :: string
  is_data :: "(string, 'n json) kv"

record im_behavior =
  ib_name :: string
  ib_type :: string
  ib_path :: string
  ib_entry :: string
  ib_lib :: string
  ib_script :: "string option"
  ib_synced :: bool
  ib_debug :: bool
  ib_tracing :: string
  ib_triggers :: "string list"
  ib_targets :: "(string, string list) kv"

text \<open>\<open>Behavior::default\<close>, with the name that \<open>Uuid::new_v4\<close> makes up.\<close>

definition default_im_behavior :: "string \<Rightarrow> im_behavior" where
  "default_im_behavior name =
    \<lparr> ib_name = name, ib_type = [], ib_path = [], ib_entry = [], ib_lib = [], ib_script = None,
      ib_synced = False, ib_debug = False, ib_tracing = [], ib_triggers = [''step''], ib_targets = [] \<rparr>"

record 'n im_model =
  im_meta :: im_meta
  im_dependencies :: "(string, im_dependency) kv"
  im_scenarios :: "'n im_scenario list"
  im_behaviors :: "im_behavior list"
  im_components :: "'n im_component list"
  im_prefabs :: "im_prefab list"
  im_data :: "(string, string) kv"
  im_data_files :: "(string, string) kv"
  im_entities :: "'n im_entity list"

definition meta_merge :: "im_meta \<Rightarrow> im_meta \<Rightarrow> im_meta" where
  "meta_merge self other =
    \<lparr> mt_name = (case mt_name self of None \<Rightarrow> mt_name other | Some n \<Rightarrow> Some n),
      mt_description = (case mt_description self of None \<Rightarrow> mt_description other | Some d \<Rightarrow> Some d),
      mt_author = (case mt_author self of None \<Rightarrow> mt_author other | Some a \<Rightarrow> Some a),
      mt_includes = mt_includes self @ mt_includes other \<rparr>"

definition im_merge :: "'n im_model \<Rightarrow> 'n im_model \<Rightarrow> 'n im_model" where
  "im_merge self other =
    self\<lparr> im_meta := meta_merge (im_meta self) (im_meta other),
          im_scenarios := im_scenarios self @ im_scenarios other,
          im_behaviors := im_behaviors self @ im_behaviors other,
          im_components := im_components self @ im_components other,
          im_prefabs := im_prefabs self @ im_prefabs other,
          im_entities := im_entities self @ im_entities other,
          im_data := foldl (\<lambda>m (k, v). kv_insert k v m) (im_data self) (im_data other) \<rparr>"

section \<open>Reading files\<close>

text \<open>
  The outside: the virtual file system (\<open>read_dir\<close>, \<open>open_file\<close> with all bytes, the same as
  text), \<open>std::fs\<close> as text and as bytes, the TOML reader, the exit of \<open>cargo build\<close> and the
  display of an error.
\<close>

record 'n outside =
  os_read_dir :: "string \<Rightarrow> string list option"
  os_bytes :: "string \<Rightarrow> string core_result"
  os_text :: "string \<Rightarrow> string core_result"
  os_std_text :: "string \<Rightarrow> string core_result"
  os_std_bytes :: "string \<Rightarrow> artifact core_result"
  os_toml :: "string \<Rightarrow> 'n im_model core_result"
  os_cargo :: "string \<Rightarrow> unit core_result"
  os_show_error :: "error \<Rightarrow> string"

definition struct_from_path :: "'n outside \<Rightarrow> string \<Rightarrow> 'n im_model core_result" where
  "struct_from_path os p =
    res_bind (os_bytes os p) (\<lambda>bytes.
    res_bind (expect (path_extension p)) (\<lambda>ext.
      if ext = ''toml'' \<or> ext = ''tml'' then os_toml os bytes else Panic))"

section \<open>Includes\<close>

text \<open>
  An include that ends in \<open>/*\<close> names its directory; a directory adds its entries.  The paths in
  an included file are read from its parent.
\<close>

definition include_dir :: "string \<Rightarrow> string" where
  "include_dir p = (if suffix ''/*'' p then take (length p - 2) p else p)"

definition normalize_behavior :: "string \<Rightarrow> string \<Rightarrow> im_behavior \<Rightarrow> im_behavior" where
  "normalize_behavior include_path parent b =
    (let b1 = (if ib_type b = ''rust''
               then b\<lparr> ib_lib := (if ib_debug b then ''target/debug/lib'' else ''target/release/lib'')
                                  @ ib_name b @ ''.so'' \<rparr>
               else b) in
     if ib_path b1 = []
     then b1\<lparr> ib_path := (if ib_type b1 \<noteq> ''rust'' then include_path
                           else parent @ ''/'' @ ib_path b1),
               ib_lib := parent @ ''/'' @ ib_lib b1 \<rparr>
     else b1\<lparr> ib_lib := parent @ ''/'' @ ib_path b1 @ ''/'' @ ib_lib b1,
               ib_path := parent @ ''/'' @ ib_path b1 \<rparr>)"

text \<open>One turn of the loop: what is merged, if anything, and the includes it adds.\<close>

definition include_step ::
  "'n outside \<Rightarrow> string \<Rightarrow> ('n im_model option \<times> string list) core_result" where
  "include_step os p =
    (case os_read_dir os (include_dir p) of
       Some entries \<Rightarrow> Ok (None, map (path_join (include_dir p)) entries)
     | None \<Rightarrow>
         res_bind (map_err (\<lambda>e. Other (''unable to read include at `'' @ p @ ''`: '' @ os_show_error os e))
                     (struct_from_path os p)) (\<lambda>im.
         res_bind (expect (path_parent p)) (\<lambda>parent.
           let incs = map (path_join parent) (mt_includes (im_meta im)) in
           Ok (Some (im\<lparr> im_meta := (im_meta im)\<lparr> mt_includes := incs \<rparr>,
                          im_behaviors := map (normalize_behavior p parent) (im_behaviors im) \<rparr>),
               incs))))"

definition merge_step :: "'n im_model \<Rightarrow> 'n im_model option \<Rightarrow> 'n im_model" where
  "merge_step m found = (case found of None \<Rightarrow> m | Some i \<Rightarrow> im_merge m i)"

partial_function (option) include_loop ::
  "'n outside \<Rightarrow> 'n im_model \<Rightarrow> string list \<Rightarrow> 'n im_model core_result option" where
  "include_loop os m todo =
    (if todo = [] then Some (Ok m)
     else case include_step os (last todo) of
            Panic \<Rightarrow> Some Panic
          | Err e \<Rightarrow> Some (Err e)
          | Ok found \<Rightarrow> include_loop os (merge_step m (fst found)) (butlast todo @ snd found))"

definition manifest_file :: string where
  "manifest_file = ''model.toml''"

definition im_from_files :: "'n outside \<Rightarrow> 'n im_model core_result option" where
  "im_from_files os =
    (case struct_from_path os manifest_file of
       Ok m \<Rightarrow> include_loop os m (mt_includes (im_meta m))
     | Err e \<Rightarrow> Some (Err e)
     | Panic \<Rightarrow> Some Panic)"

section \<open>Behaviors\<close>

type_synonym script_reader = "string \<Rightarrow> string option \<Rightarrow> logic core_result option"

text \<open>
  \<open>Behavior::from_intermediate\<close>: what drives the behavior, by its type or else by its path and
  script.  None where \<open>Logic::from_script\<close> does not return.
\<close>

definition lua_inner :: "'n outside \<Rightarrow> im_behavior \<Rightarrow> logic behavior_inner core_result" where
  "lua_inner os b =
    (case ib_script b of
       Some script \<Rightarrow> Ok (BLua (ib_synced b) script)
     | None \<Rightarrow> map_ok (BLua (ib_synced b)) (os_text os (ib_path b)))"

definition machine_inner ::
  "script_reader \<Rightarrow> 'n outside \<Rightarrow> im_behavior \<Rightarrow> logic behavior_inner core_result option" where
  "machine_inner read os b =
    (case (case ib_script b of Some s \<Rightarrow> Ok s | None \<Rightarrow> os_std_text os (ib_path b)) of
       Ok s \<Rightarrow> map_option (map_ok (BMachine s)) (read s (Some (ib_path b)))
     | Err e \<Rightarrow> Some (Err e)
     | Panic \<Rightarrow> Some Panic)"

definition rust_inner :: "'n outside \<Rightarrow> im_behavior \<Rightarrow> logic behavior_inner core_result" where
  "rust_inner os b =
    res_bind (os_cargo os (ib_path b @ ''/Cargo.toml'')) (\<lambda>_.
    map_ok (\<lambda>a. BDynlib a (ib_entry b) (ib_synced b) (ib_debug b)) (os_std_bytes os (ib_lib b)))"

definition wasm_inner :: "'n outside \<Rightarrow> im_behavior \<Rightarrow> logic behavior_inner core_result" where
  "wasm_inner os b = map_ok (\<lambda>a. BWasm a (ib_synced b) (ib_debug b)) (os_std_bytes os (ib_lib b))"

definition untyped_inner :: "'n outside \<Rightarrow> im_behavior \<Rightarrow> logic behavior_inner core_result" where
  "untyped_inner os b =
    (if str_contains ''.lua'' (ib_path b) then lua_inner os b
     else case ib_script b of
            Some script \<Rightarrow> Ok (BLua (ib_synced b) script)
          | None \<Rightarrow> Err (Other (''unrecognized behavior type: '' @ ib_type b @ '' ['' @ ib_path b @ '']'')))"

definition inner_of_im ::
  "script_reader \<Rightarrow> 'n outside \<Rightarrow> im_behavior \<Rightarrow> logic behavior_inner core_result option" where
  "inner_of_im read os b =
    (if ib_type b = ''lua'' then Some (lua_inner os b)
     else if ib_type b = ''machine'' then machine_inner read os b
     else if ib_type b = ''rust'' then Some (rust_inner os b)
     else if ib_type b = ''wasm'' then Some (wasm_inner os b)
     else Some (untyped_inner os b))"

definition target_of_im ::
  "instancing_target list \<Rightarrow> string \<times> string list \<Rightarrow> instancing_target list core_result" where
  "target_of_im ts = (\<lambda>(key, values).
    if key = ''global'' then Ok (ts @ [GlobalSingleton])
    else if key = ''worker'' then Ok (if ''all'' \<in> set values then ts @ [PerWorker] else ts)
    else if key = ''components'' then Ok (ts @ [PerEntityWithAllComponents values])
    else Panic)"

definition behavior_of_im ::
  "script_reader \<Rightarrow> 'n outside \<Rightarrow> im_behavior \<Rightarrow> logic behavior core_result option" where
  "behavior_of_im read os b =
    map_option (\<lambda>r. res_bind r (\<lambda>inner.
        map_ok (\<lambda>ts. \<lparr> bh_name = ib_name b, bh_triggers = ib_triggers b, bh_targets = ts,
                       bh_tracing = ib_tracing b, bh_inner = inner \<rparr>)
          (res_foldl target_of_im [] (ib_targets b))))
      (inner_of_im read os b)"

fun behaviors_of_im ::
  "script_reader \<Rightarrow> 'n outside \<Rightarrow> im_behavior list \<Rightarrow> logic behavior list core_result option" where
  "behaviors_of_im read os [] = Some (Ok [])"
| "behaviors_of_im read os (b # bs) =
    (case behavior_of_im read os b of
       None \<Rightarrow> None
     | Some r \<Rightarrow>
         (case r of
            Ok x \<Rightarrow> map_option (map_ok (Cons x)) (behaviors_of_im read os bs)
          | Err e \<Rightarrow> Some (Err e)
          | Panic \<Rightarrow> Some Panic))"

section \<open>The model\<close>

text \<open>\<open>Model::from_intermediate\<close>: dependencies, data and data files are not carried over.\<close>

definition model_of_im ::
  "'n number_ops \<Rightarrow> script_reader \<Rightarrow> 'n outside \<Rightarrow> 'n im_model \<Rightarrow> logic model core_result option" where
  "model_of_im nops read os im =
    (case res_bind (res_map (component_of_intermediate nops) (im_components im)) (\<lambda>cs.
            map_ok (\<lambda>ps. (cs, ps)) (res_map prefab_from_im (im_prefabs im))) of
       Ok (cs, ps) \<Rightarrow>
         map_option (\<lambda>r. res_bind r (\<lambda>bs.
             map_ok (\<lambda>es. default_model\<lparr> md_scenarios := map (\<lambda>s. \<lparr> sc_name = is_name s \<rparr>) (im_scenarios im),
                 md_components := cs, md_prefabs := ps, md_behaviors := bs, md_entities := es \<rparr>)
               (res_map (entity_of_intermediate nops) (im_entities im))))
           (behaviors_of_im read os (im_behaviors im))
     | Err e \<Rightarrow> Some (Err e)
     | Panic \<Rightarrow> Some Panic)"

definition model_from_files ::
  "'n number_ops \<Rightarrow> script_reader \<Rightarrow> 'n outside \<Rightarrow> logic model core_result option" where
  "model_from_files nops read os =
    (case im_from_files os of
       None \<Rightarrow> None
     | Some r \<Rightarrow>
         (case r of
            Ok im \<Rightarrow> model_of_im nops read os im
          | Err e \<Rightarrow> Some (Err e)
          | Panic \<Rightarrow> Some Panic))"

end
