(* ===== verification/ScriptFacts.thy ===== *)
theory ScriptFacts
  imports Scripts
begin

text \<open>
  What the script processor does with the texts it is given.
\<close>

section \<open>ASCII src\<close>

definition ascii :: "string \<Rightarrow> bool" where
  "ascii s \<longleftrightarrow> (\<forall>c \<in> set s. (of_char c :: nat) < 128)"

lemma ascii_simps [simp]:
  "ascii []" "ascii (c # s) \<longleftrightarrow> (of_char c :: nat) < 128 \<and> ascii s"
  "ascii (s @ t) \<longleftrightarrow> ascii s \<and> ascii t"
  by (auto simp: ascii_def)

lemma ascii_chars: "ascii s \<Longrightarrow> utf8_chars s = map (\<lambda>c. [c]) s"
  by (simp add: ascii_def utf8_chars_ascii)

lemma ascii_char_at: "ascii s \<Longrightarrow> char_at s i = (if i < length s then Ok [s ! i] else Panic)"
  by (simp add: char_at_def ascii_chars)

lemma ascii_char_next: "\<lbrakk> ascii s; drop i s = c # r \<rbrakk> \<Longrightarrow> char_at s i = Ok [c]"
  by (metis ascii_char_at drop_all list.distinct(1) not_le nth_via_drop)

lemma drop_next: "drop i s = c # r \<Longrightarrow> drop (Suc i) s = r"
  by (metis drop_Suc list.sel(3) tl_drop)

lemma ascii_boundary: "\<lbrakk> ascii s; i \<le> length s \<rbrakk> \<Longrightarrow> is_char_boundary s i"
  by (auto simp: is_char_boundary_def ascii_def is_continuation_def Let_def not_le)

lemma ascii_slice:
  "\<lbrakk> ascii s; a \<le> b; b \<le> length s \<rbrakk> \<Longrightarrow> str_slice s a b = Ok (take (b - a) (drop a s))"
  by (simp add: str_slice_def ascii_boundary)

lemma ascii_slice_from: "\<lbrakk> ascii s; a \<le> length s \<rbrakk> \<Longrightarrow> slice_from s a = Ok (drop a s)"
  by (simp add: slice_from_def ascii_slice)

section \<open>Values\<close>

text \<open>
  The reference for a value read without quotes and escapes: skip the spaces, take the word up
  to a space, a comment or, where it counts, an equals sign, drop the backslashes in it.
\<close>

definition word_char :: "bool \<Rightarrow> char \<Rightarrow> bool" where
  "word_char eq c \<longleftrightarrow> c \<noteq> CHR '' '' \<and> c \<noteq> CHR ''#'' \<and> \<not> (eq \<and> c = CHR ''='')"

definition word_end :: "string \<Rightarrow> string \<Rightarrow> nat" where
  "word_end src rest =
    (case rest of c # _ \<Rightarrow> if c = CHR ''#'' then length src else length src - length rest
     | [] \<Rightarrow> length src)"

definition no_backslash :: "string \<Rightarrow> string" where
  "no_backslash w = filter (\<lambda>c. c \<noteq> CHR 0x5C) w"

definition word_value ::
  "location_info \<Rightarrow> bool \<Rightarrow> string \<Rightarrow> string \<Rightarrow> (nat \<times> string option) machine_result" where
  "word_value loc eq src rest =
    (case dropWhile (\<lambda>c. c = CHR '' '') rest of
       [] \<Rightarrow> Ok (length src, None)
     | c # cs \<Rightarrow>
         if c = CHR ''#'' then Ok (length src, None)
         else if c = CHR 0x22 then Err (machine_err loc InvalidQuotesLocation)
         else let w = no_backslash (c # takeWhile (word_char eq) cs) in
              Ok (word_end src (dropWhile (word_char eq) cs), if w = [] then None else Some w))"

definition plain_flags :: "bool \<Rightarrow> value_flags" where
  "plain_flags eq = \<lparr> allow_quotes = False, allow_control = False, stop_on_equals = eq \<rparr>"

lemma word_step:
  assumes "vs_in_argument s" "\<not> vs_in_control s" "\<not> vs_using_quotes s"
  shows "value_char loc (plain_flags eq) n [c] s =
    (if word_char eq c then Ok (False, if c = CHR 0x5C then s else push_text [c] s)
     else Ok (True, s\<lparr> vs_index := (if c = CHR ''#'' then n else vs_index s - 1),
                        vs_found_end := True \<rparr>))"
proof -
  consider "c = CHR '' ''" | "c = CHR ''#''" | "c = CHR ''=''" | "c = CHR 0x5C"
    | "c \<noteq> CHR '' ''" "c \<noteq> CHR ''#''" "c \<noteq> CHR ''=''" "c \<noteq> CHR 0x5C" by blast
  then show ?thesis
    by cases (use assms in \<open>simp_all add: value_char_def argument_char_def word_char_def
        plain_flags_def\<close>)
qed

lemma first_step:
  assumes "\<not> vs_in_argument s" "c \<noteq> CHR '' ''" "c \<noteq> CHR ''#''" "c \<noteq> CHR 0x22"
  shows "value_char loc (plain_flags eq) n [c] s =
    (let t = s\<lparr> vs_in_argument := True \<rparr> in Ok (False, if c = CHR 0x5C then t else push_text [c] t))"
  using assms by (simp add: value_char_def first_char_def plain_flags_def Let_def)

lemma skip_step:
  assumes "\<not> vs_in_argument s"
  shows "value_char loc (plain_flags eq) n '' '' s = Ok (False, s)"
    "value_char loc (plain_flags eq) n ''#'' s = Ok (True, s\<lparr> vs_index := n \<rparr>)"
    "value_char loc (plain_flags eq) n [CHR 0x22] s = Err (machine_err loc InvalidQuotesLocation)"
  using assms by (simp_all add: value_char_def first_char_def plain_flags_def)

definition word_read :: "bool \<Rightarrow> string \<Rightarrow> string \<Rightarrow> value_scan \<Rightarrow> value_scan" where
  "word_read eq src rest s =
    s\<lparr> vs_argument := vs_argument s @ no_backslash (takeWhile (word_char eq) rest),
       vs_index := word_end src (dropWhile (word_char eq) rest),
       vs_found_end := dropWhile (word_char eq) rest \<noteq> [] \<rparr>"

lemma word_read_next:
  "\<lbrakk> word_char eq c; s' = (if c = CHR 0x5C then t else push_text [c] t);
     t = s\<lparr> vs_index := k \<rparr> \<rbrakk>
    \<Longrightarrow> word_read eq src r s' = word_read eq src (c # r) s"
  by (simp add: word_read_def push_text_def no_backslash_def)

lemma value_loop_word:
  assumes "ascii src" "drop (vs_index s) src = rest" "vs_in_argument s" "\<not> vs_in_control s"
    "\<not> vs_using_quotes s" "\<not> vs_found_end s" "vs_index s \<le> length src"
  shows "value_loop loc (plain_flags eq) src (length rest) s = Ok (word_read eq src rest s)"
  using assms(2-)
proof (induction rest arbitrary: s)
  case Nil
  then have "vs_index s = length src" by simp
  with Nil show ?case by (cases s) (simp add: word_read_def no_backslash_def word_end_def)
next
  case (Cons c r)
  let ?s = "s\<lparr> vs_index := Suc (vs_index s) \<rparr>"
  let ?t = "if c = CHR 0x5C then ?s else push_text [c] ?s"
  have c: "char_at src (vs_index s) = Ok [c]" using ascii_char_next [OF assms(1) Cons.prems(1)] .
  have d: "drop (Suc (vs_index s)) src = r" using drop_next [OF Cons.prems(1)] .
  have l: "Suc (vs_index s) \<le> length src" "length src - Suc (length r) = vs_index s"
    using arg_cong [OF Cons.prems(1), of length] by auto
  have step: "value_loop loc (plain_flags eq) src (length (c # r)) s =
      res_bind (value_char loc (plain_flags eq) (length src) [c] ?s) (\<lambda>(stop, s').
        if stop then Ok s' else value_loop loc (plain_flags eq) src (length r) s')"
    by (simp add: c)
  have w: "value_char loc (plain_flags eq) (length src) [c] ?s =
    (if word_char eq c then Ok (False, ?t)
     else Ok (True, ?s\<lparr> vs_index := (if c = CHR ''#'' then length src else vs_index s),
                        vs_found_end := True \<rparr>))"
    using Cons.prems by (subst word_step) simp_all
  show ?case
  proof (cases "word_char eq c")
    case False
    then show ?thesis using l unfolding step w
      by (simp add: word_read_def no_backslash_def word_end_def)
  next
    case True
    have "value_loop loc (plain_flags eq) src (length r) ?t = Ok (word_read eq src r ?t)"
      by (rule Cons.IH) (use Cons.prems d l in \<open>simp_all add: push_text_def\<close>)
    with True word_read_next [OF True refl refl] show ?thesis unfolding step w by simp
  qed
qed

lemma value_loop_skip:
  assumes "ascii src" "drop i src = rest" "i \<le> length src"
  shows "res_bind (value_loop loc (plain_flags eq) src (length rest) (scan_start i)) (scan_value loc)
     = word_value loc eq src rest"
  using assms(2-)
proof (induction rest arbitrary: i)
  case Nil
  then show ?case by (simp add: scan_start_def scan_value_def word_value_def)
next
  case (Cons c r)
  have c: "char_at src i = Ok [c]" using ascii_char_next [OF assms(1) Cons.prems(1)] .
  have d: "drop (Suc i) src = r" using drop_next [OF Cons.prems(1)] .
  have l: "Suc i \<le> length src" using arg_cong [OF Cons.prems(1), of length] by auto
  have step: "value_loop loc (plain_flags eq) src (length (c # r)) (scan_start i) =
      res_bind (value_char loc (plain_flags eq) (length src) [c] (scan_start (Suc i))) (\<lambda>(stop, s').
        if stop then Ok s' else value_loop loc (plain_flags eq) src (length r) s')"
    by (simp add: scan_start_def c)
  have fresh: "\<not> vs_in_argument (scan_start (Suc i))" by (simp add: scan_start_def)
  consider "c = CHR '' ''" | "c = CHR ''#''" | "c = CHR 0x22"
    | "c \<noteq> CHR '' ''" "c \<noteq> CHR ''#''" "c \<noteq> CHR 0x22" by blast
  then show ?case
  proof cases
    case 1
    then show ?thesis using Cons.IH [OF d l] skip_step(1) [OF fresh] unfolding step
      by (simp add: word_value_def)
  next
    case 2
    then show ?thesis using skip_step(2) [OF fresh] unfolding step
      by (simp add: word_value_def scan_value_def scan_start_def)
  next
    case 3
    then show ?thesis using skip_step(3) [OF fresh] unfolding step
      by (simp add: word_value_def)
  next
    case 4
    let ?s = "(scan_start (Suc i))\<lparr> vs_in_argument := True \<rparr>"
    let ?t = "if c = CHR 0x5C then ?s else push_text [c] ?s"
    have v: "value_loop loc (plain_flags eq) src (length r) ?t = Ok (word_read eq src r ?t)"
      by (rule value_loop_word [OF assms(1)])
        (use d l in \<open>simp_all add: push_text_def scan_start_def\<close>)
    have "scan_value loc (word_read eq src r ?t) =
        Ok (word_end src (dropWhile (word_char eq) r),
            let w = no_backslash (c # takeWhile (word_char eq) r) in if w = [] then None else Some w)"
      by (simp add: scan_value_def word_read_def push_text_def scan_start_def no_backslash_def)
    with 4 v first_step [OF fresh 4, of loc eq "length src"] show ?thesis unfolding step
      by (simp add: word_value_def Let_def)
  qed
qed

lemma parse_value_word:
  assumes "ascii src" "i \<le> length src"
  shows "parse_next_value loc src i (plain_flags eq) = word_value loc eq src (drop i src)"
proof (cases "length src \<le> i")
  case True
  then show ?thesis using assms by (simp add: parse_next_value_def word_value_def)
next
  case False
  with value_loop_skip [OF assms(1) refl assms(2), of loc eq] show ?thesis
    by (simp add: parse_next_value_def)
qed

section \<open>Command lines\<close>

text \<open>
  A command line as a script writer lays it out: a tag, an output variable, the name and the
  src of the arguments.  A plain word holds none of the characters that end or change a value.
\<close>

record command_line =
  cl_tag :: "string option"
  cl_output :: "string option"
  cl_name :: string
  cl_arguments :: string

definition printable :: "string \<Rightarrow> bool" where
  "printable s \<longleftrightarrow> (\<forall>c \<in> set s. 32 \<le> (of_char c :: nat) \<and> (of_char c :: nat) < 127)"

definition plain_word :: "string \<Rightarrow> bool" where
  "plain_word w \<longleftrightarrow> w \<noteq> [] \<and> printable w \<and>
     set w \<inter> {CHR '' '', CHR ''#'', CHR ''='', CHR 0x22, CHR 0x5C, CHR 0x3B} = {}"

definition command_word :: "string \<Rightarrow> bool" where
  "command_word w \<longleftrightarrow> plain_word w \<and> hd w \<noteq> CHR ''!'' \<and> hd w \<noteq> CHR 0x40"

definition argument_text :: "string \<Rightarrow> bool" where
  "argument_text a \<longleftrightarrow> printable a \<and> CHR 0x3B \<notin> set a \<and>
     (a \<noteq> [] \<longrightarrow> hd a \<noteq> CHR '' '' \<and> hd a \<noteq> CHR ''='' \<and> last a \<noteq> CHR '' '' \<and> last a \<noteq> CHR 0x5C)"

definition valid_command :: "command_line \<Rightarrow> bool" where
  "valid_command l \<longleftrightarrow>
     (\<forall>t. cl_tag l = Some t \<longrightarrow> plain_word t) \<and> (\<forall>v. cl_output l = Some v \<longrightarrow> command_word v) \<and>
     command_word (cl_name l) \<and> argument_text (cl_arguments l)"

definition spaced :: "string \<Rightarrow> string" where
  "spaced a = (if a = [] then [] else CHR '' '' # a)"

definition print_command :: "command_line \<Rightarrow> string" where
  "print_command l =
    (case cl_tag l of Some t \<Rightarrow> CHR 0x40 # t @ '' '' | None \<Rightarrow> []) @
    (case cl_output l of Some v \<Rightarrow> v @ '' = '' | None \<Rightarrow> []) @
    cl_name l @ spaced (cl_arguments l)"

definition line_prototype :: "string list \<Rightarrow> command_line \<Rightarrow> command_prototype" where
  "line_prototype args l =
    \<lparr> cp_name = Some (cl_name l), cp_arguments = Some args, cp_output = cl_output l \<rparr>"

definition line_location :: "location_info \<Rightarrow> command_line \<Rightarrow> location_info" where
  "line_location loc l = (case cl_tag l of Some t \<Rightarrow> loc\<lparr> l_tag := Some t \<rparr> | None \<Rightarrow> loc)"

lemma printable_simps [simp]:
  "printable []" "printable (c # s) \<longleftrightarrow> 32 \<le> (of_char c :: nat) \<and> (of_char c :: nat) < 127 \<and> printable s"
  "printable (s @ t) \<longleftrightarrow> printable s \<and> printable t"
  by (auto simp: printable_def)

lemma printable_ascii: "printable s \<Longrightarrow> ascii s"
  by (force simp: printable_def ascii_def)

lemma plain_word_chars:
  assumes "plain_word w"
  shows "w \<noteq> []" "ascii w" "\<forall>c \<in> set w. word_char eq c" "no_backslash w = w"
    "hd w \<noteq> CHR '' ''" "hd w \<noteq> CHR ''#''" "hd w \<noteq> CHR 0x22" "hd w \<noteq> CHR ''=''"
proof -
  show "w \<noteq> []" "ascii w" using assms by (simp_all add: plain_word_def printable_ascii)
  have *: "\<forall>c \<in> set w. c \<notin> {CHR '' '', CHR ''#'', CHR ''='', CHR 0x22, CHR 0x5C, CHR 0x3B}"
    using assms unfolding plain_word_def by blast
  then show "\<forall>c \<in> set w. word_char eq c" by (simp add: word_char_def)
  from * show "no_backslash w = w" unfolding no_backslash_def by (intro filter_True) blast
  from * \<open>w \<noteq> []\<close> hd_in_set [of w] show "hd w \<noteq> CHR '' ''" "hd w \<noteq> CHR ''#''" "hd w \<noteq> CHR 0x22"
    "hd w \<noteq> CHR ''=''" by blast+
qed

lemma plain_flags_values:
  "plain_value = plain_flags False" "(plain_flags b)\<lparr> stop_on_equals := True \<rparr> = plain_flags True"
  by (simp_all add: plain_value_def plain_flags_def)

definition word_stops :: "bool \<Rightarrow> string \<Rightarrow> bool" where
  "word_stops eq rest \<longleftrightarrow> rest = [] \<or> hd rest = CHR '' '' \<or> eq \<and> hd rest = CHR ''=''"

lemma word_stops_after:
  "word_stops eq rest \<Longrightarrow> takeWhile (word_char eq) rest = [] \<and> dropWhile (word_char eq) rest = rest
     \<and> (rest = [] \<or> hd rest \<noteq> CHR ''#'')"
proof (cases rest)
  case (Cons c r)
  assume "word_stops eq rest"
  then consider "c = CHR '' ''" | "eq" "c = CHR ''=''" using Cons by (auto simp: word_stops_def)
  then show ?thesis by cases (simp_all add: Cons word_char_def)
qed simp

definition spaces :: "nat \<Rightarrow> string" where
  "spaces k = replicate k (CHR '' '')"

lemma spaces_simps:
  "ascii (spaces k)" "dropWhile (\<lambda>c. c = CHR '' '') (spaces k @ s) = dropWhile (\<lambda>c. c = CHR '' '') s"
  by (induction k) (simp_all add: spaces_def)

lemma read_word:
  assumes "plain_word w" "word_stops eq rest" "sp = spaces k" "ascii pre" "ascii rest"
    and form: "src = pre @ sp @ w @ rest"
  shows "parse_next_value loc src (length pre) (plain_flags eq)
    = Ok (length pre + length sp + length w, Some w)"
proof -
  note w = plain_word_chars [OF assms(1)]
  obtain c cs where cs: "w = c # cs" using w(1) by (cases w) auto
  have sp: "ascii sp" using assms(3) by (simp add: spaces_simps)
  have ascii: "ascii src" using form sp assms(4,5) w(2) by simp
  have skip: "dropWhile (\<lambda>c. c = CHR '' '') (drop (length pre) src) = c # cs @ rest"
    using assms(3) form w(5) by (simp add: spaces_simps cs)
  have cs': "\<forall>c \<in> set cs. word_char eq c" using w(3) [of eq] cs by simp
  have word: "takeWhile (word_char eq) (cs @ rest) = cs"
    "dropWhile (word_char eq) (cs @ rest) = rest"
    using cs' word_stops_after [OF assms(2)] by (simp_all add: takeWhile_append dropWhile_append)
  have e: "word_end src rest = length pre + length sp + length w"
    using word_stops_after [OF assms(2)] form by (cases rest) (simp_all add: word_end_def)
  have c: "c \<noteq> CHR ''#''" "c \<noteq> CHR 0x22" using w(6,7) cs by simp_all
  have v: "parse_next_value loc src (length pre) (plain_flags eq)
      = word_value loc eq src (drop (length pre) src)"
    using ascii form by (simp add: parse_value_word)
  have n: "no_backslash (c # cs) = c # cs" using w(4) cs by simp
  show ?thesis unfolding v word_value_def skip using c cs by (simp add: word n e Let_def)
qed

lemma find_tag_none:
  "\<lbrakk> ascii src; src \<noteq> []; hd src \<noteq> CHR '' ''; hd src \<noteq> CHR 0x40 \<rbrakk> \<Longrightarrow> find_tag loc src 0 = Ok (0, None)"
  by (cases src) (simp_all add: find_tag_def ascii_char_at)

lemma find_tag_some:
  assumes "plain_word t" "word_stops False rest" "ascii rest" "src = CHR 0x40 # t @ rest"
  shows "find_tag loc src 0 = Ok (Suc (length t), Some (CHR 0x40 # t))"
proof -
  have "parse_next_value loc src 1 plain_value = Ok (Suc (length t), Some t)"
    using read_word [OF assms(1,2), of "[]" 0 "[CHR 0x40]" src loc] assms
    by (simp add: plain_flags_values spaces_def)
  moreover have "ascii src" using assms plain_word_chars(2) [OF assms(1)] by simp
  ultimately show ?thesis using assms plain_word_chars(1) [OF assms(1)]
    by (simp add: find_tag_def ascii_char_at tag_value_def)
qed

lemma equals_found:
  assumes "ascii src" "drop i src = CHR '' '' # CHR ''='' # r"
  shows "equals_loop src (length src - i) i = Ok (True, i + 2)"
proof -
  have "length src - i = Suc (Suc (length r))" using arg_cong [OF assms(2), of length] by simp
  then show ?thesis
    using assms ascii_char_next [OF assms(1) drop_next [OF assms(2)]]
    by (simp add: ascii_char_next)
qed

lemma equals_missing:
  assumes "ascii src" "drop i src = spaced a" "argument_text a"
  shows "\<exists>j. equals_loop src (length src - i) i = Ok (False, j)"
proof (cases a)
  case Nil
  then show ?thesis using arg_cong [OF assms(2), of length] by (simp add: spaced_def)
next
  case (Cons c r)
  then have d: "drop i src = CHR '' '' # c # r" using assms by (simp add: spaced_def)
  have "length src - i = Suc (Suc (length r))" using arg_cong [OF d, of length] by simp
  moreover have "c \<noteq> CHR '' ''" "c \<noteq> CHR ''=''" using assms(3) Cons by (simp_all add: argument_text_def)
  ultimately show ?thesis using ascii_char_next [OF assms(1) drop_next [OF d]]
    by (simp add: ascii_char_next [OF assms(1) d])
qed

lemma spaced_stops: "word_stops eq (spaced a)"
  by (simp add: word_stops_def spaced_def)

lemma spaced_ascii: "argument_text a \<Longrightarrow> ascii (spaced a)"
  by (simp add: spaced_def argument_text_def printable_ascii)

lemma find_name:
  assumes "plain_word n" "argument_text a" "sp = spaces k" "ascii pre"
    and form: "src = pre @ sp @ n @ spaced a" and "cp_output p = None"
  shows "find_output_and_command loc src (length pre) p
    = Ok (length pre + length sp + length n, p\<lparr> cp_name := Some n \<rparr>)"
proof -
  have sp: "ascii sp" using assms(3) by (simp add: spaces_simps)
  have ascii: "ascii src"
    using form sp assms(4) plain_word_chars(2) [OF assms(1)] spaced_ascii [OF assms(2)] by simp
  note v = read_word [OF assms(1) spaced_stops assms(3,4) spaced_ascii [OF assms(2)] form, of loc True]
  have d: "drop (length pre + length sp + length n) src = spaced a" by (simp add: form)
  obtain j where "equals_loop src (length src - (length pre + length sp + length n))
      (length pre + length sp + length n) = Ok (False, j)"
    using equals_missing [OF ascii d assms(2)] by blast
  then show ?thesis using assms(6)
    by (simp add: find_output_and_command_def plain_flags_values v)
qed

lemma find_output:
  assumes "plain_word v" "plain_word n" "argument_text a" "sp = spaces k" "ascii pre"
    and form: "src = pre @ sp @ v @ '' = '' @ n @ spaced a"
  shows "find_output_and_command loc src (length pre) p
    = Ok (length pre + length sp + length v + 3 + length n,
          p\<lparr> cp_output := Some v, cp_name := Some n \<rparr>)"
proof -
  let ?i = "length pre + length sp + length v"
  have sp: "ascii sp" using assms(4) by (simp add: spaces_simps)
  have rest: "ascii ('' = '' @ n @ spaced a)"
    using plain_word_chars(2) [OF assms(2)] spaced_ascii [OF assms(3)] by simp
  have ascii: "ascii src"
    using form sp assms(5) plain_word_chars(2) [OF assms(1)] rest by simp
  have stops: "word_stops True ('' = '' @ n @ spaced a)" by (simp add: word_stops_def)
  note first = read_word [OF assms(1) stops assms(4,5) rest form, of loc]
  have d: "drop ?i src = CHR '' '' # CHR ''='' # CHR '' '' # n @ spaced a" by (simp add: form)
  let ?pre = "pre @ sp @ v @ '' =''"
  have pre: "ascii ?pre" using sp assms(5) plain_word_chars(2) [OF assms(1)] by simp
  have form': "src = ?pre @ '' '' @ n @ spaced a" by (simp add: form)
  have "'' '' = spaces 1" by (simp add: spaces_def)
  note second = read_word [OF assms(2) spaced_stops this pre spaced_ascii [OF assms(3)] form',
      of loc False]
  have "length ?pre = ?i + 2" "length ?pre + length '' '' + length n = ?i + 3 + length n" by simp_all
  note second' = second [unfolded this]
  show ?thesis
    by (simp only: find_output_and_command_def plain_flags_values first equals_found [OF ascii d]
        second' res_bind.simps prod.case option.case Let_def if_True) simp
qed

lemma print_command_chars:
  assumes "valid_command l"
  shows "printable (print_command l)" "ascii (print_command l)" "print_command l \<noteq> []"
    "CHR 0x3B \<notin> set (print_command l)" "hd (print_command l) \<notin> {CHR '' '', CHR ''#'', CHR ''!''}"
    "last (print_command l) \<notin> {CHR '' '', CHR 0x5C}"
proof -
  have n: "cl_name l \<noteq> []" "printable (cl_name l)" "CHR 0x3B \<notin> set (cl_name l)"
    "hd (cl_name l) \<notin> {CHR '' '', CHR ''#'', CHR ''!''}"
    using assms plain_word_chars(5,6) [of "cl_name l"]
    by (auto simp: valid_command_def command_word_def plain_word_def)
  have "CHR '' '' \<notin> set (cl_name l)" "CHR 0x5C \<notin> set (cl_name l)"
    using assms by (auto simp: valid_command_def command_word_def plain_word_def)
  with last_in_set [OF n(1)] have l: "last (cl_name l) \<notin> {CHR '' '', CHR 0x5C}" by auto
  have a: "printable (spaced (cl_arguments l))" "CHR 0x3B \<notin> set (spaced (cl_arguments l))"
    "cl_arguments l \<noteq> [] \<longrightarrow> last (spaced (cl_arguments l)) \<notin> {CHR '' '', CHR 0x5C}"
    using assms by (simp_all add: valid_command_def argument_text_def spaced_def)
  have t: "cl_tag l = Some t \<Longrightarrow> printable t \<and> CHR 0x3B \<notin> set t" for t
    using assms by (auto simp: valid_command_def plain_word_def)
  have v: "cl_output l = Some v \<Longrightarrow> printable v \<and> CHR 0x3B \<notin> set v \<and> v \<noteq> []
      \<and> hd v \<notin> {CHR '' '', CHR ''#'', CHR ''!''}" for v
    using assms plain_word_chars(5,6) [of v] by (auto simp: valid_command_def command_word_def plain_word_def)
  show p: "printable (print_command l)"
    using n a t v by (auto simp: print_command_def split: option.splits)
  from p show "ascii (print_command l)" by (rule printable_ascii)
  show "print_command l \<noteq> []" using n by (simp add: print_command_def)
  show "CHR 0x3B \<notin> set (print_command l)"
    using n a t v by (auto simp: print_command_def split: option.splits)
  show "hd (print_command l) \<notin> {CHR '' '', CHR ''#'', CHR ''!''}"
    using n v by (cases "cl_tag l"; cases "cl_output l") (simp_all add: print_command_def)
  show "last (print_command l) \<notin> {CHR '' '', CHR 0x5C}"
    using n(1) l a(3) by (cases "cl_arguments l = []") (simp_all add: print_command_def spaced_def)
qed

lemma printable_not_white: "\<lbrakk> printable [c]; c \<noteq> CHR '' '' \<rbrakk> \<Longrightarrow> \<not> is_whitespace [c]"
proof -
  assume a: "printable [c]" "c \<noteq> CHR '' ''"
  have n: "(of_char c :: int) = int (of_char c :: nat)" by (metis of_nat_of_char)
  have "(of_char (CHR '' '') :: nat) = 32" by simp
  with a(2) have "(of_char c :: nat) \<noteq> 32" by (metis char_of_char)
  with a n show ?thesis by (simp add: is_whitespace_def Let_def)
qed

lemma trim_id:
  assumes "printable s" "s \<noteq> []" "hd s \<noteq> CHR '' ''" "last s \<noteq> CHR '' ''"
  shows "str_trim s = s" "trim_end s = s"
proof -
  note chars = ascii_chars [OF printable_ascii [OF assms(1)]]
  have p: "printable [hd s]" "printable [last s]"
    using assms(1,2) by (auto simp: printable_def dest: hd_in_set last_in_set)
  have "dropWhile is_whitespace (map (\<lambda>c. [c]) s) = map (\<lambda>c. [c]) s"
    using assms(2,3) p printable_not_white [of "hd s"] by (cases s) simp_all
  then have st: "trim_start s = s" by (simp add: trim_start_def chars)
  have "dropWhile is_whitespace (map (\<lambda>c. [c]) (rev s)) = map (\<lambda>c. [c]) (rev s)"
    using assms(2,4) p printable_not_white [of "last s"]
    by (cases s rule: rev_cases) simp_all
  then show e: "trim_end s = s" by (simp add: trim_end_def chars flip: rev_map)
  show "str_trim s = s" by (simp add: str_trim_def st e)
qed

lemma slice_arguments:
  "\<lbrakk> ascii src; drop i src = r; i \<le> length src \<rbrakk>
    \<Longrightarrow> parse_arguments_posix shlex src i loc = ok_or (machine_err loc MissingEndQuotes) (shlex r)"
  by (simp add: parse_arguments_posix_def ascii_slice_from)

definition parsed_command ::
  "(string \<Rightarrow> string list option) \<Rightarrow> location_info \<Rightarrow> command_line \<Rightarrow> instruction machine_result" where
  "parsed_command shlex loc l =
    (case shlex (spaced (cl_arguments l)) of
       Some args \<Rightarrow> Ok \<lparr> in_location = line_location loc l, in_type = ICommand (line_prototype args l) \<rparr>
     | None \<Rightarrow> Err (machine_err (line_location loc l) MissingEndQuotes))"

lemma parse_command_print:
  assumes "valid_command l"
  shows "parse_command shlex (print_command l) 0 loc = parsed_command shlex loc l"
proof -
  let ?s = "print_command l" and ?n = "cl_name l" and ?a = "cl_arguments l"
  note chars = print_command_chars [OF assms]
  have n: "plain_word ?n" "argument_text ?a"
    using assms by (simp_all add: valid_command_def command_word_def)
  have at: "hd ?n \<noteq> CHR 0x40" "?n \<noteq> []"
    using assms by (simp_all add: valid_command_def command_word_def plain_word_def)
  have v: "cl_output l = Some v \<Longrightarrow> plain_word v \<and> hd v \<noteq> CHR 0x40 \<and> v \<noteq> []" for v
    using assms by (simp add: valid_command_def command_word_def plain_word_def)
  define pre where "pre = (case cl_tag l of Some t \<Rightarrow> CHR 0x40 # t | None \<Rightarrow> [])"
  define sp where "sp = (case cl_tag l of Some _ \<Rightarrow> spaces 1 | None \<Rightarrow> spaces 0)"
  obtain k where k: "sp = spaces k" unfolding sp_def by (cases "cl_tag l") auto
  have pre: "ascii pre"
    using assms plain_word_chars(2) by (auto simp: pre_def valid_command_def split: option.splits)
  have tag: "find_tag loc ?s 0 = Ok (length pre, map_option (Cons (CHR 0x40)) (cl_tag l))"
  proof (cases "cl_tag l")
    case None
    have "hd ?s \<noteq> CHR 0x40"
      using None v at by (cases "cl_output l") (simp_all add: print_command_def)
    with find_tag_none [OF chars(2,3)] chars(5) None show ?thesis by (simp add: pre_def)
  next
    case (Some t)
    let ?r = "CHR '' '' # (case cl_output l of Some v \<Rightarrow> v @ '' = '' | None \<Rightarrow> []) @ ?n @ spaced ?a"
    have s: "?s = CHR 0x40 # t @ ?r" using Some by (simp add: print_command_def)
    have "ascii ?r" using chars(2) by (simp add: s)
    moreover have "plain_word t" using assms Some by (simp add: valid_command_def)
    moreover have "word_stops False ?r" by (simp add: word_stops_def)
    ultimately show ?thesis using find_tag_some [OF _ _ _ s] Some by (simp add: pre_def)
  qed
  have src: "?s = pre @ sp @ (case cl_output l of Some v \<Rightarrow> v @ '' = '' | None \<Rightarrow> []) @ ?n @ spaced ?a"
    by (simp add: print_command_def pre_def sp_def spaces_def split: option.splits)
  let ?i = "length ?s - length (spaced ?a)"
  let ?loc = "line_location loc l"
  have name: "find_output_and_command ?loc ?s (length pre) empty_prototype
      = Ok (?i, empty_prototype\<lparr> cp_output := cl_output l, cp_name := Some ?n \<rparr>)"
  proof (cases "cl_output l")
    case None
    with src have s: "?s = pre @ sp @ ?n @ spaced ?a" by simp
    show ?thesis using find_name [OF n k pre s, of empty_prototype ?loc] None
      by (simp add: s empty_prototype_def)
  next
    case (Some v)
    with src have s: "?s = pre @ sp @ v @ '' = '' @ ?n @ spaced ?a" by simp
    show ?thesis using find_output [OF _ n k pre s, of ?loc empty_prototype] Some v
      by (simp add: s)
  qed
  have d: "drop ?i ?s = spaced ?a" by (simp add: src)
  have loc: "(case map_option (Cons (CHR 0x40)) (cl_tag l) of
      Some v \<Rightarrow> loc\<lparr> l_tag := Some (tl v) \<rparr> | None \<Rightarrow> loc) = ?loc"
    by (cases "cl_tag l") (simp_all add: line_location_def)
  have i: "?i \<le> length ?s" by simp
  have "parse_command shlex ?s 0 loc = res_bind (parse_arguments_posix shlex ?s ?i ?loc) (\<lambda>args.
      Ok \<lparr> in_location = ?loc, in_type = ICommand (line_prototype args l) \<rparr>)"
    using chars(3)
    by (simp only: parse_command_def tag res_bind.simps prod.case Let_def loc name if_False)
      (simp add: line_prototype_def empty_prototype_def)
  also have "\<dots> = parsed_command shlex loc l"
    unfolding slice_arguments [OF chars(2) d i]
    by (cases "shlex (spaced ?a)") (simp_all add: parsed_command_def)
  finally show ?thesis .
qed

lemma parse_line_print:
  assumes "valid_command l"
  shows "parse_line shlex (print_command l) loc = parsed_command shlex loc l"
proof -
  note chars = print_command_chars [OF assms]
  have "str_trim (print_command l) = print_command l" using chars by (intro trim_id) auto
  moreover have "\<not> prefix ''#'' (print_command l)" "\<not> prefix ''!'' (print_command l)"
    using chars(5) by (auto simp: prefix_def)
  ultimately show ?thesis
    using chars(3) by (simp add: parse_line_def parse_command_print [OF assms])
qed

section \<open>Scripts\<close>

definition script_text :: "command_line list \<Rightarrow> string" where
  "script_text ls = join_on (CHR 0x0A) (map print_command ls)"

definition on_line :: "nat \<Rightarrow> location_info" where
  "on_line n = empty_location\<lparr> l_source_line := Some n \<rparr>"

lemma printable_no_newline:
  assumes "printable s" shows "CHR 0x0A \<notin> set s" "strip_cr s = s"
proof -
  have *: "c \<in> set s \<Longrightarrow> 32 \<le> (of_char c :: nat)" for c using assms by (simp add: printable_def)
  from * [of "CHR 0x0A"] show "CHR 0x0A \<notin> set s" by auto
  have "CHR 0x0D \<notin> set s" using * [of "CHR 0x0D"] by auto
  then show "strip_cr s = s" using last_in_set [of s] unfolding strip_cr_def by metis
qed

lemma script_lines:
  assumes "\<forall>l \<in> set ls. valid_command l"
  shows "str_lines (script_text ls) = map print_command ls"
proof (cases ls rule: rev_cases)
  case Nil
  then show ?thesis by (simp add: script_text_def str_lines_def)
next
  case (snoc ks k)
  have p: "printable (print_command l)" if "l \<in> set ls" for l
    using print_command_chars(1) assms that by blast
  have "split_on (CHR 0x0A) (script_text ls) = map print_command ls"
    unfolding script_text_def by (rule split_join) (use p snoc in \<open>auto simp: printable_no_newline\<close>)
  moreover have "print_command k \<noteq> []" using print_command_chars(3) assms snoc by simp
  moreover have "map (strip_cr \<circ> print_command) ks = map print_command ks"
    using p snoc by (simp add: printable_no_newline)
  ultimately show ?thesis by (simp add: str_lines_def snoc)
qed

lemma script_line_print:
  assumes "valid_command l" "ss_multiline s = None"
  shows "script_line shlex loc s (print_command l) =
    res_bind (parsed_command shlex (loc\<lparr> l_source_line := Some (ss_line_number s) \<rparr>) l) (\<lambda>i.
      Ok (push_instruction i (s\<lparr> ss_line_number := ss_line_number s + 1 \<rparr>)))"
proof -
  note chars = print_command_chars [OF assms(1)]
  have t: "str_trim (print_command l) = print_command l" "trim_end (print_command l) = print_command l"
    using chars by (auto intro!: trim_id)
  have "\<not> suffix [CHR 0x5C] (print_command l)" using chars(6) by (auto simp: suffix_def)
  moreover have "\<not> prefix ''#'' (print_command l)" using chars(5) by (auto simp: prefix_def)
  ultimately show ?thesis using chars(4)
    by (simp add: script_line_def assms(2) t parse_whole_line_def parse_into_def
        parse_line_print [OF assms(1)] Let_def)
qed

definition numbered_commands ::
  "(string \<Rightarrow> string list option) \<Rightarrow> nat \<Rightarrow> location_info \<Rightarrow> command_line list
   \<Rightarrow> instruction list machine_result" where
  "numbered_commands shlex n loc ls =
    res_map (\<lambda>(i, l). parsed_command shlex (loc\<lparr> l_source_line := Some i \<rparr>) l) (enumerate n ls)"

lemma parse_lines_print:
  assumes "\<forall>l \<in> set ls. valid_command l" "ss_multiline s = None"
  shows "map_ok ss_instructions (res_foldl (script_line shlex loc) s (map print_command ls)) =
    map_ok (\<lambda>is. ss_instructions s @ is) (numbered_commands shlex (ss_line_number s) loc ls)"
  using assms
proof (induction ls arbitrary: s)
  case (Cons l ls)
  let ?r = "parsed_command shlex (loc\<lparr> l_source_line := Some (ss_line_number s) \<rparr>) l"
  have step: "script_line shlex loc s (print_command l) = res_bind ?r (\<lambda>i.
      Ok (push_instruction i (s\<lparr> ss_line_number := ss_line_number s + 1 \<rparr>)))"
    using Cons.prems by (intro script_line_print) simp_all
  show ?case
  proof (cases ?r)
    case (Ok i)
    let ?s = "push_instruction i (s\<lparr> ss_line_number := ss_line_number s + 1 \<rparr>)"
    have "map_ok ss_instructions (res_foldl (script_line shlex loc) ?s (map print_command ls)) =
      map_ok (\<lambda>is. ss_instructions ?s @ is) (numbered_commands shlex (ss_line_number ?s) loc ls)"
      using Cons.prems by (intro Cons.IH) (simp_all add: push_instruction_def)
    with step Ok show ?thesis
      by (cases "numbered_commands shlex (Suc (ss_line_number s)) loc ls")
        (simp_all add: numbered_commands_def push_instruction_def)
  qed (simp_all add: step numbered_commands_def)
qed (simp add: numbered_commands_def)

lemma parse_script_print:
  assumes "\<forall>l \<in> set ls. valid_command l"
  shows "parse_script shlex (script_text ls) loc = numbered_commands shlex 1 loc ls"
  using parse_lines_print [OF assms, of script_start shlex loc]
  by (cases "numbered_commands shlex 1 loc ls")
    (simp_all add: parse_script_def script_lines [OF assms] script_start_def)

text \<open>A script of commands alone goes through the preprocessor as it is.\<close>

definition is_command :: "instruction \<Rightarrow> bool" where
  "is_command i = (case in_type i of ICommand _ \<Rightarrow> True | _ \<Rightarrow> False)"

lemma commands_kept: "\<forall>i \<in> set is. is_command i \<Longrightarrow>
  res_foldl conditional_step (False, False, out) is = Ok (False, False, out @ is)"
  by (induction "is" arbitrary: out)
    (auto simp: conditional_step_def is_command_def split: instruction_type.splits)

lemma no_include: "\<forall>i \<in> set is. \<not> is_include i \<Longrightarrow> last_include is = None"
  by (induction "is" rule: rev_induct) (simp_all add: last_include_def enumerate_append_eq)

lemma commands_print_nothing: "\<forall>i \<in> set is. is_command i \<Longrightarrow> run_remaining data is = Some (Ok ())"
  by (induction "is") (auto simp: is_command_def split: instruction_type.splits)

lemma preprocess_commands:
  assumes "\<forall>i \<in> set is. is_command i"
  shows "preprocess data is = Some (Ok is)"
proof -
  have e: "eliminate_empty is = is" "eliminate_directives is = is" "\<forall>i \<in> set is. \<not> is_include i"
    using assms by (auto simp: eliminate_empty_def eliminate_directives_def is_command_def
        is_directive_def is_include_def filter_id_conv split: instruction_type.splits)
  have "run_includes is = Ok is" using no_include [OF e(3)] by (simp add: run_includes.simps)
  moreover have "run_conditionals is = Ok is" using commands_kept [OF assms, of "[]"]
    by (simp add: run_conditionals_def)
  ultimately show ?thesis using commands_print_nothing [OF assms] by (simp add: preprocess_def e)
qed

definition numbered_prototypes ::
  "nat \<Rightarrow> string list list \<Rightarrow> command_line list \<Rightarrow> (command_prototype \<times> location_info) list" where
  "numbered_prototypes n argss ls =
    map (\<lambda>(i, args, l). (line_prototype args l, line_location (on_line i) l)) (enumerate n (zip argss ls))"

definition split_arguments ::
  "(string \<Rightarrow> string list option) \<Rightarrow> command_line list \<Rightarrow> (unit, string list list) result" where
  "split_arguments shlex ls = res_map (\<lambda>l. ok_or () (shlex (spaced (cl_arguments l)))) ls"

lemma numbered_split:
  "(case split_arguments shlex ls of
      Ok argss \<Rightarrow> \<exists>is. numbered_commands shlex n empty_location ls = Ok is
         \<and> (\<forall>i \<in> set is. is_command i) \<and> command_prototypes is = numbered_prototypes n argss ls
    | Err _ \<Rightarrow> \<exists>e. numbered_commands shlex n empty_location ls = Err e
    | Panic \<Rightarrow> False)"
proof (induction ls arbitrary: n)
  case Nil
  then show ?case by (simp add: split_arguments_def numbered_commands_def numbered_prototypes_def)
next
  case (Cons l ls)
  note IH = Cons.IH [of "Suc n"]
  show ?case
  proof (cases "shlex (spaced (cl_arguments l))")
    case None
    then show ?thesis by (simp add: split_arguments_def numbered_commands_def parsed_command_def)
  next
    case (Some args)
    then show ?thesis using IH
      by (cases "split_arguments shlex ls")
        (auto simp: split_arguments_def numbered_commands_def parsed_command_def is_command_def
          numbered_prototypes_def on_line_def)
  qed
qed

text \<open>C6: a script laid out line by line from tags, output variables, names
  and argument texts is read back by \<open>Logic::from_script\<close> as exactly those commands, each with the
  number of its line and the arguments \<open>shlex\<close> finds, and handed to the assembly of the logic;
  when \<open>shlex\<close> finds an open quote in one of them the call panics, although it returns a
  result.\<close>

theorem script_round_trip:
  assumes "\<forall>l \<in> set ls. valid_command l"
  shows "from_script shlex env (script_text ls) path =
    Some (case split_arguments shlex ls of
            Ok argss \<Rightarrow> logic_of_prototypes env path (numbered_prototypes 1 argss ls)
          | _ \<Rightarrow> Panic)"
proof (cases "split_arguments shlex ls")
  case (Ok argss)
  then obtain "is" where "is": "numbered_commands shlex 1 empty_location ls = Ok is"
    "\<forall>i \<in> set is. is_command i" "command_prototypes is = numbered_prototypes 1 argss ls"
    using numbered_split [where n = 1 and shlex = shlex and ls = ls] by auto
  with Ok show ?thesis
    by (simp add: from_script_def parse_script_print [OF assms] preprocess_commands [OF "is"(2)])
next
  case (Err u)
  then obtain e where "numbered_commands shlex 1 empty_location ls = Err e"
    using numbered_split [where n = 1 and shlex = shlex and ls = ls] by auto
  with Err show ?thesis by (simp add: from_script_def parse_script_print [OF assms])
next
  case Panic
  then show ?thesis using numbered_split [where n = 1 and shlex = shlex and ls = ls] by simp
qed

definition words_on_spaces :: "string \<Rightarrow> string list option" where
  "words_on_spaces s = Some (filter (\<lambda>w. w \<noteq> []) (split_on (CHR '' '') s))"

theorem script_round_trip_witness:
  "from_script words_on_spaces sample_env
      (''while'' @ CHR 0x0A # CHR 0x40 # ''t out = call one two'' @ CHR 0x0A # ''end'') None =
    Some (logic_of_prototypes sample_env None
      [(\<lparr> cp_name = Some ''while'', cp_arguments = Some [], cp_output = None \<rparr>, on_line 1),
       (\<lparr> cp_name = Some ''call'', cp_arguments = Some [''one'', ''two''], cp_output = Some ''out'' \<rparr>,
        (on_line 2)\<lparr> l_tag := Some ''t'' \<rparr>),
       (\<lparr> cp_name = Some ''end'', cp_arguments = Some [], cp_output = None \<rparr>, on_line 3)])"
proof -
  let ?ls = "[\<lparr> cl_tag = None, cl_output = None, cl_name = ''while'', cl_arguments = [] \<rparr>,
      \<lparr> cl_tag = Some ''t'', cl_output = Some ''out'', cl_name = ''call'', cl_arguments = ''one two'' \<rparr>,
      \<lparr> cl_tag = None, cl_output = None, cl_name = ''end'', cl_arguments = [] \<rparr>]"
  have v: "\<forall>l \<in> set ?ls. valid_command l"
    by (simp add: valid_command_def command_word_def plain_word_def argument_text_def)
  have t: "script_text ?ls =
      ''while'' @ CHR 0x0A # CHR 0x40 # ''t out = call one two'' @ CHR 0x0A # ''end''"
    by code_simp
  have a: "split_arguments words_on_spaces ?ls = Ok [[], [''one'', ''two''], []]"
    by code_simp
  show ?thesis using script_round_trip [OF v, of words_on_spaces sample_env None]
    unfolding t a by (simp add: numbered_prototypes_def line_prototype_def line_location_def numeral_2_eq_2 numeral_3_eq_3)
qed

section \<open>Wide characters\<close>

definition ordinary :: "string \<Rightarrow> bool" where
  "ordinary c \<longleftrightarrow> c \<noteq> '' '' \<and> c \<noteq> ''#'' \<and> c \<noteq> ''=''"

lemma utf8_chars_first: "\<exists>g gs. utf8_chars (x # r) = (x # g) # gs"
  by (cases r) (auto split: list.splits)

lemma ordinary_step:
  assumes "ordinary c" "vs_in_argument s" "\<not> vs_in_control s" "\<not> vs_using_quotes s"
  shows "value_char loc (plain_flags eq) n c s = Ok (False, if c = [CHR 0x5C] then s else push_text c s)"
  using assms by (simp add: value_char_def argument_char_def plain_flags_def ordinary_def)

lemma value_loop_runs_out:
  assumes "\<forall>c \<in> set (utf8_chars src). ordinary c"
    and "vs_in_argument s" "\<not> vs_in_control s" "\<not> vs_using_quotes s"
    and "length (utf8_chars src) - vs_index s < n"
  shows "value_loop loc (plain_flags eq) src n s = Panic"
  using assms(2-)
proof (induction n arbitrary: s)
  case (Suc n)
  show ?case
  proof (cases "vs_index s < length (utf8_chars src)")
    case False
    then show ?thesis by (simp add: char_at_def)
  next
    case True
    let ?c = "utf8_chars src ! vs_index s"
    let ?s = "s\<lparr> vs_index := vs_index s + 1 \<rparr>"
    have "ordinary ?c" using True assms(1) by simp
    then have "value_char loc (plain_flags eq) (length src) ?c ?s =
        Ok (False, if ?c = [CHR 0x5C] then ?s else push_text ?c ?s)"
      using Suc.prems by (intro ordinary_step) simp_all
    moreover have "value_loop loc (plain_flags eq) src n
        (if ?c = [CHR 0x5C] then ?s else push_text ?c ?s) = Panic"
      using Suc.prems True by (intro Suc.IH) (auto simp: push_text_def)
    ultimately show ?thesis using True by (simp add: char_at_def)
  qed
qed simp

text \<open>C28: a command line of one word that holds a character of more than one
  byte makes the parser panic, whatever else is on it: the loop runs to the number of bytes and
  indexes the characters, of which there are fewer.\<close>

theorem wide_word_panics:
  assumes "str_trim w = w" "\<forall>c \<in> set (utf8_chars w). ordinary c"
    and "hd w \<notin> {CHR 0x40, CHR ''!'', CHR ''#'', CHR 0x22}"
    and "length (utf8_chars w) < length w"
  shows "parse_line shlex w loc = Panic"
proof -
  obtain x r where x: "w = x # r" using assms(4) by (cases w) auto
  obtain g gs where cs: "utf8_chars w = (x # g) # gs" using utf8_chars_first unfolding x by blast
  have c: "char_at w 0 = Ok (x # g)" "ordinary (x # g)" "x # g \<notin> {[CHR 0x40], [CHR 0x22]}"
    using assms(2,3) cs by (auto simp: char_at_def x)
  have tag: "find_tag loc w 0 = Ok (0, None)"
    using c(2,3) by (auto simp: find_tag_def x c(1) [unfolded x] ordinary_def)
  have len: "length (utf8_chars w) - 1 < length r" using assms(4) cs x by simp
  let ?s = "(scan_start 0)\<lparr> vs_index := 1, vs_in_argument := True \<rparr>"
  let ?t = "if x # g = [CHR 0x5C] then ?s else push_text (x # g) ?s"
  have first: "value_char loc (plain_flags True) (length w) (x # g) ((scan_start 0)\<lparr> vs_index := 1 \<rparr>)
      = Ok (False, ?t)"
    using c(2,3) by (auto simp: value_char_def first_char_def plain_flags_def ordinary_def scan_start_def)
  have "value_loop loc (plain_flags True) w (length r) ?t = Panic"
    using assms(2) len by (intro value_loop_runs_out) (auto simp: push_text_def scan_start_def)
  then have "value_loop loc (plain_flags True) w (length w) (scan_start 0) = Panic"
    using first by (simp add: x c(1) [unfolded x] scan_start_def)
  then have "parse_next_value loc w 0 (plain_flags True) = Panic"
    by (simp add: parse_next_value_def x)
  moreover have "\<not> prefix ''#'' w" "\<not> prefix ''!'' w" using assms(3) by (auto simp: x)
  ultimately show ?thesis
    by (simp add: parse_line_def assms(1) [unfolded x] parse_command_def x tag [unfolded x]
        find_output_and_command_def plain_flags_values)
qed

theorem wide_word_panics_witness:
  "parse_line (\<lambda>_. Some []) [CHR 0xC5, CHR 0x82, CHR ''o'', CHR ''k''] empty_location = Panic"
  by (rule wide_word_panics; code_simp)

section \<open>Conditionals\<close>

text \<open>
  The shape of a script for the preprocessor: runs of instructions that open and close nothing,
  and conditionals with the instructions of their parts.
\<close>

datatype conditional_block =
    PlainRun "instruction list"
  | IfBlock instruction "instruction list" "(instruction \<times> instruction list) option" instruction

definition directive_named :: "string \<Rightarrow> instruction \<Rightarrow> bool" where
  "directive_named name i =
    (case in_type i of IDirective d \<Rightarrow> dp_name d = Some name | _ \<Rightarrow> False)"

definition plain_instruction :: "instruction \<Rightarrow> bool" where
  "plain_instruction i =
    (case in_type i of
       IDirective d \<Rightarrow> (case dp_name d of
           Some n \<Rightarrow> n \<notin> {''if'', ''else'', ''endif''} | None \<Rightarrow> False)
     | _ \<Rightarrow> True)"

fun valid_block :: "conditional_block \<Rightarrow> bool" where
  "valid_block (PlainRun is) = list_all plain_instruction is"
| "valid_block (IfBlock i a e z) =
    (directive_named ''if'' i \<and> list_all plain_instruction a \<and> directive_named ''endif'' z
     \<and> (case e of Some (m, b) \<Rightarrow> directive_named ''else'' m \<and> list_all plain_instruction b
        | None \<Rightarrow> True))"

fun block_instructions :: "conditional_block \<Rightarrow> instruction list" where
  "block_instructions (PlainRun is) = is"
| "block_instructions (IfBlock i a e z) =
    i # a @ (case e of Some (m, b) \<Rightarrow> m # b | None \<Rightarrow> []) @ [z]"

fun block_kept :: "conditional_block \<Rightarrow> instruction list" where
  "block_kept (PlainRun is) = eliminate_empty is"
| "block_kept (IfBlock i a e z) = (case e of Some (m, b) \<Rightarrow> filter is_directive b | None \<Rightarrow> [])"

lemma plain_step:
  "plain_instruction i \<Longrightarrow> conditional_step (in_if, in_else, out) i = Ok (in_if, in_else,
     if in_type i = INone \<or> in_if \<or> in_else \<and> \<not> is_directive i then out else out @ [i])"
  by (auto simp: plain_instruction_def conditional_step_def is_directive_def
      split: instruction_type.splits option.splits)

lemma plain_run:
  "list_all plain_instruction is \<Longrightarrow>
    res_foldl conditional_step (False, False, out) is = Ok (False, False, out @ eliminate_empty is)
    \<and> res_foldl conditional_step (True, False, out) is = Ok (True, False, out)
    \<and> res_foldl conditional_step (False, True, out) is = Ok (False, True, out @ filter is_directive is)"
proof (induction "is" arbitrary: out)
  case (Cons i "is")
  have "is_directive i \<Longrightarrow> in_type i \<noteq> INone" by (auto simp: is_directive_def)
  then show ?case using Cons by (auto simp: plain_step eliminate_empty_def)
qed (simp add: eliminate_empty_def)

lemma switch_steps:
  "directive_named ''if'' i \<Longrightarrow> conditional_step (False, False, out) i = Ok (True, False, out)"
  "directive_named ''else'' i \<Longrightarrow> conditional_step (True, False, out) i = Ok (False, True, out)"
  "directive_named ''endif'' i \<Longrightarrow> conditional_step (True, False, out) i = Ok (False, False, out)"
  "directive_named ''endif'' i \<Longrightarrow> conditional_step (False, True, out) i = Ok (False, False, out)"
  by (auto simp: directive_named_def conditional_step_def split: instruction_type.splits)

lemma block_step:
  "valid_block b \<Longrightarrow> res_foldl conditional_step (False, False, out) (block_instructions b)
    = Ok (False, False, out @ block_kept b)"
  by (cases b) (auto simp: plain_run switch_steps res_foldl_append split: option.splits)

lemma blocks_step:
  "list_all valid_block bs \<Longrightarrow>
    res_foldl conditional_step (False, False, out) (concat (map block_instructions bs))
      = Ok (False, False, out @ concat (map block_kept bs))"
  by (induction bs arbitrary: out) (auto simp: res_foldl_append block_step)

text \<open>In a script with well-nested conditionals no condition is ever
  evaluated: the instructions of every \<open>!if\<close> part are dropped, of an \<open>!else\<close> part only the
  directives stay, and outside everything but the empty instructions is kept.\<close>

lemma conditionals_unevaluated:
  assumes "list_all valid_block bs"
  shows "run_conditionals (concat (map block_instructions bs)) = Ok (concat (map block_kept bs))"
  using blocks_step [OF assms, of "[]"] by (simp add: run_conditionals_def)

definition sample_directive :: "string \<Rightarrow> instruction" where
  "sample_directive name = \<lparr> in_location = empty_location,
     in_type = IDirective \<lparr> dp_name = Some name, dp_arguments = Some [] \<rparr> \<rparr>"

definition sample_command :: "string \<Rightarrow> instruction" where
  "sample_command name = \<lparr> in_location = empty_location,
     in_type = ICommand \<lparr> cp_name = Some name, cp_arguments = Some [], cp_output = None \<rparr> \<rparr>"

section \<open>Printing\<close>

definition dollars :: "string \<Rightarrow> nat" where
  "dollars s = length (filter (\<lambda>c. c = CHR ''$'') s)"

definition dollar_free :: "(string \<times> string) list \<Rightarrow> bool" where
  "dollar_free data \<longleftrightarrow> (\<forall>v \<in> set (map snd data). CHR ''$'' \<notin> set v)"

lemma dollars_append: "dollars (s @ t) = dollars s + dollars t"
  by (simp add: dollars_def)

lemma dollars_replace:
  assumes "drop st s = CHR ''$'' # r" "st < k" "CHR ''$'' \<notin> set v"
  shows "dollars (take st s @ v @ drop k s) < dollars s"
proof -
  have "drop k s = drop (k - st - 1) r"
    using assms(1,2) by (metis Suc_pred drop_Suc_Cons drop_drop le_add_diff_inverse2
        less_imp_le_nat zero_less_diff One_nat_def)
  moreover have "dollars r = dollars (take (k - st - 1) r) + dollars (drop (k - st - 1) r)"
    by (simp flip: dollars_append)
  moreover have "dollars s = dollars (take st s) + dollars (CHR ''$'' # r)"
    using assms(1) by (metis append_take_drop_id dollars_append)
  moreover have "dollars v = 0" using assms(3) by (auto simp: dollars_def filter_empty_conv)
  moreover have "dollars (CHR ''$'' # r) = Suc (dollars r)" by (simp add: dollars_def)
  ultimately show ?thesis by (simp add: dollars_append)
qed

lemma find_sub_drop: "find_sub (c # p) s = Some st \<Longrightarrow> \<exists>r. drop st s = c # r"
  using find_sub_Some [of "c # p" s st] find_sub_le [of "c # p" s st]
  by (metis append_Cons append_eq_conv_conj append_take_drop_id)

lemma dollar_free_lookup: "\<lbrakk> dollar_free data; map_of data k = Some v \<rbrakk> \<Longrightarrow> CHR ''$'' \<notin> set v"
  by (force simp: dollar_free_def dest: map_of_SomeD)

lemma print_step_decreases:
  assumes "dollar_free data" "print_step loc data s = Ok (Some s')"
  shows "dollars s' < dollars s"
proof (cases "find_sub [CHR ''$'', CHR 0x7B] s")
  case (Some st)
  then obtain en where en: "find_sub [CHR 0x7D] s = Some en" "st + 2 \<le> en"
    "s' = take st s @ (case map_of data (take (en - (st + 2)) (drop (st + 2) s)) of
        Some v \<Rightarrow> v | None \<Rightarrow> ''ERROR'') @ drop (en + 1) s"
    using assms(2)
    by (auto simp: print_step_def result_simps str_slice_def slice_from_def Let_def
        split: option.splits if_splits)
  obtain r where "drop st s = CHR ''$'' # r" using find_sub_drop [OF Some] by auto
  moreover have "CHR ''$'' \<notin> set (case map_of data (take (en - (st + 2)) (drop (st + 2) s)) of
        Some v \<Rightarrow> v | None \<Rightarrow> ''ERROR'')"
    using dollar_free_lookup [OF assms(1)] by (auto split: option.splits)
  ultimately show ?thesis unfolding en(3) using en(2) by (intro dollars_replace) auto
next
  case None
  then obtain st where st: "find_sub ''$'' s = Some st"
    using assms(2) by (auto simp: print_step_def split: option.splits)
  then obtain r where r: "drop st s = CHR ''$'' # r" using find_sub_drop [OF st] by auto
  show ?thesis
  proof (cases "find_sub '' '' (drop st s)")
    case en: (Some en)
    then obtain v where v: "CHR ''$'' \<notin> set v" "st + 1 \<le> en" "s' = take st s @ v @ drop en s"
      using assms(2) None st dollar_free_lookup [OF assms(1)]
      by (auto simp: print_step_def result_simps str_slice_def slice_from_def Let_def
          split: option.splits if_splits)
    then show ?thesis using dollars_replace [OF r _ v(1), of en] by simp
  next
    case en: None
    then obtain v where v: "CHR ''$'' \<notin> set v" "s' = take st s @ v"
      using assms(2) None st dollar_free_lookup [OF assms(1)]
      by (auto simp: print_step_def result_simps Let_def split: option.splits)
    then show ?thesis using dollars_replace [OF r _ v(1), of "length s + st + 1"] by simp
  qed
qed

lemma print_loop_ends: "dollar_free data \<Longrightarrow> print_loop loc data s \<noteq> None"
proof (induction s rule: measure_induct_rule [of dollars])
  case (less s)
  then show ?case using print_step_decreases [OF less.prems, of loc s]
    by (subst print_loop.simps) (auto split: result.splits option.splits)
qed

lemma run_remaining_ends: "dollar_free data \<Longrightarrow> run_remaining data is \<noteq> None"
  by (induction "is")
    (auto simp: run_print_def print_loop_ends split: instruction_type.splits option.splits
      result.splits list.splits)

lemma preprocess_returns: "dollar_free data \<Longrightarrow> preprocess data is \<noteq> None"
  using run_remaining_ends [of data] by (auto simp: preprocess_def split: result.splits)

text \<open>C14: the preprocessor ends on every list of instructions when no value of its
  data holds a dollar sign, and \<open>Logic::from_script\<close>, which gives it no data, on every text.\<close>

theorem preprocess_ends:
  assumes "dollar_free data"
  shows "preprocess data is \<noteq> None \<and> from_script shlex env src path \<noteq> None"
  using preprocess_returns [OF assms] preprocess_returns [of "[]"]
  by (auto simp: from_script_def dollar_free_def split: result.splits)

theorem preprocess_ends_witness:
  "preprocess [(''os'', ''linux'')] [sample_directive ''print''] \<noteq> None
   \<and> from_script (\<lambda>_. Some []) sample_env ''trace'' None \<noteq> None"
  by (rule preprocess_ends) (simp add: dollar_free_def)

text \<open>A value that holds the text it replaces keeps the loop of \<open>!print\<close> going for ever.\<close>

definition echo_text :: string where
  "echo_text = [CHR ''$'', CHR 0x7B, CHR ''a'', CHR 0x7D]"

lemma echo_step: "print_step loc [(''a'', echo_text)] echo_text = Ok (Some echo_text)"
proof -
  have "print_step loc [(''a'', echo_text)] echo_text =
      map_ok id (print_step empty_location [(''a'', echo_text)] echo_text)"
    by (simp add: print_step_def echo_text_def str_slice_def slice_from_def is_char_boundary_def
        is_continuation_def)
  moreover have "print_step empty_location [(''a'', echo_text)] echo_text = Ok (Some echo_text)"
    by code_simp
  ultimately show ?thesis by simp
qed

lemma print_never_ends: "print_loop loc [(''a'', echo_text)] echo_text = None"
proof -
  have "loc' = loc \<and> data = [(''a'', echo_text)] \<longrightarrow> s \<noteq> echo_text"
    if "print_loop loc' data s = Some r" for loc' data s r
    using that
  proof (induction rule: print_loop.raw_induct [rotated, consumes 1, case_names step])
    case (step loop l d t res)
    show ?case
    proof (intro impI notI, elim conjE)
      assume "l = loc" "d = [(''a'', echo_text)]" "t = echo_text"
      with step(2) have "loop loc [(''a'', echo_text)] echo_text = Some res"
        by (simp add: echo_step)
      from step(1) [OF this] show False by simp
    qed
  qed
  then show ?thesis by fastforce
qed

end
