(* ===== verification/LoadingFacts.thy ===== *)
theory LoadingFacts
  imports Loading ScriptFacts
begin

text \<open>
  When the reading of a model ends, and what of the files is in the model it gives.
\<close>

section \<open>Includes\<close>

text \<open>The includes that the turn for a path adds; the stack of the loop as a multiset of paths.\<close>

definition include_rel :: "'n outside \<Rightarrow> (string \<times> string) set" where
  "include_rel os = {(q, p). \<exists>found new. include_step os p = Ok (found, new) \<and> q \<in> set new}"

lemma stack_decreases:
  assumes "todo \<noteq> []" "include_step os (last todo) = Ok found"
  shows "(mset (butlast todo @ snd found), mset todo) \<in> mult (include_rel os)"
proof -
  have "mset todo = mset (butlast todo) + {# last todo #}"
    using assms(1) by (metis append_butlast_last_id mset_append mset_single_iff_right)
  moreover have "(mset (butlast todo) + mset (snd found), mset (butlast todo) + {# last todo #})
      \<in> mult (include_rel os)"
    using assms(2) by (intro one_step_implies_mult) (auto simp: include_rel_def intro!: exI [of _ "fst found"] exI [of _ "snd found"])
  ultimately show ?thesis by simp
qed

lemma include_loop_ends:
  assumes "wf (include_rel os)" shows "include_loop os m todo \<noteq> None"
proof (induction "mset todo" arbitrary: m todo rule: wf_induct_rule [OF wf_mult [OF assms]])
  case 1
  then show ?case
    using stack_decreases [of todo os]
    by (subst include_loop.simps) (auto split: result.split)
qed

lemma self_include_never_ends:
  assumes "include_step os p = Ok (found, [p])" shows "include_loop os m [p] = None"
proof -
  have "os' = os \<longrightarrow> todo \<noteq> [p]" if "include_loop os' m todo = Some r" for os' m todo r
    using that
  proof (induction rule: include_loop.raw_induct [rotated, consumes 1, case_names step])
    case (step loop os' m todo r)
    show ?case
    proof (intro impI notI)
      assume "os' = os" "todo = [p]"
      with step(2) assms have "loop os (merge_step m found) [p] = Some r" by simp
      from step(1) [OF this] show False by simp
    qed
  qed
  then show ?thesis by fastforce
qed

lemma from_script_returns: "from_script shlex env src path \<noteq> None"
  using preprocess_returns [of "[]"]
  by (auto simp: from_script_def dollar_free_def split: result.splits)

lemma behaviors_of_im_ends: "behaviors_of_im (from_script shlex env) os bs \<noteq> None"
proof (induction bs)
  case (Cons b bs)
  have "machine_inner (from_script shlex env) os b \<noteq> None"
    by (simp add: machine_inner_def from_script_returns del: not_None_eq split: result.split)
  then have "behavior_of_im (from_script shlex env) os b \<noteq> None"
    by (simp add: behavior_of_im_def inner_of_im_def)
  with Cons show ?case by (simp split: option.split result.split)
qed simp

lemma model_of_im_ends: "model_of_im nops (from_script shlex env) os im \<noteq> None"
  using behaviors_of_im_ends [of shlex env os]
  by (auto simp: model_of_im_def split: result.splits)

text \<open>C15: a model is read in finitely many turns when no chain of includes goes
  on for ever, whatever the files hold: with a result, an error or a panic.  (A file that includes
  itself is read for ever, lemma \<open>self_include_never_ends\<close>.)\<close>

theorem model_reading_ends:
  assumes "wf (include_rel os)"
  shows "model_from_files nops (from_script shlex env) os \<noteq> None"
proof -
  have "im_from_files os \<noteq> None"
    by (simp add: im_from_files_def include_loop_ends [OF assms] del: not_None_eq split: result.split)
  then show ?thesis
    by (simp add: model_from_files_def model_of_im_ends del: not_None_eq split: option.split result.split)
qed

section \<open>What is in the model\<close>

lemma from_script_logic_wf: "from_script shlex env s p = Some (Ok lg) \<Longrightarrow> logic_wf lg"
  by (auto simp: from_script_def result_simps split: result.splits dest: logic_of_prototypes_wf)

lemma behaviors_of_im_all2:
  "behaviors_of_im read os ibs = Some (Ok bs) \<Longrightarrow>
    list_all2 (\<lambda>ib b. behavior_of_im read os ib = Some (Ok b)) ibs bs"
  by (induction ibs arbitrary: bs) (auto split: option.splits result.splits)

lemma behavior_of_im_parts:
  assumes "behavior_of_im read os ib = Some (Ok b)"
  shows "bh_name b = ib_name ib" "bh_triggers b = ib_triggers ib"
    "inner_of_im read os ib = Some (Ok (bh_inner b))"
  using assms by (auto simp: behavior_of_im_def result_simps)

lemma model_of_im_parts:
  assumes "model_of_im nops read os im = Some (Ok md)"
  shows "behaviors_of_im read os (im_behaviors im) = Some (Ok (md_behaviors md))"
    "res_map (component_of_intermediate nops) (im_components im) = Ok (md_components md)"
    "res_map prefab_from_im (im_prefabs im) = Ok (md_prefabs md)"
    "res_map (entity_of_intermediate nops) (im_entities im) = Ok (md_entities md)"
    "md_scenarios md = map (\<lambda>s. \<lparr> sc_name = is_name s \<rparr>) (im_scenarios im)"
    "md_events md = [] \<and> md_data md = [] \<and> md_data_files md = [] \<and> md_services md = []"
  using assms
  by (auto simp: model_of_im_def result_simps default_model_def split: result.splits)

lemma machine_logic_wf:
  assumes "behavior_of_im (from_script shlex env) os ib = Some (Ok b)" "bh_inner b = BMachine s lg"
  shows "logic_wf lg"
  using behavior_of_im_parts(3) [OF assms(1)] assms(2) from_script_logic_wf [of shlex env]
  by (auto simp: inner_of_im_def machine_inner_def lua_inner_def rust_inner_def wasm_inner_def
      untyped_inner_def result_simps split: if_splits option.splits result.splits)

text \<open>C34: every script machine of a model read from files has a well-formed logic:
  its blocks, procedures and states lie within its commands.\<close>

theorem loaded_logics_wf:
  assumes "model_from_files nops (from_script shlex env) os = Some (Ok md)"
    and "b \<in> set (md_behaviors md)" "bh_inner b = BMachine s lg"
  shows "logic_wf lg"
proof -
  obtain im where "model_of_im nops (from_script shlex env) os im = Some (Ok md)"
    using assms(1) by (auto simp: model_from_files_def split: option.splits result.splits)
  from behaviors_of_im_all2 [OF model_of_im_parts(1) [OF this]] assms(2)
  obtain ib where "behavior_of_im (from_script shlex env) os ib = Some (Ok b)"
    by (auto simp: list_all2_conv_all_nth in_set_conv_nth)
  from machine_logic_wf [OF this assms(3)] show ?thesis .
qed

text \<open>What the merged files declare is in the model in the order of the merge,
  by its names: scenarios, components, prefabs, behaviors and the entities to spawn with their
  prefabs.  Their data, data files and services never are.\<close>

lemma declared_in_model:
  assumes "model_of_im nops read os im = Some (Ok md)"
  shows "map sc_name (md_scenarios md) = map is_name (im_scenarios im)
    \<and> map cm_name (md_components md) = map ic_name (im_components im)
    \<and> map (\<lambda>p. (pf_name p, pf_components p)) (md_prefabs md)
        = map (\<lambda>p. (ip_name p, ip_components p)) (im_prefabs im)
    \<and> map (\<lambda>b. (bh_name b, bh_triggers b)) (md_behaviors md)
        = map (\<lambda>b. (ib_name b, ib_triggers b)) (im_behaviors im)
    \<and> map (\<lambda>e. (em_name e, em_prefab e)) (md_entities md)
        = map (\<lambda>e. (ie_id e, ie_prefab e)) (im_entities im)
    \<and> md_data md = [] \<and> md_data_files md = [] \<and> md_services md = []"
proof -
  note parts = model_of_im_parts [OF assms]
  have names: "map g ys = map f xs" if "list_all2 R xs ys" "\<And>x y. R x y \<Longrightarrow> g y = f x"
    for R and f :: "'x \<Rightarrow> 'z" and g :: "'y \<Rightarrow> 'z" and xs ys
    using that by (induction xs ys rule: list_all2_induct) auto
  have "map cm_name (md_components md) = map ic_name (im_components im)"
    by (rule names [OF parts(2) [unfolded res_map_Ok_iff]]) (auto simp: component_of_intermediate_def)
  moreover have "map (\<lambda>p. (pf_name p, pf_components p)) (md_prefabs md)
      = map (\<lambda>p. (ip_name p, ip_components p)) (im_prefabs im)"
    by (rule names [OF parts(3) [unfolded res_map_Ok_iff]]) (auto simp: prefab_from_im_def)
  moreover have "map (\<lambda>b. (bh_name b, bh_triggers b)) (md_behaviors md)
      = map (\<lambda>b. (ib_name b, ib_triggers b)) (im_behaviors im)"
    by (rule names [OF behaviors_of_im_all2 [OF parts(1)]]) (auto dest: behavior_of_im_parts)
  moreover have "map (\<lambda>e. (em_name e, em_prefab e)) (md_entities md)
      = map (\<lambda>e. (ie_id e, ie_prefab e)) (im_entities im)"
    by (rule names [OF parts(4) [unfolded res_map_Ok_iff]]) (auto simp: entity_of_intermediate_def)
  ultimately show ?thesis using parts(5,6) by simp
qed

section \<open>A model of two files\<close>

text \<open>A manifest with a component and an entity that includes a file with a script machine.\<close>

definition sample_number_ops :: "f32 number_ops" where
  "sample_number_ops = \<lparr> is_f64 = (\<lambda>_. True), as_f64 = Some, as_i64 = (\<lambda>_. None) \<rparr>"

definition blank_im :: "f32 im_model" where
  "blank_im =
    \<lparr> im_meta = \<lparr> mt_name = None, mt_description = None, mt_author = None, mt_includes = [] \<rparr>,
      im_dependencies = [], im_scenarios = [], im_behaviors = [], im_components = [], im_prefabs = [],
      im_data = [], im_data_files = [], im_entities = [] \<rparr>"

definition sample_behavior :: im_behavior where
  "sample_behavior = (default_im_behavior ''b'')\<lparr> ib_type := ''machine'', ib_script := Some ''end'' \<rparr>"

definition sample_manifest :: "f32 im_model" where
  "sample_manifest = blank_im\<lparr>
     im_meta := (im_meta blank_im)\<lparr> mt_includes := [''parts/b.toml''] \<rparr>,
     im_scenarios := [\<lparr> is_name = ''s'', is_data = [] \<rparr>],
     im_components := [\<lparr> ic_name = ''c'', ic_vars = [] \<rparr>],
     im_data := [(''k'', ''v'')],
     im_entities := [\<lparr> ie_id = ''e'', ie_prefab = None, ie_data = [], ie_archived = False \<rparr>] \<rparr>"

definition sample_outside :: "f32 outside" where
  "sample_outside =
    \<lparr> os_read_dir = (\<lambda>_. None), os_bytes = Ok, os_text = (\<lambda>_. Err (Other [])),
      os_std_text = (\<lambda>_. Err (Other [])), os_std_bytes = (\<lambda>_. Err (Other [])),
      os_toml = (\<lambda>b. if b = manifest_file then Ok sample_manifest
                     else Ok (blank_im\<lparr> im_behaviors := [sample_behavior] \<rparr>)),
      os_cargo = (\<lambda>_. Ok ()), os_show_error = (\<lambda>_. []) \<rparr>"

definition sample_included :: "f32 im_model" where
  "sample_included = blank_im\<lparr> im_behaviors :=
     [sample_behavior\<lparr> ib_path := ''parts/b.toml'', ib_lib := ''parts/'' \<rparr>] \<rparr>"

definition sample_merged :: "f32 im_model" where
  "sample_merged = im_merge sample_manifest sample_included"

lemma sample_manifest_read: "struct_from_path sample_outside manifest_file = Ok sample_manifest"
proof -
  have "path_extension manifest_file = Some ''toml''" by code_simp
  then show ?thesis by (simp add: struct_from_path_def sample_outside_def)
qed

lemma sample_include_step:
  "include_step sample_outside p =
    (if path_extension p = Some ''toml'' \<or> path_extension p = Some ''tml''
     then (if p = manifest_file then include_step sample_outside p
           else case path_parent p of None \<Rightarrow> Panic
                | Some parent \<Rightarrow> Ok (Some (blank_im\<lparr> im_behaviors := [normalize_behavior p parent sample_behavior] \<rparr>), []))
     else include_step sample_outside p)"
  by (simp add: include_step_def struct_from_path_def sample_outside_def blank_im_def Let_def
      split: option.split)

lemma sample_include: "include_step sample_outside ''parts/b.toml'' = Ok (Some sample_included, [])"
proof -
  have e: "path_extension ''parts/b.toml'' = Some ''toml''" "path_parent ''parts/b.toml'' = Some ''parts''"
    "''parts/b.toml'' \<noteq> manifest_file" by code_simp+
  show ?thesis
    by (subst sample_include_step)
      (simp add: e sample_included_def normalize_behavior_def sample_behavior_def default_im_behavior_def)
qed

lemma sample_im_from_files: "im_from_files sample_outside = Some (Ok sample_merged)"
proof -
  have i: "mt_includes (im_meta sample_manifest) = [''parts/b.toml'']"
    by (simp add: sample_manifest_def blank_im_def)
  show ?thesis
    by (simp add: im_from_files_def sample_manifest_read i include_loop.simps [of _ _ "[''parts/b.toml'']"]
        sample_include include_loop.simps [of _ _ "[]"] merge_step_def sample_merged_def)
qed

definition end_logic :: logic where
  "end_logic = default_logic\<lparr> lg_commands := [CEnd], lg_states := [(''_main'', 0, 1)],
     lg_locations := [(on_line 1)\<lparr> l_line := Some 0, l_source := Some ''parts/b.toml'' \<rparr>] \<rparr>"

lemma sample_script_read:
  "from_script words_on_spaces sample_env ''end'' (Some ''parts/b.toml'') = Some (Ok end_logic)"
proof -
  let ?l = "\<lparr> cl_tag = None, cl_output = None, cl_name = ''end'', cl_arguments = [] \<rparr>"
  let ?i = "\<lparr> in_location = on_line 1, in_type = ICommand (line_prototype [] ?l) \<rparr>"
  have t: "script_text [?l] = ''end''" by code_simp
  have "\<forall>l \<in> set [?l]. valid_command l"
    by (simp add: valid_command_def command_word_def plain_word_def argument_text_def)
  from parse_script_print [OF this, of words_on_spaces empty_location]
  have p: "parse_script words_on_spaces ''end'' empty_location = Ok [?i]"
    unfolding t
    by (simp add: numbered_commands_def parsed_command_def spaced_def words_on_spaces_def
        line_location_def on_line_def)
  have q: "preprocess [] [?i] = Some (Ok [?i])"
    by (rule preprocess_commands) (simp add: is_command_def)
  have "from_script words_on_spaces sample_env ''end'' (Some ''parts/b.toml'')
      = Some (logic_of_prototypes sample_env (Some ''parts/b.toml'') [(line_prototype [] ?l, on_line 1)])"
    by (simp add: from_script_def p q del: One_nat_def)
  also have "logic_of_prototypes sample_env (Some ''parts/b.toml'') [(line_prototype [] ?l, on_line 1)]
      = Ok end_logic"
    by code_simp
  finally show ?thesis .
qed

definition sample_model_read :: "logic model" where
  "sample_model_read = default_model\<lparr> md_scenarios := [\<lparr> sc_name = ''s'' \<rparr>],
     md_components := [\<lparr> cm_name = ''c'', cm_vars = [] \<rparr>],
     md_behaviors := [\<lparr> bh_name = ''b'', bh_triggers = [''step''], bh_targets = [], bh_tracing = [],
       bh_inner = BMachine ''end'' end_logic \<rparr>],
     md_entities := [\<lparr> em_name = ''e'', em_prefab = None, em_data = [] \<rparr>] \<rparr>"

lemma sample_model_of_im:
  "model_of_im sample_number_ops (from_script words_on_spaces sample_env) sample_outside sample_merged
    = Some (Ok sample_model_read)"
  by (simp add: model_of_im_def sample_merged_def sample_manifest_def sample_included_def im_merge_def
      blank_im_def component_of_intermediate_def entity_of_intermediate_def sample_behavior_def
      default_im_behavior_def behavior_of_im_def inner_of_im_def machine_inner_def sample_script_read
      sample_model_read_def default_model_def)

lemma sample_model_from_files:
  "model_from_files sample_number_ops (from_script words_on_spaces sample_env) sample_outside
    = Some (Ok sample_model_read)"
  by (simp add: model_from_files_def sample_im_from_files sample_model_of_im)

theorem loaded_logics_wf_witness: "logic_wf end_logic"
  by (rule loaded_logics_wf [OF sample_model_from_files, where s = "''end''"])
    (auto simp: sample_model_read_def)

theorem model_reading_ends_witness:
  "model_from_files sample_number_ops (from_script words_on_spaces sample_env)
     (sample_outside\<lparr> os_toml := (\<lambda>_. Ok blank_im) \<rparr>) \<noteq> None"
proof (rule model_reading_ends)
  have "include_rel (sample_outside\<lparr> os_toml := (\<lambda>_. Ok blank_im) \<rparr>) = {}"
    by (auto simp: include_rel_def include_step_def sample_outside_def struct_from_path_def result_simps
        blank_im_def Let_def)
  then show "wf (include_rel (sample_outside\<lparr> os_toml := (\<lambda>_. Ok blank_im) \<rparr>))" by simp
qed

end
