(* ===== verification/Sims.thy ===== *)
theory Sims
  imports ServedWorkers
begin

text \<open>
  The handle of a local simulation, src/bigworlds/src/sim.rs: a leader, its workers and an optional
  server in one process, asked over their local channels.  A task that panics while it serves a
  request drops the reply.
\<close>

section \<open>The world and the handle\<close>

record 'a sim_world =
  sw_leader :: "'a net leader_node"
  sw_server :: server_state
  sw_cancelled :: bool

text \<open>
  What surrounds a simulation: the stores of the workers, the outside of the net and of the server,
  and texts for messages.
\<close>

record ('a, 'b) sim_env =
  se_env :: "('a, 'b) node_env"
  se_net :: net_env
  se_base :: "'a net server_io"
  se_debug_leader :: "lmgr_resp \<Rightarrow> string"
  se_debug_signal :: "worker_resp signal \<Rightarrow> string"
  se_debug_resp :: "worker_resp \<Rightarrow> string"
  se_debug_leader_resp :: "leader_resp \<Rightarrow> string"
  se_debug_message :: "message \<Rightarrow> string"

record sim_config =
  sf_worker_count :: nat
  sf_worker :: worker_config
  sf_leader :: leader_config
  sf_server :: "server_config option"
  sf_autostep :: "nat option"

text \<open>The workers with the numbers of their channels; the identifier of the handle at the server.\<close>

record sim_handle =
  sh_config :: sim_config
  sh_workers :: "(uuid, nat) kv"
  sh_server :: "uuid option option"

section \<open>Channels\<close>

definition se_li :: "('a, 'b) sim_env \<Rightarrow> 'a net workers_io" where
  "se_li se = net_io (se_env se) (se_net se)"

definition se_si :: "('a, 'b) sim_env \<Rightarrow> 'a net server_io" where
  "se_si se = server_net_io (se_env se) (se_net se) (se_base se)"

definition on_leader :: "('a net leader_node, 'x) act \<Rightarrow> ('a sim_world, 'x) act" where
  "on_leader m w = (case m (sw_leader w) of (l, r) \<Rightarrow> (w\<lparr> sw_leader := l \<rparr>, r))"

definition on_server :: "('a net server_node, 'x) act \<Rightarrow> ('a sim_world, 'x) act" where
  "on_server m w =
    (case m \<lparr> sn_state = sw_server w, sn_net = ln_net (sw_leader w) \<rparr> of
       (s, r) \<Rightarrow> (w\<lparr> sw_server := sn_state s, sw_leader := (sw_leader w)\<lparr> ln_net := sn_net s \<rparr> \<rparr>, r))"

definition sim_signal :: "('a, 'b) sim_env \<Rightarrow> 't \<Rightarrow> ('a sim_world, 't signal) act" where
  "sim_signal se x = on_leader (on_net (leader_signal (se_li se) x))"

definition sim_worker :: "sim_handle \<Rightarrow> (uuid \<times> nat) core_result" where
  "sim_worker h = (case sh_workers h of x # _ \<Rightarrow> Ok x | [] \<Rightarrow> Err NoAvailableWorkers)"

definition worker_ctl ::
  "('a, 'b) sim_env \<Rightarrow> nat \<Rightarrow> worker_local signal \<Rightarrow> ('a sim_world, worker_resp signal) act" where
  "worker_ctl se c sig = on_leader (on_net (serve_local_at (se_env se) (se_net se) c sig))"

text \<open>A request to the first worker, and one to the leader.\<close>

definition ask_first ::
  "('a, 'b) sim_env \<Rightarrow> sim_handle \<Rightarrow> worker_req \<Rightarrow> ('a sim_world, worker_resp signal) act" where
  "ask_first se h req =
    act_bind (act_of (sim_worker h)) (\<lambda>(_, c).
    act_bind (sim_signal se (WlRequest req)) (worker_ctl se c))"

definition ask_leader ::
  "('a, 'b) sim_env \<Rightarrow> leader_req \<Rightarrow> ('a sim_world, leader_resp signal) act" where
  "ask_leader se req =
    act_bind (sim_signal se (LlRequest req)) (\<lambda>sig.
    on_leader (leader_serve (se_li se) (se_debug_leader se) (FromController (sg_payload sig)) (sg_ctx sig)))"

section \<open>Responses\<close>

definition leader_resp_empty :: "(leader_resp \<Rightarrow> string) \<Rightarrow> leader_resp \<Rightarrow> unit core_result" where
  "leader_resp_empty debug r = (case r of LrEmpty \<Rightarrow> Ok () | _ \<Rightarrow> Err (UnexpectedResponse (debug r)))"

definition leader_resp_model :: "leader_resp \<Rightarrow> project core_result" where
  "leader_resp_model r =
    (case r of LrModel m \<Rightarrow> Ok m | _ \<Rightarrow> Err (UnexpectedResponse (leader_resp_name r)))"

section \<open>Operations\<close>

text \<open>A new configuration is sent to the workers only.\<close>

definition sim_pull_config ::
  "('a, 'b) sim_env \<Rightarrow> sim_handle \<Rightarrow> sim_config \<Rightarrow> ('a sim_world, unit) act" where
  "sim_pull_config se h config =
    act_iter (\<lambda>(_, c).
      act_bind (sim_signal se (WlRequest (WPullConfig (sf_worker config)))) (\<lambda>sig.
      act_bind (worker_ctl se c sig) (\<lambda>s.
      act_of (resp_empty (se_debug_resp se) (sg_payload s))))) (sh_workers h)"

definition sim_invoke :: "('a, 'b) sim_env \<Rightarrow> sim_handle \<Rightarrow> string \<Rightarrow> ('a sim_world, unit) act" where
  "sim_invoke se h event = act_bind (ask_first se h (WInvoke [event] True)) (\<lambda>_. act_ret ())"

definition sim_step :: "('a, 'b) sim_env \<Rightarrow> ('a sim_world, unit) act" where
  "sim_step se = act_bind (ask_leader se LStep) (\<lambda>_. act_ret ())"

fun sim_step_by :: "('a, 'b) sim_env \<Rightarrow> nat \<Rightarrow> ('a sim_world, unit) act" where
  "sim_step_by se 0 = act_ret ()"
| "sim_step_by se (Suc n) = act_bind (sim_step se) (\<lambda>_. sim_step_by se n)"

definition sim_entity :: "('a, 'b) sim_env \<Rightarrow> sim_handle \<Rightarrow> string \<Rightarrow> ('a sim_world, entity) act" where
  "sim_entity se h name =
    act_bind (ask_first se h (WGetEntity name)) (\<lambda>s.
    act_of (case sg_payload s of WrEntity e \<Rightarrow> Ok e | _ \<Rightarrow> Panic))"

definition sim_pull_entity ::
  "('a, 'b) sim_env \<Rightarrow> sim_handle \<Rightarrow> string \<Rightarrow> entity \<Rightarrow> ('a sim_world, unit) act" where
  "sim_pull_entity se h name e =
    act_bind (ask_first se h (WTakeEntity name e)) (\<lambda>s.
    act_of (case sg_payload s of WrEmpty \<Rightarrow> Ok () | _ \<Rightarrow> Panic))"

definition sim_entities :: "('a, 'b) sim_env \<Rightarrow> sim_handle \<Rightarrow> ('a sim_world, string list) act" where
  "sim_entities se h =
    act_bind (ask_first se h WEntityList) (\<lambda>s.
    act_of (case sg_payload s of WrEntityList names \<Rightarrow> Ok names
      | _ \<Rightarrow> Err (UnexpectedResponse
          (''expected worker::Response::EntityList, got '' @ se_debug_signal se s))))"

definition sim_pull_model :: "('a, 'b) sim_env \<Rightarrow> project \<Rightarrow> ('a sim_world, unit) act" where
  "sim_pull_model se m = act_bind (ask_leader se (LReplaceModel m)) (\<lambda>_. act_ret ())"

definition sim_initialize_with_scenario ::
  "('a, 'b) sim_env \<Rightarrow> string option \<Rightarrow> ('a sim_world, unit) act" where
  "sim_initialize_with_scenario se scenario = act_bind (ask_leader se (LInitialize scenario)) (\<lambda>_. act_ret ())"

definition sim_initialize :: "('a, 'b) sim_env \<Rightarrow> ('a sim_world, unit) act" where
  "sim_initialize se = sim_initialize_with_scenario se None"

definition sim_load_snapshot :: "('a, 'b) sim_env \<Rightarrow> snapshot \<Rightarrow> ('a sim_world, unit) act" where
  "sim_load_snapshot se sn =
    act_bind (ask_leader se (LLoadSnapshot sn)) (\<lambda>s.
    act_of (leader_resp_empty (se_debug_leader_resp se) (sg_payload s)))"

definition sim_spawn_entity ::
  "('a, 'b) sim_env \<Rightarrow> string \<Rightarrow> string option \<Rightarrow> ('a sim_world, unit) act" where
  "sim_spawn_entity se name prefab =
    act_bind (ask_leader se (LSpawnEntity name prefab)) (\<lambda>s.
    act_of (leader_resp_empty leader_resp_name (sg_payload s)))"

text \<open>Tasks of their own spawn the entities, under made-up names; what becomes of them is not looked at.\<close>

definition sim_spawn_entities ::
  "('a, 'b) sim_env \<Rightarrow> string option \<Rightarrow> string list \<Rightarrow> ('a sim_world, unit) act" where
  "sim_spawn_entities se prefab names = act_iter (\<lambda>n. ignore (sim_spawn_entity se n prefab)) names"

definition sim_remove_entity :: "('a, 'b) sim_env \<Rightarrow> string \<Rightarrow> ('a sim_world, unit) act" where
  "sim_remove_entity se name =
    act_bind (ask_leader se (LRemoveEntity name)) (\<lambda>s.
    act_of (leader_resp_empty leader_resp_name (sg_payload s)))"

definition sim_get_model :: "('a, 'b) sim_env \<Rightarrow> ('a sim_world, project) act" where
  "sim_get_model se = act_bind (ask_leader se LGetModel) (\<lambda>s. act_of (leader_resp_model (sg_payload s)))"

definition sim_query :: "('a, 'b) sim_env \<Rightarrow> sim_handle \<Rightarrow> query \<Rightarrow> ('a sim_world, query_product) act" where
  "sim_query se h q =
    act_bind (act_of (sim_worker h)) (\<lambda>(_, c).
    act_bind (sim_signal se (WlRequest (WProcessQuery q))) (\<lambda>sig.
    act_bind (worker_ctl se c (originating_at CallerSimHandle sig)) (\<lambda>s.
    act_of (resp_product (sg_payload s)))))"

definition sim_get_var :: "('a, 'b) sim_env \<Rightarrow> sim_handle \<Rightarrow> address \<Rightarrow> ('a sim_world, var) act" where
  "sim_get_var se h a =
    act_bind (sim_query se h (with_map (with_filter default_query (FName [a_entity a])) (SelectAddrs [a]))) (\<lambda>p.
    act_of (product_to_var p))"

definition sim_set_var ::
  "('a, 'b) sim_env \<Rightarrow> sim_handle \<Rightarrow> address \<Rightarrow> var \<Rightarrow> ('a sim_world, unit) act" where
  "sim_set_var se h a v = act_bind (ask_first se h (WSetVar a v)) (\<lambda>_. act_ret ())"

definition sim_get_clock :: "('a, 'b) sim_env \<Rightarrow> ('a sim_world, 64 word) act" where
  "sim_get_clock se =
    act_bind (ask_leader se LClock) (\<lambda>s.
    act_of (case sg_payload s of LrClock c \<Rightarrow> Ok c | _ \<Rightarrow> Panic))"

definition sim_reorganize :: "('a, 'b) sim_env \<Rightarrow> bool \<Rightarrow> ('a sim_world, unit) act" where
  "sim_reorganize se shuffle =
    (if shuffle then act_bind (ask_leader se (LReorganizeEntities shuffle)) (\<lambda>_. act_ret ()) else act_ret ())"

definition sim_shutdown :: "('a sim_world, unit) act" where
  "sim_shutdown w = (w\<lparr> sw_cancelled := True \<rparr>, Ok ())"

definition sim_snapshot ::
  "('a, 'b) sim_env \<Rightarrow> 32 word \<Rightarrow> sim_handle \<Rightarrow> ('a sim_world, snapshot) act" where
  "sim_snapshot se now h =
    act_bind (sim_get_clock se) (\<lambda>c.
    act_bind (sim_get_model se) (\<lambda>m.
    act_ret \<lparr> sn_created_at = now, sn_worker_count = of_nat (length (sh_workers h)), sn_clock = c,
      sn_model = m, sn_entities = [] \<rparr>))"

section \<open>A simulation from another\<close>

text \<open>What is done with a freshly spawned simulation; \<open>fork\<close> works on the old and the new one.\<close>

definition sim_spawn_from ::
  "('a, 'b) sim_env \<Rightarrow> project \<Rightarrow> string option \<Rightarrow> ('a sim_world, unit) act" where
  "sim_spawn_from se m scenario =
    act_bind (sim_pull_model se m) (\<lambda>_. sim_initialize_with_scenario se scenario)"

definition on_old :: "('w, 'x) act \<Rightarrow> ('w \<times> 'v, 'x) act" where
  "on_old m wv = (case m (fst wv) of (w, r) \<Rightarrow> ((w, snd wv), r))"

definition on_new :: "('v, 'x) act \<Rightarrow> ('w \<times> 'v, 'x) act" where
  "on_new m wv = (case m (snd wv) of (v, r) \<Rightarrow> ((fst wv, v), r))"

definition sim_fork ::
  "('a, 'b) sim_env \<Rightarrow> sim_handle \<Rightarrow> sim_handle \<Rightarrow> ('a sim_world \<times> 'a sim_world, unit) act" where
  "sim_fork se h forked =
    act_bind (on_old (sim_get_model se)) (\<lambda>m.
    act_bind (on_new (sim_spawn_from se m None)) (\<lambda>_.
    act_bind (on_old (sim_entities se h)) (\<lambda>names.
      act_iter (\<lambda>n.
        act_bind (on_old (sim_entity se h n)) (\<lambda>e. on_new (sim_pull_entity se forked n e))) names)))"

section \<open>The client interface\<close>

text \<open>A message to the server of the simulation, in the name of a client.\<close>

definition ask_server ::
  "('a, 'b) sim_env \<Rightarrow> uuid option \<Rightarrow> message \<Rightarrow> ('a sim_world, message) act" where
  "ask_server se known msg =
    act_bind (on_server (as_reply \<circ> serve_local_client (se_si se) known msg)) (\<lambda>a.
      case a of Answer m \<Rightarrow> act_ret m | _ \<Rightarrow> act_of (Err recv_error))"

definition client_shutdown :: "('a sim_world, unit) act" where
  "client_shutdown = act_bind sim_shutdown (\<lambda>_. sim_shutdown)"

definition client_status :: "('a, 'b) sim_env \<Rightarrow> sim_handle \<Rightarrow> ('a sim_world, message) act" where
  "client_status se h =
    (case sh_server h of
       Some known \<Rightarrow>
         act_bind (ask_server se known (MsStatusRequest [])) (\<lambda>m.
           case m of MsStatusResponse _ \<Rightarrow> act_ret m | _ \<Rightarrow> act_of (Err (UnexpectedResponse [])))
     | None \<Rightarrow> act_of (Err (Other ''sim client: `server` not available on the sim handler'')))"

definition no_server :: error where
  "no_server = ServerNotConnected (''sim handle doesn'' @ [CHR 0x27] @ ''t have the server interface available'')"

text \<open>The number of steps is not looked at.\<close>

definition client_step :: "('a, 'b) sim_env \<Rightarrow> 32 word \<Rightarrow> ('a sim_world, unit) act" where
  "client_step se step_count = sim_step se"

definition client_unsubscribe :: "('a, 'b) sim_env \<Rightarrow> sim_handle \<Rightarrow> uuid \<Rightarrow> ('a sim_world, unit) act" where
  "client_unsubscribe se h sub =
    (case sh_server h of
       Some _ \<Rightarrow> act_bind (ask_server se (Some 0) (MsUnsubscribeRequest sub)) (\<lambda>m.
         act_of (message_ok (se_debug_message se) m))
     | None \<Rightarrow> act_of (Err no_server))"

definition client_snapshot :: "('a, 'b) sim_env \<Rightarrow> sim_handle \<Rightarrow> ('a sim_world, snapshot) act" where
  "client_snapshot se h =
    (case sh_server h of
       Some _ \<Rightarrow> act_bind (ask_server se (Some 0) MsSnapshotRequest) (\<lambda>m.
         act_of (snapshot_of_message (se_debug_message se) m))
     | None \<Rightarrow> act_of (Err no_server))"

end
