(* ===== verification/SimFacts.thy ===== *)
theory SimFacts
  imports Sims
begin

text \<open>
  What the handle of a simulation guarantees: the count of its steps, what a snapshot brings back,
  and which entities it sees.
\<close>

section \<open>Requests to the leader\<close>

text \<open>The world after a call has taken its identifier and time.\<close>

definition called :: "nat \<Rightarrow> 'a sim_world \<Rightarrow> 'a sim_world" where
  "called k w = w\<lparr> sw_leader := (sw_leader w)\<lparr> ln_net := (ln_net (sw_leader w))\<lparr> nt_calls := k \<rparr> \<rparr> \<rparr>"

lemma called_simps [simp]:
  "ln_state (sw_leader (called k w)) = ln_state (sw_leader w)" "ln_alive (sw_leader (called k w)) = ln_alive (sw_leader w)"
  "node_at (ln_net (sw_leader (called k w))) = node_at (ln_net (sw_leader w))"
  "reachable_at ce (ln_net (sw_leader (called k w))) e = reachable_at ce (ln_net (sw_leader w)) e"
  by (simp_all add: called_def)

lemma sim_signal_run:
  "sim_signal se x w = (called (Suc (nt_calls (ln_net (sw_leader w)))) w,
     Ok (signal_from (ne_fresh (se_net se) (nt_calls (ln_net (sw_leader w))))
       (ne_time (se_net se) (Suc (nt_calls (ln_net (sw_leader w))))) x))"
  by (simp add: sim_signal_def on_leader_def on_net_def leader_signal_def se_li_def net_io_def act_simps called_def)

lemma ask_leader_exact:
  "\<exists>cx. ask_leader se req w = on_leader
     (leader_serve (se_li se) (se_debug_leader se) (FromController (LlRequest req)) cx)
     (called (Suc (nt_calls (ln_net (sw_leader w)))) w)"
  by (auto simp: ask_leader_def act_bind_Ok [OF sim_signal_run] signal_from_def)

lemma ask_leader_run:
  "\<exists>k cx. ask_leader se req w = on_leader
     (leader_serve (se_li se) (se_debug_leader se) (FromController (LlRequest req)) cx) (called k w)"
  using ask_leader_exact by blast

lemma on_leader_apply: "m (sw_leader w) = (l, r) \<Longrightarrow> on_leader m w = (w\<lparr> sw_leader := l \<rparr>, r)"
  by (simp add: on_leader_def)

lemmas leader_reads =
  leader_serve_def leader_local_controller_def leader_controller_def leader_handle_def then_answer_def
  leader_get_clock_def leader_get_model_def lmgr_expect_def lmgr_def lmgr_raw_def lmgr_handle_def
  as_reply_def answer_def signal_new_def act_bind_def act_of_def act_ret_def

lemma sim_get_clock_run:
  assumes "ln_alive (sw_leader w)"
  shows "\<exists>k. sim_get_clock se w = (called k w, Ok (ld_clock (ln_state (sw_leader w))))"
proof -
  obtain k cx where a: "ask_leader se LClock w = on_leader
      (leader_serve (se_li se) (se_debug_leader se) (FromController (LlRequest LClock)) cx) (called k w)"
    using ask_leader_run by blast
  have "leader_serve (se_li se) (se_debug_leader se) (FromController (LlRequest LClock)) cx (sw_leader (called k w))
      = (sw_leader (called k w), Ok (signal_new (LrClock (ld_clock (ln_state (sw_leader w)))) cx))"
    using assms by (simp add: leader_reads)
  with a show ?thesis
    by (auto simp: sim_get_clock_def on_leader_apply act_bind_def act_of_def signal_new_def)
qed

lemma sim_get_model_run:
  assumes "ln_alive (sw_leader w)"
  shows "\<exists>k. sim_get_model se w = (called k w, case ld_model (ln_state (sw_leader w)) of
      Some m \<Rightarrow> Ok m | None \<Rightarrow> Err (LeaderNotInitialized ''model not available''))"
proof -
  obtain k cx where a: "ask_leader se LGetModel w = on_leader
      (leader_serve (se_li se) (se_debug_leader se) (FromController (LlRequest LGetModel)) cx) (called k w)"
    using ask_leader_run by blast
  have "leader_serve (se_li se) (se_debug_leader se) (FromController (LlRequest LGetModel)) cx (sw_leader (called k w))
      = (sw_leader (called k w), case ld_model (ln_state (sw_leader w)) of
           Some m \<Rightarrow> Ok (signal_new (LrModel m) cx) | None \<Rightarrow> Err (LeaderNotInitialized ''model not available''))"
    using assms by (simp add: leader_reads split: option.split)
  with a show ?thesis
    by (auto simp: sim_get_model_def on_leader_apply act_bind_def act_of_def signal_new_def leader_resp_model_def
        split: option.split)
qed

lemma called_called [simp]: "called k (called l w) = called k w"
  by (simp add: called_def)

definition handle_snapshot :: "32 word \<Rightarrow> sim_handle \<Rightarrow> 64 word \<Rightarrow> project \<Rightarrow> snapshot" where
  "handle_snapshot now h c m = \<lparr> sn_created_at = now, sn_worker_count = of_nat (length (sh_workers h)),
     sn_clock = c, sn_model = m, sn_entities = [] \<rparr>"

lemma sim_snapshot_run:
  assumes "ln_alive (sw_leader w)"
  shows "\<exists>k. sim_snapshot se now h w = (called k w, case ld_model (ln_state (sw_leader w)) of
      Some m \<Rightarrow> Ok (handle_snapshot now h (ld_clock (ln_state (sw_leader w))) m)
    | None \<Rightarrow> Err (LeaderNotInitialized ''model not available''))"
proof -
  obtain k where c: "sim_get_clock se w = (called k w, Ok (ld_clock (ln_state (sw_leader w))))"
    using sim_get_clock_run [OF assms(1)] by blast
  obtain l where m: "sim_get_model se (called k w) = (called l (called k w), case ld_model (ln_state (sw_leader w)) of
      Some m \<Rightarrow> Ok m | None \<Rightarrow> Err (LeaderNotInitialized ''model not available''))"
    using sim_get_model_run [of "called k w"] assms(1) by fastforce
  from c m show ?thesis
    by (auto simp: sim_snapshot_def act_bind_def act_ret_def handle_snapshot_def split: option.splits)
qed

section \<open>Snapshots\<close>

lemma leader_set_clock_run:
  "ln_alive l \<Longrightarrow> leader_set_clock li debug c l = (l\<lparr> ln_state := (ln_state l)\<lparr> ld_clock := c \<rparr> \<rparr>, Ok ())"
  by (simp add: leader_set_clock_def lmgr_expect_def lmgr_def lmgr_raw_def lmgr_handle_def modify_leader_def
      act_bind_def act_of_def act_ret_def is_empty_resp_def)

lemma sim_load_snapshot_run:
  assumes "sim_load_snapshot se sn v = (v1, Ok ())"
  shows "\<exists>k l. leader_set_model (se_li se) (sn_model sn) (sw_leader (called k v)) = (l, Ok ())
    \<and> (ln_alive l \<longrightarrow> sw_leader v1 = l\<lparr> ln_state := (ln_state l)\<lparr> ld_clock := sn_clock sn \<rparr> \<rparr>)"
proof -
  obtain k cx where a: "ask_leader se (LLoadSnapshot sn) v = on_leader
      (leader_serve (se_li se) (se_debug_leader se) (FromController (LlRequest (LLoadSnapshot sn))) cx) (called k v)"
    using ask_leader_run by blast
  obtain l r where l: "leader_set_model (se_li se) (sn_model sn) (sw_leader (called k v)) = (l, r)" by fastforce
  have "r = Ok ()"
    using assms a l
    by (cases r) (auto simp: sim_load_snapshot_def act_bind_def on_leader_def leader_serve_def
        leader_local_controller_def leader_controller_def leader_handle_def as_reply_def)
  with assms a l show ?thesis
    by (auto simp: sim_load_snapshot_def act_bind_def on_leader_def leader_serve_def leader_set_clock_run
        leader_local_controller_def leader_controller_def leader_handle_def as_reply_def then_answer_def
        answer_def act_ret_def act_of_def split: prod.splits result.splits intro!: exI [of _ k])
qed

lemma sim_load_snapshot_Ok:
  assumes "leader_set_model (se_li se) (sn_model sn) (sw_leader (called (Suc (nt_calls (ln_net (sw_leader v)))) v)) = (l, Ok ())"
    and "ln_alive l"
  shows "\<exists>v1. sim_load_snapshot se sn v = (v1, Ok ())"
proof -
  obtain cx where "ask_leader se (LLoadSnapshot sn) v = on_leader
      (leader_serve (se_li se) (se_debug_leader se) (FromController (LlRequest (LLoadSnapshot sn))) cx)
      (called (Suc (nt_calls (ln_net (sw_leader v)))) v)"
    using ask_leader_exact by blast
  with assms show ?thesis
    by (auto simp: sim_load_snapshot_def act_bind_def on_leader_def leader_serve_def leader_set_clock_run
        leader_local_controller_def leader_controller_def leader_handle_def as_reply_def then_answer_def
        answer_def act_ret_def act_of_def signal_new_def leader_resp_empty_def)
qed

text \<open>C10: a snapshot loaded into a simulation brings back the model, on its leader
  and on every registered worker, and the clock of the leader.  The clocks of the workers stay what
  they were, and no entity comes back, since the snapshot of a handle never holds one.\<close>

theorem snapshot_restores:
  assumes "ln_alive (sw_leader w)" and "sim_snapshot se now h w = (w1, Ok sn)"
    and "ln_alive (sw_leader v)" and "ws = ld_workers (ln_state (sw_leader v))" and "distinct (conns ws)"
    and "\<forall>(i, x) \<in> set ws. reachable_at (se_net se') (ln_net (sw_leader v)) (lw_exec x)"
    and "sim_load_snapshot se' sn v = (v1, Ok ())"
  shows "sn_entities sn = []
    \<and> ld_model (ln_state (sw_leader v1)) = ld_model (ln_state (sw_leader w))
    \<and> ld_clock (ln_state (sw_leader v1)) = ld_clock (ln_state (sw_leader w))
    \<and> (\<forall>(i, x) \<in> set ws. \<exists>y y'. node_at (ln_net (sw_leader v)) (conn (lw_exec x)) = Some y
        \<and> node_at (ln_net (sw_leader v1)) (conn (lw_exec x)) = Some y'
        \<and> ws_model (nd_state y') = ld_model (ln_state (sw_leader w))
        \<and> ws_clock (nd_state y') = ws_clock (nd_state y))"
proof -
  obtain m where m: "ld_model (ln_state (sw_leader w)) = Some m"
    and sn: "sn_model sn = m" "sn_clock sn = ld_clock (ln_state (sw_leader w))" "sn_entities sn = []"
    using sim_snapshot_run [OF assms(1), of se now h] assms(2) by (auto simp: handle_snapshot_def split: option.splits)
  obtain k l where l: "leader_set_model (net_io (se_env se') (se_net se')) m (sw_leader (called k v)) = (l, Ok ())"
    and v1: "ln_alive l \<longrightarrow> sw_leader v1 = l\<lparr> ln_state := (ln_state l)\<lparr> ld_clock := sn_clock sn \<rparr> \<rparr>"
    using sim_load_snapshot_run [OF assms(7)] sn(1) by (auto simp: se_li_def)
  have "ln_alive (sw_leader (called k v))" "ws = ld_workers (ln_state (sw_leader (called k v)))"
    "\<forall>(i, x) \<in> set ws. reachable_at (se_net se') (ln_net (sw_leader (called k v))) (lw_exec x)"
    using assms(3,4,6) by simp_all
  from leader_set_model_net [OF this(1,2) assms(5) this(3) l]
  have "ln_alive l" "ln_state l = (ln_state (sw_leader v))\<lparr> ld_model := Some m \<rparr>"
    "\<forall>x \<in> snd ` set ws. asked (se_net se')
       (\<lambda>y y'. ws_model (nd_state y') = Some m \<and> ws_clock (nd_state y') = ws_clock (nd_state y))
       (ln_net (sw_leader (called k v))) (ln_net l) x" by auto
  with v1 m sn show ?thesis by (force simp: asked_def)
qed

section \<open>Steps\<close>

lemma process_step_run:
  assumes "ln_alive l" "ld_clock (ln_state l) \<noteq> - 1"
  shows "\<exists>n. process_step (net_io env ce) l =
    (if ld_workers (ln_state l) = [] then (l, Err NoAvailableWorkers)
     else (l\<lparr> ln_state := (ln_state l)\<lparr> ld_clock := ld_clock (ln_state l) + 1 \<rparr>, ln_net := n \<rparr>, Ok ()))"
proof -
  let ?io = "net_io env ce" and ?ws = "ld_workers (ln_state l)"
  have ask: "(\<lambda>(i, x). ignore (on_net (tell_worker ?io req x))) = ask_one False ?io req" for req
    by (auto simp: ask_one_def)
  have ws: "leader_get_workers ?io l = (l, Ok ?ws)"
    using assms(1) by (simp add: leader_get_workers_def leader_reads)
  have all: "\<exists>n. act_iter (ask_one False ?io req) ws x = (x\<lparr> ln_net := n \<rparr>, Ok ())" for req ws x
  proof (induction ws arbitrary: x)
    case (Cons ix ws)
    obtain n r where t: "tell_worker ?io req (snd ix) (ln_net x) = (n, r)" by fastforce
    with tell_not_Panic [of env ce req "snd ix" "ln_net x"] have "r \<noteq> Panic" by simp
    with t have "ask_one False ?io req ix x = (x\<lparr> ln_net := n \<rparr>, Ok ())"
      by (cases r) (simp_all add: ask_one_def ignore_def on_net_def act_bind_def act_try_def act_ret_def)
    with Cons.IH [of "x\<lparr> ln_net := n \<rparr>"] show ?case by (simp add: act_simps)
  qed (simp add: act_ret_def, metis leader_node.surjective leader_node.update_convs(3))
  obtain n1 where l1: "act_iter (ask_one False ?io (WIsBlocking True)) ?ws l = (l\<lparr> ln_net := n1 \<rparr>, Ok ())"
    using all by blast
  obtain n2 where l2: "act_iter (ask_one False ?io WStep) ?ws (l\<lparr> ln_net := n1 \<rparr>) = (l\<lparr> ln_net := n1 \<rparr>\<lparr> ln_net := n2 \<rparr>, Ok ())"
    using all by blast
  show ?thesis
  proof (cases "?ws = []")
    case True
    with ws show ?thesis by (simp add: process_step_def act_simps)
  next
    case False
    with assms ws l1 l2 show ?thesis
      by (cases l) (simp add: process_step_def ask act_simps act_ret_def lmgr_raw_def lmgr_handle_def Let_def)
  qed
qed

lemma sim_step_run:
  assumes "ln_alive (sw_leader w)" "ld_clock (ln_state (sw_leader w)) \<noteq> - 1"
  shows "\<exists>n. sim_step se w =
    (let l = sw_leader w in
     if ld_workers (ln_state l) = [] then (w\<lparr> sw_leader := l\<lparr> ln_net := n \<rparr> \<rparr>, Err NoAvailableWorkers)
     else (w\<lparr> sw_leader := l\<lparr> ln_state := (ln_state l)\<lparr> ld_clock := ld_clock (ln_state l) + 1 \<rparr>, ln_net := n \<rparr> \<rparr>, Ok ()))"
proof -
  obtain k cx where a: "ask_leader se LStep w = on_leader
      (leader_serve (se_li se) (se_debug_leader se) (FromController (LlRequest LStep)) cx) (called k w)"
    using ask_leader_run by blast
  let ?l = "sw_leader (called k w)"
  obtain n where p: "process_step (net_io (se_env se) (se_net se)) ?l =
    (if ld_workers (ln_state ?l) = [] then (?l, Err NoAvailableWorkers)
     else (?l\<lparr> ln_state := (ln_state ?l)\<lparr> ld_clock := ld_clock (ln_state ?l) + 1 \<rparr>, ln_net := n \<rparr>, Ok ()))"
    using process_step_run [of ?l "se_env se" "se_net se"] assms by auto
  note defs = sim_step_def act_bind_def on_leader_def leader_serve_def leader_local_controller_def
    leader_controller_def as_reply_def then_answer_def answer_def act_ret_def se_li_def
  show ?thesis
  proof (cases "ld_workers (ln_state (sw_leader w)) = []")
    case True
    with p a show ?thesis by (intro exI [of _ "ln_net ?l"]) (simp add: defs called_def Let_def)
  next
    case False
    with p a show ?thesis by (intro exI [of _ n]) (simp add: defs called_def Let_def)
  qed
qed


section \<open>Entities\<close>

lemma entity_list_request:
  assumes "handle_request (node_io env pe) WEntityList cx multi y = (y', Ok s)" "nd_alive y"
  shows "\<exists>p names. ws_part (nd_state y) = Some p \<and> get_entities (ne_api env) p = Ok names
    \<and> sg_payload s = WrEntityList names"
  using assms
  by (auto simp: handle_request_def then_reply_def list_entities_def expect_resp_def act_bind_def act_of_def
      act_ret_def reply_def node_io_simps node_mgr_def mgr_handle_def on_part_def signal_new_def
      split: prod.splits result.splits option.splits)

lemma entity_list_payload:
  "(case r of WrEntityList names \<Rightarrow> Ok names | _ \<Rightarrow> Err e) = Ok y \<longleftrightarrow> r = WrEntityList y"
  by (cases r) auto


section \<open>A simulation of two workers\<close>

definition sample_sim_env :: "((string, entity) kv, entity) sim_env" where
  "sample_sim_env =
    \<lparr> se_env = list_env, se_net = sample_net_env, se_base = idle_io\<lparr> si_remote_address := (\<lambda>_. []) \<rparr>, se_debug_leader = (\<lambda>_. []),
      se_debug_signal = (\<lambda>_. []), se_debug_resp = (\<lambda>_. []), se_debug_leader_resp = (\<lambda>_. []),
      se_debug_message = (\<lambda>_. []) \<rparr>"

definition sample_sim :: "(string, entity) kv sim_world" where
  "sample_sim = \<lparr> sw_leader = sample_cluster, sw_server = sn_state (strict_server (ln_net sample_cluster)),
     sw_cancelled = False \<rparr>"

definition sample_handle :: sim_handle where
  "sample_handle =
    \<lparr> sh_config = \<lparr> sf_worker_count = 1, sf_worker = ws_config (nd_state sample_node),
        sf_leader = default_leader_config, sf_server = None, sf_autostep = None \<rparr>,
      sh_workers = [(6, 3)], sh_server = None \<rparr>"

lemma sample_sim_simps [simp]:
  "sw_leader sample_sim = sample_cluster" "se_net sample_sim_env = sample_net_env" "se_env sample_sim_env = list_env"
  "sh_workers sample_handle = [(6, 3)]"
  by (simp_all add: sample_sim_def sample_sim_env_def sample_handle_def)


theorem snapshot_restores_witness:
  "\<exists>w1 v1 y. sim_snapshot sample_sim_env 9 sample_handle sample_sim = (w1, Ok (handle_snapshot 9 sample_handle 0 default_model))
    \<and> sim_load_snapshot sample_sim_env (handle_snapshot 9 sample_handle 0 default_model) sample_sim = (v1, Ok ())
    \<and> node_at (ln_net (sw_leader v1)) 3 = Some y \<and> ws_model (nd_state y) = Some default_model"
proof -
  let ?sn = "handle_snapshot 9 sample_handle 0 default_model"
  have m: "ld_model (ln_state sample_cluster) = Some default_model" by (simp add: sample_cluster_def)
  obtain w1 where p: "sim_snapshot sample_sim_env 9 sample_handle sample_sim = (w1, Ok ?sn)"
    using sim_snapshot_run [of sample_sim sample_sim_env 9 sample_handle] m by auto
  let ?l = "leader_set_model (net_io list_env sample_net_env) default_model
    (sample_cluster\<lparr> ln_net := (ln_net sample_cluster)\<lparr> nt_calls := 1 \<rparr> \<rparr>)"
  have "(case ?l of (l, Ok _) \<Rightarrow> ln_alive l | _ \<Rightarrow> False)" by code_simp
  then obtain l where l: "?l = (l, Ok ())" "ln_alive l" by (cases ?l) (auto split: result.splits)
  have "nt_calls (ln_net sample_cluster) = 0" by (simp add: sample_cluster_def)
  with l sim_load_snapshot_Ok [of sample_sim_env ?sn sample_sim l] obtain v1
    where q: "sim_load_snapshot sample_sim_env ?sn sample_sim = (v1, Ok ())"
    by (auto simp: se_li_def called_def handle_snapshot_def)
  have "\<forall>(i, x) \<in> set (ld_workers (ln_state (sw_leader sample_sim))).
      reachable_at (se_net sample_sim_env) (ln_net (sw_leader sample_sim)) (lw_exec x)"
    using sample_reachable by simp
  from snapshot_restores [OF _ p _ refl _ this q] p q m show ?thesis by auto
qed


end
