(* ===== verification/SimVars.thy ===== *)
theory SimVars
  imports SimFacts
begin

text \<open>
  A variable set and read through the handle of a simulation: from the handle over the channel, the
  admission of calls, the request handler, the query and its distribution down to the partition.
\<close>

section \<open>The query for one value\<close>

definition value_query :: "address \<Rightarrow> query" where
  "value_query a = with_map (with_filter default_query (FName [a_entity a])) (SelectAddrs [a])"

lemma value_query_part:
  assumes "part_vars p (key_of a) = Some x"
  shows "\<exists>p'. process_query api uesc now (value_query a) p = (p', Ok (PVar [x]))"
proof -
  from assms obtain e where e: "map_of (pt_entities p) (a_entity a) = Some e"
    and x: "map_of (e_storage e) (address_storage_index a) = Some x"
    by (auto simp: part_vars_def key_of_def stored_def bind_eq_Some_conv)
  from e have "a_entity a \<in> set (map fst (pt_entities p))" by (metis map_of_eq_None_iff option.distinct(1) set_map)
  then have "select_entities api uesc (value_query a) p = Ok ([a_entity a], [])"
    by (simp add: select_entities_def initial_selection_def filter_step_def select_step_def value_query_def
        with_map_def with_filter_def default_query_def entity_limit_def)
  with e x show ?thesis
    by (simp add: process_query_def value_query_def with_map_def with_filter_def default_query_def get_entity_def
        map_addrs_def storage_get_var_def touch_def build_product_def)
qed

section \<open>The other participants\<close>

text \<open>The leader answers, with values where it answers a query, and every other worker with values.\<close>

definition answers_values :: "peers \<Rightarrow> 'a worker_state \<Rightarrow> bool" where
  "answers_values pe st \<longleftrightarrow>
    (\<forall>h. \<exists>s. pe_leader pe h = Ok s
      \<and> (\<forall>p. sg_payload s = LrWorkerProxy (WrQuery p) \<longrightarrow> p = PEmpty \<or> (\<exists>vs. p = PVar vs)))
    \<and> (\<forall>h. \<exists>s vs. pe_worker pe h = Ok s \<and> sg_payload s = WrQuery (PVar vs))
    \<and> (\<forall>(i, x) \<in> set (ws_other_workers st). \<exists>e. ow_situation x = WsConnected e)"

definition values_only :: "query_product \<Rightarrow> bool" where
  "values_only p \<longleftrightarrow> p = PEmpty \<or> (\<exists>vs. p = PVar vs)"

lemma merge_values:
  "values_only p \<Longrightarrow> \<exists>us. product_merge p (PVar vs) = Ok (PVar (us @ vs))"
  by (auto simp: values_only_def product_merge_def)

lemma query_leader_values:
  assumes "nd_alive y" "answers_values pe st" "\<And>h. cx_initiated_at cx \<le> pe_time pe h"
  shows "\<exists>h p cx'. query_leader (node_io env pe) q cx y = (y\<lparr> nd_sent := h \<rparr>, Ok (p, cx')) \<and> values_only p"
proof (cases "lv_situation (ws_leader (nd_state y))")
  case (LsConnected e)
  let ?cx = "cx\<lparr> cx_hops := cx_hops cx @ [\<lparr> nh_observer = PWorker (ws_id (nd_state y)),
    nh_delta = ucast (pe_time pe (nd_sent y) - cx_initiated_at cx) \<rparr>] \<rparr>"
  have "\<exists>h s. leader_exec (node_io env pe) e (signal_new (LWorkerProxy (WProcessQuery q) None) ?cx) y
      = (y\<lparr> nd_sent := h \<rparr>, Ok s)
    \<and> (\<forall>p. sg_payload s = LrWorkerProxy (WrQuery p) \<longrightarrow> values_only p)"
  proof -
    have "\<exists>s. pe_leader pe h = Ok s \<and> (\<forall>p. sg_payload s = LrWorkerProxy (WrQuery p) \<longrightarrow> values_only p)" for h
      using assms(2) by (simp add: answers_values_def values_only_def)
    then show ?thesis
      by (cases e) (fastforce simp: leader_exec_def node_io_def post_def map_act_err_def Let_def apsnd_def map_prod_def)+
  qed
  then obtain h s where s: "leader_exec (node_io env pe) e (signal_new (LWorkerProxy (WProcessQuery q) None) ?cx) y
      = (y\<lparr> nd_sent := h \<rparr>, Ok s)" "\<And>p. sg_payload s = LrWorkerProxy (WrQuery p) \<Longrightarrow> values_only p" by blast
  have merge: "product_merge PEmpty p = Ok p" for p by (simp add: product_merge_def)
  have now: "\<not> pe_time pe h < cx_initiated_at cx" for h using assms(3) [of h] by simp
  have run: "query_leader (node_io env pe) q cx y = act_bind (act_of (Ok s)) (\<lambda>s. case sg_payload s of
        LrWorkerProxy (WrQuery p) \<Rightarrow> act_ret (p, ?cx) | _ \<Rightarrow> act_ret (PEmpty, ?cx)) (y\<lparr> nd_sent := h \<rparr>)"
    using s(1) assms(1) LsConnected now
    by (auto simp: query_leader_def act_simps act_of_def merge Let_def split: leader_resp_of.split worker_resp.split)
  show ?thesis
  proof (cases "\<exists>p. sg_payload s = LrWorkerProxy (WrQuery p)")
    case True
    with s(2) run show ?thesis by (auto simp: act_simps)
  next
    case False
    with run have "query_leader (node_io env pe) q cx y = (y\<lparr> nd_sent := h \<rparr>, Ok (PEmpty, ?cx))"
      by (auto simp: act_simps split: leader_resp_of.split worker_resp.split)
    then show ?thesis by (auto simp: values_only_def)
  qed
next
qed (use assms in \<open>auto simp: query_leader_def node_io_simps Let_def act_simps not_less values_only_def
    intro!: exI [of _ "nd_sent y"]\<close>)

lemma query_others_values:
  assumes "values_only p" "\<forall>(i, x) \<in> set ws. \<exists>e. ow_situation x = WsConnected e" "answers_values pe st"
  shows "\<exists>h p'. act_fold (query_one (node_io env pe) q cx) p ws y = (y\<lparr> nd_sent := h \<rparr>, Ok p') \<and> values_only p'"
  using assms(1,2)
proof (induction ws arbitrary: p y)
  case Nil
  then show ?case by (auto simp: act_ret_def intro!: exI [of _ "nd_sent y"])
next
  case (Cons ix ws)
  obtain i x e where ix: "ix = (i, x)" and e: "ow_situation x = WsConnected e" using Cons.prems(2) by (cases ix) auto
  have "\<exists>s vs. pe_worker pe h = Ok s \<and> sg_payload s = WrQuery (PVar vs)" for h
    using assms(3) by (simp add: answers_values_def)
  with e have "\<exists>h s vs. other_worker_exec (node_io env pe) x (signal_new (WProcessQuery q) cx) y
      = (y\<lparr> nd_sent := h \<rparr>, Ok s) \<and> sg_payload s = WrQuery (PVar vs)"
    by (cases e) (fastforce simp: other_worker_exec_def worker_exec_def node_io_def post_def map_act_err_def
        Let_def apsnd_def map_prod_def)+
  then obtain h s vs where s: "other_worker_exec (node_io env pe) x (signal_new (WProcessQuery q) cx) y
      = (y\<lparr> nd_sent := h \<rparr>, Ok s)" "sg_payload s = WrQuery (PVar vs)" by blast
  obtain us where "product_merge p (PVar vs) = Ok (PVar (us @ vs))" using merge_values [OF Cons.prems(1)] by blast
  with s have one: "query_one (node_io env pe) q cx p ix y = (y\<lparr> nd_sent := h \<rparr>, Ok (PVar (us @ vs)))"
    by (simp add: query_one_def ix act_simps)
  have "values_only (PVar (us @ vs))" by (simp add: values_only_def)
  from Cons.IH [OF this, of "y\<lparr> nd_sent := h \<rparr>"] Cons.prems(2) one show ?case by (auto simp: act_simps)
qed

section \<open>The value on the worker\<close>

lemma worker_query_value:
  assumes "nd_alive y" "worker_vars (nd_state y) (key_of a) = Some x" "answers_values pe (nd_state y)"
    and "\<And>h. cx_initiated_at cx \<le> pe_time pe h"
  shows "\<exists>y' us cx'. worker_query (node_io env pe) (value_query a) cx y = (y', Ok (PVar (us @ [x]), cx')) \<and> nd_alive y'"
proof -
  let ?io = "node_io env pe" and ?q = "value_query a" and ?ws = "ws_other_workers (nd_state y)"
  have g: "q_scope ?q = Global" by (simp add: value_query_def with_map_def with_filter_def default_query_def)
  obtain h p cx' where first: "(if ?ws = [] \<and> \<not> went_through_leader cx then query_leader ?io ?q cx else act_ret (PEmpty, cx)) y
      = (y\<lparr> nd_sent := h \<rparr>, Ok (p, cx'))" and p: "values_only p"
  proof (cases "?ws = [] \<and> \<not> went_through_leader cx")
    case True
    with query_leader_values [OF assms(1,3,4)] that show ?thesis by fastforce
  next
    case False
    with that [of "nd_sent y" PEmpty cx] show ?thesis by (auto simp: act_ret_def values_only_def)
  qed
  let ?y = "y\<lparr> nd_sent := h \<rparr>"
  obtain part where part: "ws_part (nd_state y) = Some part" "part_vars part (key_of a) = Some x"
    using assms(2) by (auto simp: worker_vars_def bind_eq_Some_conv)
  obtain part' where "process_query (ne_api env) (ne_uesc env) (secs_of (pe_time pe h)) ?q part = (part', Ok (PVar [x]))"
    using value_query_part [OF part(2)] by blast
  with assms(1) part(1) have local: "act_try (mgr_process_query (io_mgr ?io) ?q) ?y
      = (?y\<lparr> nd_state := (nd_state y)\<lparr> ws_part := Some part' \<rparr> \<rparr>, Ok (Ok (PVar [x])))"
    by (simp add: mgr_process_query_def expect_resp_def act_bind_def act_of_def act_try_def node_io_simps node_mgr_def
        mgr_handle_def on_part_def)
  let ?z = "?y\<lparr> nd_state := (nd_state y)\<lparr> ws_part := Some part' \<rparr> \<rparr>"
  obtain h' p' where rest: "act_fold (query_one ?io ?q cx') p ?ws ?z = (?z\<lparr> nd_sent := h' \<rparr>, Ok p')" and p': "values_only p'"
    using query_others_values [OF p _ assms(3), of ?ws env ?q cx' ?z] assms(3) by (auto simp: answers_values_def)
  obtain us where merge: "product_merge p' (PVar [x]) = Ok (PVar (us @ [x]))" using merge_values [OF p'] by blast
  have "worker_query ?io ?q cx y = (?z\<lparr> nd_sent := h' \<rparr>, Ok (PVar (us @ [x]), cx'))"
    using assms(1) first local rest merge by (simp add: worker_query_def g node_io_simps act_simps)
  with assms(1) show ?thesis by simp
qed

section \<open>The handle\<close>

text \<open>What the first worker of a handle does with a request of it.\<close>

lemma worker_ctl_run:
  assumes "reachable_at (se_net se) (ln_net (sw_leader w)) (Local c)" "node_at (ln_net (sw_leader w)) c = Some y"
    and "common_req req" "fresh_call (se_net se) cx"
    and "worker_ctl se c \<lparr> sg_payload = WlRequest req, sg_ctx = cx \<rparr> w = (w', r)"
  shows "\<exists>cx' y' r'. handle_request (node_io (se_env se) (ne_peers (se_net se) c)) req cx' None y = (y', r')
    \<and> node_at (ln_net (sw_leader w')) c = Some y' \<and> r = snd (as_reply (y', r'))
    \<and> (nd_alive y' \<longrightarrow> reachable_at (se_net se) (ln_net (sw_leader w')) (Local c))
    \<and> cx_initiated_at cx' = cx_initiated_at cx"
proof -
  let ?s = "\<lparr> sg_payload = req, sg_ctx = cx \<rparr>"
  obtain n q where e: "exec_at (se_env se) (se_net se) (Local c) ?s (ln_net (sw_leader w)) = (n, q)" by fastforce
  with assms(5) have "w' = w\<lparr> sw_leader := (sw_leader w)\<lparr> ln_net := n \<rparr> \<rparr>" "r = q"
    by (simp_all add: worker_ctl_def exec_at_def on_leader_def on_net_def signal_new_def)
  moreover from exec_at_net [OF assms(1) _ _ _ e, of y] assms(2,3,4) obtain cx' y' r' where
    "handle_request (node_io (se_env se) (ne_peers (se_net se) c)) req cx' None y = (y', r')"
    "node_at n c = Some y'" "q = snd (as_reply (y', r'))" "nd_alive y' \<longrightarrow> reachable_at (se_net se) n (Local c)"
    "cx_initiated_at cx' = cx_initiated_at cx" by auto
  ultimately show ?thesis by (intro exI [of _ cx'] exI [of _ y'] exI [of _ r']) simp
qed

lemma ask_first_run:
  assumes "sh_workers h = (i, c) # ws" and "reachable_at (se_net se) (ln_net (sw_leader w)) (Local c)"
    and "node_at (ln_net (sw_leader w)) c = Some y" "common_req req" and "ask_first se h req w = (w', r)"
  shows "\<exists>cx y' r'. handle_request (node_io (se_env se) (ne_peers (se_net se) c)) req cx None y = (y', r')
    \<and> node_at (ln_net (sw_leader w')) c = Some y' \<and> r = snd (as_reply (y', r'))
    \<and> (nd_alive y' \<longrightarrow> reachable_at (se_net se) (ln_net (sw_leader w')) (Local c))"
proof -
  let ?k = "nt_calls (ln_net (sw_leader w))"
  let ?sig = "signal_from (ne_fresh (se_net se) ?k) (ne_time (se_net se) (Suc ?k)) (WlRequest req)"
  have sig: "\<lparr> sg_payload = WlRequest req, sg_ctx = sg_ctx ?sig \<rparr> = ?sig" by (simp add: signal_from_def signal_new_def)
  have "worker_ctl se c \<lparr> sg_payload = WlRequest req, sg_ctx = sg_ctx ?sig \<rparr> (called (Suc ?k) w) = (w', r)"
    using assms(1,5) by (simp add: sig ask_first_def sim_worker_def act_bind_Ok [OF sim_signal_run] act_simps act_of_def)
  moreover have "node_at (ln_net (sw_leader (called (Suc ?k) w))) c = Some y"
    "reachable_at (se_net se) (ln_net (sw_leader (called (Suc ?k) w))) (Local c)"
    using assms(2,3) by (simp_all add: called_def node_at_def reachable_at_def)
  ultimately show ?thesis
    using worker_ctl_run [of se "called (Suc ?k) w" c y req "sg_ctx ?sig" w' r] assms(4) by auto
qed

section \<open>Setting and reading\<close>

lemma set_var_request:
  assumes "handle_request (node_io env pe) (WSetVar a v) cx multi y = (y', r)" "nd_alive y"
    and "worker_vars (nd_state y) (key_of a) \<noteq> None"
  shows "(\<exists>s. r = Ok s) \<and> nd_alive y' \<and> worker_vars (nd_state y') = (worker_vars (nd_state y))(key_of a \<mapsto> v)
    \<and> ws_other_workers (nd_state y') = ws_other_workers (nd_state y)"
proof -
  obtain st q where m: "mgr_handle env (\<lambda>_ _. map_ok (\<lambda>_. ()) (pe_leader pe (nd_sent y)))
      (secs_of (pe_time pe (nd_sent y))) (pe_fresh pe (nd_sent y)) (MgSetVars [(a, v)]) (nd_state y) = (st, q)" by fastforce
  obtain w where w: "worker_vars (nd_state y) (key_of a) = Some w" using assms(3) by blast
  from manager_vars.set_stored [OF w m] have st: "q = Ok MrEmpty" "worker_vars st = (worker_vars (nd_state y))(key_of a \<mapsto> v)"
    by auto
  have "ws_other_workers st = ws_other_workers (nd_state y)"
    using m by (auto simp: mgr_handle_def on_part_def split: option.splits prod.splits)
  moreover have "y' = y\<lparr> nd_state := st \<rparr> \<and> (\<exists>s. r = Ok s)"
    using assms(1,2) m st(1)
    by (auto simp: handle_request_def then_reply_def set_vars_of_def act_bind_def act_ret_def reply_def
        node_io_simps node_mgr_def)
  ultimately show ?thesis using st assms(2) by simp
qed

lemma sim_get_var_value:
  assumes "sh_workers h = (i, c) # ws" and "reachable_at (se_net se) (ln_net (sw_leader w)) (Local c)"
    and "node_at (ln_net (sw_leader w)) c = Some y" and "worker_vars (nd_state y) (key_of a) = Some x"
    and "answers_values (ne_peers (se_net se) c) (nd_state y)" and "sim_get_var se h a w = (w', r)"
  shows "r = Ok x"
proof -
  let ?k = "nt_calls (ln_net (sw_leader w))" and ?pe = "ne_peers (se_net se) c"
  let ?sig = "originating_at CallerSimHandle
    (signal_from (ne_fresh (se_net se) ?k) (ne_time (se_net se) (Suc ?k)) (WlRequest (WProcessQuery (value_query a))))"
  let ?w = "called (Suc ?k) w"
  have sig: "\<lparr> sg_payload = WlRequest (WProcessQuery (value_query a)), sg_ctx = sg_ctx ?sig \<rparr> = ?sig"
    by (simp add: originating_at_def signal_from_def signal_new_def)
  obtain w1 q where q: "worker_ctl se c ?sig ?w = (w1, q)" by fastforce
  have at: "node_at (ln_net (sw_leader ?w)) c = Some y" "reachable_at (se_net se) (ln_net (sw_leader ?w)) (Local c)"
    using assms(2,3) by (simp_all add: called_def node_at_def reachable_at_def)
  have "fresh_call (se_net se) (sg_ctx ?sig)" "common_req (WProcessQuery (value_query a))" by (simp_all add: common_req_def)
  moreover have "worker_ctl se c \<lparr> sg_payload = WlRequest (WProcessQuery (value_query a)), sg_ctx = sg_ctx ?sig \<rparr> ?w = (w1, q)"
    using q by (simp only: sig)
  ultimately obtain cx y1 r1
    where run: "handle_request (node_io (se_env se) ?pe) (WProcessQuery (value_query a)) cx None y = (y1, r1)"
      and r1: "q = snd (as_reply (y1, r1))" and t: "cx_initiated_at cx = cx_initiated_at (sg_ctx ?sig)"
    using worker_ctl_run [OF at(2,1)] by metis
  have "cx_initiated_at cx \<le> pe_time ?pe l" for l
    using t assms(2) by (auto simp: reachable_at_def originating_at_def signal_from_def signal_new_def context_new_def)
  moreover have "nd_alive y" using assms(2,3) by (auto simp: reachable_at_def node_at_def)
  ultimately obtain y2 us cx2 where
    "worker_query (node_io (se_env se) ?pe) (value_query a) cx y = (y2, Ok (PVar (us @ [x]), cx2))"
    using worker_query_value [OF _ assms(4,5)] by blast
  with run r1 have "\<exists>s. q = Ok s \<and> sg_payload s = WrQuery (PVar (us @ [x]))"
    by (auto simp: handle_request_def act_simps reply_def signal_new_def as_reply_def)
  with q assms(1,6) show ?thesis
    by (auto simp: sim_get_var_def sim_query_def sim_worker_def act_bind_Ok [OF sim_signal_run] act_simps act_of_def
        value_query_def [symmetric] product_to_var_def resp_product_def)
qed

text \<open>C2: a variable set through the handle of a simulation is read back through it with
  the value that was set, and every other variable of the first worker with the value it had, whatever
  values the leader and the other workers hold for the same addresses: the answer of the first worker
  itself is merged last and is the one returned.\<close>

theorem sim_set_get:
  assumes "sh_workers h = (i, c) # ws" and "reachable_at (se_net se) (ln_net (sw_leader w)) (Local c)"
    and "node_at (ln_net (sw_leader w)) c = Some y" and "worker_vars (nd_state y) (key_of a) \<noteq> None"
    and "worker_vars (nd_state y) (key_of b) = Some u" and "answers_values (ne_peers (se_net se) c) (nd_state y)"
    and "sim_set_var se h a v w = (w1, r1)" and "sim_get_var se h b w1 = (w2, r2)"
  shows "r1 = Ok () \<and> r2 = Ok (if key_of b = key_of a then v else u)"
proof -
  obtain q where ask: "ask_first se h (WSetVar a v) w = (w1, q)" and r1: "r1 = map_ok (\<lambda>_. ()) q"
    using assms(7) by (auto simp: sim_set_var_def act_bind_def act_ret_def split: prod.splits result.splits)
  have "common_req (WSetVar a v)" by (simp add: common_req_def)
  from ask_first_run [OF assms(1-3) this ask] obtain cx y1 s1
    where run: "handle_request (node_io (se_env se) (ne_peers (se_net se) c)) (WSetVar a v) cx None y = (y1, s1)"
      and at: "node_at (ln_net (sw_leader w1)) c = Some y1" and q: "q = snd (as_reply (y1, s1))"
      and on: "nd_alive y1 \<longrightarrow> reachable_at (se_net se) (ln_net (sw_leader w1)) (Local c)" by blast
  have "nd_alive y" using assms(2,3) by (auto simp: reachable_at_def node_at_def)
  from set_var_request [OF run this assms(4)] have y1: "\<exists>s. s1 = Ok s" "nd_alive y1"
    "worker_vars (nd_state y1) = (worker_vars (nd_state y))(key_of a \<mapsto> v)"
    "ws_other_workers (nd_state y1) = ws_other_workers (nd_state y)" by auto
  have "worker_vars (nd_state y1) (key_of b) = Some (if key_of b = key_of a then v else u)"
    using y1(3) assms(5) by simp
  moreover have "answers_values (ne_peers (se_net se) c) (nd_state y1)"
    using assms(6) y1(4) by (simp add: answers_values_def)
  ultimately have "r2 = Ok (if key_of b = key_of a then v else u)"
    using sim_get_var_value [OF assms(1) _ at _ _ assms(8)] on y1(2) by blast
  moreover have "r1 = Ok ()" using r1 q y1(1) by (auto simp: as_reply_def)
  ultimately show ?thesis by simp
qed

text \<open>A leader that answers the query with another value.\<close>

definition valued_net_env :: net_env where
  "valued_net_env = sample_net_env\<lparr> ne_peers := (\<lambda>c. silent_peers\<lparr> pe_time := (\<lambda>h. 5),
     pe_leader := (\<lambda>h. Ok (signal_from 7 5 (LrWorkerProxy (WrQuery (PVar [VInt 2]))))),
     pe_worker := (\<lambda>h. Ok (signal_from 7 5 (WrQuery (PVar [VInt 3])))) \<rparr>) \<rparr>"

definition led_node :: "(string, entity) kv node" where
  "led_node = sample_node\<lparr> nd_state := sample_worker\<lparr> ws_leader :=
     default_leader_view\<lparr> lv_situation := LsConnected (Remote 1) \<rparr> \<rparr> \<rparr>"

definition led_sim :: "(string, entity) kv sim_world" where
  "led_sim = sample_sim\<lparr> sw_leader := sample_cluster\<lparr> ln_net := \<lparr> nt_workers = [(3, [], led_node)], nt_calls = 0 \<rparr> \<rparr> \<rparr>"

theorem sim_set_get_witness:
  "\<exists>w1 w2. sim_set_var (sample_sim_env\<lparr> se_net := valued_net_env \<rparr>) sample_handle sample_addr (VInt 9) led_sim = (w1, Ok ())
    \<and> sim_get_var (sample_sim_env\<lparr> se_net := valued_net_env \<rparr>) sample_handle sample_addr w1 = (w2, Ok (VInt 9))"
proof -
  let ?se = "sample_sim_env\<lparr> se_net := valued_net_env \<rparr>"
  obtain w1 r1 where set: "sim_set_var ?se sample_handle sample_addr (VInt 9) led_sim = (w1, r1)" by fastforce
  obtain w2 r2 where get: "sim_get_var ?se sample_handle sample_addr w1 = (w2, r2)" by fastforce
  have reach: "reachable_at (se_net ?se) (ln_net (sw_leader led_sim)) (Local 3)"
    by (simp add: reachable_at_def led_sim_def led_node_def sample_node_def valued_net_env_def sample_net_env_def)
  have node: "node_at (ln_net (sw_leader led_sim)) 3 = Some led_node" by (simp add: node_at_def led_sim_def)
  have var: "worker_vars (nd_state led_node) (key_of sample_addr) = Some (VInt 1)"
    by (simp add: led_node_def sample_node_def sample_worker_def worker_vars_def part_vars_def stored_def
        sample_entity_def key_of_def sample_addr_def address_storage_index_def)
  have "answers_values (ne_peers (se_net ?se) 3) (nd_state led_node)"
    by (simp add: answers_values_def valued_net_env_def led_node_def sample_worker_def signal_from_def signal_new_def)
  from sim_set_get [OF sample_sim_simps(4) reach node _ var this set get] var set get show ?thesis by simp
qed

end
