(* ===== verification/Spec2Isabelle.thy ===== *)
theory Spec2Isabelle
  imports WorkerScripts GrpcFacts LoadingFacts SimVars
begin

text \<open>
  BigWorlds, a distributed entity simulation (src/bigworlds/src): a verification library.

  \<^bold>\<open>The program.\<close>  A cluster has one leader and any number of workers; servers connect clients to
  workers.  Each worker holds a partition of the entities.  An entity is a bag of typed variables
  indexed by component and name; models describe which components an entity has and which
  behaviors run on it.  Behaviors are tasks that react to events; some of them are scripts run by
  a small line-based machine.  Everything is reached by messages: a worker is a request handler in
  front of a manager task that alone owns the state.

  \<^bold>\<open>The theories.\<close>
  \<^item> \<open>Prelude\<close>, \<open>F32\<close>: strings as UTF-8 bytes, results with \<open>Panic\<close> beside errors, association
    lists for hash maps, integer parsing; IEEE single precision with an abstract carrier.
  \<^item> \<open>Errors\<close>: error.rs, machine/error.rs, the identifiers errors carry.
  \<^item> \<open>Vars\<close>, \<open>Addresses\<close>: var.rs and address.rs, values and references with their text forms.
  \<^item> \<open>Models\<close>, \<open>Entities\<close>: model/ and entity/, what a model describes and how an entity is built
    from it.
  \<^item> \<open>Loading\<close>, \<open>LoadingFacts\<close>: model/intermediate.rs, model/behavior.rs and the rest of
    model/mod.rs, how a model is read from its files, their includes and scripts.
  \<^item> \<open>Queries\<close>, \<open>Processing\<close>: query.rs and query/process.rs, the query language, the filter,
    mapping and product phases on a partition and the combination of products.
  \<^item> \<open>Parts\<close>: worker/part.rs and the spawning of behaviors of behavior/mod.rs; entities in memory
    and in the archive.
  \<^item> \<open>Commands\<close>, \<open>Machines\<close>: machine/, the commands of a script with their constructors, the
    search for block ends, and the execution of a script by a machine task.
  \<^item> \<open>Scripts\<close>, \<open>ScriptFacts\<close>: machine/script/, from the text of a script through instructions and
    directives to the commands of a logic.
  \<^item> \<open>Rpc\<close>, \<open>Nets\<close>, \<open>Messages\<close>: rpc/mod.rs, net/mod.rs and the requests, responses and views of
    rpc/worker.rs, rpc/leader.rs, worker/pov.rs, leader/pov.rs.
  \<^item> \<open>WorkerManagers\<close>, \<open>ManagerCalls\<close>, \<open>ManagerFacts\<close>: worker/manager.rs, the state of a worker
    and the requests that change it.
  \<^item> \<open>WorkerHandlers\<close>, \<open>WorkerNodes\<close>, \<open>WorkerFacts\<close>, \<open>WorkerScripts\<close>: worker/mod.rs, the request
    handlers, the streams that admit calls, the leader watchdog; worker and script machine
    together.
  \<^item> \<open>Leaders\<close>, \<open>LeaderHandlers\<close>, \<open>LeaderFacts\<close>: leader/manager.rs, leader/pov.rs, leader/mod.rs,
    the registry of workers, the cluster step and the initialization of a cluster.
  \<^item> \<open>Clusters\<close>, \<open>ClusterFacts\<close>: a leader whose workers are the modelled ones, each behind a local
    channel or a network connection.
  \<^item> \<open>ClientMessages\<close>, \<open>Servers\<close>, \<open>ServerHandlers\<close>, \<open>ServerFacts\<close>: rpc/msg/, rpc/server.rs,
    server/mod.rs, server/turn.rs, server/pov.rs, server/config.rs, the clients of a server and
    the counter of those that hold the cluster back.
  \<^item> \<open>ServedWorkers\<close>: a server attached to a modelled worker.
  \<^item> \<open>Grpc\<close>, \<open>GrpcClients\<close>, \<open>GrpcFacts\<close>: server/grpc/, the gRPC messages of a server with their
    conversions and its service, and src/clients/grpc-client, the viewer that calls it.
  \<^item> \<open>Sims\<close>, \<open>SimFacts\<close>, \<open>SimVars\<close>: sim.rs, the handle of a simulation in one process: a modelled leader with
    modelled workers and a server on one net.

  \<^bold>\<open>State.\<close>  Each Rust struct is a record with the same fields, each enum a datatype with the same
  variants.  Fields of machine width are words or, for \<open>i32\<close> values of variables, \<open>int\<close> with the
  overflow written out.  A hash map is an association list with one entry per key (the invariants
  say so); the order of its entries stands for the unspecified iteration order.  Panics
  (\<open>unwrap\<close>, \<open>unimplemented!\<close>, arithmetic overflow, out of range access) are the result \<open>Panic\<close>.
  A handler is an action \<open>'w \<Rightarrow> 'w \<times> 'a core_result\<close> over a world that answers its messages; the
  world of a single worker (\<open>WorkerNodes\<close>) has the manager's state, whether its task lives, and
  the messages sent so far, and its peers answer as any function of those; the world of a leader
  has its state and a net of workers, and so has the world of a server.  A request to advance that
  waits is a pair of client and target beside the state, woken by changes of the clock.

  \<^bold>\<open>What is shown.\<close>
  \<^item> Values and addresses: parsers and printers are inverse to each other up to the stated
    exceptions, and keep types.
  \<^item> Entities and partitions: each operation on every branch, errors included; no entity is lost
    by archiving that succeeds; queries read only.
  \<^item> Query processing: which entities are selected and which values returned; combination.
  \<^item> Scripts: the block search equals a one-pass scan with a stack; assembled logics are
    well-formed; execution stays in the script; calls return; scripts without loops and calls
    terminate; the constructs that do not do what they say; what is printed line by line is
    parsed back to the same commands, conditions of directives are never evaluated, and the
    preprocessor ends.
  \<^item> Messages: hops are merged as sets, hop times never underflow, addresses round trip.
  \<^item> Worker: the invariant of the manager's state, variables as a refinement of a map
    (locale \<open>var_service\<close>, interpreted on the manager), steps, events, admission and
    migration, the requests that end the manager, and a script's writes read back
    through machine, handler and manager.
  \<^item> Leader and cluster: the registry's invariant, the spread of a model, clocks advancing together
    in a step, and the requests that report success without having done what was asked.
  \<^item> Server: the account of blocking clients over all runs with its two leaks, what reaches the
    worker of it and what does not, and the data of clients as writes on the worker's map.
  \<^item> Models: reading ends when includes do, what is declared is in the model, and its scripts are
    well-formed.
  \<^item> gRPC: values, products, filters and mappings survive the messages up to the stated changes; a
    refused client believes it is connected.
  \<^item> Simulation: a variable set through the handle is read back through it, steps are counted, what a
    snapshot brings back, and which entities a handle sees.

  \<^bold>\<open>Bounds and fuel.\<close>  The execution loop of a script and the block search take fuel, since a script
  may loop forever; \<open>exec_terminates\<close> gives the fuel that is enough for scripts without loops and
  calls, and \<open>loop_not_left\<close> shows that no fuel is enough for a loop.  The call stack of a
  machine has the source's capacity of 32.  The loop of \<open>!print\<close> and the loop over included files
  are partial functions, shown to end where no value holds a dollar sign and where no chain of
  includes is infinite.  Every other recursion is structural or on a length.

  \<^bold>\<open>Parameters.\<close>  Third-party code is an argument: the archive store and its encoding, the option
  parser and expression evaluator of scripts, URL and socket address parsing, random choices,
  identifiers and the clock, the splitting of arguments by \<open>shlex\<close>, the file systems, the TOML
  reader and \<open>cargo\<close>, and the channel under the gRPC client.

  \<^bold>\<open>Not modelled.\<close>
  \<^item> The order in which tasks of the async runtime interleave: tasks that are awaited together run
    one after the other, and a worker serves one request at a time.
  \<^item> executor.rs, node.rs and the handles beside it, net/quic.rs, net/ws.rs, server/http.rs,
    server/grpc/mod.rs and client/: channels, sockets and generated service stubs; a channel is a
    function from a request to its answer.
  \<^item> behavior/lua.rs, behavior/dynlib.rs: calls into an embedded interpreter and loaded code.
  \<^item> Of sim.rs, the spawning of tasks, machines and closures, and files of models and snapshots;
    snapshot.rs, service.rs, time.rs and string.rs, which wrap codecs, processes and the system.
  \<^item> The command line of bigworlds-cli: arguments, prompts and terminal output.
\<close>

end
